(* ===== verification/Bbr_Prelude.thy ===== *)
theory Bbr_Prelude
  imports Main "HOL-Library.Multiset" "HOL-Library.Finite_Map" "HOL-Library.List_Lexorder"
    "HOL-Library.Char_ord"
begin

text \<open>
  Shared vocabulary of the development.

  \<^item> The collections of simplification rules the component theories fill.
  \<^item> The parts of Go's standard library the program calls on strings
    (\<^verbatim>\<open>strings\<close>, \<^verbatim>\<open>strconv\<close>, \<^verbatim>\<open>path\<close>, \<^verbatim>\<open>path/filepath\<close>). A Go string is a byte
    sequence, so it is a HOL \<^typ>\<open>string\<close>. White space is the ASCII white space of
    \<^verbatim>\<open>unicode.IsSpace\<close>; glob patterns have literals and the star only, which is all
    the program uses.
  \<^item> Permutations that stand for an order Go leaves open: the iteration order of a map and
    the completion order of goroutines. Every list of numbers is a legal oracle:
    \<open>permute\<close> falls back to the identity where the list is no permutation.
\<close>

named_theorems go_simps \<open>rules that evaluate library functions on known shapes\<close>

text \<open>Local bindings of the translated code unfold during simplification.\<close>

declare Let_def [simp]

section \<open>Strings\<close>

abbreviation newline :: string where
  "newline \<equiv> [CHR 0x0A]"

text \<open>A string between single quotes.\<close>

definition quoted :: "string \<Rightarrow> string" where
  "quoted s = [CHR 0x27] @ s @ [CHR 0x27]"

definition isSpace :: "char \<Rightarrow> bool" where
  "isSpace c \<longleftrightarrow> c \<in> {CHR 0x09, CHR 0x0A, CHR 0x0B, CHR 0x0C, CHR 0x0D, CHR '' ''}"

definition TrimPrefix :: "string \<Rightarrow> string \<Rightarrow> string" where
  "TrimPrefix s p = (if take (length p) s = p then drop (length p) s else s)"

definition HasSuffix :: "string \<Rightarrow> string \<Rightarrow> bool" where
  "HasSuffix s p \<longleftrightarrow> length p \<le> length s \<and> drop (length s - length p) s = p"

definition TrimSpace :: "string \<Rightarrow> string" where
  "TrimSpace s = rev (dropWhile isSpace (rev (dropWhile isSpace s)))"

text \<open>\<^verbatim>\<open>strings.Split\<close> with a separator of one byte; the empty string gives one empty part.\<close>

fun Split :: "char \<Rightarrow> string \<Rightarrow> string list" where
  "Split c [] = [[]]"
| "Split c (x # xs) =
     (if x = c then [] # Split c xs
      else (case Split c xs of [] \<Rightarrow> [[x]] | y # ys \<Rightarrow> (x # y) # ys))"

text \<open>\<^verbatim>\<open>strings.SplitN\<close>: at most \<open>n\<close> parts, the last one unsplit.\<close>

fun SplitN :: "char \<Rightarrow> nat \<Rightarrow> string \<Rightarrow> string list" where
  "SplitN c 0 s = []"
| "SplitN c (Suc 0) s = [s]"
| "SplitN c (Suc (Suc n)) s =
     (if c \<in> set s
      then takeWhile (\<lambda>x. x \<noteq> c) s # SplitN c (Suc n) (tl (dropWhile (\<lambda>x. x \<noteq> c) s))
      else [s])"

text \<open>\<^verbatim>\<open>strings.Fields\<close>: the maximal runs of bytes that are not white space.\<close>

function Fields :: "string \<Rightarrow> string list" where
  "Fields s =
     (case dropWhile isSpace s of
        [] \<Rightarrow> []
      | x # xs \<Rightarrow> (x # takeWhile (\<lambda>c. \<not> isSpace c) xs) # Fields (dropWhile (\<lambda>c. \<not> isSpace c) xs))"
  by pat_completeness auto
termination
proof (relation "measure length", goal_cases)
  case 1
  show ?case by simp
next
  case (2 s x xs)
  have "length (dropWhile (\<lambda>c. \<not> isSpace c) xs) \<le> length xs"
    by (rule length_dropWhile_le)
  also have "\<dots> < length (dropWhile isSpace s)" by (simp add: 2)
  also have "\<dots> \<le> length s" by (rule length_dropWhile_le)
  finally show ?case by simp
qed

declare Fields.simps [simp del]

fun Contains :: "string \<Rightarrow> string \<Rightarrow> bool" where
  "Contains [] p = (p = [])"
| "Contains (x # xs) p = (take (length p) (x # xs) = p \<or> Contains xs p)"

fun Join :: "string list \<Rightarrow> string \<Rightarrow> string" where
  "Join [] sep = []"
| "Join [s] sep = s"
| "Join (s # t # ss) sep = s @ sep @ Join (t # ss) sep"

text \<open>\<^verbatim>\<open>strings.Replace(s, c, new, -1)\<close> for a pattern of one byte.\<close>

definition ReplaceAll :: "string \<Rightarrow> char \<Rightarrow> string \<Rightarrow> string" where
  "ReplaceAll s c new = concat (map (\<lambda>x. if x = c then new else [x]) s)"

section \<open>Decimal numbers\<close>

fun digits_of :: "nat \<Rightarrow> string" where
  "digits_of n =
     (if n < 10 then [char_of (48 + n)] else digits_of (n div 10) @ [char_of (48 + n mod 10)])"

declare digits_of.simps [simp del]

definition Itoa :: "int \<Rightarrow> string" where
  "Itoa i = (if i < 0 then ''-'' @ digits_of (nat (- i)) else digits_of (nat i))"

definition is_digit :: "char \<Rightarrow> bool" where
  "is_digit c \<longleftrightarrow> 48 \<le> (of_char c :: nat) \<and> (of_char c :: nat) \<le> 57"

definition parse_digits :: "string \<Rightarrow> nat" where
  "parse_digits s = foldl (\<lambda>n c. 10 * n + (of_char c - 48)) 0 s"

text \<open>\<^verbatim>\<open>strconv.Atoi\<close>: an optional sign, digits, and the range of a 64-bit \<^verbatim>\<open>int\<close>.\<close>

definition Atoi :: "string \<Rightarrow> int option" where
  "Atoi s =
     (let neg = (take 1 s = ''-'');
          ds = (if take 1 s = ''-'' \<or> take 1 s = ''+'' then tl s else s);
          v = (if neg then - int (parse_digits ds) else int (parse_digits ds))
      in if ds \<noteq> [] \<and> list_all is_digit ds \<and> - (2 ^ 63) \<le> v \<and> v < 2 ^ 63 then Some v else None)"

section \<open>Paths\<close>

text \<open>
  \<^verbatim>\<open>path.Clean\<close> on the parts of a path: empty parts and single dots go away, a
  double dot removes the part before it (or stays, in a relative path that has none).
\<close>

fun clean_parts :: "bool \<Rightarrow> string list \<Rightarrow> string list \<Rightarrow> string list" where
  "clean_parts rooted acc [] = rev acc"
| "clean_parts rooted acc (p # ps) =
     (if p = '''' \<or> p = ''.'' then clean_parts rooted acc ps
      else if p = ''..'' then
        (case acc of
           [] \<Rightarrow> clean_parts rooted (if rooted then [] else [''..'']) ps
         | a # acc' \<Rightarrow> clean_parts rooted (if a = ''..'' then ''..'' # acc else acc') ps)
      else clean_parts rooted (p # acc) ps)"

definition path_Clean :: "string \<Rightarrow> string" where
  "path_Clean s =
     (let rooted = (take 1 s = ''/'');
          body = Join (clean_parts rooted [] (Split (CHR ''/'') s)) ''/''
      in if rooted then ''/'' @ body else if body = '''' then ''.'' else body)"

text \<open>\<^verbatim>\<open>path.Join\<close> of two elements: empty elements are ignored, the result is cleaned.\<close>

definition path_Join :: "string \<Rightarrow> string \<Rightarrow> string" where
  "path_Join a b =
     (if a = '''' \<and> b = '''' then ''''
      else if a = '''' then path_Clean b
      else if b = '''' then path_Clean a
      else path_Clean (a @ ''/'' @ b))"

text \<open>\<^verbatim>\<open>filepath.Match\<close>: the star matches any run of bytes other than the separator.\<close>

function filepath_Match :: "string \<Rightarrow> string \<Rightarrow> bool" where
  "filepath_Match [] s = (s = [])"
| "filepath_Match (p # ps) s =
     (if p = CHR ''*''
      then filepath_Match ps s \<or>
           (case s of [] \<Rightarrow> False | x # xs \<Rightarrow> x \<noteq> CHR ''/'' \<and> filepath_Match (p # ps) xs)
      else (case s of [] \<Rightarrow> False | x # xs \<Rightarrow> x = p \<and> filepath_Match ps xs))"
  by pat_completeness auto
termination
  by (relation "measure (\<lambda>(p, s). length p + length s)") auto

section \<open>Orders that Go leaves open\<close>

definition permute :: "nat list \<Rightarrow> 'a list \<Rightarrow> 'a list" where
  "permute p xs = (if sort p = [0..<length xs] then map (\<lambda>i. xs ! i) p else xs)"

text \<open>
  The keys of a Go map in the order a \<^verbatim>\<open>range\<close> loop visits them; the oracle \<open>it\<close>
  chooses the order.
\<close>

type_synonym range_order = "string list \<Rightarrow> nat list"

definition map_keys :: "(string, 'v) fmap \<Rightarrow> string list" where
  "map_keys m = sorted_list_of_fset (fmdom m)"

definition range_keys :: "range_order \<Rightarrow> (string, 'v) fmap \<Rightarrow> string list" where
  "range_keys it m = permute (it (map_keys m)) (map_keys m)"

text \<open>\<open>m[k]\<close> on a Go map of strings: a missing key reads as the zero value.\<close>

definition map_get :: "(string, string) fmap \<Rightarrow> string \<Rightarrow> string" where
  "map_get m k = (case fmlookup m k of None \<Rightarrow> '''' | Some v \<Rightarrow> v)"

section \<open>Generic lemmas\<close>

lemma mset_permute [simp]: "mset (permute p xs) = mset xs"
proof (cases "sort p = [0..<length xs]")
  case True
  have "mset (map (\<lambda>i. xs ! i) p) = image_mset (\<lambda>i. xs ! i) (mset (sort p))" by simp
  also have "\<dots> = mset (map (\<lambda>i. xs ! i) [0..<length xs])" unfolding True by simp
  also have "\<dots> = mset xs" by (simp add: map_nth)
  finally show ?thesis using True by (simp add: permute_def)
qed (simp add: permute_def)

lemma set_permute [simp]: "set (permute p xs) = set xs"
  by (metis mset_permute set_mset_mset)

lemma length_permute [simp]: "length (permute p xs) = length xs"
  by (metis mset_permute size_mset)

lemma permute_Nil [simp]: "permute p [] = []"
  by (metis length_0_conv length_permute)

lemma permute_single [simp]: "permute p [x] = [x]"
  by (metis mset_permute mset_single_iff_right)

lemma permute_id: "permute [0..<length xs] xs = xs"
  by (simp add: permute_def map_nth)

lemma distinct_permute [simp]: "distinct (permute p xs) = distinct xs"
  by (metis mset_eq_imp_distinct_iff mset_permute)

lemma set_range_keys [simp]: "set (range_keys it m) = fset (fmdom m)"
  by (simp add: range_keys_def map_keys_def)

lemma distinct_range_keys [simp]: "distinct (range_keys it m)"
  by (simp add: range_keys_def map_keys_def sorted_list_of_fset.rep_eq)

lemma length_range_keys [simp]: "length (range_keys it m) = fcard (fmdom m)"
  by (simp add: range_keys_def map_keys_def sorted_list_of_fset.rep_eq fcard.rep_eq)

lemma map_get_fmupd [simp]: "map_get (fmupd k v m) k' = (if k = k' then v else map_get m k')"
  by (simp add: map_get_def)

lemma map_get_empty [simp]: "map_get fmempty k = ''''"
  by (simp add: map_get_def)

lemma filepath_Match_literal:
  "CHR ''*'' \<notin> set p \<Longrightarrow> filepath_Match (p @ q) s \<longleftrightarrow> (\<exists>r. s = p @ r \<and> filepath_Match q r)"
proof (induction p arbitrary: s)
  case (Cons a p)
  then have ne: "a \<noteq> CHR ''*''" and p: "CHR ''*'' \<notin> set p" by auto
  show ?case
  proof (cases s)
    case (Cons x xs)
    with ne Cons.IH [OF p] show ?thesis by auto
  qed (use ne in simp)
qed simp

lemma filepath_Match_exact: "CHR ''*'' \<notin> set p \<Longrightarrow> filepath_Match p s \<longleftrightarrow> s = p"
  using filepath_Match_literal [of p "[]" s] by simp

lemma filepath_Match_star:
  "filepath_Match (CHR ''*'' # q) s \<longleftrightarrow>
     (\<exists>m r. s = m @ r \<and> CHR ''/'' \<notin> set m \<and> filepath_Match q r)"
proof (induction s)
  case (Cons x xs)
  have "filepath_Match (CHR ''*'' # q) (x # xs) \<longleftrightarrow>
      filepath_Match q (x # xs) \<or> x \<noteq> CHR ''/'' \<and> filepath_Match (CHR ''*'' # q) xs"
    by simp
  also have "\<dots> \<longleftrightarrow> (\<exists>m r. x # xs = m @ r \<and> CHR ''/'' \<notin> set m \<and> filepath_Match q r)"
    unfolding Cons.IH
  proof (intro iffI, goal_cases)
    case 1
    then show ?case
    proof
      assume "filepath_Match q (x # xs)"
      then show ?thesis by (intro exI [of _ "[]"] exI [of _ "x # xs"]) simp
    next
      assume "x \<noteq> CHR ''/'' \<and> (\<exists>m r. xs = m @ r \<and> CHR ''/'' \<notin> set m \<and> filepath_Match q r)"
      then obtain m r where "x \<noteq> CHR ''/''" "xs = m @ r" "CHR ''/'' \<notin> set m" "filepath_Match q r"
        by blast
      then show ?thesis by (intro exI [of _ "x # m"] exI [of _ r]) auto
    qed
  next
    case 2
    then show ?case by (auto simp: Cons_eq_append_conv) blast
  qed
  finally show ?case .
qed simp

lemma Split_nonempty [simp]: "Split c s \<noteq> []"
  by (induction s) (auto split: list.splits)

lemma Split_no_sep: "c \<notin> set s \<Longrightarrow> Split c s = [s]"
  by (induction s) auto

lemma Split_append: "c \<notin> set p \<Longrightarrow> Split c (p @ c # s) = p # Split c s"
  by (induction p) auto

lemma Split_parts: "p \<in> set (Split c s) \<Longrightarrow> c \<notin> set p"
  by (induction s arbitrary: p) (auto split: if_splits list.splits)

lemma SplitN_nonempty: "0 < n \<Longrightarrow> SplitN c n s \<noteq> []"
  by (induction c n s rule: SplitN.induct) auto

lemma SplitN_cut:
  "c \<notin> set p \<Longrightarrow> SplitN c (Suc (Suc n)) (p @ c # r) = p # SplitN c (Suc n) r"
  by (induction p) auto

lemma SplitN_no_sep: "c \<notin> set s \<Longrightarrow> SplitN c (Suc n) s = [s]"
  by (cases n) auto

end
