(* ===== verification/Errors.thy ===== *)
theory Errors
  imports Bbr_Prelude
begin

unbundle bit_operations_syntax

text \<open>
  Errors as values: \<^verbatim>\<open>orchestrator/error.go\<close>, and the result type of the whole model.

  \<open>goerror\<close> has one constructor for each dynamic type the program's type switches can see:
  a plain error (\<^verbatim>\<open>errors.New\<close>, \<^verbatim>\<open>errors.Errorf\<close>, \<^verbatim>\<open>fmt.Errorf\<close>), an error wrapped by
  \<^verbatim>\<open>errors.Wrap\<close>, the six error types built on \<^verbatim>\<open>customError\<close>, and the list type
  \<^verbatim>\<open>orchestrator.Error\<close>. A nil error is \<open>None\<close>. A call that returns a value or an error
  has type \<open>'a result\<close>; \<open>Panic\<close> is a run-time panic, which ends the process.
\<close>

section \<open>Error values\<close>

datatype goerror =
    ErrorString string
  | WithMessage goerror string
  | LockError string
  | BackupError string
  | UnlockError string
  | CleanupError string
  | ArtifactDirError string
  | DrainError string
  | Error "goerror list"

definition NewLockError :: "string \<Rightarrow> goerror" where "NewLockError m = LockError m"
definition NewBackupError :: "string \<Rightarrow> goerror" where "NewBackupError m = BackupError m"
definition NewPostUnlockError :: "string \<Rightarrow> goerror" where "NewPostUnlockError m = UnlockError m"
definition NewDrainError :: "string \<Rightarrow> goerror" where "NewDrainError m = DrainError m"
definition NewCleanupError :: "string \<Rightarrow> goerror" where "NewCleanupError m = CleanupError m"
definition NewArtifactDirError :: "string \<Rightarrow> goerror" where
  "NewArtifactDirError m = ArtifactDirError m"

lemmas error_constructors = NewLockError_def NewBackupError_def NewPostUnlockError_def
  NewDrainError_def NewCleanupError_def NewArtifactDirError_def

section \<open>Results of calls\<close>

datatype 'a result = Ok 'a | Err goerror | Panic string

text \<open>The idiom \<open>x, err := m; if err != nil { return err }; f(x)\<close> on a state \<open>'w\<close>.\<close>

definition bindr :: "('w \<Rightarrow> 'a result \<times> 'w) \<Rightarrow> ('a \<Rightarrow> 'w \<Rightarrow> 'b result \<times> 'w) \<Rightarrow> 'w \<Rightarrow> 'b result \<times> 'w" where
  "bindr m f w =
     (case m w of
        (Ok x, w') \<Rightarrow> f x w'
      | (Err e, w') \<Rightarrow> (Err e, w')
      | (Panic p, w') \<Rightarrow> (Panic p, w'))"

text \<open>\<^verbatim>\<open>errors.Wrap\<close> on a result: a nil error stays nil.\<close>

fun wrap_result :: "string \<Rightarrow> 'a result \<Rightarrow> 'a result" where
  "wrap_result msg (Err e) = Err (WithMessage e msg)"
| "wrap_result msg r = r"

definition wrapped :: "string \<Rightarrow> ('w \<Rightarrow> 'a result \<times> 'w) \<Rightarrow> 'w \<Rightarrow> 'a result \<times> 'w" where
  "wrapped msg m w = (let (r, w') = m w in (wrap_result msg r, w'))"

fun of_error :: "goerror option \<Rightarrow> unit result" where
  "of_error None = Ok ()"
| "of_error (Some e) = Err e"

fun error_of :: "'a result \<Rightarrow> goerror option" where
  "error_of (Err e) = Some e"
| "error_of _ = None"

fun is_panic :: "'a result \<Rightarrow> bool" where
  "is_panic (Panic p) = True"
| "is_panic _ = False"

section \<open>Flattening composite errors\<close>

fun flattenErrors :: "goerror list \<Rightarrow> goerror list" where
  "flattenErrors [] = []"
| "flattenErrors (Error es # errs) = flattenErrors es @ flattenErrors errs"
| "flattenErrors (e # errs) = e # flattenErrors errs"

definition ConvertErrors :: "goerror list \<Rightarrow> goerror option" where
  "ConvertErrors errs =
     (let flattenedErrors = flattenErrors errs
      in if flattenedErrors = [] then None else Some (Error flattenedErrors))"

section \<open>Messages\<close>

definition getPostFix :: "goerror list \<Rightarrow> string" where
  "getPostFix errs = (if length errs > 1 then ''s'' else '''')"

text \<open>
  \<^verbatim>\<open>Error()\<close> of every error. The message of a composite error is its
  \<^verbatim>\<open>PrettyError(false)\<close>, so the two are defined together; \<open>error_items\<close> is the loop
  over the list, with the index it prints.
\<close>

fun error_message :: "goerror \<Rightarrow> string"
  and error_items :: "nat \<Rightarrow> goerror list \<Rightarrow> string" where
  "error_message (ErrorString s) = s"
| "error_message (WithMessage e s) = s @ '': '' @ error_message e"
| "error_message (LockError s) = s"
| "error_message (BackupError s) = s"
| "error_message (UnlockError s) = s"
| "error_message (CleanupError s) = s"
| "error_message (ArtifactDirError s) = s"
| "error_message (DrainError s) = s"
| "error_message (Error es) =
     (if es = [] then ''''
      else digits_of (length es) @ '' error'' @ getPostFix es @ '' occurred:'' @ newline @
           error_items 0 es)"
| "error_items i [] = ''''"
| "error_items i (e # es) =
     ''error '' @ digits_of (i + 1) @ '':'' @ newline @ error_message e @ error_items (i + 1) es"

text \<open>
  \<^verbatim>\<open>PrettyError\<close> of the list type. With a stack trace each error is printed by the
  verb \<^verbatim>\<open>%+v\<close> of the errors package, a parameter here.
\<close>

fun trace_items :: "(goerror \<Rightarrow> string) \<Rightarrow> nat \<Rightarrow> goerror list \<Rightarrow> string" where
  "trace_items fmt i [] = ''''"
| "trace_items fmt i (e # es) =
     ''error '' @ digits_of (i + 1) @ '':'' @ newline @ fmt e @ trace_items fmt (i + 1) es"

definition PrettyError :: "(goerror \<Rightarrow> string) \<Rightarrow> bool \<Rightarrow> goerror list \<Rightarrow> string" where
  "PrettyError stacktrace includeStacktrace errs =
     (if errs = [] then ''''
      else digits_of (length errs) @ '' error'' @ getPostFix errs @ '' occurred:'' @ newline @
           trace_items (if includeStacktrace then stacktrace else error_message) 0 errs)"

section \<open>Classification\<close>

fun ContainsUnlockOrCleanupOrArtifactDirExists :: "goerror list \<Rightarrow> bool" where
  "ContainsUnlockOrCleanupOrArtifactDirExists [] = False"
| "ContainsUnlockOrCleanupOrArtifactDirExists (e # es) =
     (case e of
        UnlockError _ \<Rightarrow> True
      | CleanupError _ \<Rightarrow> True
      | ArtifactDirError _ \<Rightarrow> True
      | DrainError _ \<Rightarrow> True
      | _ \<Rightarrow> ContainsUnlockOrCleanupOrArtifactDirExists es)"

text \<open>The loop of the source returns from its first iteration.\<close>

fun ContainsArtifactDirError :: "goerror list \<Rightarrow> bool" where
  "ContainsArtifactDirError [] = False"
| "ContainsArtifactDirError (e # es) = (case e of ArtifactDirError _ \<Rightarrow> True | _ \<Rightarrow> False)"

definition IsCleanup :: "goerror list \<Rightarrow> bool" where
  "IsCleanup errs = (case errs of [CleanupError _] \<Rightarrow> True | _ \<Rightarrow> False)"

fun postBackupLoop :: "bool \<Rightarrow> goerror list \<Rightarrow> bool" where
  "postBackupLoop found [] = found"
| "postBackupLoop found (e # es) =
     (case e of
        UnlockError _ \<Rightarrow> postBackupLoop True es
      | CleanupError _ \<Rightarrow> postBackupLoop found es
      | _ \<Rightarrow> False)"

definition IsPostBackup :: "goerror list \<Rightarrow> bool" where
  "IsPostBackup errs = postBackupLoop False errs"

definition IsNil :: "goerror list \<Rightarrow> bool" where
  "IsNil errs \<longleftrightarrow> length errs = 0"

definition IsFatal :: "goerror list \<Rightarrow> bool" where
  "IsFatal errs \<longleftrightarrow> \<not> IsNil errs \<and> \<not> IsCleanup errs \<and> \<not> IsPostBackup errs"

fun exitCodeLoop :: "int \<Rightarrow> goerror list \<Rightarrow> int" where
  "exitCodeLoop exitCode [] = exitCode"
| "exitCodeLoop exitCode (e # es) =
     exitCodeLoop
       (case e of
          LockError _ \<Rightarrow> exitCode OR push_bit 2 1
        | UnlockError _ \<Rightarrow> exitCode OR push_bit 3 1
        | CleanupError _ \<Rightarrow> exitCode OR push_bit 4 1
        | _ \<Rightarrow> exitCode OR 1) es"

definition BuildExitCode :: "goerror list \<Rightarrow> int" where
  "BuildExitCode errs = exitCodeLoop 0 errs"

section \<open>Lemmas\<close>

lemma bindr_Ok: "m w = (Ok x, w') \<Longrightarrow> bindr m f w = f x w'"
  by (simp add: bindr_def)

lemma bindr_Err: "m w = (Err e, w') \<Longrightarrow> bindr m f w = (Err e, w')"
  by (simp add: bindr_def)

lemma bindr_eq_Ok:
  "bindr m f w = (Ok y, w'') \<longleftrightarrow> (\<exists>x w'. m w = (Ok x, w') \<and> f x w' = (Ok y, w''))"
  by (auto simp: bindr_def split: prod.splits result.splits)

lemma bindrE:
  assumes "bindr m f w = (r, w'')"
  obtains (ok) x w' where "m w = (Ok x, w')" "f x w' = (r, w'')"
    | (err) e where "m w = (Err e, w'')" "r = Err e"
    | (panic) p where "m w = (Panic p, w'')" "r = Panic p"
  using assms by (auto simp: bindr_def split: prod.splits result.splits)

lemma bindr_assoc: "bindr (bindr m f) g = bindr m (\<lambda>x. bindr (f x) g)"
  by (auto simp: bindr_def fun_eq_iff split: prod.splits result.splits)

lemma wrap_result_Ok [simp]: "wrap_result m r = Ok x \<longleftrightarrow> r = Ok x"
  by (cases r) auto

lemma wrap_result_Panic [simp]: "wrap_result m r = Panic p \<longleftrightarrow> r = Panic p"
  by (cases r) auto

lemma wrapped_eq_Ok [simp]: "wrapped msg m w = (Ok x, w') \<longleftrightarrow> m w = (Ok x, w')"
  by (auto simp: wrapped_def split: prod.splits)

lemma snd_wrapped [simp]: "snd (wrapped msg m w) = snd (m w)"
  by (simp add: wrapped_def split: prod.splits)

lemma fst_wrapped [simp]: "fst (wrapped msg m w) = wrap_result msg (fst (m w))"
  by (simp add: wrapped_def split: prod.splits)

lemma wrapped_Err: "wrapped msg m w = (Err e, w') \<Longrightarrow> \<exists>e0. e = WithMessage e0 msg"
  by (cases "fst (m w)") (auto simp: wrapped_def split: prod.splits)

lemma of_error_Ok [simp]: "of_error e = Ok () \<longleftrightarrow> e = None"
  by (cases e) auto

lemma of_error_not_Panic [simp]: "of_error e \<noteq> Panic p"
  by (cases e) auto

lemma flattenErrors_append: "flattenErrors (xs @ ys) = flattenErrors xs @ flattenErrors ys"
  by (induction xs rule: flattenErrors.induct) auto

lemma flattenErrors_plain: "(\<forall>es. e \<noteq> Error es) \<Longrightarrow> flattenErrors (e # errs) = e # flattenErrors errs"
  by (cases e) auto

lemma flattenErrors_flat: "Error es \<notin> set (flattenErrors errs)"
  by (induction errs rule: flattenErrors.induct) auto

lemma flattenErrors_id: "(\<forall>es. Error es \<notin> set errs) \<Longrightarrow> flattenErrors errs = errs"
  by (induction errs rule: flattenErrors.induct) auto

lemma flattenErrors_idem: "flattenErrors (flattenErrors errs) = flattenErrors errs"
  by (rule flattenErrors_id) (simp add: flattenErrors_flat)

lemma ConvertErrors_None: "ConvertErrors errs = None \<longleftrightarrow> flattenErrors errs = []"
  by (simp add: ConvertErrors_def Let_def)

text \<open>An error that does not vanish when it is flattened.\<close>

definition solid :: "goerror \<Rightarrow> bool" where
  "solid e \<longleftrightarrow> flattenErrors [e] \<noteq> []"

lemma solid_plain: "(\<forall>es. e \<noteq> Error es) \<Longrightarrow> solid e"
  by (simp add: solid_def flattenErrors_plain)

lemma solid_WithMessage [simp]: "solid (WithMessage e msg)"
  by (simp add: solid_def)

lemma solid_ConvertErrors: "ConvertErrors errs = Some e \<Longrightarrow> solid e"
  by (auto simp: ConvertErrors_def solid_def flattenErrors_idem split: if_splits)

lemma solid_none: "ConvertErrors errs = None \<Longrightarrow> \<forall>e \<in> set errs. solid e \<Longrightarrow> errs = []"
proof (cases errs)
  case (Cons e es)
  assume "ConvertErrors errs = None" "\<forall>e \<in> set errs. solid e"
  moreover from this Cons have "flattenErrors ([e] @ es) = []" by (simp add: ConvertErrors_None)
  ultimately show ?thesis using Cons unfolding flattenErrors_append by (simp add: solid_def)
qed

lemma error_items_trace: "trace_items error_message i es = error_items i es"
  by (induction es arbitrary: i) auto

lemma ContainsUnlockOrCleanup_iff:
  "ContainsUnlockOrCleanupOrArtifactDirExists errs \<longleftrightarrow>
     (\<exists>e \<in> set errs. case e of UnlockError _ \<Rightarrow> True | CleanupError _ \<Rightarrow> True
        | ArtifactDirError _ \<Rightarrow> True | DrainError _ \<Rightarrow> True | _ \<Rightarrow> False)"
  by (induction errs) (auto split: goerror.splits)

text \<open>The contribution of one error to the exit code, and the code as their disjunction.\<close>

definition error_bit :: "goerror \<Rightarrow> nat" where
  "error_bit e = (case e of LockError _ \<Rightarrow> 2 | UnlockError _ \<Rightarrow> 3 | CleanupError _ \<Rightarrow> 4 | _ \<Rightarrow> 0)"

lemma exitCodeLoop_Cons:
  "exitCodeLoop c (e # es) = exitCodeLoop (c OR push_bit (error_bit e) 1) es"
  by (simp add: error_bit_def split: goerror.splits)

lemma bit_exitCodeLoop:
  "bit (exitCodeLoop c errs) n \<longleftrightarrow> bit c n \<or> (\<exists>e \<in> set errs. error_bit e = n)"
proof (induction errs arbitrary: c)
  case (Cons e es)
  show ?case
    unfolding exitCodeLoop_Cons Cons.IH by (auto simp: bit_simps)
qed simp

lemma bit_BuildExitCode: "bit (BuildExitCode errs) n \<longleftrightarrow> (\<exists>e \<in> set errs. error_bit e = n)"
  by (simp add: BuildExitCode_def bit_exitCodeLoop)

lemma error_bit_cases: "error_bit e \<in> {0, 2, 3, 4}"
  by (simp add: error_bit_def split: goerror.splits)

lemma BuildExitCode_zero: "BuildExitCode errs = 0 \<longleftrightarrow> errs = []"
proof
  assume z: "BuildExitCode errs = 0"
  show "errs = []"
  proof (rule ccontr)
    assume "errs \<noteq> []"
    then obtain e where "e \<in> set errs" by (cases errs) auto
    then have "bit (BuildExitCode errs) (error_bit e)" by (auto simp: bit_BuildExitCode)
    with z show False by simp
  qed
qed (simp add: BuildExitCode_def)

lemma BuildExitCode_mset: "set errs = set errs' \<Longrightarrow> BuildExitCode errs = BuildExitCode errs'"
  by (rule bit_eqI) (simp add: bit_BuildExitCode)

text \<open>The exit code as a number: one weight for each kind of error that occurred.\<close>

definition weights :: "bool \<Rightarrow> bool \<Rightarrow> bool \<Rightarrow> bool \<Rightarrow> int" where
  "weights other lock unlock cleanup =
     of_bool other + 4 * of_bool lock + 8 * of_bool unlock + 16 * of_bool cleanup"

lemma weights_step:
  "weights a l u c OR push_bit (error_bit e) 1 =
     weights (a \<or> error_bit e = 0) (l \<or> error_bit e = 2) (u \<or> error_bit e = 3) (c \<or> error_bit e = 4)"
  using error_bit_cases [of e]
  by (cases a; cases l; cases u; cases c) (auto simp: weights_def push_bit_eq_mult)

lemma exitCodeLoop_weights:
  "exitCodeLoop (weights a l u c) errs =
     weights (a \<or> (\<exists>e \<in> set errs. error_bit e = 0)) (l \<or> (\<exists>e \<in> set errs. error_bit e = 2))
       (u \<or> (\<exists>e \<in> set errs. error_bit e = 3)) (c \<or> (\<exists>e \<in> set errs. error_bit e = 4))"
proof (induction errs arbitrary: a l u c)
  case (Cons e es)
  show ?case
    unfolding exitCodeLoop_Cons weights_step Cons.IH by (simp add: disj_assoc disj_commute disj_left_commute)
qed simp

lemma BuildExitCode_weights:
  "BuildExitCode errs =
     weights (\<exists>e \<in> set errs. error_bit e = 0) (\<exists>e \<in> set errs. error_bit e = 2)
       (\<exists>e \<in> set errs. error_bit e = 3) (\<exists>e \<in> set errs. error_bit e = 4)"
proof -
  have "weights False False False False = 0" by (simp add: weights_def)
  with exitCodeLoop_weights [of False False False False errs] show ?thesis
    by (simp add: BuildExitCode_def)
qed

section \<open>Properties\<close>

text \<open>C39: the exit code of a run is the sum of one weight for each kind of error that occurred: 1 for
  an error of no special kind, 4 for a lock error, 8 for an unlock error, 16 for a cleanup error.
  It is 0 exactly when there was no error, and neither the order of the errors nor their
  number changes it.\<close>

theorem exit_code_weights:
  "BuildExitCode errs =
     weights (\<exists>e \<in> set errs. error_bit e = 0) (\<exists>e \<in> set errs. error_bit e = 2)
       (\<exists>e \<in> set errs. error_bit e = 3) (\<exists>e \<in> set errs. error_bit e = 4) \<and>
   (BuildExitCode errs = 0) = (errs = []) \<and>
   BuildExitCode (remdups (rev errs)) = BuildExitCode errs"
  using BuildExitCode_weights [of errs] BuildExitCode_zero [of errs]
    BuildExitCode_mset [of "remdups (rev errs)" errs] by simp

text \<open>Converting a list of errors flattens it completely: the result is nil exactly when no error
  that is not itself a list is nested anywhere, and otherwise a list without inner lists
  whose own conversion changes nothing and which keeps the errors in order.\<close>

theorem convert_errors_flat:
  "(case ConvertErrors errs of
      None \<Rightarrow> flattenErrors errs = []
    | Some (Error es) \<Rightarrow> es = flattenErrors errs \<and> es \<noteq> [] \<and> (\<forall>xs. Error xs \<notin> set es) \<and>
        ConvertErrors es = Some (Error es)
    | _ \<Rightarrow> False) \<and>
   flattenErrors (errs @ errs') = flattenErrors errs @ flattenErrors errs'"
  by (simp add: ConvertErrors_def flattenErrors_flat flattenErrors_idem flattenErrors_append)

end
