(* ===== verification/Workflow.thy ===== *)
theory Workflow
  imports Errors "HOL-Library.Sublist"
begin

text \<open>
  The workflow engine: \<^verbatim>\<open>orchestrator/workflow.go\<close>, on any type of steps \<open>'k\<close> and any state \<open>'s\<close>.

  Steps are compared for identity in Go; a workflow holds each step object once, so the model
  compares values. A node is shared by the list of nodes and the start pointer, which is
  therefore an index into the list. The fluent calls \<^verbatim>\<open>OnSuccess\<close> and \<^verbatim>\<open>OnFailure\<close> act
  on the node added last, as in every use in the program.

  The loop of \<^verbatim>\<open>Run\<close> need not end in general, so it is a partial function into \<open>option\<close>. The
  locale \<open>ranked_workflow\<close> states when it does: every step reached has a node, and the rank of
  the steps decreases along the edges. Its lemmas give termination and tie the loop to the
  finitely many paths through the workflow, so that a claim about every run is a claim about a
  computable list of paths. A step that panics ends the process: its run is a prefix of a path.
\<close>

section \<open>The engine\<close>

record 'k Node =
  node_step :: 'k
  node_successStep :: "'k option"
  node_failStep :: "'k option"

record 'k Workflow =
  StartingNode :: "nat option"
  Nodes :: "'k Node list"

definition NewWorkflow :: "'k Workflow" where
  "NewWorkflow = \<lparr>StartingNode = None, Nodes = []\<rparr>"

definition NewNode :: "'k \<Rightarrow> 'k Node" where
  "NewNode step = \<lparr>node_step = step, node_successStep = None, node_failStep = None\<rparr>"

definition Workflow_Add :: "'k \<Rightarrow> 'k Workflow \<Rightarrow> 'k Workflow" where
  "Workflow_Add step workflow = workflow\<lparr>Nodes := Nodes workflow @ [NewNode step]\<rparr>"

definition StartWith :: "'k \<Rightarrow> 'k Workflow \<Rightarrow> 'k Workflow" where
  "StartWith step workflow =
     (let workflow' = Workflow_Add step workflow
      in workflow'\<lparr>StartingNode := Some (length (Nodes workflow))\<rparr>)"

definition update_last :: "('k Node \<Rightarrow> 'k Node) \<Rightarrow> 'k Workflow \<Rightarrow> 'k Workflow" where
  "update_last f workflow =
     workflow\<lparr>Nodes := (case rev (Nodes workflow) of [] \<Rightarrow> [] | n # ns \<Rightarrow> rev (f n # ns))\<rparr>"

definition OnSuccess :: "'k \<Rightarrow> 'k Workflow \<Rightarrow> 'k Workflow" where
  "OnSuccess step = update_last (\<lambda>node. node\<lparr>node_successStep := Some step\<rparr>)"

definition OnFailure :: "'k \<Rightarrow> 'k Workflow \<Rightarrow> 'k Workflow" where
  "OnFailure step = update_last (\<lambda>node. node\<lparr>node_failStep := Some step\<rparr>)"

definition OnSuccessOrFailure :: "'k \<Rightarrow> 'k Workflow \<Rightarrow> 'k Workflow" where
  "OnSuccessOrFailure step workflow = OnFailure step (OnSuccess step workflow)"

fun findLoop :: "'k Node list \<Rightarrow> 'k \<Rightarrow> 'k Node result" where
  "findLoop [] step = Panic ''node not found''"
| "findLoop (value # values) step = (if node_step value = step then Ok value else findLoop values step)"

fun findNode :: "'k Workflow \<Rightarrow> 'k option \<Rightarrow> 'k Node option result" where
  "findNode workflow None = Ok None"
| "findNode workflow (Some step) = map_result Some (findLoop (Nodes workflow) step)"

definition next_step :: "'k Node \<Rightarrow> unit result \<Rightarrow> 'k option" where
  "next_step node r = (case r of Ok _ \<Rightarrow> node_successStep node | _ \<Rightarrow> node_failStep node)"

definition new_errors :: "unit result \<Rightarrow> goerror list" where
  "new_errors r = (case r of Err e \<Rightarrow> [e] | _ \<Rightarrow> [])"

partial_function (option) runLoop ::
  "'k Workflow \<Rightarrow> ('k \<Rightarrow> 's \<Rightarrow> unit result \<times> 's) \<Rightarrow> 'k Node option \<Rightarrow> goerror list \<Rightarrow> 's \<Rightarrow>
     (goerror list result \<times> 's) option" where
  "runLoop workflow run currentNode errs s =
     (case currentNode of
        None \<Rightarrow> Some (Ok errs, s)
      | Some node \<Rightarrow>
          (case run (node_step node) s of
             (r, s') \<Rightarrow>
               (if is_panic r then Some (map_result (\<lambda>_. errs) r, s')
                else (case findNode workflow (next_step node r) of
                        Ok nxt \<Rightarrow> runLoop workflow run nxt (errs @ new_errors r) s'
                      | Err e \<Rightarrow> Some (Err e, s')
                      | Panic p \<Rightarrow> Some (Panic p, s')))))"

declare runLoop.simps [code]

definition Workflow_Run ::
  "'k Workflow \<Rightarrow> ('k \<Rightarrow> 's \<Rightarrow> unit result \<times> 's) \<Rightarrow> 's \<Rightarrow> (goerror list result \<times> 's) option" where
  "Workflow_Run workflow run s =
     runLoop workflow run (map_option (\<lambda>i. Nodes workflow ! i) (StartingNode workflow)) [] s"

section \<open>Executions and paths\<close>

text \<open>An execution: the steps taken with their results, from a state to a state. A panic ends it.\<close>

inductive execution ::
  "'k Workflow \<Rightarrow> ('k \<Rightarrow> 's \<Rightarrow> unit result \<times> 's) \<Rightarrow> 'k Node option \<Rightarrow> 's \<Rightarrow> ('k \<times> unit result) list \<Rightarrow> 's \<Rightarrow> bool"
  for workflow run where
  finished: "execution workflow run None s [] s"
| stepped: "run (node_step n) s = (r, s1) \<Longrightarrow> \<not> is_panic r \<Longrightarrow> findNode workflow (next_step n r) = Ok nxt \<Longrightarrow>
     execution workflow run nxt s1 tr s2 \<Longrightarrow> execution workflow run (Some n) s ((node_step n, r) # tr) s2"
| panicked: "run (node_step n) s = (Panic p, s1) \<Longrightarrow>
     execution workflow run (Some n) s [(node_step n, Panic p)] s1"

inductive_cases execution_NoneE: "execution workflow run None s tr s'"
inductive_cases execution_SomeE: "execution workflow run (Some n) s tr s'"

text \<open>What a run with these steps returns.\<close>

fun run_result :: "goerror list \<Rightarrow> ('k \<times> unit result) list \<Rightarrow> goerror list result" where
  "run_result errs [] = Ok errs"
| "run_result errs ((k, Ok _) # tr) = run_result errs tr"
| "run_result errs ((k, Err e) # tr) = run_result (errs @ [e]) tr"
| "run_result errs ((k, Panic p) # tr) = Panic p"

text \<open>The steps with the trace of what they did.\<close>

definition traced :: "('k \<Rightarrow> 's \<Rightarrow> unit result \<times> 's) \<Rightarrow> 'k \<Rightarrow> ('k \<times> unit result) list \<times> 's \<Rightarrow>
    unit result \<times> ('k \<times> unit result) list \<times> 's" where
  "traced run k = (\<lambda>(tr, s). case run k s of (r, s') \<Rightarrow> (r, tr @ [(k, r)], s'))"

text \<open>The choices of a workflow: each step succeeds (True) or fails. The fuel bounds the length.\<close>

fun paths :: "nat \<Rightarrow> 'k Workflow \<Rightarrow> 'k Node option \<Rightarrow> ('k \<times> bool) list list" where
  "paths fuel workflow None = [[]]"
| "paths 0 workflow (Some n) = []"
| "paths (Suc fuel) workflow (Some n) =
     (case findNode workflow (node_successStep n) of
        Ok nxt \<Rightarrow> map (\<lambda>p. (node_step n, True) # p) (paths fuel workflow nxt)
      | _ \<Rightarrow> []) @
     (case findNode workflow (node_failStep n) of
        Ok nxt \<Rightarrow> map (\<lambda>p. (node_step n, False) # p) (paths fuel workflow nxt)
      | _ \<Rightarrow> [])"

definition start_node :: "'k Workflow \<Rightarrow> 'k Node option" where
  "start_node workflow = map_option (\<lambda>i. Nodes workflow ! i) (StartingNode workflow)"

definition succeeded :: "unit result \<Rightarrow> bool" where
  "succeeded r = (r = Ok ())"

definition outcome :: "('k \<times> unit result) list \<Rightarrow> ('k \<times> bool) list" where
  "outcome tr = map (\<lambda>(k, r). (k, succeeded r)) tr"

definition panic_free :: "('k \<times> unit result) list \<Rightarrow> bool" where
  "panic_free tr = list_all (\<lambda>(k, r). \<not> is_panic r) tr"

text \<open>The errors of the steps, in order.\<close>

definition step_errors :: "('k \<times> unit result) list \<Rightarrow> goerror list" where
  "step_errors tr = concat (map (\<lambda>(k, r). new_errors r) tr)"

lemma outcome_simps [simp]:
  "outcome [] = []" "outcome ((k, r) # tr) = (k, succeeded r) # outcome tr"
  "panic_free []" "panic_free ((k, r) # tr) \<longleftrightarrow> \<not> is_panic r \<and> panic_free tr"
  "\<not> succeeded (Panic p)" "\<not> succeeded (Err e)" "succeeded (Ok u)"
  by (simp_all add: outcome_def panic_free_def succeeded_def)

lemma run_result_Ok: "run_result errs tr = Ok es \<longleftrightarrow> panic_free tr \<and> es = errs @ step_errors tr"
  by (induction errs tr rule: run_result.induct) (auto simp: new_errors_def step_errors_def)

lemma run_result_not_Err [simp]: "run_result errs tr \<noteq> Err e"
  by (induction errs tr rule: run_result.induct) auto

lemma next_step_cases: "\<not> is_panic r \<Longrightarrow> next_step n r = (if succeeded r then node_successStep n else node_failStep n)"
  by (cases r) (auto simp: next_step_def succeeded_def)

lemma execution_runLoop:
  "execution workflow run n s tr s' \<Longrightarrow> runLoop workflow run n errs s = Some (run_result errs tr, s')"
proof (induction arbitrary: errs rule: execution.induct)
  case (stepped n s r s1 nxt tr s2)
  then show ?case by (subst runLoop.simps) (cases r; simp add: new_errors_def)
qed (subst runLoop.simps, simp)+

lemma execution_Run:
  "execution workflow run (start_node workflow) s tr s' \<Longrightarrow> Workflow_Run workflow run s = Some (run_result [] tr, s')"
  unfolding Workflow_Run_def start_node_def by (rule execution_runLoop)

lemma execution_traced:
  "execution workflow run n s tr s' \<Longrightarrow> execution workflow (traced run) n (t0, s) tr (t0 @ tr, s')"
proof (induction arbitrary: t0 rule: execution.induct)
  case (stepped n s r s1 nxt tr s2)
  have "traced run (node_step n) (t0, s) = (r, t0 @ [(node_step n, r)], s1)"
    using stepped.hyps by (simp add: traced_def)
  from execution.stepped [OF this stepped.hyps(2,3) stepped.IH [of "t0 @ [(node_step n, r)]"]] show ?case by simp
next
  case (panicked n s p s1)
  then show ?case by (intro execution.panicked) (simp add: traced_def)
qed (simp add: finished)

text \<open>The states an execution passes through: each step runs in the state its predecessor left.\<close>

fun replays :: "('k \<Rightarrow> 's \<Rightarrow> unit result \<times> 's) \<Rightarrow> 's \<Rightarrow> ('k \<times> unit result) list \<Rightarrow> 's \<Rightarrow> bool" where
  "replays run s [] s' \<longleftrightarrow> s' = s"
| "replays run s ((k, r) # tr) s' \<longleftrightarrow> (\<exists>s1. run k s = (r, s1) \<and> replays run s1 tr s')"

lemma execution_replays: "execution workflow run n s tr s' \<Longrightarrow> replays run s tr s'"
  by (induction rule: execution.induct) auto

text \<open>Only the last step of an execution can have panicked.\<close>

lemma execution_panic:
  "execution workflow run n s tr s' \<Longrightarrow> panic_free tr \<or> (\<exists>pre k m. tr = pre @ [(k, Panic m)] \<and> panic_free pre)"
proof (induction rule: execution.induct)
  case (stepped n s r s1 nxt tr s2)
  then show ?case
  proof (elim disjE exE conjE)
    fix pre k m assume "tr = pre @ [(k, Panic m)]" "panic_free pre"
    with stepped.hyps(2) show ?thesis
      by (intro disjI2 exI [of _ "(node_step n, r) # pre"] exI [of _ k] exI [of _ m]) simp
  qed simp
next
  case (panicked n s p s1)
  show ?case by (intro disjI2 exI [of _ "[]"] exI [of _ "node_step n"] exI [of _ p]) simp
qed simp

lemma run_result_panic: "panic_free pre \<Longrightarrow> run_result errs (pre @ [(k, Panic m)]) = Panic m"
  by (induction errs pre rule: run_result.induct) auto

lemma replays_append: "replays run s (xs @ ys) s' \<longleftrightarrow> (\<exists>s1. replays run s xs s1 \<and> replays run s1 ys s')"
proof (induction xs arbitrary: s)
  case (Cons x xs)
  then show ?case by (cases x) (simp, blast)
qed simp

section \<open>Workflows that end\<close>

text \<open>Every edge of a node leads to a node of lower rank.\<close>

definition descends :: "('k \<Rightarrow> nat) \<Rightarrow> 'k Workflow \<Rightarrow> 'k Node \<Rightarrow> 'k option \<Rightarrow> bool" where
  "descends rank workflow n edge =
     (case findNode workflow edge of
        Ok None \<Rightarrow> True
      | Ok (Some m) \<Rightarrow> m \<in> set (Nodes workflow) \<and> rank (node_step m) < rank (node_step n)
      | _ \<Rightarrow> False)"

definition ranked :: "('k \<Rightarrow> nat) \<Rightarrow> 'k Workflow \<Rightarrow> bool" where
  "ranked rank workflow \<longleftrightarrow>
     list_all (\<lambda>n. descends rank workflow n (node_successStep n) \<and> descends rank workflow n (node_failStep n)) (Nodes workflow) \<and>
     (case StartingNode workflow of None \<Rightarrow> False | Some i \<Rightarrow> i < length (Nodes workflow))"

text \<open>The rank that fits a workflow whose nodes were added in an order its edges follow.\<close>

definition depth :: "'k Workflow \<Rightarrow> 'k \<Rightarrow> nat" where
  "depth workflow k = length (dropWhile (\<lambda>n. node_step n \<noteq> k) (Nodes workflow))"

definition all_paths :: "'k Workflow \<Rightarrow> ('k \<times> bool) list list" where
  "all_paths workflow = paths (Suc (length (Nodes workflow))) workflow (start_node workflow)"

text \<open>
  A run of a workflow complies with \<open>P\<close> and \<open>R\<close>: it returns, and either no step panicked, its steps
  satisfy \<open>P\<close> and it returned their errors in order, or its last step panicked and its steps satisfy \<open>R\<close>.
\<close>

definition complies ::
  "'k Workflow \<Rightarrow> ('k \<Rightarrow> 's \<Rightarrow> unit result \<times> 's) \<Rightarrow> 's \<Rightarrow> (('k \<times> bool) list \<Rightarrow> bool) \<Rightarrow> (('k \<times> bool) list \<Rightarrow> bool) \<Rightarrow> bool" where
  "complies workflow run s P R \<longleftrightarrow>
     (case Workflow_Run workflow (traced run) ([], s) of
        Some (Ok errs, tr, s') \<Rightarrow> P (outcome tr) \<and> errs = step_errors tr \<and> Workflow_Run workflow run s = Some (Ok errs, s')
      | Some (Panic m, tr, s') \<Rightarrow> R (outcome tr) \<and> Workflow_Run workflow run s = Some (Panic m, s')
      | _ \<Rightarrow> False)"

locale ranked_workflow =
  fixes workflow :: "'k Workflow" and rank :: "'k \<Rightarrow> nat"
  assumes ranked: "ranked rank workflow"
    and rank_bound: "rank k \<le> length (Nodes workflow)"
begin

abbreviation below :: "nat \<Rightarrow> 'k Node option \<Rightarrow> bool" where
  "below fuel m \<equiv> (case m of None \<Rightarrow> True | Some n \<Rightarrow> n \<in> set (Nodes workflow) \<and> rank (node_step n) < fuel)"

lemma descends_below:
  assumes "descends rank workflow n e" and "rank (node_step n) < Suc fuel"
  shows "\<exists>nxt. findNode workflow e = Ok nxt \<and> below fuel nxt"
  using assms unfolding descends_def
  by (cases "findNode workflow e") (simp_all split: option.splits)

lemma edges:
  assumes "n \<in> set (Nodes workflow)" and "rank (node_step n) < Suc fuel"
  shows "\<exists>nxt. findNode workflow (node_successStep n) = Ok nxt \<and> below fuel nxt"
    and "\<exists>nxt. findNode workflow (node_failStep n) = Ok nxt \<and> below fuel nxt"
  using ranked assms by (auto simp: ranked_def list_all_iff intro!: descends_below)

lemma edge:
  assumes "n \<in> set (Nodes workflow)" "rank (node_step n) < Suc fuel" "\<not> is_panic r"
  obtains nxt where "findNode workflow (next_step n r) = Ok nxt" "below fuel nxt"
  using edges [OF assms(1,2)] next_step_cases [OF assms(3), of n] that by (cases "succeeded r") auto

lemma execution_exists: "below fuel m \<Longrightarrow> \<exists>tr s'. execution workflow run m s tr s'"
proof (induction fuel arbitrary: m s)
  case (Suc fuel)
  show ?case
  proof (cases m)
    case (Some n)
    with Suc.prems have n: "n \<in> set (Nodes workflow)" "rank (node_step n) < Suc fuel" by simp_all
    obtain r s1 where run: "run (node_step n) s = (r, s1)" by fastforce
    show ?thesis
    proof (cases "is_panic r")
      case True
      then obtain p where "r = Panic p" by (cases r) auto
      with run have "run (node_step n) s = (Panic p, s1)" by simp
      from panicked [where run = run, OF this] Some show ?thesis by blast
    next
      case False
      from edge [OF n False] obtain nxt where nxt: "findNode workflow (next_step n r) = Ok nxt" "below fuel nxt" .
      from Suc.IH [OF nxt(2), of s1] stepped [where run = run, OF run False nxt(1)] Some show ?thesis by blast
    qed
  qed (auto intro: finished)
qed (auto intro: finished split: option.splits)

lemma paths_exist: "below fuel m \<Longrightarrow> paths fuel workflow m \<noteq> []"
proof (induction fuel arbitrary: m)
  case (Suc fuel)
  show ?case
  proof (cases m)
    case (Some n)
    with Suc.prems have n: "n \<in> set (Nodes workflow)" "rank (node_step n) < Suc fuel" by simp_all
    from edges(1) [OF n] Suc.IH Some show ?thesis by auto
  qed simp
qed (auto split: option.splits)

lemma execution_prefix:
  "execution workflow run m s tr s' \<Longrightarrow> below fuel m \<Longrightarrow>
     \<exists>p \<in> set (paths fuel workflow m). prefix (outcome tr) p \<and> (panic_free tr \<longrightarrow> outcome tr = p)"
proof (induction arbitrary: fuel rule: execution.induct)
  case (stepped n s r s1 nxt tr s2)
  then obtain k where k: "fuel = Suc k" by (cases fuel) auto
  with stepped.prems have n: "n \<in> set (Nodes workflow)" "rank (node_step n) < Suc k" by simp_all
  from edge [OF n stepped.hyps(2)] stepped.hyps(3) have "below k nxt" by auto
  from stepped.IH [OF this] obtain p where
    p: "p \<in> set (paths k workflow nxt)" "prefix (outcome tr) p" "panic_free tr \<longrightarrow> outcome tr = p" by blast
  with stepped.hyps(2,3) k have "(node_step n, succeeded r) # p \<in> set (paths fuel workflow (Some n))"
    by (cases "succeeded r") (auto simp: next_step_cases)
  with p stepped.hyps(2) show ?case by (intro bexI) auto
next
  case (panicked n s p s1)
  then obtain k where k: "fuel = Suc k" by (cases fuel) auto
  with panicked.prems have n: "n \<in> set (Nodes workflow)" "rank (node_step n) < Suc k" by simp_all
  from edges(2) [OF n] obtain nxt where nxt: "findNode workflow (node_failStep n) = Ok nxt" "below k nxt" by blast
  from paths_exist [OF nxt(2)] obtain q where "q \<in> set (paths k workflow nxt)" by (cases "paths k workflow nxt") auto
  with nxt(1) k have "(node_step n, False) # q \<in> set (paths fuel workflow (Some n))" by auto
  then show ?case by (intro bexI) auto
qed simp

text \<open>A run returns, whatever the steps do; the steps it takes are a path, or a prefix of one if a step panics.\<close>

lemma start_below: "below (Suc (length (Nodes workflow))) (start_node workflow)"
  using ranked rank_bound by (auto simp: ranked_def start_node_def less_Suc_eq_le split: option.splits)

lemma run_returns:
  "\<exists>tr s'. Workflow_Run workflow (traced run) ([], s) = Some (run_result [] tr, tr, s') \<and>
     Workflow_Run workflow run s = Some (run_result [] tr, s') \<and> replays run s tr s' \<and>
     (\<exists>p \<in> set (all_paths workflow). prefix (outcome tr) p \<and> (panic_free tr \<longrightarrow> outcome tr = p)) \<and>
     (panic_free tr \<or> (\<exists>pre k m. tr = pre @ [(k, Panic m)] \<and> panic_free pre))"
proof -
  from execution_exists [OF start_below, of run s] obtain tr s' where
    tr: "execution workflow run (start_node workflow) s tr s'" by blast
  from execution_Run [OF tr] execution_Run [OF execution_traced [OF tr, of "[]"]]
    execution_prefix [OF tr start_below] execution_replays [OF tr] execution_panic [OF tr]
  show ?thesis unfolding all_paths_def by auto
qed

text \<open>Hence a predicate checked on every path holds of every run that no panic cuts short,
  and what it says of the prefixes of a path holds of the others.\<close>

lemma run_satisfies:
  assumes "list_all P (all_paths workflow)" and "\<And>p q. P p \<Longrightarrow> prefix q p \<Longrightarrow> R q"
  shows "complies workflow run s P R"
proof -
  from run_returns [of run s] obtain tr s' p where
    run: "Workflow_Run workflow (traced run) ([], s) = Some (run_result [] tr, tr, s')"
      "Workflow_Run workflow run s = Some (run_result [] tr, s')" and
    p: "p \<in> set (all_paths workflow)" "prefix (outcome tr) p" "panic_free tr \<longrightarrow> outcome tr = p" by blast
  from assms(1) p(1) have P: "P p" by (simp add: list_all_iff)
  show ?thesis
  proof (cases "run_result [] tr")
    case (Ok es)
    with run_result_Ok [of "[]" tr es] run p P show ?thesis by (auto simp: complies_def)
  next
    case (Panic m)
    with run assms(2) [OF P p(2)] show ?thesis by (auto simp: complies_def)
  qed simp
qed

lemma run_replays:
  assumes "Workflow_Run workflow (traced run) ([], s) = Some (Ok errs, tr, s')"
  shows "replays run s tr s' \<and> panic_free tr \<and> outcome tr \<in> set (all_paths workflow)"
  using run_returns [of run s] assms run_result_Ok [of "[]" tr errs] by auto

lemma run_panics:
  assumes "Workflow_Run workflow (traced run) ([], s) = Some (Panic m, tr, s')"
  obtains pre k p where "tr = pre @ [(k, Panic m)]" "panic_free pre" "replays run s tr s'"
    "p \<in> set (all_paths workflow)" "prefix (outcome tr) p"
proof -
  from run_returns [of run s] assms obtain p where
    tr: "run_result [] tr = Panic m" "replays run s tr s'" "p \<in> set (all_paths workflow)" "prefix (outcome tr) p" and
    ends: "panic_free tr \<or> (\<exists>pre k m. tr = pre @ [(k, Panic m)] \<and> panic_free pre)" by auto
  from tr(1) run_result_Ok [of "[]" tr "step_errors tr"] ends obtain pre k m' where
    pre: "tr = pre @ [(k, Panic m')]" "panic_free pre" by auto
  from run_result_panic [OF pre(2), of "[]" k m'] tr(1) pre(1) have "m' = m" by simp
  with pre tr that show thesis by blast
qed

end

lemma depth_bound: "depth workflow k \<le> length (Nodes workflow)"
  by (simp add: depth_def length_dropWhile_le)

lemma ranked_by_depth: "ranked (depth workflow) workflow \<Longrightarrow> ranked_workflow workflow (depth workflow)"
  by unfold_locales (simp_all add: depth_bound)

end
