(* ===== verification/World.thy ===== *)
theory World
  imports Errors
begin

text \<open>
  The state the program acts on and the parameters that stand for code outside the repository.

  The \<open>world\<close> holds the local file system, the state of everything remote (a type variable
  \<open>'r\<close>: the VMs and the BOSH director), the store of the one mutable field the program's
  instances share by pointer (\<^verbatim>\<open>artifactDirCreated\<close> of \<^verbatim>\<open>instance.DeployedInstance\<close>), and
  the history of remote actions. The history is written by the model's primitives only; no
  definition reads it. Log lines are output only and are not part of the world.

  The record \<open>env\<close> collects what the model does not define: the SSH client library, the
  reasons for which the operating system may refuse a call, the iteration order of Go maps, and
  the order in which goroutines finish.
\<close>

section \<open>Types\<close>

record Connection =
  conn_host :: string
  conn_User :: string
  conn_privateKey :: string
  conn_hostKey :: "string option"
  conn_hostKeyAlgorithms :: "string list"

datatype fnode = FDir | FFile string

text \<open>The director's slug: an instance group, or one instance of it.\<close>

type_synonym Slug = "string \<times> string"

datatype event =
    SshCommand string string string
  | SetUpSSH string Slug string
  | CleanUpSSH string Slug string

record 'r world =
  fs :: "string \<Rightarrow> fnode option"
  remote :: 'r
  artifactDirCreated :: "nat \<Rightarrow> bool"
  next_instance :: nat
  events :: "event list"

datatype osop = OpStat | OpMkdir | OpCreate | OpOpen | OpRead | OpWrite | OpClose | OpDu

datatype run_error = RunOk | RunEOF | RunExitError int | RunExitMissing string | RunOther string

text \<open>What one SSH session did: whether dialling and opening the session worked, what the remote
  command wrote, and how the session's \<^verbatim>\<open>Run\<close> ended.\<close>

record session_reply =
  dialErr :: "goerror option"
  sessionErr :: "goerror option"
  stdoutChunks :: "string list"
  stderrBytes :: string
  runErr :: run_error

record 'r env =
  ssh_session :: "Connection \<Rightarrow> string \<Rightarrow> string \<Rightarrow> 'r \<Rightarrow> session_reply \<times> 'r"
  parsePrivateKey :: "string \<Rightarrow> goerror option"
  os_err :: "osop \<Rightarrow> string \<Rightarrow> (string \<Rightarrow> fnode option) \<Rightarrow> goerror option"
  range_ord :: range_order
  finish_order :: "'r world \<Rightarrow> nat \<Rightarrow> nat list"

type_synonym ('r, 'a) io = "'r world \<Rightarrow> 'a result \<times> 'r world"

section \<open>Machine integers\<close>

text \<open>A Go \<^verbatim>\<open>int\<close> is 64 bits wide and wraps.\<close>

definition wrap64 :: "int \<Rightarrow> int" where
  "wrap64 i = signed_take_bit 63 i"

section \<open>The os package on the local file system\<close>

definition log_event :: "event \<Rightarrow> 'r world \<Rightarrow> 'r world" where
  "log_event ev w = w\<lparr>events := events w @ [ev]\<rparr>"

definition not_exist :: "string \<Rightarrow> string \<Rightarrow> goerror" where
  "not_exist verb p = ErrorString (verb @ '' '' @ p @ '': no such file or directory'')"

definition os_Stat :: "('r, 'x) env_scheme \<Rightarrow> string \<Rightarrow> 'r world \<Rightarrow> fnode result" where
  "os_Stat E p w =
     (case os_err E OpStat (path_Clean p) (fs w) of
        Some e \<Rightarrow> Err e
      | None \<Rightarrow> (case fs w (path_Clean p) of None \<Rightarrow> Err (not_exist ''stat'' p) | Some n \<Rightarrow> Ok n))"

definition os_Mkdir :: "('r, 'x) env_scheme \<Rightarrow> string \<Rightarrow> ('r, unit) io" where
  "os_Mkdir E p w =
     (case os_err E OpMkdir (path_Clean p) (fs w) of
        Some e \<Rightarrow> (Err e, w)
      | None \<Rightarrow>
          if fs w (path_Clean p) \<noteq> None then (Err (ErrorString (''mkdir '' @ p @ '': file exists'')), w)
          else (Ok (), w\<lparr>fs := (fs w)(path_Clean p := Some FDir)\<rparr>))"

definition os_Create :: "('r, 'x) env_scheme \<Rightarrow> string \<Rightarrow> ('r, unit) io" where
  "os_Create E p w =
     (case os_err E OpCreate (path_Clean p) (fs w) of
        Some e \<Rightarrow> (Err e, w)
      | None \<Rightarrow>
          if fs w (path_Clean p) = Some FDir then (Err (ErrorString (''open '' @ p @ '': is a directory'')), w)
          else (Ok (), w\<lparr>fs := (fs w)(path_Clean p := Some (FFile ''''))\<rparr>))"

definition os_read :: "('r, 'x) env_scheme \<Rightarrow> osop \<Rightarrow> string \<Rightarrow> 'r world \<Rightarrow> string result" where
  "os_read E op p w =
     (case os_err E op (path_Clean p) (fs w) of
        Some e \<Rightarrow> Err e
      | None \<Rightarrow>
          (case fs w (path_Clean p) of
             None \<Rightarrow> Err (not_exist ''open'' p)
           | Some FDir \<Rightarrow> Err (ErrorString (''read '' @ p @ '': is a directory''))
           | Some (FFile s) \<Rightarrow> Ok s))"

definition os_WriteFile :: "('r, 'x) env_scheme \<Rightarrow> string \<Rightarrow> string \<Rightarrow> ('r, unit) io" where
  "os_WriteFile E p s w =
     (case os_err E OpWrite (path_Clean p) (fs w) of
        Some e \<Rightarrow> (Err e, w)
      | None \<Rightarrow>
          if fs w (path_Clean p) = Some FDir then (Err (ErrorString (''open '' @ p @ '': is a directory'')), w)
          else (Ok (), w\<lparr>fs := (fs w)(path_Clean p := Some (FFile s))\<rparr>))"

text \<open>An open file is its path; a directory can be opened, reading it fails.\<close>

definition os_Open :: "('r, 'x) env_scheme \<Rightarrow> string \<Rightarrow> 'r world \<Rightarrow> string result" where
  "os_Open E p w =
     (case os_err E OpOpen (path_Clean p) (fs w) of
        Some e \<Rightarrow> Err e
      | None \<Rightarrow> if fs w (path_Clean p) = None then Err (not_exist ''open'' p) else Ok p)"

text \<open>Writing through the handle of a file opened for writing appends to it.\<close>

definition file_Write :: "('r, 'x) env_scheme \<Rightarrow> string \<Rightarrow> string \<Rightarrow> ('r, int) io" where
  "file_Write E p s w =
     (case os_err E OpWrite (path_Clean p) (fs w) of
        Some e \<Rightarrow> (Err e, w)
      | None \<Rightarrow>
          (case fs w (path_Clean p) of
             Some (FFile old) \<Rightarrow> (Ok (int (length s)), w\<lparr>fs := (fs w)(path_Clean p := Some (FFile (old @ s)))\<rparr>)
           | _ \<Rightarrow> (Err (not_exist ''write'' p), w)))"

definition file_Close :: "('r, 'x) env_scheme \<Rightarrow> string \<Rightarrow> ('r, unit) io" where
  "file_Close E p w = (of_error (os_err E OpClose (path_Clean p) (fs w)), w)"

lemmas os_defs = os_Open_def os_Stat_def os_Mkdir_def os_Create_def os_read_def os_WriteFile_def
  file_Write_def file_Close_def

section \<open>Frames\<close>

text \<open>\<open>quiet w w'\<close>: the step changed local files only.\<close>

definition quiet :: "'r world \<Rightarrow> 'r world \<Rightarrow> bool" where
  "quiet w w' \<longleftrightarrow> remote w' = remote w \<and> artifactDirCreated w' = artifactDirCreated w \<and>
     next_instance w' = next_instance w \<and> events w' = events w"

text \<open>\<open>grows w w'\<close>: the step only adds to the history.\<close>

definition grows :: "'r world \<Rightarrow> 'r world \<Rightarrow> bool" where
  "grows w w' \<longleftrightarrow> (\<exists>es. events w' = events w @ es)"

lemma quiet_refl [simp]: "quiet w w"
  by (simp add: quiet_def)

lemma quiet_trans: "quiet a b \<Longrightarrow> quiet b c \<Longrightarrow> quiet a c"
  by (simp add: quiet_def)

lemma quiet_fs_update [simp]: "quiet w (w\<lparr>fs := f\<rparr>)"
  by (simp add: quiet_def)

lemma grows_refl [simp]: "grows w w"
  by (simp add: grows_def)

lemma grows_trans: "grows a b \<Longrightarrow> grows b c \<Longrightarrow> grows a c"
  by (auto simp: grows_def)

lemma quiet_grows: "quiet w w' \<Longrightarrow> grows w w'"
  by (simp add: quiet_def grows_def)

lemma os_Mkdir_quiet: "os_Mkdir E p w = (r, w') \<Longrightarrow> quiet w w'"
  by (auto simp: os_defs split: option.splits if_splits)

lemma os_Create_quiet: "os_Create E p w = (r, w') \<Longrightarrow> quiet w w'"
  by (auto simp: os_defs split: option.splits if_splits)

lemma os_WriteFile_quiet: "os_WriteFile E p s w = (r, w') \<Longrightarrow> quiet w w'"
  by (auto simp: os_defs split: option.splits if_splits)

lemma file_Write_quiet: "file_Write E p s w = (r, w') \<Longrightarrow> quiet w w'"
  by (auto simp: os_defs split: option.splits if_splits fnode.splits)

lemma file_Close_quiet: "file_Close E p w = (r, w') \<Longrightarrow> w' = w"
  by (auto simp: os_defs)

lemmas os_quiet = os_Mkdir_quiet os_Create_quiet os_WriteFile_quiet file_Write_quiet

section \<open>Histories of compound operations\<close>

text \<open>\<open>adds h w w'\<close>: the step appended \<open>h\<close> to the history and kept the program's own flags.\<close>

definition adds :: "event list \<Rightarrow> 'r world \<Rightarrow> 'r world \<Rightarrow> bool" where
  "adds h w w' \<longleftrightarrow> artifactDirCreated w' = artifactDirCreated w \<and> next_instance w' = next_instance w \<and>
     events w' = events w @ h"

text \<open>\<open>stays m S\<close>: however \<open>m\<close> ends, it adds events of \<open>S\<close> only. \<open>does m h\<close>: a success of \<open>m\<close> adds \<open>h\<close>.\<close>

definition stays :: "('r, 'a) io \<Rightarrow> event set \<Rightarrow> bool" where
  "stays m S \<longleftrightarrow> (\<forall>w r w'. m w = (r, w') \<longrightarrow> (\<exists>h. adds h w w' \<and> set h \<subseteq> S))"

definition does :: "('r, 'a) io \<Rightarrow> event list \<Rightarrow> bool" where
  "does m h \<longleftrightarrow> (\<forall>w x w'. m w = (Ok x, w') \<longrightarrow> adds h w w')"

named_theorems history_intros \<open>rules for \<open>stays\<close> and \<open>does\<close>\<close>

lemma adds_refl [simp]: "adds [] w w"
  by (simp add: adds_def)

lemma adds_trans: "adds h1 a b \<Longrightarrow> adds h2 b c \<Longrightarrow> adds (h1 @ h2) a c"
  by (simp add: adds_def)

lemma quiet_adds: "quiet w w' \<Longrightarrow> adds [] w w'"
  by (simp add: quiet_def adds_def)

lemma stays_bindr [history_intros]:
  assumes m: "stays m S" and f: "\<And>x. stays (f x) S"
  shows "stays (bindr m f) S"
  unfolding stays_def
proof (intro allI impI)
  fix w r w'' assume "bindr m f w = (r, w'')"
  then show "\<exists>h. adds h w w'' \<and> set h \<subseteq> S"
  proof (cases rule: bindrE)
    case (ok x w')
    from m ok(1) obtain h1 where h1: "adds h1 w w'" "set h1 \<subseteq> S" unfolding stays_def by blast
    from f [of x] ok(2) obtain h2 where h2: "adds h2 w' w''" "set h2 \<subseteq> S" unfolding stays_def by blast
    from adds_trans [OF h1(1) h2(1)] h1(2) h2(2) show ?thesis by (intro exI [of _ "h1 @ h2"]) simp
  qed (use m in \<open>auto simp: stays_def\<close>)
qed

lemma stays_mono: "stays m S \<Longrightarrow> S \<subseteq> T \<Longrightarrow> stays m T"
  unfolding stays_def by (meson order_trans)

lemma does_bindr:
  assumes "does m h1" and f: "\<And>x. does (f x) h2"
  shows "does (bindr m f) (h1 @ h2)"
  unfolding does_def
proof (intro allI impI)
  fix w y w'' assume "bindr m f w = (Ok y, w'')"
  then obtain x w' where "m w = (Ok x, w')" "f x w' = (Ok y, w'')" by (auto simp: bindr_eq_Ok)
  with assms(1) f [of x] show "adds (h1 @ h2) w w''" unfolding does_def by (blast intro: adds_trans)
qed

lemma stays_wrapped [history_intros]: "stays m S \<Longrightarrow> stays (wrapped msg m) S"
  by (auto simp: stays_def wrapped_def split: prod.splits)

lemma does_wrapped: "does m h \<Longrightarrow> does (wrapped msg m) h"
  by (simp add: does_def)

lemma stays_pure [history_intros]: "stays (\<lambda>w. (f w, w)) S"
  by (auto simp: stays_def intro: exI [of _ "[]"])

lemma does_pure: "does (\<lambda>w. (f w, w)) []"
  by (simp add: does_def)

lemma stays_quiet: "(\<And>w r w'. m w = (r, w') \<Longrightarrow> quiet w w') \<Longrightarrow> stays m S"
  unfolding stays_def using quiet_adds by fastforce

lemma does_quiet: "(\<And>w r w'. m w = (r, w') \<Longrightarrow> quiet w w') \<Longrightarrow> does m []"
  unfolding does_def using quiet_adds by blast

end
