(* ===== verification/Backup_Directory.thy ===== *)
theory Backup_Directory
  imports World
begin

text \<open>
  The local backup: \<^verbatim>\<open>backup/backup_directory.go\<close>, \<^verbatim>\<open>backup/metadata.go\<close>,
  \<^verbatim>\<open>backup/artifact_identifier.go\<close>, \<^verbatim>\<open>backup/backup_directory_manager.go\<close> and
  \<^verbatim>\<open>orchestrator/checksum.go\<close>.

  A checksum is a finite map from file names to digests; the nil map of Go is the empty one,
  which no operation below tells apart. The YAML library, the tar reader, the digest,
  \<^verbatim>\<open>du\<close> and the formatting of times are fields of \<open>backup_env\<close>, which extends the
  environment. Each operation that holds the mutex of the directory is one step.

  The locale \<open>checksum_store\<close> states what the transfers rely on: a checksum that was added is
  the one fetched later, and adding another one does not change it. It is interpreted on the
  directory for a YAML library that reads back what it wrote.
\<close>

section \<open>Checksums\<close>

type_synonym BackupChecksum = "(string, string) fmap"

definition getMismatchedFiles :: "range_order \<Rightarrow> BackupChecksum \<Rightarrow> BackupChecksum \<Rightarrow> string list" where
  "getMismatchedFiles it b other = filter (\<lambda>key. map_get b key \<noteq> map_get other key) (range_keys it b)"

fun matchLoop :: "string list \<Rightarrow> BackupChecksum \<Rightarrow> BackupChecksum \<Rightarrow> bool" where
  "matchLoop [] b other = True"
| "matchLoop (key # keys) b other =
     (if map_get b key \<noteq> map_get other key then False else matchLoop keys b other)"

definition Match :: "range_order \<Rightarrow> BackupChecksum \<Rightarrow> BackupChecksum \<Rightarrow> bool \<times> string list" where
  "Match it b other =
     (if fcard (fmdom b) \<noteq> fcard (fmdom other) then (False, getMismatchedFiles it b other)
      else if \<not> matchLoop (range_keys it b) b other then (False, getMismatchedFiles it b other)
      else (True, []))"

section \<open>The metadata file\<close>

record backupActivityMetadata =
  StartTime :: string
  FinishTime :: string

record artifactMetadata =
  am_Name :: string
  am_Checksum :: BackupChecksum

record instanceMetadata =
  im_Name :: string
  im_Index :: string
  im_Artifacts :: "artifactMetadata list"

record metadata =
  MetadataForEachInstance :: "instanceMetadata list"
  MetadataForEachArtifact :: "artifactMetadata list"
  MetadataForBackupActivity :: backupActivityMetadata

record tarHeader =
  th_Name :: string
  th_IsDir :: bool
  th_InfoName :: string

text \<open>One call of \<^verbatim>\<open>Next\<close> on the tar reader, with what copying the entry's body gives.\<close>

datatype tarNext = TarEOF | TarError goerror | TarEntry tarHeader "string result"

record 'r backup_env = "'r env" +
  yaml_Marshal :: "metadata \<Rightarrow> string result"
  yaml_Unmarshal :: "string \<Rightarrow> metadata result"
  tar_Entries :: "string \<Rightarrow> tarNext list"
  sha256_hex :: "string \<Rightarrow> string"
  du_output :: "string \<Rightarrow> (string \<Rightarrow> fnode option) \<Rightarrow> string result"
  dir_size :: "string \<Rightarrow> int"
  time_Format :: "int \<Rightarrow> string"

definition readMetadata :: "('r, 'x) backup_env_scheme \<Rightarrow> string \<Rightarrow> 'r world \<Rightarrow> metadata result" where
  "readMetadata E filename w =
     (case wrap_result ''failed to read metadata'' (os_read E OpRead filename w) of
        Ok contents \<Rightarrow> wrap_result ''failed to unmarshal metadata'' (yaml_Unmarshal E contents)
      | Err e \<Rightarrow> Err e
      | Panic p \<Rightarrow> Panic p)"

definition metadata_save :: "('r, 'x) backup_env_scheme \<Rightarrow> metadata \<Rightarrow> string \<Rightarrow> ('r, unit) io" where
  "metadata_save E data filename w =
     (case wrap_result ''failed to marshal metadata'' (yaml_Marshal E data) of
        Ok contents \<Rightarrow> os_WriteFile E filename contents w
      | Err e \<Rightarrow> (Err e, w)
      | Panic p \<Rightarrow> (Panic p, w))"

text \<open>
  \<^verbatim>\<open>findOrCreateInstanceMetadata\<close> returns a pointer into the list, which its caller
  writes through; the list with that write done is the result here.
\<close>

fun updateInstanceMetadata ::
  "instanceMetadata list \<Rightarrow> string \<Rightarrow> string \<Rightarrow> (instanceMetadata \<Rightarrow> instanceMetadata) \<Rightarrow> instanceMetadata list" where
  "updateInstanceMetadata [] name index f = [f \<lparr>im_Name = name, im_Index = index, im_Artifacts = []\<rparr>]"
| "updateInstanceMetadata (inst # insts) name index f =
     (if im_Name inst = name \<and> im_Index inst = index then f inst # insts
      else inst # updateInstanceMetadata insts name index f)"

section \<open>Artifact identifiers and file names\<close>

record artifactIdentifier =
  ai_name :: string
  ai_instanceName :: string
  ai_instanceIndex :: string
  ai_instanceID :: string
  ai_hasCustomName :: bool

definition makeCustomArtifactIdentifier :: "artifactMetadata \<Rightarrow> artifactIdentifier" where
  "makeCustomArtifactIdentifier artifact =
     \<lparr>ai_name = am_Name artifact, ai_instanceName = '''', ai_instanceIndex = '''', ai_instanceID = '''',
      ai_hasCustomName = True\<rparr>"

definition makeDefaultArtifactIdentifier :: "artifactMetadata \<Rightarrow> instanceMetadata \<Rightarrow> artifactIdentifier" where
  "makeDefaultArtifactIdentifier artifact inst =
     \<lparr>ai_name = am_Name artifact, ai_instanceName = im_Name inst, ai_instanceIndex = im_Index inst,
      ai_instanceID = '''', ai_hasCustomName = False\<rparr>"

definition instanceArtifactFileName :: "string \<Rightarrow> string \<Rightarrow> string \<Rightarrow> string" where
  "instanceArtifactFileName instanceName instanceIndex name =
     instanceName @ ''-'' @ instanceIndex @ ''-'' @ name @ ''.tar''"

definition customArtifactFileName :: "string \<Rightarrow> string" where
  "customArtifactFileName artifactName = artifactName @ ''.tar''"

definition fileName :: "artifactIdentifier \<Rightarrow> string" where
  "fileName ai =
     (if ai_hasCustomName ai then customArtifactFileName (ai_name ai)
      else instanceArtifactFileName (ai_instanceName ai) (ai_instanceIndex ai) (ai_name ai))"

definition logName :: "artifactIdentifier \<Rightarrow> string" where
  "logName ai = (if ai_hasCustomName ai then ai_name ai else ai_name ai @ ''/'' @ ai_instanceIndex ai)"

section \<open>The backup directory\<close>

record BackupDirectory =
  baseDirName :: string

definition instanceFilename :: "BackupDirectory \<Rightarrow> artifactIdentifier \<Rightarrow> string" where
  "instanceFilename bd ai = path_Join (baseDirName bd) (fileName ai)"

definition metadataFilename :: "BackupDirectory \<Rightarrow> string" where
  "metadataFilename bd = path_Join (baseDirName bd) ''metadata''"

definition manifestFilename :: "BackupDirectory \<Rightarrow> string" where
  "manifestFilename bd = path_Join (baseDirName bd) ''manifest.yml''"

definition metadataExistsAndIsReadable :: "('r, 'x) backup_env_scheme \<Rightarrow> BackupDirectory \<Rightarrow> 'r world \<Rightarrow> bool result" where
  "metadataExistsAndIsReadable E bd w =
     wrap_result ''Error checking metadata exists and is readable''
       (map_result (\<lambda>_. True) (os_Stat E (metadataFilename bd) w))"

definition GetArtifactSize :: "('r, 'x) backup_env_scheme \<Rightarrow> BackupDirectory \<Rightarrow> artifactIdentifier \<Rightarrow> 'r world \<Rightarrow> string result" where
  "GetArtifactSize E bd ai w =
     (case du_output E (instanceFilename bd ai) (fs w) of
        Ok output \<Rightarrow>
          (case Fields output of
             [] \<Rightarrow> Panic ''index out of range [0] with length 0''
           | sz # _ \<Rightarrow> Ok sz)
      | Err e \<Rightarrow> Err e
      | Panic p \<Rightarrow> Panic p)"

definition file_size :: "('r, 'x) backup_env_scheme \<Rightarrow> string \<Rightarrow> fnode \<Rightarrow> int" where
  "file_size E p n = (case n of FDir \<Rightarrow> dir_size E p | FFile s \<Rightarrow> int (length s))"

definition GetArtifactByteSize :: "('r, 'x) backup_env_scheme \<Rightarrow> BackupDirectory \<Rightarrow> artifactIdentifier \<Rightarrow> 'r world \<Rightarrow> int result" where
  "GetArtifactByteSize E bd ai w =
     (let filename = instanceFilename bd ai
      in case os_Stat E filename w of
           Err e \<Rightarrow> Err (WithMessage e (''failed to determine file size for file '' @ filename))
         | Panic p \<Rightarrow> Panic p
         | Ok info \<Rightarrow>
             (let size_of = file_size E filename info
              in if size_of > 2 ^ 63 - 1
                 then Err (ErrorString (''file '' @ filename @ '' is too large ('' @ Itoa size_of @
                        '' bytes) to fit in an int; cannot compute percentage''))
                 else Ok size_of))"

definition backupInstanceIsPresent :: "instanceMetadata \<Rightarrow> (string \<times> string) list \<Rightarrow> bool" where
  "backupInstanceIsPresent backupInstance instances =
     list_ex (\<lambda>(name, index). index = im_Index backupInstance \<and> name = im_Name backupInstance) instances"

text \<open>The instances of the deployment enter by their name and index only.\<close>

definition DeploymentMatches ::
  "('r, 'x) backup_env_scheme \<Rightarrow> BackupDirectory \<Rightarrow> (string \<times> string) list \<Rightarrow> 'r world \<Rightarrow> bool result" where
  "DeploymentMatches E bd instances w =
     (case wrap_result ''Error checking metadata file'' (metadataExistsAndIsReadable E bd w) of
        Err e \<Rightarrow> Err e
      | Panic p \<Rightarrow> Panic p
      | Ok _ \<Rightarrow>
          (case wrap_result ''Error reading metadata file'' (readMetadata E (metadataFilename bd) w) of
             Err e \<Rightarrow> Err e
           | Panic p \<Rightarrow> Panic p
           | Ok meta \<Rightarrow>
               Ok (list_all (\<lambda>inst. backupInstanceIsPresent inst instances) (MetadataForEachInstance meta))))"

definition CreateArtifact :: "('r, 'x) backup_env_scheme \<Rightarrow> BackupDirectory \<Rightarrow> artifactIdentifier \<Rightarrow> ('r, string) io" where
  "CreateArtifact E bd ai =
     wrapped (''Error creating file '' @ fileName ai)
       (bindr (os_Create E (path_Join (baseDirName bd) (fileName ai)))
         (\<lambda>_ w. (Ok (path_Join (baseDirName bd) (fileName ai)), w)))"

definition ReadArtifact :: "('r, 'x) backup_env_scheme \<Rightarrow> BackupDirectory \<Rightarrow> artifactIdentifier \<Rightarrow> 'r world \<Rightarrow> string result" where
  "ReadArtifact E bd ai w =
     wrap_result (''Error reading artifact file '' @ instanceFilename bd ai) (os_Open E (instanceFilename bd ai) w)"

fun findArtifact :: "artifactMetadata list \<Rightarrow> string \<Rightarrow> BackupChecksum option" where
  "findArtifact [] name = None"
| "findArtifact (artifact # artifacts) name =
     (if am_Name artifact = name then Some (am_Checksum artifact) else findArtifact artifacts name)"

fun findInstanceArtifact :: "instanceMetadata list \<Rightarrow> string \<Rightarrow> string \<Rightarrow> string \<Rightarrow> BackupChecksum option" where
  "findInstanceArtifact [] index iname name = None"
| "findInstanceArtifact (inst # insts) index iname name =
     (case (if im_Index inst = index \<and> im_Name inst = iname then findArtifact (im_Artifacts inst) name else None) of
        Some c \<Rightarrow> Some c
      | None \<Rightarrow> findInstanceArtifact insts index iname name)"

definition lookupChecksum :: "metadata \<Rightarrow> artifactIdentifier \<Rightarrow> BackupChecksum option" where
  "lookupChecksum meta ai =
     (if ai_hasCustomName ai then findArtifact (MetadataForEachArtifact meta) (ai_name ai)
      else findInstanceArtifact (MetadataForEachInstance meta) (ai_instanceIndex ai) (ai_instanceName ai) (ai_name ai))"

definition FetchChecksum :: "('r, 'x) backup_env_scheme \<Rightarrow> BackupDirectory \<Rightarrow> artifactIdentifier \<Rightarrow> 'r world \<Rightarrow> BackupChecksum result" where
  "FetchChecksum E bd ai w =
     (case wrap_result (''Error reading metadata from '' @ metadataFilename bd) (readMetadata E (metadataFilename bd) w) of
        Err e \<Rightarrow> Err e
      | Panic p \<Rightarrow> Panic p
      | Ok meta \<Rightarrow> (case lookupChecksum meta ai of Some c \<Rightarrow> Ok c | None \<Rightarrow> Ok fmempty))"

fun checksumLoop :: "(string \<Rightarrow> string) \<Rightarrow> string \<Rightarrow> tarNext list \<Rightarrow> BackupChecksum \<Rightarrow> BackupChecksum result" where
  "checksumLoop sha lname [] checksum = Ok checksum"
| "checksumLoop sha lname (TarEOF # _) checksum = Ok checksum"
| "checksumLoop sha lname (TarError e # _) checksum = Err (WithMessage e (''Error reading tar for '' @ lname))"
| "checksumLoop sha lname (TarEntry h body # rest) checksum =
     (if th_IsDir h \<or> th_InfoName h = ''./'' then checksumLoop sha lname rest checksum
      else (case body of
              Err e \<Rightarrow> Err (WithMessage e (''Error calculating sha for '' @ lname))
            | Panic p \<Rightarrow> Panic p
            | Ok content \<Rightarrow> checksumLoop sha lname rest (fmupd (th_Name h) (sha content) checksum)))"

text \<open>The source prints the identifier in the first message; its file name stands for that text.\<close>

definition CalculateChecksum :: "('r, 'x) backup_env_scheme \<Rightarrow> BackupDirectory \<Rightarrow> artifactIdentifier \<Rightarrow> 'r world \<Rightarrow> BackupChecksum result" where
  "CalculateChecksum E bd ai w =
     (case wrap_result (''Error opening artifact file '' @ fileName ai) (ReadArtifact E bd ai w) of
        Err e \<Rightarrow> Err e
      | Panic p \<Rightarrow> Panic p
      | Ok file \<Rightarrow>
          (case os_read E OpRead file w of
             Ok content \<Rightarrow> checksumLoop (sha256_hex E) (logName ai) (tar_Entries E content) fmempty
           | Err e \<Rightarrow> checksumLoop (sha256_hex E) (logName ai) [TarError e] fmempty
           | Panic p \<Rightarrow> Panic p))"

definition addToMetadata :: "metadata \<Rightarrow> artifactIdentifier \<Rightarrow> BackupChecksum \<Rightarrow> metadata" where
  "addToMetadata meta ai shasum =
     (let entry = \<lparr>am_Name = ai_name ai, am_Checksum = shasum\<rparr>
      in if ai_hasCustomName ai
         then meta\<lparr>MetadataForEachArtifact := MetadataForEachArtifact meta @ [entry]\<rparr>
         else meta\<lparr>MetadataForEachInstance :=
                updateInstanceMetadata (MetadataForEachInstance meta) (ai_instanceName ai) (ai_instanceIndex ai)
                  (\<lambda>inst. inst\<lparr>im_Artifacts := im_Artifacts inst @ [entry]\<rparr>)\<rparr>)"

definition AddChecksum :: "('r, 'x) backup_env_scheme \<Rightarrow> BackupDirectory \<Rightarrow> artifactIdentifier \<Rightarrow> BackupChecksum \<Rightarrow> ('r, unit) io" where
  "AddChecksum E bd ai shasum w =
     (case wrap_result ''unable to load metadata'' (metadataExistsAndIsReadable E bd w) of
        Err e \<Rightarrow> (Err e, w)
      | Panic p \<Rightarrow> (Panic p, w)
      | Ok _ \<Rightarrow>
          (case wrap_result (''Error reading metadata from '' @ metadataFilename bd) (readMetadata E (metadataFilename bd) w) of
             Err e \<Rightarrow> (Err e, w)
           | Panic p \<Rightarrow> (Panic p, w)
           | Ok meta \<Rightarrow> metadata_save E (addToMetadata meta ai shasum) (metadataFilename bd) w))"

text \<open>The error of \<^verbatim>\<open>save\<close> is dropped by the two operations that record times.\<close>

definition CreateMetadataFileWithStartTime :: "('r, 'x) backup_env_scheme \<Rightarrow> BackupDirectory \<Rightarrow> int \<Rightarrow> ('r, unit) io" where
  "CreateMetadataFileWithStartTime E bd startTime w =
     (case metadataExistsAndIsReadable E bd w of
        Ok _ \<Rightarrow> (Err (ErrorString ''metadata file already exists''), w)
      | Panic p \<Rightarrow> (Panic p, w)
      | Err _ \<Rightarrow>
          (case metadata_save E \<lparr>MetadataForEachInstance = [], MetadataForEachArtifact = [],
                  MetadataForBackupActivity = \<lparr>StartTime = time_Format E startTime, FinishTime = ''''\<rparr>\<rparr>
                  (metadataFilename bd) w of
             (Panic p, w') \<Rightarrow> (Panic p, w')
           | (_, w') \<Rightarrow> (Ok (), w')))"

definition AddFinishTime :: "('r, 'x) backup_env_scheme \<Rightarrow> BackupDirectory \<Rightarrow> int \<Rightarrow> ('r, unit) io" where
  "AddFinishTime E bd finishTime w =
     (case wrap_result ''unable to load metadata'' (readMetadata E (metadataFilename bd) w) of
        Err e \<Rightarrow> (Err e, w)
      | Panic p \<Rightarrow> (Panic p, w)
      | Ok meta \<Rightarrow>
          (case metadata_save E
                  (meta\<lparr>MetadataForBackupActivity := (MetadataForBackupActivity meta)\<lparr>FinishTime := time_Format E finishTime\<rparr>\<rparr>)
                  (metadataFilename bd) w of
             (Panic p, w') \<Rightarrow> (Panic p, w')
           | (_, w') \<Rightarrow> (Ok (), w')))"

definition SaveManifest :: "('r, 'x) backup_env_scheme \<Rightarrow> BackupDirectory \<Rightarrow> string \<Rightarrow> ('r, unit) io" where
  "SaveManifest E bd manifest =
     wrapped ''failed to save manifest'' (os_WriteFile E (manifestFilename bd) manifest)"

text \<open>
  \<^verbatim>\<open>Valid\<close>. The error of the digest of a custom artifact is ignored: its checksum is
  then the nil map. A mismatch returns false together with \<^verbatim>\<open>errors.Wrap\<close> of an error that is
  nil at that point, which is nil.
\<close>

fun validCustom :: "('r, 'x) backup_env_scheme \<Rightarrow> BackupDirectory \<Rightarrow> artifactMetadata list \<Rightarrow> 'r world \<Rightarrow> bool result" where
  "validCustom E bd [] w = Ok True"
| "validCustom E bd (artifact # artifacts) w =
     (case CalculateChecksum E bd (makeCustomArtifactIdentifier artifact) w of
        Panic p \<Rightarrow> Panic p
      | res \<Rightarrow>
          (let actual = (case res of Ok c \<Rightarrow> c | _ \<Rightarrow> fmempty)
           in if \<not> fst (Match (range_ord E) actual (am_Checksum artifact)) then Ok False
              else validCustom E bd artifacts w))"

fun validInstance :: "('r, 'x) backup_env_scheme \<Rightarrow> BackupDirectory \<Rightarrow> instanceMetadata \<Rightarrow> artifactMetadata list \<Rightarrow> 'r world \<Rightarrow> bool result" where
  "validInstance E bd inst [] w = Ok True"
| "validInstance E bd inst (artifact # artifacts) w =
     (case CalculateChecksum E bd (makeDefaultArtifactIdentifier artifact inst) w of
        Panic p \<Rightarrow> Panic p
      | Err e \<Rightarrow> Err (WithMessage e ''Error calculating checksum for artifact'')
      | Ok actual \<Rightarrow>
          if \<not> fst (Match (range_ord E) actual (am_Checksum artifact)) then Ok False
          else validInstance E bd inst artifacts w)"

fun validInstances :: "('r, 'x) backup_env_scheme \<Rightarrow> BackupDirectory \<Rightarrow> instanceMetadata list \<Rightarrow> 'r world \<Rightarrow> bool result" where
  "validInstances E bd [] w = Ok True"
| "validInstances E bd (inst # insts) w =
     (case validInstance E bd inst (im_Artifacts inst) w of
        Ok True \<Rightarrow> validInstances E bd insts w
      | r \<Rightarrow> r)"

definition Valid :: "('r, 'x) backup_env_scheme \<Rightarrow> BackupDirectory \<Rightarrow> 'r world \<Rightarrow> bool result" where
  "Valid E bd w =
     (case wrap_result (''Error reading metadata from '' @ metadataFilename bd) (readMetadata E (metadataFilename bd) w) of
        Err e \<Rightarrow> Err e
      | Panic p \<Rightarrow> Panic p
      | Ok meta \<Rightarrow>
          (case validCustom E bd (MetadataForEachArtifact meta) w of
             Ok True \<Rightarrow> validInstances E bd (MetadataForEachInstance meta) w
           | r \<Rightarrow> r))"

section \<open>The manager\<close>

definition BackupDirectoryManager_Create :: "('r, 'x) backup_env_scheme \<Rightarrow> string \<Rightarrow> string \<Rightarrow> ('r, BackupDirectory) io" where
  "BackupDirectoryManager_Create E path directoryName w =
     (let mkdir = (\<lambda>backupPath.
            case os_Mkdir E backupPath w of
              (Ok _, w') \<Rightarrow> (Ok \<lparr>baseDirName = backupPath\<rparr>, w')
            | (Err _, w') \<Rightarrow> (Err (ErrorString ''failed creating artifact directory''), w')
            | (Panic p, w') \<Rightarrow> (Panic p, w'))
      in if path \<noteq> '''' then
           (case os_Stat E path w of
              Err e \<Rightarrow> (Err e, w)
            | Panic p \<Rightarrow> (Panic p, w)
            | Ok (FFile _) \<Rightarrow> (Err (ErrorString (''artifact path '' @ path @ '' is not a directory'')), w)
            | Ok FDir \<Rightarrow> mkdir (path @ ''/'' @ directoryName))
         else mkdir directoryName)"

definition BackupDirectoryManager_Open :: "('r, 'x) backup_env_scheme \<Rightarrow> string \<Rightarrow> 'r world \<Rightarrow> BackupDirectory result" where
  "BackupDirectoryManager_Open E name w =
     wrap_result ''failed opening the directory'' (map_result (\<lambda>_. \<lparr>baseDirName = name\<rparr>) (os_Stat E name w))"

section \<open>Lemmas\<close>

lemma matchLoop_iff: "matchLoop keys b other \<longleftrightarrow> (\<forall>k \<in> set keys. map_get b k = map_get other k)"
  by (induction keys) auto

lemma Match_iff:
  "fst (Match it b other) \<longleftrightarrow>
     fcard (fmdom b) = fcard (fmdom other) \<and> (\<forall>k. k |\<in>| fmdom b \<longrightarrow> map_get b k = map_get other k)"
  by (auto simp: Match_def matchLoop_iff)

lemma Match_refl: "fst (Match it b b)"
  by (simp add: Match_iff)

lemma Match_files:
  "\<not> fst (Match it b other) \<Longrightarrow>
     set (snd (Match it b other)) = {k. k |\<in>| fmdom b \<and> map_get b k \<noteq> map_get other k}"
  by (auto simp: Match_def getMismatchedFiles_def split: if_splits)

lemma Match_eq:
  assumes "fst (Match it b other)" and "'''' |\<notin>| fmran b"
  shows "b = other"
proof -
  from assms(1) have card: "fcard (fmdom b) = fcard (fmdom other)"
    and get: "\<And>k. k |\<in>| fmdom b \<Longrightarrow> map_get b k = map_get other k" by (auto simp: Match_iff)
  have look: "fmlookup other k = fmlookup b k" if "k |\<in>| fmdom b" for k
  proof -
    from that obtain v where v: "fmlookup b k = Some v" by (meson fmlookup_dom_iff)
    with assms(2) have "v \<noteq> ''''" by (metis fmranI)
    with get [OF that] v show ?thesis by (auto simp: map_get_def split: option.splits)
  qed
  then have "fmdom b |\<subseteq>| fmdom other" by (metis fmdom_notD fmdom_notI fsubsetI)
  with card have "fmdom b = fmdom other" by (metis fcard_seteq order_refl)
  with look show ?thesis by (metis fmap_ext fmdom_notD)
qed

lemma findArtifact_append:
  "findArtifact (xs @ [e]) n =
     (case findArtifact xs n of Some c \<Rightarrow> Some c | None \<Rightarrow> if am_Name e = n then Some (am_Checksum e) else None)"
  by (induction xs) auto

text \<open>No two entries of the metadata file are for the same instance.\<close>

definition instance_keys :: "instanceMetadata list \<Rightarrow> (string \<times> string) list" where
  "instance_keys insts = map (\<lambda>inst. (im_Name inst, im_Index inst)) insts"

definition wf_metadata :: "metadata \<Rightarrow> bool" where
  "wf_metadata meta \<longleftrightarrow> distinct (instance_keys (MetadataForEachInstance meta))"

lemma findInstanceArtifact_absent:
  "(iname, index) \<notin> set (instance_keys insts) \<Longrightarrow> findInstanceArtifact insts index iname n = None"
  by (induction insts) (auto simp: instance_keys_def)

lemma findInstanceArtifact_update:
  assumes "f = (\<lambda>inst. inst\<lparr>im_Artifacts := im_Artifacts inst @ [\<lparr>am_Name = a, am_Checksum = c\<rparr>]\<rparr>)"
    and "distinct (instance_keys insts)"
  shows "findInstanceArtifact (updateInstanceMetadata insts iname index f) index' iname' n =
    (case findInstanceArtifact insts index' iname' n of
       Some d \<Rightarrow> Some d
     | None \<Rightarrow> if index' = index \<and> iname' = iname \<and> n = a then Some c else None)"
  using assms(2) unfolding assms(1)
proof (induction insts)
  case (Cons inst insts)
  then have "findInstanceArtifact insts (im_Index inst) (im_Name inst) n = None"
    by (intro findInstanceArtifact_absent) (simp add: instance_keys_def)
  with Cons show ?case by (auto simp: findArtifact_append instance_keys_def split: option.splits)
qed simp

lemma updateInstanceMetadata_keys:
  assumes "f = (\<lambda>inst. inst\<lparr>im_Artifacts := g inst\<rparr>)"
  shows "instance_keys (updateInstanceMetadata insts iname index f) =
    (if (iname, index) \<in> set (instance_keys insts) then instance_keys insts
     else instance_keys insts @ [(iname, index)])"
  unfolding assms by (induction insts) (auto simp: instance_keys_def)

lemma wf_addToMetadata: "wf_metadata meta \<Longrightarrow> wf_metadata (addToMetadata meta ai c)"
  by (auto simp: wf_metadata_def addToMetadata_def updateInstanceMetadata_keys)

text \<open>The entry of the metadata file an identifier selects.\<close>

definition artifact_key :: "artifactIdentifier \<Rightarrow> bool \<times> string \<times> string \<times> string" where
  "artifact_key ai =
     (if ai_hasCustomName ai then (True, '''', '''', ai_name ai)
      else (False, ai_instanceName ai, ai_instanceIndex ai, ai_name ai))"

lemma lookup_addToMetadata:
  "wf_metadata meta \<Longrightarrow> lookupChecksum (addToMetadata meta ai c) ai' =
     (case lookupChecksum meta ai' of
        Some d \<Rightarrow> Some d
      | None \<Rightarrow> if artifact_key ai' = artifact_key ai then Some c else None)"
  by (auto simp: lookupChecksum_def addToMetadata_def artifact_key_def findArtifact_append
      findInstanceArtifact_update wf_metadata_def split: option.splits)

definition recorded :: "('r, 'x) backup_env_scheme \<Rightarrow> BackupDirectory \<Rightarrow> artifactIdentifier \<Rightarrow> 'r world \<Rightarrow> bool" where
  "recorded E bd ai w =
     (case readMetadata E (metadataFilename bd) w of Ok meta \<Rightarrow> lookupChecksum meta ai \<noteq> None | _ \<Rightarrow> False)"

definition wf_directory :: "('r, 'x) backup_env_scheme \<Rightarrow> BackupDirectory \<Rightarrow> 'r world \<Rightarrow> bool" where
  "wf_directory E bd w =
     (case readMetadata E (metadataFilename bd) w of Ok meta \<Rightarrow> wf_metadata meta | _ \<Rightarrow> True)"

lemma metadata_save_quiet: "metadata_save E data f w = (r, w') \<Longrightarrow> quiet w w'"
  by (auto simp: metadata_save_def dest: os_WriteFile_quiet split: result.splits)

lemma AddChecksum_quiet: "AddChecksum E bd ai c w = (r, w') \<Longrightarrow> quiet w w'"
  by (auto simp: AddChecksum_def dest: metadata_save_quiet split: result.splits)

lemma AddChecksum_Ok:
  assumes "AddChecksum E bd ai c w = (Ok (), w')"
  obtains meta contents where "readMetadata E (metadataFilename bd) w = Ok meta"
    "yaml_Marshal E (addToMetadata meta ai c) = Ok contents"
    "fs w' (path_Clean (metadataFilename bd)) = Some (FFile contents)"
  using assms
  by (auto simp: AddChecksum_def metadata_save_def os_WriteFile_def split: result.splits option.splits if_splits)

section \<open>The checksum store\<close>

locale checksum_store =
  fixes add :: "artifactIdentifier \<Rightarrow> BackupChecksum \<Rightarrow> 'w \<Rightarrow> unit result \<times> 'w"
    and fetch :: "artifactIdentifier \<Rightarrow> 'w \<Rightarrow> BackupChecksum result"
    and known :: "artifactIdentifier \<Rightarrow> 'w \<Rightarrow> bool"
    and wf :: "'w \<Rightarrow> bool"
  assumes add_wf: "wf w \<Longrightarrow> add ai c w = (Ok (), w') \<Longrightarrow> wf w'"
    and add_new: "wf w \<Longrightarrow> add ai c w = (Ok (), w') \<Longrightarrow> \<not> known ai w \<Longrightarrow> fetch ai w' = Ok c"
    and add_known: "wf w \<Longrightarrow> add ai c w = (Ok (), w') \<Longrightarrow>
          known ai' w' \<longleftrightarrow> known ai' w \<or> artifact_key ai' = artifact_key ai"
    and add_kept: "wf w \<Longrightarrow> add ai c w = (Ok (), w') \<Longrightarrow> known ai' w \<Longrightarrow> fetch ai' w' = fetch ai' w"
begin

inductive added :: "(artifactIdentifier \<times> BackupChecksum) list \<Rightarrow> 'w \<Rightarrow> 'w \<Rightarrow> bool" where
  added_none: "added [] w w"
| added_one: "add ai c w = (Ok (), w') \<Longrightarrow> added rest w' w'' \<Longrightarrow> added ((ai, c) # rest) w w''"

lemma added_kept: "added xs w w' \<Longrightarrow> wf w \<Longrightarrow> known ai w \<Longrightarrow> known ai w' \<and> fetch ai w' = fetch ai w"
  by (induction rule: added.induct) (simp_all add: add_wf add_kept add_known)

text \<open>After any number of additions under different keys, each one is fetched as it was added.\<close>

lemma added_fetched:
  assumes "added xs w w'" "wf w" "distinct (map (\<lambda>x. artifact_key (fst x)) xs)"
    "\<forall>x \<in> set xs. \<not> known (fst x) w" "(ai, c) \<in> set xs"
  shows "fetch ai w' = Ok c"
  using assms
proof (induction rule: added.induct)
  case (added_one ai1 c1 w w' rest w'')
  note wf' = add_wf [OF added_one.prems(1) added_one.hyps(1)]
  note known' = add_known [OF added_one.prems(1) added_one.hyps(1)]
  show ?case
  proof (cases "(ai, c) = (ai1, c1)")
    case True
    then have "fetch ai w' = Ok c" "known ai w'"
      using added_one.hyps(1) added_one.prems by (simp_all add: add_new known')
    with added_kept [OF added_one.hyps(2) wf'] show ?thesis by simp
  next
    case False
    have fresh: "\<forall>x \<in> set rest. \<not> known (fst x) w'"
    proof
      fix x assume x: "x \<in> set rest"
      then have "artifact_key (fst x) \<in> set (map (\<lambda>x. artifact_key (fst x)) rest)" by simp
      with added_one.prems(2) have "artifact_key (fst x) \<noteq> artifact_key ai1" by (metis distinct.simps(2) fst_conv list.simps(9))
      with x added_one.prems(3) show "\<not> known (fst x) w'" by (simp add: known')
    qed
    from False added_one.prems(4) have "(ai, c) \<in> set rest" by auto
    moreover from added_one.prems(2) have "distinct (map (\<lambda>x. artifact_key (fst x)) rest)" by simp
    ultimately show ?thesis using added_one.IH [OF wf'] fresh by blast
  qed
qed simp

end

text \<open>What the directory asks of its environment: the YAML library reads what it wrote, and the
  metadata file can be read.\<close>

locale metadata_io =
  fixes E :: "('r, 'x) backup_env_scheme"
  assumes yaml_round_trip: "yaml_Marshal E m = Ok contents \<Longrightarrow> yaml_Unmarshal E contents = Ok m"
    and reads_succeed: "os_err E OpRead p f = None"
begin

lemma read_after_add:
  assumes "AddChecksum E bd ai c w = (Ok (), w')"
  obtains meta where "readMetadata E (metadataFilename bd) w = Ok meta"
    "readMetadata E (metadataFilename bd) w' = Ok (addToMetadata meta ai c)"
proof -
  from AddChecksum_Ok [OF assms] obtain meta contents where
    rd: "readMetadata E (metadataFilename bd) w = Ok meta"
    and mar: "yaml_Marshal E (addToMetadata meta ai c) = Ok contents"
    and written: "fs w' (path_Clean (metadataFilename bd)) = Some (FFile contents)" .
  from mar written have "readMetadata E (metadataFilename bd) w' = Ok (addToMetadata meta ai c)"
    by (simp add: readMetadata_def os_read_def reads_succeed yaml_round_trip)
  with rd show thesis by (rule that)
qed

end

sublocale metadata_io \<subseteq> store: checksum_store
  "AddChecksum E bd" "FetchChecksum E bd" "recorded E bd" "wf_directory E bd" for bd
proof (unfold_locales, goal_cases)
  case (1 w ai c w')
  from 1(2) show ?case
    by (rule read_after_add) (use 1(1) in \<open>simp add: wf_directory_def wf_addToMetadata\<close>)
next
  case (2 w ai c w')
  from 2(2) show ?case
    by (rule read_after_add)
      (use 2 in \<open>auto simp: wf_directory_def FetchChecksum_def recorded_def lookup_addToMetadata split: option.splits\<close>)
next
  case (3 w ai c w' ai')
  from 3(2) show ?case
    by (rule read_after_add)
      (use 3 in \<open>auto simp: wf_directory_def recorded_def lookup_addToMetadata split: option.splits\<close>)
next
  case (4 w ai c w' ai')
  from 4(2) show ?case
    by (rule read_after_add)
      (use 4 in \<open>auto simp: wf_directory_def FetchChecksum_def recorded_def lookup_addToMetadata split: option.splits\<close>)
qed

context metadata_io
begin

lemma add_fetch:
  assumes "wf_directory E bd w" "AddChecksum E bd ai c w = (Ok (), w')"
  shows "wf_directory E bd w' \<and> (\<not> recorded E bd ai w \<longrightarrow> FetchChecksum E bd ai w' = Ok c) \<and>
    (\<forall>ai'. recorded E bd ai' w \<longrightarrow> FetchChecksum E bd ai' w' = FetchChecksum E bd ai' w)"
  using store.add_wf [OF assms] store.add_new [OF assms] store.add_kept [OF assms] by blast

end

lemma validCustom_iff:
  "validCustom E bd as w = Ok True \<longleftrightarrow>
     (\<forall>a \<in> set as. case CalculateChecksum E bd (makeCustomArtifactIdentifier a) w of
        Ok c \<Rightarrow> fst (Match (range_ord E) c (am_Checksum a))
      | Err _ \<Rightarrow> am_Checksum a = fmempty
      | Panic _ \<Rightarrow> False)"
proof -
  have empty: "fst (Match it fmempty c) \<longleftrightarrow> c = fmempty" for it c
    by (auto simp: Match_iff fcard.rep_eq) (metis bot_fset.rep_eq fmrestrict_fset_dom fmrestrict_fset_null fset_inverse)
  show ?thesis by (induction as) (simp_all add: empty split: result.splits)
qed

lemma validInstance_iff:
  "validInstance E bd inst as w = Ok True \<longleftrightarrow>
     (\<forall>a \<in> set as. \<exists>c. CalculateChecksum E bd (makeDefaultArtifactIdentifier a inst) w = Ok c \<and>
        fst (Match (range_ord E) c (am_Checksum a)))"
  by (induction as) (simp_all split: result.splits)

lemma validInstances_iff:
  "validInstances E bd insts w = Ok True \<longleftrightarrow>
     (\<forall>inst \<in> set insts. validInstance E bd inst (im_Artifacts inst) w = Ok True)"
  by (induction insts) (auto split: result.splits bool.splits)

section \<open>A sample environment\<close>

text \<open>A codec for a given list of metadata values, which reads back what it wrote.\<close>

fun codec_put :: "metadata list \<Rightarrow> nat \<Rightarrow> metadata \<Rightarrow> string result" where
  "codec_put [] n m = Err (ErrorString ''unsupported'')"
| "codec_put (x # xs) n m = (if m = x then Ok (replicate n (CHR ''x'')) else codec_put xs (Suc n) m)"

definition codec_get :: "metadata list \<Rightarrow> string \<Rightarrow> metadata result" where
  "codec_get ms s = (if length s < length ms then Ok (ms ! length s) else Err (ErrorString ''unsupported''))"

lemma codec_put_Ok: "codec_put ms n m = Ok s \<Longrightarrow> \<exists>i < length ms. s = replicate (n + i) (CHR ''x'') \<and> ms ! i = m"
  by (induction ms n m rule: codec_put.induct) (force split: if_splits)+

lemma codec_round_trip: "codec_put ms 0 m = Ok s \<Longrightarrow> codec_get ms s = Ok m"
  using codec_put_Ok [of ms 0 m s] by (auto simp: codec_get_def)

definition sample_reply :: session_reply where
  "sample_reply = \<lparr>dialErr = None, sessionErr = None, stdoutChunks = [], stderrBytes = '''', runErr = RunOk\<rparr>"

definition sample_backup_env :: "metadata list \<Rightarrow> nat backup_env" where
  "sample_backup_env ms =
     \<lparr>ssh_session = (\<lambda>c cmd stdin r. (sample_reply, r)), parsePrivateKey = (\<lambda>_. None),
      os_err = (\<lambda>_ _ _. None), range_ord = (\<lambda>ks. [0..<length ks]), finish_order = (\<lambda>w n. [0..<n]),
      yaml_Marshal = codec_put ms 0, yaml_Unmarshal = codec_get ms, tar_Entries = (\<lambda>_. []),
      sha256_hex = (\<lambda>s. s), du_output = (\<lambda>_ _. Ok ''1K x''), dir_size = (\<lambda>_. 0), time_Format = Itoa\<rparr>"

definition sample_world :: "(string \<Rightarrow> fnode option) \<Rightarrow> nat world" where
  "sample_world files = \<lparr>fs = files, remote = 0, artifactDirCreated = (\<lambda>_. False), next_instance = 0, events = []\<rparr>"

interpretation sample_io: metadata_io "sample_backup_env ms"
  by unfold_locales (simp_all add: sample_backup_env_def codec_round_trip)

definition sample_artifact :: artifactIdentifier where
  "sample_artifact = \<lparr>ai_name = ''job'', ai_instanceName = ''vm'', ai_instanceIndex = ''0'',
     ai_instanceID = ''id'', ai_hasCustomName = False\<rparr>"

definition sample_metadata :: metadata where
  "sample_metadata = \<lparr>MetadataForEachInstance = [], MetadataForEachArtifact = [],
     MetadataForBackupActivity = \<lparr>StartTime = ''t'', FinishTime = ''''\<rparr>\<rparr>"

section \<open>Properties\<close>

text \<open>Two checksums match, whatever order the maps are walked in, exactly when they have the same
  number of files and every file of the first has the same digest in the second; when no digest
  of the first is empty, they match only if they are the same map. After a mismatch the files
  reported are exactly those of the first whose digests differ.\<close>

theorem checksum_match:
  "fst (Match it b other) = (fcard (fmdom b) = fcard (fmdom other) \<and>
      (\<forall>k. k |\<in>| fmdom b \<longrightarrow> map_get b k = map_get other k)) \<and>
   ('''' |\<notin>| fmran b \<longrightarrow> fst (Match it b other) = (b = other)) \<and>
   (\<not> fst (Match it b other) \<longrightarrow>
      set (snd (Match it b other)) = {k. k |\<in>| fmdom b \<and> map_get b k \<noteq> map_get other k})"
  using Match_iff [of it b other] Match_eq [of it b other] Match_refl [of it] Match_files [of it b other] by blast

theorem checksum_match_witness:
  "fst (Match (\<lambda>ks. [0..<length ks]) (fmupd ''f'' ''d1'' fmempty) (fmupd ''f'' ''d2'' fmempty)) = False \<and>
   set (snd (Match (\<lambda>ks. [0..<length ks]) (fmupd ''f'' ''d1'' fmempty) (fmupd ''f'' ''d2'' fmempty))) = {''f''}"
  using checksum_match [of "\<lambda>ks. [0..<length ks]" "fmupd ''f'' ''d1'' fmempty" "fmupd ''f'' ''d2'' fmempty"]
  by simp

text \<open>C17: with a YAML library that reads back what it wrote and a readable metadata file, a checksum
  that was added for an artifact with none recorded is the one fetched later; every checksum
  that was recorded before stays as it was; and the metadata file keeps one entry per instance.\<close>

theorem checksum_round_trip:
  assumes "\<forall>m contents. yaml_Marshal E m = Ok contents \<longrightarrow> yaml_Unmarshal E contents = Ok m"
    and "\<forall>p f. os_err E OpRead p f = None"
    and "wf_directory E bd w" and "AddChecksum E bd ai c w = (Ok (), w')"
  shows "wf_directory E bd w' \<and> (\<not> recorded E bd ai w \<longrightarrow> FetchChecksum E bd ai w' = Ok c) \<and>
    (\<forall>ai'. recorded E bd ai' w \<longrightarrow> FetchChecksum E bd ai' w' = FetchChecksum E bd ai' w)"
proof -
  have "metadata_io E" using assms(1,2) by unfold_locales blast+
  from metadata_io.add_fetch [OF this assms(3,4)] show ?thesis .
qed

theorem checksum_round_trip_witness:
  "\<exists>(E :: nat backup_env) bd w w'. AddChecksum E bd sample_artifact (fmupd ''f'' ''d'' fmempty) w = (Ok (), w') \<and>
     FetchChecksum E bd sample_artifact w' = Ok (fmupd ''f'' ''d'' fmempty)"
proof -
  let ?c = "fmupd ''f'' ''d'' fmempty"
  let ?E = "sample_backup_env [sample_metadata, addToMetadata sample_metadata sample_artifact ?c]"
  let ?bd = "\<lparr>baseDirName = ''b''\<rparr>"
  let ?w = "sample_world (\<lambda>p. if p = path_Clean (metadataFilename ?bd) then Some (FFile '''') else None)"
  have read: "readMetadata ?E (metadataFilename ?bd) ?w = Ok sample_metadata"
    by (simp add: readMetadata_def os_read_def sample_backup_env_def sample_world_def codec_get_def)
  then have add: "fst (AddChecksum ?E ?bd sample_artifact ?c ?w) = Ok ()"
    by (simp add: AddChecksum_def metadataExistsAndIsReadable_def os_Stat_def metadata_save_def os_WriteFile_def
        sample_backup_env_def sample_world_def)
  from read have wf: "wf_directory ?E ?bd ?w" and new: "\<not> recorded ?E ?bd sample_artifact ?w"
    by (simp_all add: wf_directory_def recorded_def wf_metadata_def sample_metadata_def instance_keys_def
        lookupChecksum_def sample_artifact_def)
  from add have "AddChecksum ?E ?bd sample_artifact ?c ?w = (Ok (), snd (AddChecksum ?E ?bd sample_artifact ?c ?w))"
    by (metis prod.collapse)
  moreover have "\<forall>m contents. yaml_Marshal ?E m = Ok contents \<longrightarrow> yaml_Unmarshal ?E contents = Ok m"
    "\<forall>p f. os_err ?E OpRead p f = None"
    using sample_io.yaml_round_trip sample_io.reads_succeed by blast+
  ultimately show ?thesis using checksum_round_trip [OF _ _ wf] new by blast
qed

text \<open>C23: a backup is reported valid exactly when its metadata can be read, every artifact of every
  instance can be read and its recomputed digests match the recorded ones, and the same holds for
  every custom artifact, except that a custom artifact whose file cannot be read passes if
  nothing was recorded for it.\<close>

theorem valid_iff:
  "Valid E bd w = Ok True \<longleftrightarrow>
     (\<exists>meta. readMetadata E (metadataFilename bd) w = Ok meta \<and>
        (\<forall>inst \<in> set (MetadataForEachInstance meta). \<forall>a \<in> set (im_Artifacts inst).
           \<exists>c. CalculateChecksum E bd (makeDefaultArtifactIdentifier a inst) w = Ok c \<and>
             fst (Match (range_ord E) c (am_Checksum a))) \<and>
        (\<forall>a \<in> set (MetadataForEachArtifact meta).
           case CalculateChecksum E bd (makeCustomArtifactIdentifier a) w of
             Ok c \<Rightarrow> fst (Match (range_ord E) c (am_Checksum a))
           | Err _ \<Rightarrow> am_Checksum a = fmempty
           | Panic _ \<Rightarrow> False))"
proof (cases "readMetadata E (metadataFilename bd) w")
  case (Ok meta)
  then have "Valid E bd w = Ok True \<longleftrightarrow> validCustom E bd (MetadataForEachArtifact meta) w = Ok True \<and>
      validInstances E bd (MetadataForEachInstance meta) w = Ok True"
    by (simp add: Valid_def split: result.splits bool.splits)
  then show ?thesis unfolding validInstances_iff validInstance_iff validCustom_iff using Ok by auto
qed (simp_all add: Valid_def)

theorem valid_iff_witness:
  "Valid (sample_backup_env [sample_metadata]) \<lparr>baseDirName = ''b''\<rparr>
     (sample_world (\<lambda>p. if p = ''b/metadata'' then Some (FFile '''') else None)) = Ok True"
  unfolding valid_iff
proof (intro exI conjI)
  show "readMetadata (sample_backup_env [sample_metadata]) (metadataFilename \<lparr>baseDirName = ''b''\<rparr>)
     (sample_world (\<lambda>p. if p = ''b/metadata'' then Some (FFile '''') else None)) = Ok sample_metadata"
    by code_simp
qed (simp_all add: sample_metadata_def)

text \<open>The file names of two different artifacts can be the same: the parts of a name are joined
  with dashes that the parts may contain themselves.\<close>

theorem artifact_files_collide:
  "\<exists>a b. artifact_key a \<noteq> artifact_key b \<and> fileName a = fileName b"
  by (intro exI [of _ "sample_artifact\<lparr>ai_instanceName := ''vm-0'', ai_instanceIndex := ''1''\<rparr>"]
      exI [of _ "sample_artifact\<lparr>ai_name := ''1-job''\<rparr>"]) code_simp

end
