(* ===== verification/Ssh.thy ===== *)
theory Ssh
  imports World
begin

text \<open>
  The SSH layer: \<^verbatim>\<open>ssh/connection.go\<close> and \<^verbatim>\<open>ssh/remote_runner.go\<close>.

  A session of the SSH library is the parameter \<open>ssh_session\<close>. Standard output goes to a
  writer, a function on a state of its own and the world, so that a write error ends the
  session as \<^verbatim>\<open>sessionClosingOnErrorWriter\<close> does. The keep-alive goroutine, which does not
  change what a session returns, is in the theory \<open>Ssh_Concurrency\<close>; the steps of a session are in
  \<open>Ssh_Session\<close>. The commands are the exact
  strings the source builds; each one that reaches a session is recorded in the history.
\<close>

section \<open>Connections\<close>

definition defaultToSSHPort :: "string \<Rightarrow> string" where
  "defaultToSSHPort host =
     (let parts = Split (CHR '':'') host
      in if length parts = 2 then host else host @ '':22'')"

definition NewConnection ::
  "('r, 'x) env_scheme \<Rightarrow> string \<Rightarrow> string \<Rightarrow> string \<Rightarrow> string option \<Rightarrow> string list \<Rightarrow> Connection result" where
  "NewConnection E hostName userName privateKey hostKey algorithms =
     (case parsePrivateKey E privateKey of
        Some e \<Rightarrow> Err (WithMessage e ''ssh.NewConnection.ParsePrivateKey failed'')
      | None \<Rightarrow> Ok \<lparr>conn_host = defaultToSSHPort hostName, conn_User = userName,
          conn_privateKey = privateKey, conn_hostKey = hostKey, conn_hostKeyAlgorithms = algorithms\<rparr>)"

type_synonym ('s, 'r) writer = "string \<Rightarrow> 's \<times> 'r world \<Rightarrow> unit result \<times> ('s \<times> 'r world)"

text \<open>The library copies standard output chunk by chunk until a write fails.\<close>

fun feed :: "('s, 'r) writer \<Rightarrow> string list \<Rightarrow> 's \<times> 'r world \<Rightarrow> unit result \<times> ('s \<times> 'r world)" where
  "feed wr [] \<sigma> = (Ok (), \<sigma>)"
| "feed wr (p # ps) \<sigma> = bindr (wr p) (\<lambda>_. feed wr ps) \<sigma>"

definition bytes_Buffer :: "(string, 'r) writer" where
  "bytes_Buffer p = (\<lambda>(buf, w). (Ok (), (buf @ p, w)))"

definition io_Discard :: "(unit, 'r) writer" where
  "io_Discard p = (\<lambda>\<sigma>. (Ok (), \<sigma>))"

definition session_command :: "Connection \<Rightarrow> string \<Rightarrow> event" where
  "session_command c cmd = SshCommand (conn_host c) (conn_User c) cmd"

fun run_outcome :: "run_error \<Rightarrow> int result" where
  "run_outcome RunOk = Ok 0"
| "run_outcome RunEOF = Ok 0"
| "run_outcome (RunExitError n) = Ok n"
| "run_outcome (RunExitMissing m) =
     Err (WithMessage (ErrorString m) ''ssh session ended before returning an exit code'')"
| "run_outcome (RunOther m) = Err (WithMessage (ErrorString m) ''ssh.Session.Run failed'')"

text \<open>Exit code (the source returns \<open>-1\<close> with every error), standard error, writer state, world.\<close>

definition runInSession ::
  "('r, 'x) env_scheme \<Rightarrow> Connection \<Rightarrow> string \<Rightarrow> ('s, 'r) writer \<Rightarrow> string \<Rightarrow> 's \<Rightarrow> 'r world \<Rightarrow>
     int result \<times> string \<times> 's \<times> 'r world" where
  "runInSession E c cmd wr stdin s w =
     (let (rep, r') = ssh_session E c cmd stdin (remote w);
          w1 = w\<lparr>remote := r'\<rparr>
      in case dialErr rep of
           Some e \<Rightarrow> (Err (WithMessage e ''ssh.Dial failed''), '''', s, w1)
         | None \<Rightarrow>
             (case sessionErr rep of
                Some e \<Rightarrow> (Err (WithMessage e ''ssh.NewSession failed''), '''', s, w1)
              | None \<Rightarrow>
                  (let (wres, s', w2) = feed wr (stdoutChunks rep) (s, log_event (session_command c cmd) w1)
                   in case wres of
                        Panic p \<Rightarrow> (Panic p, stderrBytes rep, s', w2)
                      | Err e \<Rightarrow> (Err (WithMessage e ''stdout.Write failed''), stderrBytes rep, s', w2)
                      | Ok _ \<Rightarrow> (run_outcome (runErr rep), stderrBytes rep, s', w2))))"

definition Connection_Stream ::
  "('r, 'x) env_scheme \<Rightarrow> Connection \<Rightarrow> string \<Rightarrow> ('s, 'r) writer \<Rightarrow> 's \<Rightarrow> 'r world \<Rightarrow>
     int result \<times> string \<times> 's \<times> 'r world" where
  "Connection_Stream E c cmd wr s w =
     (let (res, stderr, s', w') = runInSession E c cmd wr '''' s w
      in (wrap_result ''ssh.Stream failed'' res, stderr, s', w'))"

definition Connection_Run ::
  "('r, 'x) env_scheme \<Rightarrow> Connection \<Rightarrow> string \<Rightarrow> 'r world \<Rightarrow> int result \<times> string \<times> string \<times> 'r world" where
  "Connection_Run E c cmd w =
     (let (res, stderr, stdout, w') = Connection_Stream E c cmd bytes_Buffer '''' w
      in (wrap_result ''ssh.Run failed'' res, stdout, stderr, w'))"

definition Connection_StreamStdin ::
  "('r, 'x) env_scheme \<Rightarrow> Connection \<Rightarrow> string \<Rightarrow> string \<Rightarrow> 'r world \<Rightarrow> int result \<times> string \<times> string \<times> 'r world" where
  "Connection_StreamStdin E c cmd stdin w =
     (let (res, stderr, stdout, w') = runInSession E c cmd bytes_Buffer stdin '''' w
      in (wrap_result ''ssh.StreamStdin failed'' res, stdout, stderr, w'))"

section \<open>The remote runner\<close>

definition exitError :: "string \<Rightarrow> int \<Rightarrow> goerror" where
  "exitError stderr exitCode = ErrorString (TrimSpace stderr @ '' - exit code '' @ Itoa exitCode)"

fun logAndCheckErrors :: "string \<Rightarrow> int result \<Rightarrow> unit result" where
  "logAndCheckErrors stderr (Err e) = Err e"
| "logAndCheckErrors stderr (Panic p) = Panic p"
| "logAndCheckErrors stderr (Ok exitCode) =
     (if exitCode \<noteq> 0 then Err (exitError stderr exitCode) else Ok ())"

definition runOnInstance :: "('r, 'x) env_scheme \<Rightarrow> Connection \<Rightarrow> string \<Rightarrow> ('r, string) io" where
  "runOnInstance E r cmd w =
     (let (res, stdout, stderr, w') = Connection_Run E r cmd w
      in case logAndCheckErrors stderr res of
           Ok _ \<Rightarrow> (Ok stdout, w')
         | Err e \<Rightarrow> (Err e, w')
         | Panic p \<Rightarrow> (Panic p, w'))"

definition ConnectedUsername :: "Connection \<Rightarrow> string" where
  "ConnectedUsername r = conn_User r"

definition DirectoryExists :: "('r, 'x) env_scheme \<Rightarrow> Connection \<Rightarrow> string \<Rightarrow> ('r, bool) io" where
  "DirectoryExists E r dir w =
     (let (res, stdout, stderr, w') = Connection_Run E r (''sudo stat '' @ dir) w
      in (map_result (\<lambda>exitCode. exitCode = 0) res, w'))"

definition CreateDirectory :: "('r, 'x) env_scheme \<Rightarrow> Connection \<Rightarrow> string \<Rightarrow> ('r, unit) io" where
  "CreateDirectory E r directory = bindr (runOnInstance E r (''sudo mkdir -p '' @ directory)) (\<lambda>_ w. (Ok (), w))"

definition RemoveDirectory :: "('r, 'x) env_scheme \<Rightarrow> Connection \<Rightarrow> string \<Rightarrow> ('r, unit) io" where
  "RemoveDirectory E r dir = bindr (runOnInstance E r (''sudo rm -rf '' @ dir)) (\<lambda>_ w. (Ok (), w))"

definition ArchiveAndDownload ::
  "('r, 'x) env_scheme \<Rightarrow> Connection \<Rightarrow> string \<Rightarrow> ('s, 'r) writer \<Rightarrow> 's \<Rightarrow> 'r world \<Rightarrow> unit result \<times> 's \<times> 'r world" where
  "ArchiveAndDownload E r directory wr s w =
     (let (res, stderr, s', w') = Connection_Stream E r (''sudo tar -C '' @ directory @ '' -c .'') wr s w
      in (logAndCheckErrors stderr res, s', w'))"

definition ExtractAndUpload :: "('r, 'x) env_scheme \<Rightarrow> Connection \<Rightarrow> string \<Rightarrow> string \<Rightarrow> ('r, unit) io" where
  "ExtractAndUpload E r stdin directory w =
     (let (res, stdout, stderr, w') =
            Connection_StreamStdin E r (''sudo sh -c '' @ [CHR 0x27] @ ''tar -C '' @ directory @ '' -x'' @ [CHR 0x27]) stdin w
      in (logAndCheckErrors stderr res, w'))"

text \<open>\<open>xs[0]\<close> of an empty slice panics.\<close>

fun index_zero :: "string list \<Rightarrow> string result" where
  "index_zero [] = Panic ''index out of range [0] with length 0''"
| "index_zero (x # xs) = Ok x"

definition SizeOf :: "('r, 'x) env_scheme \<Rightarrow> Connection \<Rightarrow> string \<Rightarrow> ('r, string) io" where
  "SizeOf E r path = bindr (runOnInstance E r (''sudo du -sh '' @ path)) (\<lambda>stdout w. (index_zero (Fields stdout), w))"

definition SizeInBytes :: "('r, 'x) env_scheme \<Rightarrow> Connection \<Rightarrow> string \<Rightarrow> ('r, int) io" where
  "SizeInBytes E r path =
     bindr (runOnInstance E r (''sudo du -s '' @ path)) (\<lambda>stdout w.
       (case index_zero (Fields stdout) of
          Ok sizeString \<Rightarrow>
            (case Atoi sizeString of
               None \<Rightarrow> Err (ErrorString (''expected <'' @ sizeString @
                         ''> to be a number of bytes: failed to convert it to int''))
             | Some kib \<Rightarrow> Ok (wrap64 (kib * 1024)))
        | Err e \<Rightarrow> Err e
        | Panic p \<Rightarrow> Panic p, w))"

fun shaLines :: "string list \<Rightarrow> (string, string) fmap \<Rightarrow> (string, string) fmap result" where
  "shaLines [] mapOfSha = Ok mapOfSha"
| "shaLines (line # rest) mapOfSha =
     (case SplitN (CHR '' '') 2 line of
        [sha, rhs] \<Rightarrow>
          (let filename = TrimSpace rhs
           in if filename = ''-'' then shaLines rest mapOfSha
              else shaLines rest (fmupd filename sha mapOfSha))
      | _ \<Rightarrow> Panic ''index out of range [1] with length 1'')"

definition convertShasToMap :: "string \<Rightarrow> (string, string) fmap result" where
  "convertShasToMap shas =
     (let shas' = TrimSpace shas
      in if shas' = '''' then Ok fmempty else shaLines (Split (CHR 0x0A) shas') fmempty)"

definition ChecksumDirectory :: "('r, 'x) env_scheme \<Rightarrow> Connection \<Rightarrow> string \<Rightarrow> ('r, (string, string) fmap) io" where
  "ChecksumDirectory E r path =
     bindr (runOnInstance E r (''sudo sh -c '' @ [CHR 0x27] @ ''cd '' @ path @
              '' && find . -type f | xargs shasum -a 256'' @ [CHR 0x27]))
       (\<lambda>stdout w. (convertShasToMap stdout, w))"

definition varsList :: "range_order \<Rightarrow> (string, string) fmap \<Rightarrow> string" where
  "varsList it vars = concat (map (\<lambda>varName. varName @ ''='' @ map_get vars varName @ '' '') (range_keys it vars))"

definition RunScriptWithEnv ::
  "('r, 'x) env_scheme \<Rightarrow> Connection \<Rightarrow> string \<Rightarrow> (string, string) fmap \<Rightarrow> ('s, 'r) writer \<Rightarrow> 's \<Rightarrow> 'r world \<Rightarrow>
     unit result \<times> 's \<times> 'r world" where
  "RunScriptWithEnv E r path vars wr s w =
     (let (res, stderr, s', w') = Connection_Stream E r (''sudo '' @ varsList (range_ord E) vars @ path) wr s w
      in (case res of
            Err e \<Rightarrow> Err e
          | Panic p \<Rightarrow> Panic p
          | Ok exitCode \<Rightarrow> if exitCode \<noteq> 0 then Err (exitError stderr exitCode) else Ok (), s', w'))"

text \<open>A script whose standard output is discarded.\<close>

definition RunScriptQuietly :: "('r, 'x) env_scheme \<Rightarrow> Connection \<Rightarrow> string \<Rightarrow> (string, string) fmap \<Rightarrow> ('r, unit) io" where
  "RunScriptQuietly E r path vars w =
     (let (res, _, w') = RunScriptWithEnv E r path vars io_Discard () w in (res, w'))"

definition RunScript :: "('r, 'x) env_scheme \<Rightarrow> Connection \<Rightarrow> string \<Rightarrow> ('r, unit) io" where
  "RunScript E r path = RunScriptQuietly E r path fmempty"

definition FindFiles :: "('r, 'x) env_scheme \<Rightarrow> Connection \<Rightarrow> string \<Rightarrow> ('r, string list) io" where
  "FindFiles E r pattern w =
     (let (res, stdout, stderr, w') =
            Connection_Run E r (''sudo sh -c '' @ [CHR 0x27] @ ''find '' @ pattern @ '' -type f'' @ [CHR 0x27]) w
      in (case res of
            Err e \<Rightarrow> Err e
          | Panic p \<Rightarrow> Panic p
          | Ok exitCode \<Rightarrow>
              if exitCode \<noteq> 0 then
                (if Contains stderr ''No such file or directory'' then Ok []
                 else Err (exitError stderr exitCode))
              else Ok (Split (CHR 0x0A) (TrimSpace stdout)), w'))"

definition IsWindows :: "('r, 'x) env_scheme \<Rightarrow> Connection \<Rightarrow> ('r, bool) io" where
  "IsWindows E r w =
     (let (res, stdout, stderr, w') = Connection_Run E r ''echo %OS%'' w
      in (map_result (\<lambda>_. TrimSpace stdout = ''Windows_NT'') res, w'))"

section \<open>Lemmas\<close>

text \<open>
  \<open>ran c cmd w w'\<close>: the step opened at most one session, for the command \<open>cmd\<close> on
  connection \<open>c\<close>, and touched nothing local; \<open>did\<close> says that the session was opened.
\<close>

definition ran :: "Connection \<Rightarrow> string \<Rightarrow> 'r world \<Rightarrow> 'r world \<Rightarrow> bool" where
  "ran c cmd w w' \<longleftrightarrow> fs w' = fs w \<and> artifactDirCreated w' = artifactDirCreated w \<and>
     next_instance w' = next_instance w \<and>
     (events w' = events w \<or> events w' = events w @ [session_command c cmd])"

definition did :: "Connection \<Rightarrow> string \<Rightarrow> 'r world \<Rightarrow> 'r world \<Rightarrow> bool" where
  "did c cmd w w' \<longleftrightarrow> ran c cmd w w' \<and> events w' = events w @ [session_command c cmd]"

lemma ran_grows: "ran c cmd w w' \<Longrightarrow> grows w w'"
  by (auto simp: ran_def grows_def)

lemma did_ran: "did c cmd w w' \<Longrightarrow> ran c cmd w w'"
  by (simp add: did_def)

lemma did_events: "did c cmd w w' \<Longrightarrow> events w' = events w @ [session_command c cmd]"
  by (simp add: did_def)

lemma feed_bytes_Buffer [simp]: "feed bytes_Buffer ps (buf, w) = (Ok (), (buf @ concat ps, w))"
  by (induction ps arbitrary: buf) (auto simp: bytes_Buffer_def bindr_def)

lemma feed_io_Discard [simp]: "feed io_Discard ps \<sigma> = (Ok (), \<sigma>)"
  by (induction ps) (auto simp: io_Discard_def bindr_def)

lemma run_outcome_no_panic [simp]: "run_outcome e \<noteq> Panic p"
  by (cases e) auto

lemma runInSession_frame:
  assumes "runInSession E c cmd wr stdin s w = (res, stderr, s', w')"
    and "\<And>ps s w. \<exists>s'. feed wr ps (s, w) = (Ok (), (s', w))"
  shows "ran c cmd w w' \<and> (\<forall>n. res = Ok n \<longrightarrow> did c cmd w w') \<and> (\<forall>p. res \<noteq> Panic p)"
proof -
  obtain rep r' where rep: "ssh_session E c cmd stdin (remote w) = (rep, r')" by fastforce
  let ?w = "log_event (session_command c cmd) (w\<lparr>remote := r'\<rparr>)"
  obtain s2 where fd: "feed wr (stdoutChunks rep) (s, ?w) = (Ok (), s2, ?w)"
    using assms(2) by blast
  from assms(1) rep fd show ?thesis
    by (auto simp: runInSession_def ran_def did_def log_event_def split: option.splits)
qed

lemma runInSession_buffer:
  assumes "runInSession E c cmd bytes_Buffer stdin b w = (res, stderr, s', w')"
  shows "ran c cmd w w' \<and> (\<forall>n. res = Ok n \<longrightarrow> did c cmd w w') \<and> (\<forall>p. res \<noteq> Panic p)"
  by (rule runInSession_frame [OF assms]) simp

lemma runInSession_discard:
  assumes "runInSession E c cmd io_Discard stdin u w = (res, stderr, u', w')"
  shows "ran c cmd w w' \<and> (\<forall>n. res = Ok n \<longrightarrow> did c cmd w w') \<and> (\<forall>p. res \<noteq> Panic p)"
  by (rule runInSession_frame [OF assms]) simp

lemma Connection_Run_frame:
  assumes "Connection_Run E c cmd w = (res, stdout, stderr, w')"
  shows "ran c cmd w w' \<and> (\<forall>n. res = Ok n \<longrightarrow> did c cmd w w') \<and> (\<forall>p. res \<noteq> Panic p)"
  using assms runInSession_buffer [of E c cmd "''''" "''''" w]
  by (auto simp: Connection_Run_def Connection_Stream_def split: prod.splits)

lemma Connection_StreamStdin_frame:
  assumes "Connection_StreamStdin E c cmd stdin w = (res, stdout, stderr, w')"
  shows "ran c cmd w w' \<and> (\<forall>n. res = Ok n \<longrightarrow> did c cmd w w') \<and> (\<forall>p. res \<noteq> Panic p)"
  using assms runInSession_buffer [of E c cmd stdin "''''" w]
  by (auto simp: Connection_StreamStdin_def split: prod.splits)

lemma logAndCheckErrors_Ok [simp]: "logAndCheckErrors stderr res = Ok u \<longleftrightarrow> res = Ok 0"
  by (cases res) auto

lemma logAndCheckErrors_Panic [simp]: "logAndCheckErrors stderr res = Panic p \<longleftrightarrow> res = Panic p"
  by (cases res) auto

lemma runOnInstance_frame:
  assumes "runOnInstance E c cmd w = (res, w')"
  shows "ran c cmd w w' \<and> (\<forall>out. res = Ok out \<longrightarrow> did c cmd w w') \<and> (\<forall>p. res \<noteq> Panic p)"
  using assms Connection_Run_frame [of E c cmd w]
  by (auto simp: runOnInstance_def split: prod.splits result.splits)

lemma CreateDirectory_frame:
  assumes "CreateDirectory E c d w = (res, w')"
  shows "ran c (''sudo mkdir -p '' @ d) w w' \<and> (\<forall>u. res = Ok u \<longrightarrow> did c (''sudo mkdir -p '' @ d) w w') \<and>
    (\<forall>p. res \<noteq> Panic p)"
  using assms runOnInstance_frame [of E c "''sudo mkdir -p '' @ d" w]
  by (auto simp: CreateDirectory_def elim!: bindrE)

lemma RemoveDirectory_frame:
  assumes "RemoveDirectory E c d w = (res, w')"
  shows "ran c (''sudo rm -rf '' @ d) w w' \<and> (\<forall>u. res = Ok u \<longrightarrow> did c (''sudo rm -rf '' @ d) w w') \<and>
    (\<forall>p. res \<noteq> Panic p)"
  using assms runOnInstance_frame [of E c "''sudo rm -rf '' @ d" w]
  by (auto simp: RemoveDirectory_def elim!: bindrE)

lemma RunScriptQuietly_frame:
  assumes "RunScriptQuietly E c path vars w = (res, w')"
  shows "ran c (''sudo '' @ varsList (range_ord E) vars @ path) w w' \<and>
    (\<forall>u. res = Ok u \<longrightarrow> did c (''sudo '' @ varsList (range_ord E) vars @ path) w w') \<and> (\<forall>p. res \<noteq> Panic p)"
  using assms runInSession_discard [of E c "''sudo '' @ varsList (range_ord E) vars @ path" "''''" "()" w]
  by (auto simp: RunScriptQuietly_def RunScriptWithEnv_def Connection_Stream_def
      split: prod.splits result.splits if_splits)

lemma ran_adds: "ran c cmd w w' \<Longrightarrow> \<exists>h. adds h w w' \<and> set h \<subseteq> {session_command c cmd}"
  unfolding ran_def adds_def by (metis append_Nil2 empty_set empty_subsetI list.simps(15) order_refl)

lemma did_adds: "did c cmd w w' \<Longrightarrow> adds [session_command c cmd] w w'"
  by (simp add: did_def ran_def adds_def)

lemma stays_runOnInstance [history_intros]: "session_command c cmd \<in> S \<Longrightarrow> stays (runOnInstance E c cmd) S"
  unfolding stays_def using runOnInstance_frame ran_adds by (metis empty_subsetI insert_subset order_trans)

lemma does_runOnInstance: "does (runOnInstance E c cmd) [session_command c cmd]"
  unfolding does_def using runOnInstance_frame did_adds by blast

lemma stays_Connection_StreamStdin:
  "Connection_StreamStdin E c cmd stdin w = (res, stdout, stderr, w') \<Longrightarrow> \<exists>h. adds h w w' \<and> set h \<subseteq> {session_command c cmd}"
  using Connection_StreamStdin_frame ran_adds by blast

text \<open>A session whose writer changes local files only.\<close>

lemma feed_quiet:
  assumes "\<And>p s w r s' w'. wr p (s, w) = (r, (s', w')) \<Longrightarrow> quiet w w'"
  shows "feed wr ps (s, w) = (r, (s', w')) \<Longrightarrow> quiet w w'"
proof (induction ps arbitrary: s w)
  case (Cons p ps)
  from Cons.prems have "bindr (wr p) (\<lambda>_. feed wr ps) (s, w) = (r, (s', w'))" by simp
  then show ?case
  proof (cases rule: bindrE)
    case (ok x \<sigma>)
    then show ?thesis using Cons.IH assms by (cases \<sigma>) (blast intro: quiet_trans)
  qed (use assms in blast)+
qed simp

lemma runInSession_adds:
  assumes "runInSession E c cmd wr stdin s w = (res, stderr, s', w')"
    and wr: "\<And>p s w r s' w'. wr p (s, w) = (r, (s', w')) \<Longrightarrow> quiet w w'"
  shows "(\<exists>h. adds h w w' \<and> set h \<subseteq> {session_command c cmd}) \<and>
    (\<forall>n. res = Ok n \<longrightarrow> adds [session_command c cmd] w w')"
proof -
  obtain rep r' where rep: "ssh_session E c cmd stdin (remote w) = (rep, r')" by fastforce
  let ?w = "log_event (session_command c cmd) (w\<lparr>remote := r'\<rparr>)"
  obtain wres s2 w2 where fd: "feed wr (stdoutChunks rep) (s, ?w) = (wres, s2, w2)" by (metis prod_cases3)
  from feed_quiet [OF wr fd] have w2: "adds [session_command c cmd] w w2"
    by (simp add: adds_def quiet_def log_event_def)
  consider "w' = w\<lparr>remote := r'\<rparr>" "\<forall>n. res \<noteq> Ok n" | "w' = w2"
    using assms(1) rep fd
    by (auto simp: runInSession_def split: option.splits result.splits prod.splits)
  then show ?thesis
  proof cases
    case 1
    then have "adds [] w w'" by (simp add: adds_def)
    with 1(2) show ?thesis by fastforce
  qed (use w2 in \<open>auto intro!: exI [of _ "[session_command c cmd]"]\<close>)
qed

lemma varsList_empty [simp]: "varsList it fmempty = ''''"
  by (simp add: varsList_def range_keys_def map_keys_def sorted_list_of_fset.rep_eq)

lemma RunScript_frame:
  assumes "RunScript E c path w = (res, w')"
  shows "ran c (''sudo '' @ path) w w' \<and> (\<forall>u. res = Ok u \<longrightarrow> did c (''sudo '' @ path) w w') \<and>
    (\<forall>p. res \<noteq> Panic p)"
  using RunScriptQuietly_frame [of E c path fmempty w res w'] assms by (simp add: RunScript_def)

end
