(* ===== verification/Scripts.thy ===== *)
theory Scripts
  imports Errors
begin

text \<open>
  The scripts a job may carry: \<^verbatim>\<open>instance/script.go\<close> and \<^verbatim>\<open>instance/scripts.go\<close>.
  A \<^verbatim>\<open>Script\<close> is the path of a file found on an instance; its kind is decided by matching
  glob patterns, its job by cutting the path.
\<close>

section \<open>Script paths\<close>

type_synonym Script = string

definition backupScriptName :: string where "backupScriptName = ''backup''"
definition restoreScriptName :: string where "restoreScriptName = ''restore''"
definition metadataScriptName :: string where "metadataScriptName = ''metadata''"
definition preBackupLockScriptName :: string where "preBackupLockScriptName = ''pre-backup-lock''"
definition preRestoreLockScriptName :: string where "preRestoreLockScriptName = ''pre-restore-lock''"
definition postBackupUnlockScriptName :: string where
  "postBackupUnlockScriptName = ''post-backup-unlock''"
definition postRestoreUnlockScriptName :: string where
  "postRestoreUnlockScriptName = ''post-restore-unlock''"

definition jobBaseDirectory :: string where "jobBaseDirectory = ''/var/vcap/jobs/''"
definition jobDirectoryMatcher :: string where
  "jobDirectoryMatcher = jobBaseDirectory @ ''*/bin/bbr/''"
definition mySQLBackupScriptMatcher :: string where
  "mySQLBackupScriptMatcher = jobBaseDirectory @ ''mysql-backup/bin/bbr/*''"
definition mySQLRestoreScriptMatcher :: string where
  "mySQLRestoreScriptMatcher = jobBaseDirectory @ ''mysql-restore/bin/bbr/*''"

definition isBackup :: "Script \<Rightarrow> bool" where
  "isBackup s = filepath_Match (jobDirectoryMatcher @ backupScriptName) s"

definition isRestore :: "Script \<Rightarrow> bool" where
  "isRestore s = filepath_Match (jobDirectoryMatcher @ restoreScriptName) s"

definition isMetadata :: "Script \<Rightarrow> bool" where
  "isMetadata s = filepath_Match (jobDirectoryMatcher @ metadataScriptName) s"

definition isPreBackupUnlock :: "Script \<Rightarrow> bool" where
  "isPreBackupUnlock s = filepath_Match (jobDirectoryMatcher @ preBackupLockScriptName) s"

definition isPreRestoreLock :: "Script \<Rightarrow> bool" where
  "isPreRestoreLock s = filepath_Match (jobDirectoryMatcher @ preRestoreLockScriptName) s"

definition isPostBackupUnlock :: "Script \<Rightarrow> bool" where
  "isPostBackupUnlock s = filepath_Match (jobDirectoryMatcher @ postBackupUnlockScriptName) s"

definition isPostRestoreUnlock :: "Script \<Rightarrow> bool" where
  "isPostRestoreUnlock s = filepath_Match (jobDirectoryMatcher @ postRestoreUnlockScriptName) s"

definition isMySQLScript :: "Script \<Rightarrow> bool" where
  "isMySQLScript s \<longleftrightarrow>
     filepath_Match mySQLBackupScriptMatcher s \<or> filepath_Match mySQLRestoreScriptMatcher s"

definition isPlatformScript :: "Script \<Rightarrow> bool" where
  "isPlatformScript s \<longleftrightarrow>
     (if isMySQLScript s then False
      else isBackup s \<or> isRestore s \<or> isPreBackupUnlock s \<or> isPreRestoreLock s \<or>
           isPostBackupUnlock s \<or> isPostRestoreUnlock s \<or> isMetadata s)"

definition splitPath :: "Script \<Rightarrow> string list" where
  "splitPath s = SplitN (CHR ''/'') 4 (TrimPrefix s jobBaseDirectory)"

definition Script_JobName :: "Script \<Rightarrow> string" where
  "Script_JobName s = splitPath s ! 0"

definition Script_Name :: "Script \<Rightarrow> string" where
  "Script_Name s = splitPath s ! (length (splitPath s) - 1)"

section \<open>Lists of scripts\<close>

type_synonym BackupAndRestoreScripts = "Script list"

fun NewBackupAndRestoreScripts :: "string list \<Rightarrow> BackupAndRestoreScripts" where
  "NewBackupAndRestoreScripts [] = []"
| "NewBackupAndRestoreScripts (s # files) =
     (if isPlatformScript s then s # NewBackupAndRestoreScripts files
      else NewBackupAndRestoreScripts files)"

definition firstOrBlank :: "BackupAndRestoreScripts \<Rightarrow> Script" where
  "firstOrBlank s = (case s of [] \<Rightarrow> '''' | x # _ \<Rightarrow> x)"

definition BackupOnly :: "BackupAndRestoreScripts \<Rightarrow> BackupAndRestoreScripts" where
  "BackupOnly s = filter isBackup s"

definition HasBackup :: "BackupAndRestoreScripts \<Rightarrow> bool" where
  "HasBackup s \<longleftrightarrow> length (BackupOnly s) > 0"

definition MetadataOnly :: "BackupAndRestoreScripts \<Rightarrow> BackupAndRestoreScripts" where
  "MetadataOnly s = filter isMetadata s"

definition RestoreOnly :: "BackupAndRestoreScripts \<Rightarrow> BackupAndRestoreScripts" where
  "RestoreOnly s = filter isRestore s"

definition PreBackupLockOnly :: "BackupAndRestoreScripts \<Rightarrow> BackupAndRestoreScripts" where
  "PreBackupLockOnly s = filter isPreBackupUnlock s"

definition PreRestoreLockOnly :: "BackupAndRestoreScripts \<Rightarrow> BackupAndRestoreScripts" where
  "PreRestoreLockOnly s = filter isPreRestoreLock s"

definition PostBackupUnlockOnly :: "BackupAndRestoreScripts \<Rightarrow> BackupAndRestoreScripts" where
  "PostBackupUnlockOnly s = filter isPostBackupUnlock s"

fun SinglePostRestoreUnlockScript :: "BackupAndRestoreScripts \<Rightarrow> Script" where
  "SinglePostRestoreUnlockScript [] = ''''"
| "SinglePostRestoreUnlockScript (script # s) =
     (if isPostRestoreUnlock script then script else SinglePostRestoreUnlockScript s)"

section \<open>Lemmas\<close>

text \<open>The path of the script \<open>n\<close> of job \<open>j\<close>.\<close>

definition script_path :: "string \<Rightarrow> string \<Rightarrow> Script" where
  "script_path j n = jobBaseDirectory @ j @ ''/bin/bbr/'' @ n"

lemmas script_names = backupScriptName_def restoreScriptName_def metadataScriptName_def
  preBackupLockScriptName_def preRestoreLockScriptName_def postBackupUnlockScriptName_def
  postRestoreUnlockScriptName_def

lemmas script_kinds = isBackup_def isRestore_def isMetadata_def isPreBackupUnlock_def
  isPreRestoreLock_def isPostBackupUnlock_def isPostRestoreUnlock_def

lemma cut_unique:
  assumes "a @ c # x = b @ c # y" "c \<notin> set a" "c \<notin> set b"
  shows "a = b \<and> x = y"
  using assms
proof (induction a arbitrary: b)
  case Nil then show ?case by (cases b) auto
next
  case (Cons z a) then show ?case by (cases b) auto
qed

lemma matcher_iff:
  assumes "CHR ''*'' \<notin> set n"
  shows "filepath_Match (jobDirectoryMatcher @ n) s \<longleftrightarrow> (\<exists>j. CHR ''/'' \<notin> set j \<and> s = script_path j n)"
proof -
  have lit: "CHR ''*'' \<notin> set jobBaseDirectory" by (simp add: jobBaseDirectory_def)
  have suf: "CHR ''*'' \<notin> set (''/bin/bbr/'' @ n)" using assms by simp
  have eq: "jobDirectoryMatcher @ n = jobBaseDirectory @ CHR ''*'' # (''/bin/bbr/'' @ n)"
    by (simp add: jobDirectoryMatcher_def)
  show ?thesis
    unfolding eq filepath_Match_literal [OF lit] filepath_Match_star filepath_Match_exact [OF suf]
    by (auto simp: script_path_def)
qed

lemma script_path_inject:
  assumes "CHR ''/'' \<notin> set i" "CHR ''/'' \<notin> set j"
  shows "script_path i m = script_path j n \<longleftrightarrow> i = j \<and> m = n"
proof
  assume "script_path i m = script_path j n"
  then have "i @ CHR ''/'' # ''bin/bbr/'' @ m = j @ CHR ''/'' # ''bin/bbr/'' @ n"
    by (simp add: script_path_def)
  from cut_unique [OF this assms] show "i = j \<and> m = n" by simp
qed simp

lemma kind_iff:
  "isBackup s \<longleftrightarrow> (\<exists>j. CHR ''/'' \<notin> set j \<and> s = script_path j ''backup'')"
  "isRestore s \<longleftrightarrow> (\<exists>j. CHR ''/'' \<notin> set j \<and> s = script_path j ''restore'')"
  "isMetadata s \<longleftrightarrow> (\<exists>j. CHR ''/'' \<notin> set j \<and> s = script_path j ''metadata'')"
  "isPreBackupUnlock s \<longleftrightarrow> (\<exists>j. CHR ''/'' \<notin> set j \<and> s = script_path j ''pre-backup-lock'')"
  "isPreRestoreLock s \<longleftrightarrow> (\<exists>j. CHR ''/'' \<notin> set j \<and> s = script_path j ''pre-restore-lock'')"
  "isPostBackupUnlock s \<longleftrightarrow> (\<exists>j. CHR ''/'' \<notin> set j \<and> s = script_path j ''post-backup-unlock'')"
  "isPostRestoreUnlock s \<longleftrightarrow> (\<exists>j. CHR ''/'' \<notin> set j \<and> s = script_path j ''post-restore-unlock'')"
  unfolding script_kinds script_names by (simp_all add: matcher_iff)

lemma isMySQLScript_iff:
  "isMySQLScript s \<longleftrightarrow>
     (\<exists>m. CHR ''/'' \<notin> set m \<and> (s = script_path ''mysql-backup'' m \<or> s = script_path ''mysql-restore'' m))"
proof -
  have lit: "CHR ''*'' \<notin> set (jobBaseDirectory @ ''mysql-backup/bin/bbr/'')"
    "CHR ''*'' \<notin> set (jobBaseDirectory @ ''mysql-restore/bin/bbr/'')" by (simp_all add: jobBaseDirectory_def)
  have "isMySQLScript s \<longleftrightarrow>
      filepath_Match ((jobBaseDirectory @ ''mysql-backup/bin/bbr/'') @ ''*'') s \<or>
      filepath_Match ((jobBaseDirectory @ ''mysql-restore/bin/bbr/'') @ ''*'') s"
    by (simp add: isMySQLScript_def mySQLBackupScriptMatcher_def mySQLRestoreScriptMatcher_def)
  then show ?thesis
    unfolding filepath_Match_literal [OF lit(1)] filepath_Match_literal [OF lit(2)] filepath_Match_star
    by (auto simp: script_path_def)
qed

lemma splitPath_script:
  assumes "CHR ''/'' \<notin> set j" "CHR ''/'' \<notin> set n"
  shows "splitPath (script_path j n) = [j, ''bin'', ''bbr'', n]"
proof -
  have "TrimPrefix (script_path j n) jobBaseDirectory = j @ CHR ''/'' # ''bin/bbr/'' @ n"
    by (simp add: TrimPrefix_def script_path_def)
  then have "splitPath (script_path j n) = SplitN (CHR ''/'') (Suc (Suc 2)) (j @ CHR ''/'' # ''bin/bbr/'' @ n)"
    by (simp add: splitPath_def)
  also have "\<dots> = j # SplitN (CHR ''/'') (Suc (Suc (Suc 0))) (''bin'' @ CHR ''/'' # ''bbr/'' @ n)"
    using assms(1) by (subst SplitN_cut) (auto simp: numeral_2_eq_2)
  also have "\<dots> = [j, ''bin''] @ SplitN (CHR ''/'') (Suc (Suc 0)) (''bbr'' @ CHR ''/'' # n)"
    by (subst SplitN_cut) auto
  also have "\<dots> = [j, ''bin'', ''bbr'', n]"
    by (subst SplitN_cut) auto
  finally show ?thesis .
qed

lemma Script_JobName_path [simp]:
  "CHR ''/'' \<notin> set j \<Longrightarrow> CHR ''/'' \<notin> set n \<Longrightarrow> Script_JobName (script_path j n) = j"
  by (simp add: Script_JobName_def splitPath_script)

lemma Script_Name_path [simp]:
  "CHR ''/'' \<notin> set j \<Longrightarrow> CHR ''/'' \<notin> set n \<Longrightarrow> Script_Name (script_path j n) = n"
  by (simp add: Script_Name_def splitPath_script)

lemma NewBackupAndRestoreScripts_filter:
  "NewBackupAndRestoreScripts files = filter isPlatformScript files"
  by (induction files) auto

lemma SinglePostRestoreUnlockScript_filter:
  "SinglePostRestoreUnlockScript s = firstOrBlank (filter isPostRestoreUnlock s)"
  by (induction s) (auto simp: firstOrBlank_def)

text \<open>The names under which \<open>bbr\<close> recognises a script.\<close>

definition platform_names :: "string list" where
  "platform_names = [''backup'', ''restore'', ''pre-backup-lock'', ''pre-restore-lock'',
     ''post-backup-unlock'', ''post-restore-unlock'', ''metadata'']"

lemma platform_names_no_slash: "n \<in> set platform_names \<Longrightarrow> CHR ''/'' \<notin> set n"
  by (auto simp: platform_names_def)

lemma isPlatformScript_iff:
  "isPlatformScript s \<longleftrightarrow> (\<exists>j n. CHR ''/'' \<notin> set j \<and> n \<in> set platform_names \<and>
     j \<noteq> ''mysql-backup'' \<and> j \<noteq> ''mysql-restore'' \<and> s = script_path j n)"
proof -
  have "isPlatformScript s \<longleftrightarrow> \<not> isMySQLScript s \<and>
      (\<exists>j n. CHR ''/'' \<notin> set j \<and> n \<in> set platform_names \<and> s = script_path j n)"
    unfolding isPlatformScript_def kind_iff by (auto simp: platform_names_def)
  moreover have "isMySQLScript (script_path j n) \<longleftrightarrow> j = ''mysql-backup'' \<or> j = ''mysql-restore''"
    if "CHR ''/'' \<notin> set j" "n \<in> set platform_names" for j n
    using that platform_names_no_slash [OF that(2)] unfolding isMySQLScript_iff
    by (auto simp: script_path_inject)
  ultimately show ?thesis by blast
qed

section \<open>Properties\<close>

text \<open>Of the files found on an instance exactly those are kept that are one of the seven known script
  names directly in the bbr directory of a job other than the two MySQL jobs; the job name read
  back from such a path is the job's and the script name the script's; and a path is of one
  kind only.\<close>

theorem script_selection:
  "set (NewBackupAndRestoreScripts files) =
     {s \<in> set files. \<exists>j n. CHR ''/'' \<notin> set j \<and> n \<in> set platform_names \<and>
        j \<noteq> ''mysql-backup'' \<and> j \<noteq> ''mysql-restore'' \<and> s = script_path j n \<and>
        Script_JobName s = j \<and> Script_Name s = n} \<and>
   length (filter (\<lambda>P. P s) [isBackup, isRestore, isMetadata, isPreBackupUnlock, isPreRestoreLock,
     isPostBackupUnlock, isPostRestoreUnlock]) \<le> 1"
proof
  show "set (NewBackupAndRestoreScripts files) =
     {s \<in> set files. \<exists>j n. CHR ''/'' \<notin> set j \<and> n \<in> set platform_names \<and>
        j \<noteq> ''mysql-backup'' \<and> j \<noteq> ''mysql-restore'' \<and> s = script_path j n \<and>
        Script_JobName s = j \<and> Script_Name s = n}"
    unfolding NewBackupAndRestoreScripts_filter set_filter isPlatformScript_iff
    using platform_names_no_slash Script_JobName_path Script_Name_path by blast
next
  show "length (filter (\<lambda>P. P s) [isBackup, isRestore, isMetadata, isPreBackupUnlock, isPreRestoreLock,
     isPostBackupUnlock, isPostRestoreUnlock]) \<le> 1"
    unfolding filter.simps kind_iff by (auto simp: script_path_inject)
qed

end
