(* ===== verification/Jobs.thy ===== *)
theory Jobs
  imports Ssh Scripts
begin

text \<open>
  Jobs and their metadata: \<^verbatim>\<open>instance/metadata.go\<close>, \<^verbatim>\<open>instance/job.go\<close> and
  \<^verbatim>\<open>orchestrator/jobs.go\<close>. The interface \<^verbatim>\<open>orchestrator.Job\<close> has one implementation,
  \<^verbatim>\<open>instance.Job\<close>, so the record below stands for both. The YAML decoder is a parameter of
  the two parsers; log lines are left out.
\<close>

section \<open>Job metadata\<close>

record LockBefore =
  lb_JobName :: string
  lb_Release :: string

record Metadata =
  BackupName :: string
  RestoreName :: string
  md_BackupShouldBeLockedBefore :: "LockBefore list"
  md_RestoreShouldBeLockedBefore :: "LockBefore list"
  SkipBBRScripts :: bool

definition zero_Metadata :: Metadata where
  "zero_Metadata = \<lparr>BackupName = '''', RestoreName = '''', md_BackupShouldBeLockedBefore = [],
     md_RestoreShouldBeLockedBefore = [], SkipBBRScripts = False\<rparr>"

definition LockBefore_Validate :: "LockBefore \<Rightarrow> goerror option" where
  "LockBefore_Validate l =
     (if lb_JobName l = '''' \<or> lb_Release l = ''''
      then Some (ErrorString ''both job name and release should be specified for should be locked before'')
      else None)"

fun validateAll :: "LockBefore list \<Rightarrow> goerror option" where
  "validateAll [] = None"
| "validateAll (l # ls) = (case LockBefore_Validate l of Some e \<Rightarrow> Some e | None \<Rightarrow> validateAll ls)"

definition ParseJobMetadata :: "(string \<Rightarrow> Metadata result) \<Rightarrow> string \<Rightarrow> Metadata result" where
  "ParseJobMetadata unmarshal data =
     (case unmarshal data of
        Err e \<Rightarrow> Err (WithMessage e ''failed to unmarshal job metadata'')
      | Panic p \<Rightarrow> Panic p
      | Ok metadata \<Rightarrow>
          (case validateAll (md_BackupShouldBeLockedBefore metadata @ md_RestoreShouldBeLockedBefore metadata) of
             Some e \<Rightarrow> Err e
           | None \<Rightarrow> Ok metadata))"

fun omitReleases :: "LockBefore list \<Rightarrow> LockBefore list" where
  "omitReleases [] = []"
| "omitReleases (l # ls) = \<lparr>lb_JobName = lb_JobName l, lb_Release = ''''\<rparr> # omitReleases ls"

definition ParseJobMetadataOmitReleases :: "(string \<Rightarrow> Metadata result) \<Rightarrow> string \<Rightarrow> Metadata result" where
  "ParseJobMetadataOmitReleases unmarshal data =
     (case ParseJobMetadata unmarshal data of
        Err e \<Rightarrow> Err e
      | Panic p \<Rightarrow> Panic p
      | Ok metadata \<Rightarrow>
          Ok (metadata\<lparr>md_BackupShouldBeLockedBefore := omitReleases (md_BackupShouldBeLockedBefore metadata),
                       md_RestoreShouldBeLockedBefore := omitReleases (md_RestoreShouldBeLockedBefore metadata)\<rparr>))"

section \<open>Jobs\<close>

record JobSpecifier =
  spec_Name :: string
  spec_Release :: string

record Job =
  job_name :: string
  job_release :: string
  job_metadata :: Metadata
  backupScript :: Script
  preBackupScript :: Script
  postBackupScript :: Script
  preRestoreScript :: Script
  restoreScript :: Script
  postRestoreScript :: Script
  job_remoteRunner :: Connection
  instanceIdentifier :: string
  backupOneRestoreAll :: bool
  onBootstrapNode :: bool

definition ArtifactDirectory :: string where
  "ArtifactDirectory = ''/var/vcap/store/bbr-backup''"

definition NewJob ::
  "Connection \<Rightarrow> string \<Rightarrow> string \<Rightarrow> BackupAndRestoreScripts \<Rightarrow> Metadata \<Rightarrow> bool \<Rightarrow> bool \<Rightarrow> Job result" where
  "NewJob remoteRunner identifier release jobScripts metadata oneRestoreAll bootstrap =
     (case jobScripts of
        [] \<Rightarrow> Panic ''index out of range [0] with length 0''
      | script # _ \<Rightarrow>
          Ok \<lparr>job_name = Script_JobName script, job_release = release, job_metadata = metadata,
              backupScript = firstOrBlank (BackupOnly jobScripts),
              preBackupScript = firstOrBlank (PreBackupLockOnly jobScripts),
              postBackupScript = firstOrBlank (PostBackupUnlockOnly jobScripts),
              preRestoreScript = firstOrBlank (PreRestoreLockOnly jobScripts),
              restoreScript = firstOrBlank (RestoreOnly jobScripts),
              postRestoreScript = SinglePostRestoreUnlockScript jobScripts,
              job_remoteRunner = remoteRunner, instanceIdentifier = identifier,
              backupOneRestoreAll = oneRestoreAll, onBootstrapNode = bootstrap\<rparr>)"

definition backupOneRestoreAllArtifactName :: "Job \<Rightarrow> string" where
  "backupOneRestoreAllArtifactName j = job_name j @ ''-'' @ job_release j @ ''-backup-one-restore-all''"

definition BackupArtifactName :: "Job \<Rightarrow> string" where
  "BackupArtifactName j =
     (if backupOneRestoreAll j \<and> onBootstrapNode j then backupOneRestoreAllArtifactName j
      else BackupName (job_metadata j))"

definition HasMetadataRestoreName :: "Job \<Rightarrow> bool" where
  "HasMetadataRestoreName j \<longleftrightarrow> RestoreName (job_metadata j) \<noteq> ''''"

definition RestoreArtifactName :: "Job \<Rightarrow> string" where
  "RestoreArtifactName j =
     (if backupOneRestoreAll j then backupOneRestoreAllArtifactName j else RestoreName (job_metadata j))"

definition Job_HasBackup :: "Job \<Rightarrow> bool" where
  "Job_HasBackup j \<longleftrightarrow> backupScript j \<noteq> ''''"

definition Job_HasRestore :: "Job \<Rightarrow> bool" where
  "Job_HasRestore j \<longleftrightarrow> restoreScript j \<noteq> ''''"

definition HasNamedBackupArtifact :: "Job \<Rightarrow> bool" where
  "HasNamedBackupArtifact j \<longleftrightarrow> backupOneRestoreAll j \<and> onBootstrapNode j"

definition HasNamedRestoreArtifact :: "Job \<Rightarrow> bool" where
  "HasNamedRestoreArtifact j \<longleftrightarrow> backupOneRestoreAll j \<or> RestoreName (job_metadata j) \<noteq> ''''"

definition backupArtifactOrJobName :: "Job \<Rightarrow> string" where
  "backupArtifactOrJobName j = (if HasNamedBackupArtifact j then BackupArtifactName j else job_name j)"

definition restoreArtifactOrJobName :: "Job \<Rightarrow> string" where
  "restoreArtifactOrJobName j = (if HasNamedRestoreArtifact j then RestoreArtifactName j else job_name j)"

definition BackupArtifactDirectory :: "Job \<Rightarrow> string" where
  "BackupArtifactDirectory j = ArtifactDirectory @ ''/'' @ backupArtifactOrJobName j"

definition RestoreArtifactDirectory :: "Job \<Rightarrow> string" where
  "RestoreArtifactDirectory j = ArtifactDirectory @ ''/'' @ restoreArtifactOrJobName j"

fun toSpecifiers :: "LockBefore list \<Rightarrow> JobSpecifier list" where
  "toSpecifiers [] = []"
| "toSpecifiers (l # ls) = \<lparr>spec_Name = lb_JobName l, spec_Release = lb_Release l\<rparr> # toSpecifiers ls"

definition BackupShouldBeLockedBefore :: "Job \<Rightarrow> JobSpecifier list" where
  "BackupShouldBeLockedBefore j = toSpecifiers (md_BackupShouldBeLockedBefore (job_metadata j))"

definition RestoreShouldBeLockedBefore :: "Job \<Rightarrow> JobSpecifier list" where
  "RestoreShouldBeLockedBefore j = toSpecifiers (md_RestoreShouldBeLockedBefore (job_metadata j))"

section \<open>Running the scripts of a job\<close>

definition artifactDirectoryVariables :: "string \<Rightarrow> (string, string) fmap" where
  "artifactDirectoryVariables artifactDirectory =
     fmupd ''BBR_ARTIFACT_DIRECTORY'' (artifactDirectory @ ''/'')
       (fmupd ''ARTIFACT_DIRECTORY'' (artifactDirectory @ ''/'') fmempty)"

definition attempt_message :: "string \<Rightarrow> Job \<Rightarrow> string" where
  "attempt_message what j =
     ''Error attempting to run '' @ what @ '' for job '' @ job_name j @ '' on '' @ instanceIdentifier j"

definition FormatBool :: "bool \<Rightarrow> string" where
  "FormatBool b = (if b then ''true'' else ''false'')"

definition Job_Backup :: "('r, 'x) env_scheme \<Rightarrow> Job \<Rightarrow> ('r, unit) io" where
  "Job_Backup E j w =
     (if backupScript j \<noteq> '''' then
        bindr (CreateDirectory E (job_remoteRunner j) (BackupArtifactDirectory j))
          (\<lambda>_. wrapped (attempt_message ''backup'' j)
             (RunScriptQuietly E (job_remoteRunner j) (backupScript j)
                (artifactDirectoryVariables (BackupArtifactDirectory j)))) w
      else (Ok (), w))"

definition Job_PreBackupLock :: "('r, 'x) env_scheme \<Rightarrow> Job \<Rightarrow> ('r, unit) io" where
  "Job_PreBackupLock E j w =
     (if preBackupScript j \<noteq> '''' then
        wrapped (attempt_message ''pre-backup-lock'' j)
          (RunScript E (job_remoteRunner j) (preBackupScript j)) w
      else (Ok (), w))"

definition Job_PostBackupUnlock :: "('r, 'x) env_scheme \<Rightarrow> bool \<Rightarrow> Job \<Rightarrow> ('r, unit) io" where
  "Job_PostBackupUnlock E afterSuccessfulBackup j w =
     (if postBackupScript j \<noteq> '''' then
        wrapped (attempt_message ''post-backup-unlock'' j)
          (RunScriptQuietly E (job_remoteRunner j) (postBackupScript j)
             (fmupd ''BBR_AFTER_BACKUP_SCRIPTS_SUCCESSFUL'' (FormatBool afterSuccessfulBackup) fmempty)) w
      else (Ok (), w))"

definition Job_PreRestoreLock :: "('r, 'x) env_scheme \<Rightarrow> Job \<Rightarrow> ('r, unit) io" where
  "Job_PreRestoreLock E j w =
     (if preRestoreScript j \<noteq> '''' then
        wrapped (attempt_message ''pre-restore-lock'' j)
          (RunScript E (job_remoteRunner j) (preRestoreScript j)) w
      else (Ok (), w))"

definition Job_Restore :: "('r, 'x) env_scheme \<Rightarrow> Job \<Rightarrow> ('r, unit) io" where
  "Job_Restore E j w =
     (if restoreScript j \<noteq> '''' then
        wrapped (attempt_message ''restore'' j)
          (RunScriptQuietly E (job_remoteRunner j) (restoreScript j)
             (artifactDirectoryVariables (RestoreArtifactDirectory j))) w
      else (Ok (), w))"

definition Job_PostRestoreUnlock :: "('r, 'x) env_scheme \<Rightarrow> Job \<Rightarrow> ('r, unit) io" where
  "Job_PostRestoreUnlock E j w =
     (if postRestoreScript j \<noteq> '''' then
        wrapped (attempt_message ''post-restore-unlock'' j)
          (RunScript E (job_remoteRunner j) (postRestoreScript j)) w
      else (Ok (), w))"

section \<open>Lists of jobs\<close>

fun Backupable :: "Job list \<Rightarrow> Job list" where
  "Backupable [] = []"
| "Backupable (job # jobs) = (if Job_HasBackup job then job # Backupable jobs else Backupable jobs)"

definition AnyAreBackupable :: "Job list \<Rightarrow> bool" where
  "AnyAreBackupable jobs \<longleftrightarrow> length (Backupable jobs) \<noteq> 0"

fun Restorable :: "Job list \<Rightarrow> Job list" where
  "Restorable [] = []"
| "Restorable (job # jobs) = (if Job_HasRestore job then job # Restorable jobs else Restorable jobs)"

definition AnyAreRestorable :: "Job list \<Rightarrow> bool" where
  "AnyAreRestorable jobs \<longleftrightarrow> length (Restorable jobs) \<noteq> 0"

definition withNamedBackupArtifacts :: "Job list \<Rightarrow> Job list" where
  "withNamedBackupArtifacts jobs = filter HasNamedBackupArtifact jobs"

definition withNamedRestoreArtifacts :: "Job list \<Rightarrow> Job list" where
  "withNamedRestoreArtifacts jobs = filter HasNamedRestoreArtifact jobs"

definition CustomRestoreArtifactNames :: "Job list \<Rightarrow> string list" where
  "CustomRestoreArtifactNames jobs = map RestoreArtifactName (withNamedRestoreArtifacts jobs)"

fun HasMetadataRestoreNames :: "Job list \<Rightarrow> bool" where
  "HasMetadataRestoreNames [] = False"
| "HasMetadataRestoreNames (job # jobs) =
     (if HasMetadataRestoreName job then True else HasMetadataRestoreNames jobs)"

section \<open>Lemmas\<close>

lemma Backupable_filter: "Backupable jobs = filter Job_HasBackup jobs"
  by (induction jobs) auto

lemma Restorable_filter: "Restorable jobs = filter Job_HasRestore jobs"
  by (induction jobs) auto

lemma AnyAreBackupable_iff: "AnyAreBackupable jobs \<longleftrightarrow> (\<exists>j \<in> set jobs. Job_HasBackup j)"
  by (auto simp: AnyAreBackupable_def Backupable_filter filter_empty_conv)

lemma AnyAreRestorable_iff: "AnyAreRestorable jobs \<longleftrightarrow> (\<exists>j \<in> set jobs. Job_HasRestore j)"
  by (auto simp: AnyAreRestorable_def Restorable_filter filter_empty_conv)

lemma HasMetadataRestoreNames_iff:
  "HasMetadataRestoreNames jobs \<longleftrightarrow> (\<exists>j \<in> set jobs. HasMetadataRestoreName j)"
  by (induction jobs) auto

lemma omitReleases_map: "omitReleases ls = map (\<lambda>l. \<lparr>lb_JobName = lb_JobName l, lb_Release = ''''\<rparr>) ls"
  by (induction ls) auto

lemma toSpecifiers_map:
  "toSpecifiers ls = map (\<lambda>l. \<lparr>spec_Name = lb_JobName l, spec_Release = lb_Release l\<rparr>) ls"
  by (induction ls) auto

lemma validateAll_None:
  "validateAll ls = None \<longleftrightarrow> (\<forall>l \<in> set ls. lb_JobName l \<noteq> '''' \<and> lb_Release l \<noteq> '''')"
  by (induction ls) (auto simp: LockBefore_Validate_def)

text \<open>The command each script of a job sends over its connection.\<close>

definition lock_command :: "Job \<Rightarrow> event" where
  "lock_command j = session_command (job_remoteRunner j) (''sudo '' @ preBackupScript j)"

definition unlock_command :: "bool \<Rightarrow> Job \<Rightarrow> event" where
  "unlock_command ok j =
     session_command (job_remoteRunner j)
       (''sudo BBR_AFTER_BACKUP_SCRIPTS_SUCCESSFUL='' @ FormatBool ok @ '' '' @ postBackupScript j)"

definition restore_lock_command :: "Job \<Rightarrow> event" where
  "restore_lock_command j = session_command (job_remoteRunner j) (''sudo '' @ preRestoreScript j)"

definition restore_unlock_command :: "Job \<Rightarrow> event" where
  "restore_unlock_command j = session_command (job_remoteRunner j) (''sudo '' @ postRestoreScript j)"

lemma wrappedE:
  assumes "wrapped msg m w = (r, w')"
  obtains r0 where "m w = (r0, w')" "r = wrap_result msg r0"
  using assms by (auto simp: wrapped_def split: prod.splits)

lemma Job_PreBackupLock_frame:
  assumes "Job_PreBackupLock E j w = (r, w')"
  shows "(\<forall>p. r \<noteq> Panic p) \<and>
    (if preBackupScript j = '''' then r = Ok () \<and> w' = w
     else ran (job_remoteRunner j) (''sudo '' @ preBackupScript j) w w' \<and>
       (r = Ok () \<longrightarrow> events w' = events w @ [lock_command j]))"
  using assms RunScript_frame [of E "job_remoteRunner j" "preBackupScript j" w]
  by (auto simp: Job_PreBackupLock_def lock_command_def did_def elim!: wrappedE split: if_splits)

lemma varsList_single [simp]: "varsList it (fmupd k v fmempty) = k @ ''='' @ v @ '' ''"
  by (simp add: varsList_def range_keys_def map_keys_def sorted_list_of_fset.rep_eq)

lemma Job_PostBackupUnlock_frame:
  assumes "Job_PostBackupUnlock E ok j w = (r, w')"
  shows "(\<forall>p. r \<noteq> Panic p) \<and>
    (if postBackupScript j = '''' then r = Ok () \<and> w' = w
     else (events w' = events w \<or> events w' = events w @ [unlock_command ok j]) \<and>
       (r = Ok () \<longrightarrow> events w' = events w @ [unlock_command ok j]))"
  using assms
    RunScriptQuietly_frame [of E "job_remoteRunner j" "postBackupScript j"
      "fmupd ''BBR_AFTER_BACKUP_SCRIPTS_SUCCESSFUL'' (FormatBool ok) fmempty" w]
  by (auto simp: Job_PostBackupUnlock_def unlock_command_def did_def ran_def elim!: wrappedE split: if_splits)

lemma Job_PreRestoreLock_frame:
  assumes "Job_PreRestoreLock E j w = (r, w')"
  shows "(\<forall>p. r \<noteq> Panic p) \<and>
    (if preRestoreScript j = '''' then r = Ok () \<and> w' = w
     else ran (job_remoteRunner j) (''sudo '' @ preRestoreScript j) w w' \<and>
       (r = Ok () \<longrightarrow> events w' = events w @ [restore_lock_command j]))"
  using assms RunScript_frame [of E "job_remoteRunner j" "preRestoreScript j" w]
  by (auto simp: Job_PreRestoreLock_def restore_lock_command_def did_def elim!: wrappedE split: if_splits)

lemma Job_PostRestoreUnlock_frame:
  assumes "Job_PostRestoreUnlock E j w = (r, w')"
  shows "(\<forall>p. r \<noteq> Panic p) \<and>
    (if postRestoreScript j = '''' then r = Ok () \<and> w' = w
     else ran (job_remoteRunner j) (''sudo '' @ postRestoreScript j) w w' \<and>
       (r = Ok () \<longrightarrow> events w' = events w @ [restore_unlock_command j]))"
  using assms RunScript_frame [of E "job_remoteRunner j" "postRestoreScript j" w]
  by (auto simp: Job_PostRestoreUnlock_def restore_unlock_command_def did_def elim!: wrappedE split: if_splits)

section \<open>Sample data\<close>

definition sample_connection :: Connection where
  "sample_connection = \<lparr>conn_host = ''10.0.0.1:22'', conn_User = ''vcap'', conn_privateKey = ''key'',
     conn_hostKey = None, conn_hostKeyAlgorithms = []\<rparr>"

definition sample_job :: "string \<Rightarrow> LockBefore list \<Rightarrow> Job" where
  "sample_job n befores =
     \<lparr>job_name = n, job_release = ''rel'',
      job_metadata = zero_Metadata\<lparr>md_BackupShouldBeLockedBefore := befores,
        md_RestoreShouldBeLockedBefore := befores\<rparr>,
      backupScript = ''/var/vcap/jobs/'' @ n @ ''/bin/bbr/backup'',
      preBackupScript = ''/var/vcap/jobs/'' @ n @ ''/bin/bbr/pre-backup-lock'',
      postBackupScript = ''/var/vcap/jobs/'' @ n @ ''/bin/bbr/post-backup-unlock'',
      preRestoreScript = ''/var/vcap/jobs/'' @ n @ ''/bin/bbr/pre-restore-lock'',
      restoreScript = ''/var/vcap/jobs/'' @ n @ ''/bin/bbr/restore'',
      postRestoreScript = ''/var/vcap/jobs/'' @ n @ ''/bin/bbr/post-restore-unlock'',
      job_remoteRunner = sample_connection, instanceIdentifier = ''vm/0'',
      backupOneRestoreAll = False, onBootstrapNode = True\<rparr>"

end
