(* ===== verification/Director.thy ===== *)
theory Director
  imports Backup_Directory Jobs
begin

text \<open>
  The BOSH director, as the program sees it: the client library of the BOSH CLI, the generator of
  SSH credentials, the key parser and the patch library that looks up manifests are fields of
  \<open>director_env\<close>, which extends the environment once more. A deployment handle of the library
  is the deployment's name. Credentials that are set up or cleaned up are recorded in the history.
\<close>

record SSHOpts =
  so_Username :: string
  so_PublicKey :: string

record Host =
  host_Host :: string
  host_Username :: string
  host_IndexOrID :: string
  host_HostPublicKey :: string

record VMInfo =
  vm_JobName :: string
  vm_ID :: string
  vm_Index :: "int option"
  vm_Bootstrap :: bool
  vm_IPs :: "string list"

datatype patchValue = PString string | PBool bool | POther

record 'r director_env = "'r backup_env" +
  dir_FindDeployment :: "string \<Rightarrow> 'r \<Rightarrow> unit result \<times> 'r"
  dir_VMInfos :: "string \<Rightarrow> 'r \<Rightarrow> VMInfo list result \<times> 'r"
  dir_Manifest :: "string \<Rightarrow> 'r \<Rightarrow> string result \<times> 'r"
  dir_SetUpSSH :: "string \<Rightarrow> Slug \<Rightarrow> SSHOpts \<Rightarrow> 'r \<Rightarrow> Host list result \<times> 'r"
  dir_CleanUpSSH :: "string \<Rightarrow> Slug \<Rightarrow> string \<Rightarrow> 'r \<Rightarrow> unit result \<times> 'r"
  dir_ParseSlug :: "string \<Rightarrow> Slug result"
  sshOptsGenerator :: "'r \<Rightarrow> (SSHOpts \<times> string) result \<times> 'r"
  parseAuthorizedKey :: "string \<Rightarrow> string result"
  yaml_ParseManifest :: "string \<Rightarrow> goerror option"
  patch_NewPointer :: "string \<Rightarrow> goerror option"
  patch_Find :: "string \<Rightarrow> string \<Rightarrow> patchValue result"
  yaml_UnmarshalJob :: "string \<Rightarrow> Metadata result"

text \<open>A call of the library: it acts on the remote state.\<close>

definition dir_call :: "('r \<Rightarrow> 'a result \<times> 'r) \<Rightarrow> ('r, 'a) io" where
  "dir_call f w = (let (res, r') = f (remote w) in (res, w\<lparr>remote := r'\<rparr>))"

definition Deployment_SetUpSSH :: "('r, 'x) director_env_scheme \<Rightarrow> string \<Rightarrow> Slug \<Rightarrow> SSHOpts \<Rightarrow> ('r, Host list) io" where
  "Deployment_SetUpSSH E dep slug opts w =
     (let (res, w') = dir_call (dir_SetUpSSH E dep slug opts) w
      in (res, case res of Ok _ \<Rightarrow> log_event (SetUpSSH dep slug (so_Username opts)) w' | _ \<Rightarrow> w'))"

definition Deployment_CleanUpSSH :: "('r, 'x) director_env_scheme \<Rightarrow> string \<Rightarrow> Slug \<Rightarrow> string \<Rightarrow> ('r, unit) io" where
  "Deployment_CleanUpSSH E dep slug username w =
     dir_call (dir_CleanUpSSH E dep slug username) (log_event (CleanUpSSH dep slug username) w)"

section \<open>Frames\<close>

text \<open>\<open>calm w w'\<close>: neither local files nor the program's own flags changed; the history only grew.\<close>

definition calm :: "'r world \<Rightarrow> 'r world \<Rightarrow> bool" where
  "calm w w' \<longleftrightarrow> fs w' = fs w \<and> artifactDirCreated w' = artifactDirCreated w \<and>
     next_instance w' = next_instance w \<and> grows w w'"

lemma calm_refl [simp]: "calm w w"
  by (simp add: calm_def)

lemma calm_trans: "calm a b \<Longrightarrow> calm b c \<Longrightarrow> calm a c"
  by (auto simp: calm_def intro: grows_trans)

lemma calm_grows: "calm w w' \<Longrightarrow> grows w w'"
  by (simp add: calm_def)

lemma ran_calm: "ran c cmd w w' \<Longrightarrow> calm w w'"
  by (auto simp: ran_def calm_def grows_def)

lemma dir_call_calm: "dir_call f w = (r, w') \<Longrightarrow> calm w w' \<and> events w' = events w"
  by (auto simp: dir_call_def calm_def grows_def split: prod.splits)

lemma Deployment_SetUpSSH_calm: "Deployment_SetUpSSH E dep slug opts w = (r, w') \<Longrightarrow> calm w w'"
  by (auto simp: Deployment_SetUpSSH_def dir_call_def calm_def grows_def log_event_def split: prod.splits result.splits)

lemma Deployment_CleanUpSSH_events:
  "Deployment_CleanUpSSH E dep slug u w = (r, w') \<Longrightarrow>
     calm w w' \<and> events w' = events w @ [CleanUpSSH dep slug u]"
  by (auto simp: Deployment_CleanUpSSH_def dir_call_def calm_def grows_def log_event_def split: prod.splits)

lemma runOnInstance_calm: "runOnInstance E c cmd w = (r, w') \<Longrightarrow> calm w w'"
  using runOnInstance_frame ran_calm by blast

section \<open>A sample director\<close>

text \<open>A director of one deployment with one VM; every command sent to it succeeds and prints nothing.\<close>

definition sample_vm :: VMInfo where
  "sample_vm = \<lparr>vm_JobName = ''vm'', vm_ID = ''id'', vm_Index = Some 0, vm_Bootstrap = True, vm_IPs = [''10.0.0.1'']\<rparr>"

definition sample_host :: Host where
  "sample_host = \<lparr>host_Host = ''10.0.0.1'', host_Username = ''bbr'', host_IndexOrID = ''id'', host_HostPublicKey = ''k''\<rparr>"

definition sample_director_env :: "metadata list \<Rightarrow> nat director_env" where
  "sample_director_env ms = backup_env.extend (sample_backup_env ms)
     (director_env.fields
       (\<lambda>n r. (Ok (), r)) (\<lambda>n r. (Ok [sample_vm], r)) (\<lambda>n r. (Ok ''manifest'', r))
       (\<lambda>d s opts r. (Ok [sample_host], r)) (\<lambda>d s u r. (Ok (), r)) (\<lambda>s. Ok (s, ''''))
       (\<lambda>r. (Ok (\<lparr>so_Username = ''bbr'', so_PublicKey = ''pub''\<rparr>, ''priv''), r)) (\<lambda>k. Ok ''ssh-ed25519'')
       (\<lambda>m. None) (\<lambda>p. None) (\<lambda>m p. Ok (PString ''rel'')) (\<lambda>d. Ok zero_Metadata))"

lemmas sample_director_simps = sample_director_env_def backup_env.extend_def director_env.fields_def
  sample_backup_env_def sample_reply_def

end
