(* ===== verification/Executor.thy ===== *)
theory Executor
  imports Errors
begin

text \<open>
  The executors: \<^verbatim>\<open>executor/serial.go\<close>, \<^verbatim>\<open>executor/parallel.go\<close> and their counterparts for
  whole deployments under \<^verbatim>\<open>executor/deployment\<close>.

  An \<^verbatim>\<open>Executable\<close> is its \<^verbatim>\<open>Execute\<close> method, a function on the state \<open>'w\<close>. A stage of the
  parallel executor is modelled twice. The step relation \<open>pool_step\<close> is the goroutine pool as
  written: the launching loop blocked by the guard channel, the goroutines, the error channel
  and the receiving loop. The function \<open>ParallelExecutor_Run\<close> runs the executables of a stage
  one after the other in an order chosen by an oracle; an execution takes effect when it ends.
  The two are tied by a refinement theorem: every complete run of the pool is a run of the
  function for some order.

  The locale \<open>executor\<close> is the interface \<^verbatim>\<open>executor.Executor\<close>: stages in order, each
  executable of a stage once, in any order within the stage.
\<close>

section \<open>Serial and parallel execution\<close>

type_synonym 'w executable = "'w \<Rightarrow> unit result \<times> 'w"

text \<open>Executables one after the other, their errors collected in a slice.\<close>

fun runStage :: "'w executable list \<Rightarrow> goerror list \<Rightarrow> 'w \<Rightarrow> goerror list result \<times> 'w" where
  "runStage [] errors w = (Ok errors, w)"
| "runStage (executable # executables) errors w =
     (case executable w of
        (Ok _, w') \<Rightarrow> runStage executables errors w'
      | (Err err, w') \<Rightarrow> runStage executables (errors @ [err]) w'
      | (Panic p, w') \<Rightarrow> (Panic p, w'))"

fun serialLoop :: "'w executable list list \<Rightarrow> goerror list \<Rightarrow> 'w \<Rightarrow> goerror list result \<times> 'w" where
  "serialLoop [] errors w = (Ok errors, w)"
| "serialLoop (executables # executablesList) errors w =
     bindr (runStage executables errors) (serialLoop executablesList) w"

definition SerialExecutor_Run :: "'w executable list list \<Rightarrow> 'w \<Rightarrow> goerror list result \<times> 'w" where
  "SerialExecutor_Run executablesList w = serialLoop executablesList [] w"

record ParallelExecutor =
  maxInFlight :: int

definition NewParallelExecutor :: ParallelExecutor where
  "NewParallelExecutor = \<lparr>maxInFlight = 10\<rparr>"

text \<open>The receiver is a value: the caller's executor after the call is the one before it.\<close>

definition SetMaxInFlight :: "ParallelExecutor \<Rightarrow> int \<Rightarrow> ParallelExecutor" where
  "SetMaxInFlight s limit = (let s' = s\<lparr>maxInFlight := limit\<rparr> in s)"

fun parallelLoop ::
  "('w \<Rightarrow> nat \<Rightarrow> nat list) \<Rightarrow> 'w executable list list \<Rightarrow> goerror list \<Rightarrow> 'w \<Rightarrow> goerror list result \<times> 'w" where
  "parallelLoop ord [] errors w = (Ok errors, w)"
| "parallelLoop ord (executables # executablesList) errors w =
     bindr (runStage (permute (ord w (length executables)) executables) errors)
       (parallelLoop ord executablesList) w"

definition ParallelExecutor_Run ::
  "('w \<Rightarrow> nat \<Rightarrow> nat list) \<Rightarrow> 'w executable list list \<Rightarrow> 'w \<Rightarrow> goerror list result \<times> 'w" where
  "ParallelExecutor_Run ord executablesList w = parallelLoop ord executablesList [] w"

text \<open>The executors a workflow is built with.\<close>

datatype Executor = Serial | Parallel ParallelExecutor

definition NewSerialExecutor :: Executor where
  "NewSerialExecutor = Serial"

fun Executor_Run ::
  "('w \<Rightarrow> nat \<Rightarrow> nat list) \<Rightarrow> Executor \<Rightarrow> 'w executable list list \<Rightarrow> 'w \<Rightarrow> goerror list result \<times> 'w" where
  "Executor_Run ord Serial executablesList w = SerialExecutor_Run executablesList w"
| "Executor_Run ord (Parallel _) executablesList w = ParallelExecutor_Run ord executablesList w"

section \<open>One stage of the parallel executor as a goroutine pool\<close>

text \<open>
  \<open>todo\<close>: executables the loop has not launched. \<open>running\<close>: goroutines before their send.
  \<open>releasing\<close>: goroutines between their send and their receive from the guard. \<open>chan\<close>: the
  error channel. \<open>received\<close>, \<open>errors\<close>: the receiving loop. \<open>finished\<close>: the executables
  in the order of their sends, for the proofs only. The guard channel holds one token for each
  goroutine that is running or releasing.
\<close>

record 'w pool =
  todo :: "'w executable list"
  running :: "'w executable list"
  releasing :: nat
  chan :: "unit result list"
  received :: nat
  pool_errors :: "goerror list"
  pool_state :: 'w
  finished :: "'w executable list"

definition guard_tokens :: "'w pool \<Rightarrow> nat" where
  "guard_tokens s = length (running s) + releasing s"

definition pool_init :: "'w executable list \<Rightarrow> 'w \<Rightarrow> 'w pool" where
  "pool_init executables w =
     \<lparr>todo = executables, running = [], releasing = 0, chan = [], received = 0, pool_errors = [],
      pool_state = w, finished = []\<rparr>"

inductive pool_step :: "nat \<Rightarrow> nat \<Rightarrow> 'w pool \<Rightarrow> 'w pool \<Rightarrow> bool" for cap n where
  launch: "todo s = x # xs \<Longrightarrow> guard_tokens s < cap \<Longrightarrow>
     pool_step cap n s (s\<lparr>todo := xs, running := x # running s\<rparr>)"
| finish: "running s = as @ x # bs \<Longrightarrow> x (pool_state s) = (r, w') \<Longrightarrow> \<not> is_panic r \<Longrightarrow>
     length (chan s) < n \<Longrightarrow>
     pool_step cap n s (s\<lparr>running := as @ bs, releasing := Suc (releasing s), chan := chan s @ [r],
       pool_state := w', finished := finished s @ [x]\<rparr>)"
| release: "releasing s = Suc k \<Longrightarrow> pool_step cap n s (s\<lparr>releasing := k\<rparr>)"
| receive: "todo s = [] \<Longrightarrow> received s < n \<Longrightarrow> chan s = r # rs \<Longrightarrow>
     pool_step cap n s (s\<lparr>chan := rs, received := Suc (received s),
       pool_errors := pool_errors s @ (case r of Err e \<Rightarrow> [e] | _ \<Rightarrow> [])\<rparr>)"

inductive pool_reach :: "nat \<Rightarrow> 'w executable list \<Rightarrow> 'w \<Rightarrow> 'w pool \<Rightarrow> bool" for cap xs w where
  pool_start: "pool_reach cap xs w (pool_init xs w)"
| pool_next: "pool_reach cap xs w s \<Longrightarrow> pool_step cap (length xs) s t \<Longrightarrow> pool_reach cap xs w t"

text \<open>The receiving loop has taken one message for each executable: \<^verbatim>\<open>Run\<close> goes on.\<close>

definition pool_done :: "nat \<Rightarrow> 'w pool \<Rightarrow> bool" where
  "pool_done n s \<longleftrightarrow> todo s = [] \<and> received s = n"

section \<open>Executors for whole deployments\<close>

record DeploymentError =
  de_Deployment :: string
  de_Errs :: "goerror list option"

type_synonym 'w dexecutable = "'w \<Rightarrow> DeploymentError result \<times> 'w"

fun deploymentLoop :: "'w dexecutable list \<Rightarrow> DeploymentError list \<Rightarrow> 'w \<Rightarrow> DeploymentError list result \<times> 'w" where
  "deploymentLoop [] errors w = (Ok errors, w)"
| "deploymentLoop (executable # executables) errors w =
     (case executable w of
        (Ok err, w') \<Rightarrow> deploymentLoop executables (if de_Errs err \<noteq> None then errors @ [err] else errors) w'
      | (Err e, w') \<Rightarrow> (Err e, w')
      | (Panic p, w') \<Rightarrow> (Panic p, w'))"

definition SerialDeploymentExecutor_Run :: "'w dexecutable list \<Rightarrow> 'w \<Rightarrow> DeploymentError list result \<times> 'w" where
  "SerialDeploymentExecutor_Run executables w = deploymentLoop executables [] w"

definition ParallelDeploymentExecutor_Run ::
  "('w \<Rightarrow> nat \<Rightarrow> nat list) \<Rightarrow> 'w dexecutable list \<Rightarrow> 'w \<Rightarrow> DeploymentError list result \<times> 'w" where
  "ParallelDeploymentExecutor_Run ord executables w =
     deploymentLoop (permute (ord w (length executables)) executables) [] w"

section \<open>Lemmas on stages\<close>

lemma runStage_append:
  "runStage (xs @ ys) errors w = bindr (runStage xs errors) (runStage ys) w"
  by (induction xs arbitrary: errors w) (auto simp: bindr_def split: prod.splits result.splits)

lemma serialLoop_concat: "serialLoop stages errors w = runStage (concat stages) errors w"
proof (induction stages arbitrary: errors w)
  case (Cons s stages)
  then have "serialLoop stages = runStage (concat stages)" by (intro ext) simp
  then show ?case by (simp add: runStage_append)
qed simp

definition same_stages :: "'a list list \<Rightarrow> 'a list list \<Rightarrow> bool" where
  "same_stages xss yss \<longleftrightarrow> list_all2 (\<lambda>xs ys. mset ys = mset xs) xss yss"

lemma same_stages_refl [simp]: "same_stages xss xss"
  by (simp add: same_stages_def list_all2_refl)

lemma same_stages_concat: "same_stages xss yss \<Longrightarrow> mset (concat yss) = mset (concat xss)"
  unfolding same_stages_def by (induction rule: list_all2_induct) auto

lemma same_stages_map:
  assumes "same_stages (map (map f) xss) yss"
  shows "\<exists>zss. yss = map (map f) zss \<and> same_stages xss zss"
  using assms
proof (induction xss arbitrary: yss)
  case Nil
  then show ?case by (auto simp: same_stages_def)
next
  case (Cons xs xss)
  then obtain ys yss' where yss: "yss = ys # yss'" and ys: "mset ys = image_mset f (mset xs)"
    and rest: "same_stages (map (map f) xss) yss'"
    by (auto simp: same_stages_def list_all2_Cons1)
  from Cons.IH [OF rest] obtain zss where zss: "yss' = map (map f) zss" "same_stages xss zss" by blast
  have "\<exists>zs. mset zs = M \<and> ys = map f zs" if "mset ys = image_mset f M" for ys M
    using that
  proof (induction ys arbitrary: M)
    case (Cons y ys)
    then obtain a M1 where "M = add_mset a M1" "f a = y" "image_mset f M1 = mset ys"
      by (metis msed_map_invR mset.simps(2))
    with Cons.IH [of M1] show ?case by (metis list.simps(9) mset.simps(2))
  qed simp
  with ys obtain zs where "mset zs = mset xs" "ys = map f zs" by blast
  with zss show ?case
    by (intro exI [of _ "zs # zss"]) (simp add: yss same_stages_def)
qed

lemma mset_eq_permute:
  assumes "mset ys = mset xs"
  shows "\<exists>p. ys = permute p xs"
proof -
  have "\<exists>p. mset p = M \<and> ys = map f p" if "mset ys = image_mset f M" for f :: "nat \<Rightarrow> 'a" and M
    using that
  proof (induction ys arbitrary: M)
    case (Cons y ys)
    then obtain a M1 where "M = add_mset a M1" "f a = y" "image_mset f M1 = mset ys"
      by (metis msed_map_invR mset.simps(2))
    with Cons.IH [of M1] show ?case by (metis list.simps(9) mset.simps(2))
  qed simp
  moreover have "mset ys = image_mset (\<lambda>i. xs ! i) (mset [0..<length xs])"
    using assms by (metis map_nth mset_map)
  ultimately obtain p where p: "mset p = mset [0..<length xs]" "ys = map (\<lambda>i. xs ! i) p" by blast
  from p(1) have "sort p = [0..<length xs]"
    by (metis properties_for_sort sorted_upt)
  with p(2) show ?thesis by (auto simp: permute_def)
qed

lemma parallelLoop_concat:
  "\<exists>yss. same_stages xss yss \<and> parallelLoop ord xss errors w = runStage (concat yss) errors w"
proof (induction xss arbitrary: errors w)
  case (Cons xs xss)
  let ?ys = "permute (ord w (length xs)) xs"
  obtain r w' where stage: "runStage ?ys errors w = (r, w')" by fastforce
  show ?case
  proof (cases r)
    case (Ok errs)
    from Cons.IH [of errs w'] obtain yss where
      yss: "same_stages xss yss" "parallelLoop ord xss errs w' = runStage (concat yss) errs w'" by blast
    then show ?thesis using stage Ok
      by (intro exI [of _ "?ys # yss"]) (simp add: same_stages_def runStage_append bindr_def)
  next
    case (Err e)
    then show ?thesis using stage
      by (intro exI [of _ "?ys # xss"]) (simp add: same_stages_def list_all2_refl runStage_append bindr_def)
  next
    case (Panic p)
    then show ?thesis using stage
      by (intro exI [of _ "?ys # xss"]) (simp add: same_stages_def list_all2_refl runStage_append bindr_def)
  qed
qed (auto simp: same_stages_def)

text \<open>
  What a stage adds to a history \<open>h\<close> when each executable adds its own label or nothing.
\<close>

lemma runStage_history:
  assumes "runStage (map f js) es w = (r, w')"
    and "\<And>j w r w'. j \<in> set js \<Longrightarrow> f j w = (r, w') \<Longrightarrow>
      (\<forall>p. r \<noteq> Panic p) \<and> (h w' = h w \<or> h w' = h w @ ev j) \<and> (r = Ok () \<longrightarrow> h w' = h w @ ev j)"
  shows "\<exists>errs hs. r = Ok (es @ errs) \<and> h w' = h w @ concat hs \<and>
    list_all2 (\<lambda>j x. x = ev j \<or> x = []) js hs \<and> (errs = [] \<longrightarrow> hs = map ev js)"
  using assms
proof (induction js arbitrary: es w)
  case Nil
  then show ?case by auto
next
  case (Cons j js)
  obtain r1 w1 where step: "f j w = (r1, w1)" by fastforce
  have j: "(\<forall>p. r1 \<noteq> Panic p) \<and> (h w1 = h w \<or> h w1 = h w @ ev j) \<and> (r1 = Ok () \<longrightarrow> h w1 = h w @ ev j)"
    by (rule Cons.prems(2) [OF _ step]) simp
  define es1 where "es1 = es @ (case r1 of Err e \<Rightarrow> [e] | _ \<Rightarrow> [])"
  from Cons.prems(1) step j have "runStage (map f js) es1 w1 = (r, w')"
    by (cases r1) (auto simp: es1_def)
  from Cons.IH [OF this Cons.prems(2)] obtain errs hs where rest:
    "r = Ok (es1 @ errs)" "h w' = h w1 @ concat hs" "list_all2 (\<lambda>j x. x = ev j \<or> x = []) js hs"
    "errs = [] \<longrightarrow> hs = map ev js" by auto
  define x where "x = (if h w1 = h w @ ev j then ev j else [])"
  have "h w1 = h w @ x" using j by (auto simp: x_def)
  moreover have "x = ev j \<or> x = []" by (simp add: x_def)
  moreover have "(case r1 of Err e \<Rightarrow> [e] | _ \<Rightarrow> []) = [] \<Longrightarrow> x = ev j"
    using j by (cases r1) (simp_all add: x_def)
  ultimately show ?case using rest
    by (intro exI [of _ "(case r1 of Err e \<Rightarrow> [e] | _ \<Rightarrow> []) @ errs"] exI [of _ "x # hs"])
      (simp add: es1_def)
qed

lemma runStage_errors:
  "runStage xs es w = (Ok errs, w') \<Longrightarrow> e \<in> set errs \<Longrightarrow> e \<in> set es \<or> (\<exists>x \<in> set xs. \<exists>w. fst (x w) = Err e)"
proof (induction xs arbitrary: es w)
  case (Cons x xs)
  obtain r1 w1 where x: "x w = (r1, w1)" by fastforce
  show ?case
  proof (cases r1)
    case (Ok u)
    with Cons x show ?thesis by auto
  next
    case (Err e1)
    with x have e1: "fst (x w) = Err e1" by simp
    from Err x Cons.prems(1) have "runStage xs (es @ [e1]) w1 = (Ok errs, w')" by simp
    from Cons.IH [OF this Cons.prems(2)] consider "e \<in> set es" | "e = e1" | "\<exists>x \<in> set xs. \<exists>w. fst (x w) = Err e"
      by auto
    then show ?thesis by cases (use e1 in auto)
  qed (use Cons.prems x in simp)
qed simp

section \<open>The interface\<close>

locale executor =
  fixes run :: "'w executable list list \<Rightarrow> 'w \<Rightarrow> goerror list result \<times> 'w"
  assumes run_stages: "\<exists>yss. same_stages xss yss \<and> run xss w = runStage (concat yss) [] w"
begin

lemma run_no_executables: "run [[]] w = (Ok [], w)"
  using run_stages [of "[[]]" w] by (auto simp: same_stages_def list_all2_Cons1)

lemma run_labelled:
  "\<exists>kss. same_stages jss kss \<and> run (map (map f) jss) w = runStage (map f (concat kss)) [] w"
  using run_stages [of "map (map f) jss" w] same_stages_map [of f jss] by (auto simp: map_concat)

text \<open>The history of a run: the labels, stage by stage, each at most once.\<close>

lemma run_history:
  assumes "run (map (map f) jss) w = (r, w')"
    and "\<And>j w r w'. j \<in> set (concat jss) \<Longrightarrow> f j w = (r, w') \<Longrightarrow>
      (\<forall>p. r \<noteq> Panic p) \<and> (h w' = h w \<or> h w' = h w @ ev j) \<and> (r = Ok () \<longrightarrow> h w' = h w @ ev j)"
  shows "\<exists>kss errs hs. same_stages jss kss \<and> r = Ok errs \<and> h w' = h w @ concat hs \<and>
    list_all2 (\<lambda>j x. x = ev j \<or> x = []) (concat kss) hs \<and> (errs = [] \<longrightarrow> hs = map ev (concat kss))"
proof -
  obtain kss where kss: "same_stages jss kss" "runStage (map f (concat kss)) [] w = (r, w')"
    using run_labelled [of jss f w] assms(1) by auto
  have "set (concat kss) = set (concat jss)"
    using same_stages_concat [OF kss(1)] by (metis set_mset_mset)
  with runStage_history [OF kss(2), of h ev] assms(2) kss(1) show ?thesis by fastforce
qed

end

interpretation serial_executor: executor "Executor_Run ord Serial"
proof
  fix xss w
  have "Executor_Run ord Serial xss w = runStage (concat xss) [] w"
    by (simp add: SerialExecutor_Run_def serialLoop_concat)
  then show "\<exists>yss. same_stages xss yss \<and> Executor_Run ord Serial xss w = runStage (concat yss) [] w"
    using same_stages_refl by blast
qed

interpretation parallel_executor: executor "Executor_Run ord (Parallel p)"
proof
  fix xss w
  show "\<exists>yss. same_stages xss yss \<and> Executor_Run ord (Parallel p) xss w = runStage (concat yss) [] w"
    using parallelLoop_concat [of xss ord "[]" w] by (simp add: ParallelExecutor_Run_def)
qed

lemma any_executor: "executor (Executor_Run ord e)"
  by (cases e) (simp_all add: serial_executor.executor_axioms parallel_executor.executor_axioms)

section \<open>Correctness of the pool\<close>

definition errors_of :: "unit result list \<Rightarrow> goerror list" where
  "errors_of rs = concat (map (\<lambda>r. case r of Err e \<Rightarrow> [e] | _ \<Rightarrow> []) rs)"

definition pool_inv :: "nat \<Rightarrow> 'w executable list \<Rightarrow> 'w \<Rightarrow> 'w pool \<Rightarrow> bool" where
  "pool_inv cap xs w s \<longleftrightarrow>
     guard_tokens s \<le> cap \<and>
     mset (todo s) + mset (running s) + mset (finished s) = mset xs \<and>
     length (chan s) + received s = length (finished s) \<and>
     runStage (finished s) [] w = (Ok (pool_errors s @ errors_of (chan s)), pool_state s)"

lemma runStage_snoc:
  assumes "runStage xs es w = (Ok errs, w1)" "x w1 = (r, w2)" "\<not> is_panic r"
  shows "runStage (xs @ [x]) es w = (Ok (errs @ (case r of Err e \<Rightarrow> [e] | _ \<Rightarrow> [])), w2)"
  using assms by (cases r) (auto simp: runStage_append bindr_def)

lemma pool_step_inv:
  assumes "pool_step cap n s t" "pool_inv cap xs w s"
  shows "pool_inv cap xs w t"
  using assms
proof (induction rule: pool_step.induct)
  case (launch s x xs')
  then show ?case by (auto simp: pool_inv_def guard_tokens_def)
next
  case (finish s as x bs r w')
  from finish have "runStage (finished s @ [x]) [] w =
      (Ok ((pool_errors s @ errors_of (chan s)) @ (case r of Err e \<Rightarrow> [e] | _ \<Rightarrow> [])), w')"
    by (intro runStage_snoc) (auto simp: pool_inv_def)
  with finish show ?case
    by (auto simp: pool_inv_def guard_tokens_def errors_of_def)
next
  case (release s k)
  then show ?case by (auto simp: pool_inv_def guard_tokens_def)
next
  case (receive s r rs)
  then show ?case by (auto simp: pool_inv_def guard_tokens_def errors_of_def)
qed

lemma pool_reach_inv: "pool_reach cap xs w s \<Longrightarrow> pool_inv cap xs w s"
proof (induction rule: pool_reach.induct)
  case pool_start
  then show ?case by (simp add: pool_inv_def pool_init_def guard_tokens_def errors_of_def)
next
  case (pool_next s t)
  then show ?case by (blast intro: pool_step_inv)
qed

lemma pool_inv_sizes:
  assumes "pool_inv cap xs w s"
  shows "length (todo s) + length (running s) + length (finished s) = length xs"
proof -
  have "size (mset (todo s) + mset (running s) + mset (finished s)) = size (mset xs)"
    using assms by (simp only: pool_inv_def)
  then show ?thesis by simp
qed

lemma pool_progress:
  assumes inv: "pool_inv cap xs w s" and cap: "0 < cap" and busy: "\<not> pool_done (length xs) s"
    and quiet: "\<forall>x \<in> set xs. \<forall>w. \<not> is_panic (fst (x w))"
  shows "\<exists>t. pool_step cap (length xs) s t"
proof -
  note sizes = pool_inv_sizes [OF inv]
  from inv have len: "length (chan s) + received s = length (finished s)" by (simp add: pool_inv_def)
  consider x bs where "running s = [] @ x # bs" | k where "running s = []" "releasing s = Suc k"
    | x ys where "running s = []" "releasing s = 0" "todo s = x # ys"
    | "running s = []" "todo s = []"
    by (metis append_Nil list.exhaust not0_implies_Suc)
  then show ?thesis
  proof cases
    case (1 x bs)
    have "mset (todo s) + mset (running s) + mset (finished s) = mset xs"
      using inv by (simp add: pool_inv_def)
    with 1 have "x \<in># mset xs" by (metis append_Nil mset.simps(2) union_iff union_single_eq_member)
    with quiet have "\<not> is_panic (fst (x (pool_state s)))" by simp
    moreover have "length (chan s) < length xs" using sizes len 1 by simp
    ultimately show ?thesis using pool_step.finish [OF 1 prod.collapse [symmetric]] by blast
  next
    case (2 k)
    then show ?thesis using pool_step.release by blast
  next
    case (3 x ys)
    then have "guard_tokens s < cap" using cap by (simp add: guard_tokens_def)
    with 3(3) show ?thesis using pool_step.launch by blast
  next
    case 4
    with busy len sizes obtain r rs where "chan s = r # rs" "received s < length xs"
      by (cases "chan s") (auto simp: pool_done_def)
    with 4 show ?thesis using pool_step.receive by blast
  qed
qed

definition pool_work :: "'w pool \<Rightarrow> nat" where
  "pool_work s = 4 * length (todo s) + 3 * length (running s) + releasing s + length (chan s)"

lemma pool_step_work: "pool_step cap n s t \<Longrightarrow> pool_work t < pool_work s"
  by (induction rule: pool_step.induct) (auto simp: pool_work_def)

lemma pool_done_result:
  assumes "pool_inv cap xs w s" "pool_done (length xs) s"
  shows "mset (finished s) = mset xs \<and> runStage (finished s) [] w = (Ok (pool_errors s), pool_state s)"
proof -
  from assms have todo: "todo s = []" and len: "length (chan s) + length xs = length (finished s)"
    by (simp_all add: pool_inv_def pool_done_def)
  with pool_inv_sizes [OF assms(1)] have
    "length (running s) \<le> 0 \<and> length (chan s) \<le> 0" unfolding todo list.size by linarith
  then have "running s = []" "chan s = []" by simp_all
  with todo assms(1) show ?thesis by (auto simp: pool_inv_def errors_of_def)
qed

section \<open>Properties\<close>

text \<open>A pool that has launched everything and received every message.\<close>

lemma sample_pool:
  fixes w :: int
  defines "x \<equiv> \<lambda>w. (Err (ErrorString ''no''), w + 1)"
  defines "s0 \<equiv> pool_init [x] w"
  defines "s1 \<equiv> s0\<lparr>todo := [], running := [x]\<rparr>"
  defines "s2 \<equiv> s1\<lparr>running := [], releasing := 1, chan := [Err (ErrorString ''no'')], pool_state := w + 1,
    finished := [x]\<rparr>"
  defines "s3 \<equiv> s2\<lparr>chan := [], received := 1, pool_errors := [ErrorString ''no'']\<rparr>"
  shows "pool_reach 10 [x] w s3" "pool_done 1 s3" "guard_tokens s3 = 1" "pool_reach 10 [x] w s1"
    "\<not> pool_done 1 s1"
proof -
  have "pool_step 10 1 s0 s1"
    using launch [of s0 x "[]" 10 1] by (simp add: s0_def s1_def pool_init_def guard_tokens_def)
  moreover have "pool_step 10 1 s1 s2"
    using finish [of s1 "[]" x "[]" "Err (ErrorString ''no'')" "w + 1" 1 10]
    by (simp add: s0_def s1_def s2_def pool_init_def x_def)
  moreover have "pool_step 10 1 s2 s3"
    using receive [of s2 1 "Err (ErrorString ''no'')" "[]" 10]
    by (simp add: s0_def s1_def s2_def s3_def pool_init_def)
  moreover have "pool_reach 10 [x] w s0" unfolding s0_def by (rule pool_start)
  ultimately show "pool_reach 10 [x] w s3" "pool_reach 10 [x] w s1"
    using pool_next [of 10 "[x]" w] by (metis One_nat_def length_Cons list.size(3))+
qed (simp_all add: s0_def s1_def s2_def s3_def pool_done_def guard_tokens_def pool_init_def)

text \<open>C20: however the goroutines of one stage interleave, no more than maxInFlight executables run at
  the same time, and with the limit NewParallelExecutor sets never more than ten.\<close>

theorem pool_in_flight:
  assumes "pool_reach (nat (maxInFlight NewParallelExecutor)) xs w s"
  shows "length (running s) \<le> 10 \<and> guard_tokens s \<le> 10"
  using pool_reach_inv [OF assms] by (simp add: pool_inv_def guard_tokens_def NewParallelExecutor_def)

theorem pool_in_flight_witness:
  "\<exists>s. pool_reach (nat (maxInFlight NewParallelExecutor)) [\<lambda>w::int. (Err (ErrorString ''no''), w + 1)] 0 s \<and>
     guard_tokens s = 1 \<and> guard_tokens s \<le> 10"
  using sample_pool(1,3) [of 0] pool_in_flight [of "[\<lambda>w::int. (Err (ErrorString ''no''), w + 1)]" 0]
  unfolding NewParallelExecutor_def by fastforce

text \<open>C21: a stage of the parallel executor never deadlocks and always ends: as long as the receiving
  loop has not taken one message per executable some step is possible, and every step strictly
  decreases a natural number.\<close>

theorem pool_terminates:
  assumes "pool_reach cap xs w s" "0 < cap" "\<forall>x \<in> set xs. \<forall>w. \<not> is_panic (fst (x w))"
  shows "(pool_done (length xs) s \<or> (\<exists>t. pool_step cap (length xs) s t)) \<and>
    (\<forall>t. pool_step cap (length xs) s t \<longrightarrow> pool_work t < pool_work s)"
  using pool_progress [OF pool_reach_inv [OF assms(1)] assms(2)] assms(3) pool_step_work by blast

theorem pool_terminates_witness:
  "\<exists>t. pool_step 10 1 (pool_init [\<lambda>w::int. (Err (ErrorString ''no''), w + 1)] 0) t"
  using pool_terminates [OF pool_start, of 10 "[\<lambda>w::int. (Err (ErrorString ''no''), w + 1)]" 0]
  by (simp add: pool_done_def pool_init_def)

text \<open>C22: the goroutine pool refines the sequential reading of a stage: every finished run of the
  pool has the errors and the final state of running the same executables, each exactly once, one
  after the other in some order.\<close>

theorem pool_refines_run:
  assumes "pool_reach cap xs w s" "pool_done (length xs) s"
  shows "\<exists>p. ParallelExecutor_Run (\<lambda>_ _. p) [xs] w = (Ok (pool_errors s), pool_state s)"
proof -
  note result = pool_done_result [OF pool_reach_inv [OF assms(1)] assms(2)]
  then obtain p where "finished s = permute p xs" using mset_eq_permute by blast
  with result have "ParallelExecutor_Run (\<lambda>_ _. p) [xs] w = (Ok (pool_errors s), pool_state s)"
    by (simp add: ParallelExecutor_Run_def bindr_def)
  then show ?thesis by blast
qed

theorem pool_refines_run_witness:
  "\<exists>p. ParallelExecutor_Run (\<lambda>_ _. p) [[\<lambda>w::int. (Err (ErrorString ''no''), w + 1)]] 0 =
     (Ok [ErrorString ''no''], 1)"
  using pool_refines_run [OF sample_pool(1) [of 0]] sample_pool(2) [of 0] by (simp add: pool_init_def)

end
