(* ===== verification/Readwriter.thy ===== *)
theory Readwriter
  imports Ssh
begin

text \<open>
  The writers and readers of \<^verbatim>\<open>readwriter/log_percentage.go\<close> and
  \<^verbatim>\<open>readwriter/pausable_writer.go\<close>. The field \<open>logged\<close> collects the arguments of the
  logger's \<^verbatim>\<open>Info\<close> calls; nothing reads it. Go's \<^verbatim>\<open>int\<close> arithmetic wraps at 64 bits,
  its division truncates and panics on zero.
\<close>

section \<open>Percentages\<close>

record LogPercentage =
  totalSize :: int
  lastLogPercentage :: int
  percentageIncrement :: int
  logged :: "int list"

record LogPercentageWriter =
  bytesWritten :: int
  lw_LogPercentage :: LogPercentage

record LogPercentageReader =
  bytesRead :: int
  lr_LogPercentage :: LogPercentage

definition new_LogPercentage :: "int \<Rightarrow> LogPercentage" where
  "new_LogPercentage whole =
     \<lparr>totalSize = whole, lastLogPercentage = 0, percentageIncrement = 5, logged = []\<rparr>"

definition NewLogPercentageWriter :: "int \<Rightarrow> LogPercentageWriter" where
  "NewLogPercentageWriter whole = \<lparr>bytesWritten = 0, lw_LogPercentage = new_LogPercentage whole\<rparr>"

definition NewLogPercentageReader :: "int \<Rightarrow> LogPercentageReader" where
  "NewLogPercentageReader whole = \<lparr>bytesRead = 0, lr_LogPercentage = new_LogPercentage whole\<rparr>"

definition go_div :: "int \<Rightarrow> int \<Rightarrow> int result" where
  "go_div a b =
     (if b = 0 then Panic ''runtime error: integer divide by zero''
      else Ok (wrap64 (sgn a * sgn b * (\<bar>a\<bar> div \<bar>b\<bar>))))"

definition logPercentage :: "LogPercentage \<Rightarrow> int \<Rightarrow> int \<Rightarrow> LogPercentage result" where
  "logPercentage l n b =
     (case go_div (wrap64 (100 * b)) (totalSize l) of
        Panic p \<Rightarrow> Panic p
      | Err e \<Rightarrow> Err e
      | Ok percentageWrittenSoFar \<Rightarrow>
          if b > totalSize l then Ok (l\<lparr>logged := logged l @ [100]\<rparr>)
          else if percentageWrittenSoFar \<ge> wrap64 (lastLogPercentage l + percentageIncrement l)
          then Ok (l\<lparr>lastLogPercentage := percentageWrittenSoFar, logged := logged l @ [percentageWrittenSoFar]\<rparr>)
          else Ok l)"

definition LogPercentageWriter_Write ::
  "(string \<Rightarrow> 'w \<Rightarrow> int result \<times> 'w) \<Rightarrow> string \<Rightarrow> LogPercentageWriter \<times> 'w \<Rightarrow>
     int result \<times> (LogPercentageWriter \<times> 'w)" where
  "LogPercentageWriter_Write Writer b = (\<lambda>(lw, w).
     (case Writer b w of
        (Err e, w') \<Rightarrow> (Err e, lw, w')
      | (Panic p, w') \<Rightarrow> (Panic p, lw, w')
      | (Ok n, w') \<Rightarrow>
          (let written = wrap64 (bytesWritten lw + n); lw1 = lw\<lparr>bytesWritten := written\<rparr>
           in case logPercentage (lw_LogPercentage lw1) n written of
                Ok l \<Rightarrow> (Ok n, lw1\<lparr>lw_LogPercentage := l\<rparr>, w')
              | Err e \<Rightarrow> (Err e, lw1, w')
              | Panic p \<Rightarrow> (Panic p, lw1, w'))))"

text \<open>
  A read hands over the bytes and an optional error. When the wrapped reader returns an error the
  bytes it read with it are not passed on.
\<close>

definition LogPercentageReader_Read ::
  "('w \<Rightarrow> (string \<times> goerror option) \<times> 'w) \<Rightarrow> LogPercentageReader \<times> 'w \<Rightarrow>
     (string \<times> goerror option) result \<times> (LogPercentageReader \<times> 'w)" where
  "LogPercentageReader_Read Reader = (\<lambda>(lr, w).
     (case Reader w of
        ((bs, Some e), w') \<Rightarrow> (Ok ('''', Some e), lr, w')
      | ((bs, None), w') \<Rightarrow>
          (let n = int (length bs); whole = wrap64 (bytesRead lr + n); lr1 = lr\<lparr>bytesRead := whole\<rparr>
           in case logPercentage (lr_LogPercentage lr1) n whole of
                Ok l \<Rightarrow> (Ok (bs, None), lr1\<lparr>lr_LogPercentage := l\<rparr>, w')
              | Err e \<Rightarrow> (Err e, lr1, w')
              | Panic p \<Rightarrow> (Panic p, lr1, w'))))"

definition io_EOF :: goerror where
  "io_EOF = ErrorString ''EOF''"

text \<open>An open file hands over its content in some chunks, then the end of file.\<close>

fun file_Read :: "string list \<Rightarrow> (string \<times> goerror option) \<times> string list" where
  "file_Read [] = (('''', Some io_EOF), [])"
| "file_Read (c # cs) = ((c, None), cs)"

text \<open>The consumer of a reader: it reads until the first error, which at the end of file is no error.\<close>

fun consume :: "nat \<Rightarrow> LogPercentageReader \<Rightarrow> string list \<Rightarrow> string \<Rightarrow> string result" where
  "consume 0 lr cs acc = Err (ErrorString ''fuel'')"
| "consume (Suc k) lr cs acc =
     (case LogPercentageReader_Read file_Read (lr, cs) of
        (Panic p, _) \<Rightarrow> Panic p
      | (Err e, _) \<Rightarrow> Err e
      | (Ok (bs, Some e), _) \<Rightarrow> if e = io_EOF then Ok acc else Err e
      | (Ok (bs, None), (lr', cs')) \<Rightarrow> consume k lr' cs' (acc @ bs))"

section \<open>The pausable writer\<close>

record PausableWriter =
  paused :: bool
  bufferedOutput :: string

definition NewPausableWriter :: PausableWriter where
  "NewPausableWriter = \<lparr>paused = False, bufferedOutput = ''''\<rparr>"

definition PausableWriter_Write ::
  "(string \<Rightarrow> 'w \<Rightarrow> int result \<times> 'w) \<Rightarrow> string \<Rightarrow> PausableWriter \<times> 'w \<Rightarrow> int result \<times> (PausableWriter \<times> 'w)" where
  "PausableWriter_Write out p = (\<lambda>(pw, w).
     if paused pw then (Ok 0, pw\<lparr>bufferedOutput := bufferedOutput pw @ p\<rparr>, w)
     else (let (r, w') = out p w in (r, pw, w')))"

definition PausableWriter_Pause :: "PausableWriter \<Rightarrow> PausableWriter" where
  "PausableWriter_Pause pw = pw\<lparr>paused := True\<rparr>"

definition PausableWriter_Resume ::
  "(string \<Rightarrow> 'w \<Rightarrow> int result \<times> 'w) \<Rightarrow> PausableWriter \<times> 'w \<Rightarrow> int result \<times> (PausableWriter \<times> 'w)" where
  "PausableWriter_Resume out = (\<lambda>(pw, w).
     (let (r, w') = out (bufferedOutput pw) w
      in (r, pw\<lparr>paused := False, bufferedOutput := ''''\<rparr>, w')))"

section \<open>Lemmas\<close>

lemma wrap64_id: "- (2 ^ 63) \<le> i \<Longrightarrow> i < 2 ^ 63 \<Longrightarrow> wrap64 i = i"
  unfolding wrap64_def by (rule signed_take_bit_int_eq_self) auto

lemma wrap64_range: "- (2 ^ 63) \<le> wrap64 i \<and> wrap64 i < 2 ^ 63"
  using signed_take_bit_int_greater_eq_minus_exp [of 63 i] signed_take_bit_int_less_exp [of 63 i]
  by (simp add: wrap64_def)

text \<open>The announced size is positive, and every line logged is a percentage from 5 to 100.\<close>

definition log_ok :: "LogPercentage \<Rightarrow> bool" where
  "log_ok l \<longleftrightarrow> 0 < totalSize l \<and> percentageIncrement l = 5 \<and>
     0 \<le> lastLogPercentage l \<and> lastLogPercentage l \<le> 100 \<and>
     (\<forall>p \<in> set (logged l). 5 \<le> p \<and> p \<le> 100)"

lemma go_div_pos:
  assumes "0 \<le> a" "0 < b" "a < 2 ^ 63"
  shows "go_div a b = Ok (a div b)"
proof -
  have "a div b \<le> a" using assms(1,2) by (metis div_by_1 int_one_le_iff_zero_less zdiv_mono2 zero_less_one)
  moreover have "0 \<le> a div b" using assms(1,2) by (simp add: pos_imp_zdiv_nonneg_iff)
  ultimately have "wrap64 (a div b) = a div b" using assms(3) by (intro wrap64_id) linarith+
  moreover have "sgn a * sgn b * (\<bar>a\<bar> div \<bar>b\<bar>) = a div b" using assms by (cases "a = 0") auto
  ultimately show ?thesis using assms(2) by (simp add: go_div_def)
qed

lemma logPercentage_ok:
  assumes "log_ok l" "0 \<le> b" "100 * b < 2 ^ 63"
  shows "\<exists>l'. logPercentage l n b = Ok l' \<and> log_ok l' \<and> totalSize l' = totalSize l"
proof -
  have whole: "0 < totalSize l" using assms(1) by (simp add: log_ok_def)
  have div: "go_div (wrap64 (100 * b)) (totalSize l) = Ok (100 * b div totalSize l)"
    using assms(2,3) whole by (simp add: wrap64_id go_div_pos)
  have last: "wrap64 (lastLogPercentage l + 5) = lastLogPercentage l + 5"
    using assms(1) by (intro wrap64_id) (auto simp: log_ok_def)
  have "100 * b div totalSize l \<le> 100" if "b \<le> totalSize l"
  proof -
    have "100 * b div totalSize l \<le> 100 * totalSize l div totalSize l"
      using that whole by (intro zdiv_mono1) auto
    then show ?thesis using whole by simp
  qed
  then show ?thesis using assms(1) whole by (auto simp: logPercentage_def div last log_ok_def)
qed

lemma zero_size_panics: "is_panic (logPercentage (new_LogPercentage 0) n b)"
  by (simp add: logPercentage_def go_div_def new_LogPercentage_def)

lemma file_Read_consume:
  assumes "log_ok (lr_LogPercentage lr)" "0 \<le> bytesRead lr" "length cs < k"
    "100 * (bytesRead lr + int (length (concat cs))) < 2 ^ 63"
  shows "consume k lr cs acc = Ok (acc @ concat cs)"
  using assms
proof (induction k arbitrary: lr cs acc)
  case (Suc k)
  show ?case
  proof (cases cs)
    case Nil
    then show ?thesis by (simp add: LogPercentageReader_Read_def io_EOF_def)
  next
    case (Cons c cs')
    define whole where "whole = bytesRead lr + int (length c)"
    have bound: "100 * (whole + int (length (concat cs'))) < 2 ^ 63"
      using Suc.prems(4) Cons by (simp add: whole_def)
    then have "0 \<le> whole" "100 * whole < 2 ^ 63" using Suc.prems(2) by (auto simp: whole_def)
    then have wrap: "wrap64 (bytesRead lr + int (length c)) = whole" by (simp add: whole_def wrap64_id)
    from logPercentage_ok [OF Suc.prems(1) \<open>0 \<le> whole\<close> \<open>100 * whole < 2 ^ 63\<close>] obtain l
      where l: "logPercentage (lr_LogPercentage lr) (int (length c)) whole = Ok l" "log_ok l" by blast
    with Suc.IH [of "lr\<lparr>bytesRead := whole, lr_LogPercentage := l\<rparr>" cs' "acc @ c"] Suc.prems(3) \<open>0 \<le> whole\<close> bound
    show ?thesis by (simp add: Cons LogPercentageReader_Read_def wrap)
  qed
qed simp

text \<open>A sequence of calls on a pausable writer, and what the writer behind it and the buffer hold.\<close>

datatype pw_op = PwWrite string | PwPause | PwResume

definition append_out :: "string \<Rightarrow> string \<Rightarrow> int result \<times> string" where
  "append_out p out = (Ok (int (length p)), out @ p)"

fun pw_run :: "pw_op list \<Rightarrow> PausableWriter \<times> string \<Rightarrow> PausableWriter \<times> string" where
  "pw_run [] \<sigma> = \<sigma>"
| "pw_run (PwWrite p # ops) \<sigma> = pw_run ops (snd (PausableWriter_Write append_out p \<sigma>))"
| "pw_run (PwPause # ops) \<sigma> = pw_run ops (PausableWriter_Pause (fst \<sigma>), snd \<sigma>)"
| "pw_run (PwResume # ops) \<sigma> = pw_run ops (snd (PausableWriter_Resume append_out \<sigma>))"

fun pw_text :: "pw_op list \<Rightarrow> string" where
  "pw_text [] = ''''"
| "pw_text (PwWrite p # ops) = p @ pw_text ops"
| "pw_text (_ # ops) = pw_text ops"

lemma pw_run_text:
  "paused pw \<or> bufferedOutput pw = '''' \<Longrightarrow> pw_run ops (pw, out) = (pw', out') \<Longrightarrow>
     out' @ bufferedOutput pw' = out @ bufferedOutput pw @ pw_text ops \<and> (paused pw' \<or> bufferedOutput pw' = '''')"
proof (induction ops arbitrary: pw out)
  case (Cons op ops)
  show ?case
  proof (cases op)
    case (PwWrite p)
    show ?thesis
      using Cons.prems Cons.IH [of "pw\<lparr>bufferedOutput := bufferedOutput pw @ p\<rparr>" out] Cons.IH [of pw "out @ p"]
      by (cases "paused pw") (simp_all add: PwWrite PausableWriter_Write_def append_out_def)
  next
    case PwPause
    show ?thesis
      using Cons.prems Cons.IH [of "pw\<lparr>paused := True\<rparr>" out] by (simp add: PwPause PausableWriter_Pause_def)
  next
    case PwResume
    show ?thesis
      using Cons.prems Cons.IH [of "pw\<lparr>paused := False, bufferedOutput := ''''\<rparr>" "out @ bufferedOutput pw"]
      by (simp add: PwResume PausableWriter_Resume_def append_out_def)
  qed
qed simp

section \<open>Properties\<close>

text \<open>Reading a file through the percentage reader hands over its bytes unchanged, in whatever
  chunks the file is read, and never panics, as long as the announced size is positive and a hundred
  times the file's length fits a 64-bit int.\<close>

theorem percentage_reader_transparent:
  assumes "0 < announced" "100 * int (length (concat cs)) < 2 ^ 63"
  shows "consume (Suc (length cs)) (NewLogPercentageReader announced) cs '''' = Ok (concat cs)"
  using file_Read_consume [of "NewLogPercentageReader announced" cs "Suc (length cs)" "''''"] assms
  by (simp add: NewLogPercentageReader_def new_LogPercentage_def log_ok_def)

theorem percentage_reader_transparent_witness:
  "consume 3 (NewLogPercentageReader 4) [''ab'', ''cd''] '''' = Ok ''abcd''"
  using percentage_reader_transparent [of 4 "[''ab'', ''cd'']"] by (simp add: numeral_3_eq_3)



text \<open>However writes, pauses and resumes are mixed, what has reached the terminal followed by what
  is buffered is exactly what was written, in order, and after a resume nothing is held back.\<close>

theorem pausable_writer_order:
  "(case pw_run ops (NewPausableWriter, '''') of (pw, out) \<Rightarrow> out @ bufferedOutput pw = pw_text ops) \<and>
   snd (pw_run (ops @ [PwResume]) (NewPausableWriter, '''')) = pw_text ops"
proof -
  have app: "pw_run (xs @ ys) \<sigma> = pw_run ys (pw_run xs \<sigma>)" for xs ys \<sigma>
    by (induction xs \<sigma> rule: pw_run.induct) auto
  obtain pw out where run: "pw_run ops (NewPausableWriter, '''') = (pw, out)" by fastforce
  with pw_run_text [of NewPausableWriter ops "''''" pw out] show ?thesis
    by (auto simp: NewPausableWriter_def app PausableWriter_Resume_def append_out_def)
qed

end
