(* ===== verification/Instances.thy ===== *)
theory Instances
  imports Director Executor Readwriter
begin

text \<open>
  The instances of a deployment and the artifacts on them: \<^verbatim>\<open>instance/artifact.go\<close>,
  \<^verbatim>\<open>instance/deployed_instance.go\<close>, \<^verbatim>\<open>bosh/deployed_instance.go\<close>,
  \<^verbatim>\<open>standalone/deployed_instance.go\<close> and the list operations of
  \<^verbatim>\<open>orchestrator/instance.go\<close>.

  The two kinds of instances share a struct by embedding; \<open>inst_kind\<close> says which one it is.
  Instances are used through pointers and have one mutable field, \<^verbatim>\<open>artifactDirCreated\<close>,
  which lives in the world under the instance's address \<open>inst_addr\<close>.
\<close>

section \<open>Instances\<close>

datatype instanceKind = BoshInstance string | StandaloneInstance

record Instance =
  inst_Index :: string
  inst_ID :: string
  inst_Name :: string
  inst_addr :: nat
  inst_jobs :: "Job list"
  inst_remoteRunner :: Connection
  inst_kind :: instanceKind

text \<open>Allocation: the flag of the new instance is written at the next free address.\<close>

definition NewDeployedInstance ::
  "string \<Rightarrow> string \<Rightarrow> string \<Rightarrow> bool \<Rightarrow> Connection \<Rightarrow> Job list \<Rightarrow> instanceKind \<Rightarrow> 'r world \<Rightarrow> Instance \<times> 'r world" where
  "NewDeployedInstance instanceIndex instanceGroupName instanceID dirCreated remoteRunner jobs kind w =
     (\<lparr>inst_Index = instanceIndex, inst_ID = instanceID, inst_Name = instanceGroupName,
       inst_addr = next_instance w, inst_jobs = jobs, inst_remoteRunner = remoteRunner, inst_kind = kind\<rparr>,
      w\<lparr>artifactDirCreated := (artifactDirCreated w)(next_instance w := dirCreated),
        next_instance := Suc (next_instance w)\<rparr>)"

definition NewBoshDeployedInstance ::
  "string \<Rightarrow> string \<Rightarrow> string \<Rightarrow> Connection \<Rightarrow> string \<Rightarrow> bool \<Rightarrow> Job list \<Rightarrow> 'r world \<Rightarrow> Instance \<times> 'r world" where
  "NewBoshDeployedInstance instanceGroupName instanceIndex instanceID remoteRunner dep dirCreated jobs =
     NewDeployedInstance instanceIndex instanceGroupName instanceID dirCreated remoteRunner jobs (BoshInstance dep)"

definition NewStandaloneDeployedInstance ::
  "string \<Rightarrow> Connection \<Rightarrow> Job list \<Rightarrow> bool \<Rightarrow> 'r world \<Rightarrow> Instance \<times> 'r world" where
  "NewStandaloneDeployedInstance instanceGroupName remoteRunner jobs dirCreated =
     NewDeployedInstance ''0'' instanceGroupName ''0'' dirCreated remoteRunner jobs StandaloneInstance"

definition ArtifactDirExists :: "('r, 'x) env_scheme \<Rightarrow> Instance \<Rightarrow> ('r, bool) io" where
  "ArtifactDirExists E i = DirectoryExists E (inst_remoteRunner i) ArtifactDirectory"

definition RemoveArtifactDir :: "('r, 'x) env_scheme \<Rightarrow> Instance \<Rightarrow> ('r, unit) io" where
  "RemoveArtifactDir E i = RemoveDirectory E (inst_remoteRunner i) ArtifactDirectory"

definition Instance_IsBackupable :: "Instance \<Rightarrow> bool" where
  "Instance_IsBackupable i = AnyAreBackupable (inst_jobs i)"

definition Instance_IsRestorable :: "Instance \<Rightarrow> bool" where
  "Instance_IsRestorable i = AnyAreRestorable (inst_jobs i)"

definition Instance_HasMetadataRestoreNames :: "Instance \<Rightarrow> bool" where
  "Instance_HasMetadataRestoreNames i = HasMetadataRestoreNames (inst_jobs i)"

definition ArtifactDirCreated :: "Instance \<Rightarrow> 'r world \<Rightarrow> bool" where
  "ArtifactDirCreated i w = artifactDirCreated w (inst_addr i)"

definition MarkArtifactDirCreated :: "Instance \<Rightarrow> 'r world \<Rightarrow> 'r world" where
  "MarkArtifactDirCreated i w = w\<lparr>artifactDirCreated := (artifactDirCreated w)(inst_addr i := True)\<rparr>"

text \<open>Every loop that runs something on each element and collects the errors is a stage.\<close>

definition collect :: "('r world) executable list \<Rightarrow> ('r, unit) io" where
  "collect xs = bindr (runStage xs []) (\<lambda>errs w. (of_error (ConvertErrors errs), w))"

definition Instance_Backup :: "('r, 'x) env_scheme \<Rightarrow> Instance \<Rightarrow> ('r, unit) io" where
  "Instance_Backup E i =
     bindr (runStage (map (Job_Backup E) (inst_jobs i)) [])
       (\<lambda>backupErrors w.
          (of_error (ConvertErrors backupErrors), if Instance_IsBackupable i then MarkArtifactDirCreated i w else w))"

definition Instance_Restore :: "('r, 'x) env_scheme \<Rightarrow> Instance \<Rightarrow> ('r, unit) io" where
  "Instance_Restore E i = collect (map (Job_Restore E) (inst_jobs i))"

section \<open>Artifacts\<close>

record Artifact =
  isNamed :: bool
  artifactDirectory :: string
  artifact_name :: string
  artifact_instance :: Instance
  artifact_remoteRunner :: Connection

definition NewBackupArtifact :: "Job \<Rightarrow> Instance \<Rightarrow> Connection \<Rightarrow> Artifact" where
  "NewBackupArtifact job inst remoteRunner =
     \<lparr>isNamed = HasNamedBackupArtifact job, artifactDirectory = BackupArtifactDirectory job,
      artifact_name = (if HasNamedBackupArtifact job then BackupArtifactName job else job_name job),
      artifact_instance = inst, artifact_remoteRunner = remoteRunner\<rparr>"

definition NewRestoreArtifact :: "Job \<Rightarrow> Instance \<Rightarrow> Connection \<Rightarrow> Artifact" where
  "NewRestoreArtifact job inst remoteRunner =
     \<lparr>isNamed = HasNamedRestoreArtifact job, artifactDirectory = RestoreArtifactDirectory job,
      artifact_name = (if HasNamedRestoreArtifact job then RestoreArtifactName job else job_name job),
      artifact_instance = inst, artifact_remoteRunner = remoteRunner\<rparr>"

text \<open>An artifact as an identifier.\<close>

definition artifact_id :: "Artifact \<Rightarrow> artifactIdentifier" where
  "artifact_id b =
     \<lparr>ai_name = artifact_name b, ai_instanceName = inst_Name (artifact_instance b),
      ai_instanceIndex = inst_Index (artifact_instance b), ai_instanceID = inst_ID (artifact_instance b),
      ai_hasCustomName = isNamed b\<rparr>"

definition ArtifactsToBackup :: "Instance \<Rightarrow> Artifact list" where
  "ArtifactsToBackup i = map (\<lambda>job. NewBackupArtifact job i (inst_remoteRunner i)) (Backupable (inst_jobs i))"

definition ArtifactsToRestore :: "Instance \<Rightarrow> Artifact list" where
  "ArtifactsToRestore i = map (\<lambda>job. NewRestoreArtifact job i (inst_remoteRunner i)) (Restorable (inst_jobs i))"

text \<open>The message of the wrapped error repeats the error.\<close>

definition StreamFromRemote ::
  "('r, 'x) env_scheme \<Rightarrow> Artifact \<Rightarrow> ('s, 'r) writer \<Rightarrow> 's \<Rightarrow> 'r world \<Rightarrow> unit result \<times> 's \<times> 'r world" where
  "StreamFromRemote E b wr s w =
     (let (res, s', w') = ArchiveAndDownload E (artifact_remoteRunner b) (artifactDirectory b) wr s w
      in (case res of
            Err e \<Rightarrow> Err (WithMessage e (''Error streaming backup from remote instance. Error: '' @ error_message e))
          | r \<Rightarrow> r, s', w'))"

text \<open>The argument is the outcome of reading the given reader to its end, which the SSH library does
  while the remote command runs; a failing reader fails the session.\<close>

definition StreamToRemote :: "('r, 'x) env_scheme \<Rightarrow> Artifact \<Rightarrow> string result \<Rightarrow> ('r, unit) io" where
  "StreamToRemote E b stdin =
     bindr (wrapped ''Creating backup directory on the remote failed''
              (CreateDirectory E (artifact_remoteRunner b) (artifactDirectory b)))
       (\<lambda>_ w. case stdin of
          Ok s \<Rightarrow> ExtractAndUpload E (artifact_remoteRunner b) s (artifactDirectory b) w
        | Err e \<Rightarrow> (Err (WithMessage (WithMessage e ''ssh.Session.Run failed'') ''ssh.StreamStdin failed''),
                   snd (ExtractAndUpload E (artifact_remoteRunner b) '''' (artifactDirectory b) w))
        | Panic p \<Rightarrow> (Panic p, snd (ExtractAndUpload E (artifact_remoteRunner b) '''' (artifactDirectory b) w)))"

definition Artifact_Size :: "('r, 'x) env_scheme \<Rightarrow> Artifact \<Rightarrow> ('r, string) io" where
  "Artifact_Size E b =
     wrapped (''Unable to check size of '' @ artifactDirectory b)
       (SizeOf E (artifact_remoteRunner b) (artifactDirectory b))"

definition Artifact_SizeInBytes :: "('r, 'x) env_scheme \<Rightarrow> Artifact \<Rightarrow> ('r, int) io" where
  "Artifact_SizeInBytes E b =
     wrapped (''Unable to check size of '' @ artifactDirectory b)
       (SizeInBytes E (artifact_remoteRunner b) (artifactDirectory b))"

definition Artifact_Checksum :: "('r, 'x) env_scheme \<Rightarrow> Artifact \<Rightarrow> ('r, BackupChecksum) io" where
  "Artifact_Checksum E b =
     wrapped ''Unable to calculate backup checksum''
       (ChecksumDirectory E (artifact_remoteRunner b) (artifactDirectory b))"

definition Artifact_Delete :: "('r, 'x) env_scheme \<Rightarrow> Artifact \<Rightarrow> ('r, unit) io" where
  "Artifact_Delete E b =
     wrapped (''Unable to delete artifact directory on instance '' @ inst_Name (artifact_instance b) @ ''/'' @
              inst_ID (artifact_instance b))
       (RemoveDirectory E (artifact_remoteRunner b) (artifactDirectory b))"

section \<open>Cleaning up\<close>

definition cleanupSSHConnections :: "('r, 'x) director_env_scheme \<Rightarrow> string \<Rightarrow> Instance \<Rightarrow> ('r, unit) io" where
  "cleanupSSHConnections E dep i =
     Deployment_CleanUpSSH E dep (inst_Name i, inst_ID i) (ConnectedUsername (inst_remoteRunner i))"

definition Bosh_Cleanup :: "('r, 'x) director_env_scheme \<Rightarrow> string \<Rightarrow> Instance \<Rightarrow> ('r, unit) io" where
  "Bosh_Cleanup E dep i w =
     collect ((if ArtifactDirCreated i w then [wrapped ''failed to remove backup artifact'' (RemoveArtifactDir E i)] else []) @
       [wrapped ''failed to cleanup ssh'' (cleanupSSHConnections E dep i)]) w"

definition Bosh_CleanupPrevious :: "('r, 'x) director_env_scheme \<Rightarrow> string \<Rightarrow> Instance \<Rightarrow> ('r, unit) io" where
  "Bosh_CleanupPrevious E dep i =
     collect [wrapped ''failed to remove backup artifact'' (RemoveArtifactDir E i),
       wrapped ''failed to cleanup ssh'' (cleanupSSHConnections E dep i)]"

definition cleanupArtifact :: "('r, 'x) env_scheme \<Rightarrow> Instance \<Rightarrow> ('r, unit) io" where
  "cleanupArtifact E i = wrapped ''Unable to clean up backup artifact'' (RemoveArtifactDir E i)"

definition Standalone_Cleanup :: "('r, 'x) env_scheme \<Rightarrow> Instance \<Rightarrow> ('r, unit) io" where
  "Standalone_Cleanup E i w = (if \<not> ArtifactDirCreated i w then (Ok (), w) else cleanupArtifact E i w)"

definition Standalone_CleanupPrevious :: "('r, 'x) env_scheme \<Rightarrow> Instance \<Rightarrow> ('r, unit) io" where
  "Standalone_CleanupPrevious E i = cleanupArtifact E i"

definition Instance_Cleanup :: "('r, 'x) director_env_scheme \<Rightarrow> Instance \<Rightarrow> ('r, unit) io" where
  "Instance_Cleanup E i =
     (case inst_kind i of BoshInstance dep \<Rightarrow> Bosh_Cleanup E dep i | StandaloneInstance \<Rightarrow> Standalone_Cleanup E i)"

definition Instance_CleanupPrevious :: "('r, 'x) director_env_scheme \<Rightarrow> Instance \<Rightarrow> ('r, unit) io" where
  "Instance_CleanupPrevious E i =
     (case inst_kind i of
        BoshInstance dep \<Rightarrow> Bosh_CleanupPrevious E dep i
      | StandaloneInstance \<Rightarrow> Standalone_CleanupPrevious E i)"

section \<open>Lists of instances\<close>

definition instances_Jobs :: "Instance list \<Rightarrow> Job list" where
  "instances_Jobs is = concat (map inst_jobs is)"

definition AllBackupable :: "Instance list \<Rightarrow> Instance list" where
  "AllBackupable is = filter Instance_IsBackupable is"

definition AllRestoreable :: "Instance list \<Rightarrow> Instance list" where
  "AllRestoreable is = filter Instance_IsRestorable is"

definition AllBackupableOrRestorable :: "Instance list \<Rightarrow> Instance list" where
  "AllBackupableOrRestorable is = filter (\<lambda>i. Instance_IsBackupable i \<or> Instance_IsRestorable i) is"

definition instances_Cleanup :: "('r, 'x) director_env_scheme \<Rightarrow> Instance list \<Rightarrow> ('r, unit) io" where
  "instances_Cleanup E is = collect (map (Instance_Cleanup E) is)"

definition instances_CleanupPrevious :: "('r, 'x) director_env_scheme \<Rightarrow> Instance list \<Rightarrow> ('r, unit) io" where
  "instances_CleanupPrevious E is = collect (map (Instance_CleanupPrevious E) is)"

text \<open>These two loops stop at the first error.\<close>

fun instances_Backup :: "('r, 'x) env_scheme \<Rightarrow> Instance list \<Rightarrow> ('r, unit) io" where
  "instances_Backup E [] w = (Ok (), w)"
| "instances_Backup E (i # is) w = bindr (Instance_Backup E i) (\<lambda>_. instances_Backup E is) w"

fun instances_Restore :: "('r, 'x) env_scheme \<Rightarrow> Instance list \<Rightarrow> ('r, unit) io" where
  "instances_Restore E [] w = (Ok (), w)"
| "instances_Restore E (i # is) w = bindr (Instance_Restore E i) (\<lambda>_. instances_Restore E is) w"

section \<open>Lemmas\<close>

text \<open>A stage whose executables keep an invariant and add to the history what \<open>Q\<close> allows.\<close>

lemma runStage_trace:
  assumes "runStage (map f js) es w = (r, w')" "I w"
    and step: "\<And>j w r w'. j \<in> set js \<Longrightarrow> I w \<Longrightarrow> f j w = (r, w') \<Longrightarrow>
      (\<forall>p. r \<noteq> Panic p) \<and> I w' \<and> (\<exists>h. events w' = events w @ h \<and> Q j h r)"
  shows "\<exists>errs hs. r = Ok (es @ errs) \<and> I w' \<and> events w' = events w @ concat hs \<and>
    list_all2 (\<lambda>j h. \<exists>r. Q j h r) js hs \<and> (errs = [] \<longrightarrow> list_all2 (\<lambda>j h. Q j h (Ok ())) js hs)"
  using assms
proof (induction js arbitrary: es w)
  case Nil
  then show ?case by auto
next
  case (Cons j js)
  obtain r1 w1 where run: "f j w = (r1, w1)" by fastforce
  from Cons.prems(3) [OF _ Cons.prems(2) run] obtain h where
    j: "\<forall>p. r1 \<noteq> Panic p" "I w1" "events w1 = events w @ h" "Q j h r1" by auto
  define new where "new = (case r1 of Err e \<Rightarrow> [e] | _ \<Rightarrow> [])"
  from Cons.prems(1) run j(1) have "runStage (map f js) (es @ new) w1 = (r, w')"
    by (cases r1) (auto simp: new_def)
  then have "\<exists>errs hs. r = Ok ((es @ new) @ errs) \<and> I w' \<and> events w' = events w1 @ concat hs \<and>
      list_all2 (\<lambda>j h. \<exists>r. Q j h r) js hs \<and> (errs = [] \<longrightarrow> list_all2 (\<lambda>j h. Q j h (Ok ())) js hs)"
    by (rule Cons.IH) (rule j(2), rule Cons.prems(3), simp_all)
  then obtain errs hs where rest: "r = Ok ((es @ new) @ errs)" "I w'" "events w' = events w1 @ concat hs"
    "list_all2 (\<lambda>j h. \<exists>r. Q j h r) js hs" "errs = [] \<longrightarrow> list_all2 (\<lambda>j h. Q j h (Ok ())) js hs" by blast
  have "new = [] \<Longrightarrow> Q j h (Ok ())" using j(1,4) by (cases r1) (simp_all add: new_def)
  moreover have "\<exists>r. Q j h r" using j(4) by blast
  ultimately show ?case using rest j(3)
    by (intro exI [of _ "new @ errs"] exI [of _ "h # hs"]) simp
qed

lemma collect_trace:
  assumes "collect (map f js) w = (r, w')" "I w"
    and "\<And>j w r w'. j \<in> set js \<Longrightarrow> I w \<Longrightarrow> f j w = (r, w') \<Longrightarrow>
      (\<forall>p. r \<noteq> Panic p) \<and> I w' \<and> (\<exists>h. events w' = events w @ h \<and> Q j h r)"
    and solid: "\<And>j w e w'. j \<in> set js \<Longrightarrow> f j w = (Err e, w') \<Longrightarrow> solid e"
  shows "(\<forall>p. r \<noteq> Panic p) \<and> I w' \<and>
    (\<exists>hs. events w' = events w @ concat hs \<and> list_all2 (\<lambda>j h. \<exists>r. Q j h r) js hs \<and>
      (r = Ok () \<longrightarrow> list_all2 (\<lambda>j h. Q j h (Ok ())) js hs))"
proof -
  obtain r0 w0 where st: "runStage (map f js) [] w = (r0, w0)" by fastforce
  have "\<exists>errs hs. r0 = Ok ([] @ errs) \<and> I w0 \<and> events w0 = events w @ concat hs \<and>
      list_all2 (\<lambda>j h. \<exists>r. Q j h r) js hs \<and> (errs = [] \<longrightarrow> list_all2 (\<lambda>j h. Q j h (Ok ())) js hs)"
    by (rule runStage_trace [where I = I and Q = Q, OF st assms(2)]) (rule assms(3))
  then obtain errs hs where res: "r0 = Ok errs" "I w0" "events w0 = events w @ concat hs"
    "list_all2 (\<lambda>j h. \<exists>r. Q j h r) js hs" "errs = [] \<longrightarrow> list_all2 (\<lambda>j h. Q j h (Ok ())) js hs" by auto
  from res(1) st assms(1) have r: "r = of_error (ConvertErrors errs)" "w' = w0"
    by (auto simp: collect_def bindr_def)
  have "\<forall>e \<in> set errs. solid e"
  proof
    fix e assume "e \<in> set errs"
    from runStage_errors [OF st [unfolded res(1)] this] obtain j w1 where "j \<in> set js" "fst (f j w1) = Err e" by auto
    then show "solid e" using solid [of j w1 e "snd (f j w1)"] by (simp add: prod_eq_iff)
  qed
  with r(1) have "r = Ok () \<Longrightarrow> errs = []" by (simp add: solid_none)
  with res r show ?thesis by auto
qed

definition rm_event :: "Instance \<Rightarrow> event" where
  "rm_event i = session_command (inst_remoteRunner i) (''sudo rm -rf '' @ ArtifactDirectory)"

definition ssh_events :: "Instance \<Rightarrow> event list" where
  "ssh_events i =
     (case inst_kind i of
        BoshInstance dep \<Rightarrow> [CleanUpSSH dep (inst_Name i, inst_ID i) (conn_User (inst_remoteRunner i))]
      | StandaloneInstance \<Rightarrow> [])"

text \<open>What cleaning up one instance adds to the history: the removal of its artifact directory if
  \<open>flag\<close> says so (unless no session could be opened, which is an error), then its credentials.\<close>

definition cleanup_history :: "bool \<Rightarrow> Instance \<Rightarrow> event list \<Rightarrow> unit result \<Rightarrow> bool" where
  "cleanup_history flag i h r \<longleftrightarrow>
     (if flag then h = rm_event i # ssh_events i \<or> h = ssh_events i \<and> r \<noteq> Ok () else h = ssh_events i)"

lemma RemoveArtifactDir_trace:
  assumes "wrapped msg (RemoveArtifactDir E i) w = (r, w')"
  shows "calm w w' \<and> (\<forall>p. r \<noteq> Panic p) \<and> (\<forall>es. r \<noteq> Err (Error es)) \<and>
    (events w' = events w @ [rm_event i] \<or> events w' = events w \<and> r \<noteq> Ok ())"
proof -
  from assms obtain r0 where rm: "RemoveArtifactDir E i w = (r0, w')" and r: "r = wrap_result msg r0" by (rule wrappedE)
  from RemoveDirectory_frame [OF rm [unfolded RemoveArtifactDir_def]] r show ?thesis
    by (cases r0) (auto simp: rm_event_def ran_def did_def calm_def grows_def)
qed

lemma cleanupSSH_trace:
  assumes "wrapped msg (cleanupSSHConnections E dep i) w = (r, w')" "inst_kind i = BoshInstance dep"
  shows "calm w w' \<and> (\<forall>es. r \<noteq> Err (Error es)) \<and> events w' = events w @ ssh_events i"
proof -
  from assms(1) obtain r0 where "cleanupSSHConnections E dep i w = (r0, w')" and r: "r = wrap_result msg r0" by (rule wrappedE)
  from Deployment_CleanUpSSH_events [OF this(1) [unfolded cleanupSSHConnections_def]] r assms(2) show ?thesis
    by (cases r0) (auto simp: ssh_events_def ConnectedUsername_def)
qed

text \<open>The director's library does not panic when credentials are cleaned up.\<close>

definition cleanup_returns :: "('r, 'x) director_env_scheme \<Rightarrow> bool" where
  "cleanup_returns E \<longleftrightarrow> (\<forall>dep slug u r. \<not> is_panic (fst (dir_CleanUpSSH E dep slug u r)))"

lemma cleanupSSH_no_panic:
  assumes "cleanup_returns E" "wrapped msg (cleanupSSHConnections E dep i) w = (r, w')"
  shows "r \<noteq> Panic p"
proof -
  from assms(2) obtain r0 where r0: "cleanupSSHConnections E dep i w = (r0, w')" and r: "r = wrap_result msg r0"
    by (rule wrappedE)
  from r0 have "fst (dir_CleanUpSSH E dep (inst_Name i, inst_ID i) (ConnectedUsername (inst_remoteRunner i)) (remote w)) = r0"
    by (auto simp: cleanupSSHConnections_def Deployment_CleanUpSSH_def dir_call_def log_event_def split: prod.splits)
  with assms(1) have "\<not> is_panic r0" by (auto simp: cleanup_returns_def)
  with r show ?thesis by (cases r0) auto
qed

lemma Bosh_Cleanup_trace:
  assumes "Bosh_Cleanup E dep i w = (r, w')" "inst_kind i = BoshInstance dep" "cleanup_returns E"
  shows "(\<forall>p. r \<noteq> Panic p) \<and> calm w w' \<and>
    (\<exists>h. events w' = events w @ h \<and> cleanup_history (ArtifactDirCreated i w) i h r)"
proof -
  let ?rm = "wrapped ''failed to remove backup artifact'' (RemoveArtifactDir E i)"
  let ?ssh = "wrapped ''failed to cleanup ssh'' (cleanupSSHConnections E dep i)"
  obtain r1 w1 where rm: "?rm w = (r1, w1)" by fastforce
  note t1 = RemoveArtifactDir_trace [OF rm]
  define u where "u = (if ArtifactDirCreated i w then w1 else w)"
  obtain r2 w2 where ssh: "?ssh u = (r2, w2)" by fastforce
  note t2 = cleanupSSH_trace [OF ssh assms(2)] and p2 = cleanupSSH_no_panic [OF assms(3) ssh]
  have "calm w u" using t1 by (simp add: u_def)
  with t2 have calm: "calm w w2" by (blast intro: calm_trans)
  have w2: "w' = w2" and r: "r = of_error (ConvertErrors ((if ArtifactDirCreated i w then
      (case r1 of Err e \<Rightarrow> [e] | _ \<Rightarrow> []) else []) @ (case r2 of Err e \<Rightarrow> [e] | _ \<Rightarrow> [])))"
    using assms(1) rm ssh t1 p2
    by (auto simp: Bosh_Cleanup_def collect_def u_def bindr_def split: if_splits result.splits)
  have "r1 = Ok ()" if "ArtifactDirCreated i w" "r = Ok ()"
    using that t1 r by (cases r1) (auto simp: ConvertErrors_def flattenErrors_plain split: if_splits)
  then show ?thesis using calm t1 t2 w2 r
    by (auto simp: cleanup_history_def u_def split: if_splits)
qed

lemma runStage_not_Err: "runStage xs es w \<noteq> (Err e, w')"
  by (induction xs arbitrary: es w) (auto split: prod.splits result.splits)

lemma collect_Err_solid:
  assumes "collect xs w = (Err e, w')"
  shows "solid e"
proof -
  from assms obtain errs where "of_error (ConvertErrors errs) = Err e"
    unfolding collect_def by (elim bindrE) (auto simp: runStage_not_Err)
  then show ?thesis by (cases "ConvertErrors errs") (auto simp: solid_ConvertErrors)
qed

lemma Instance_Cleanup_solid: "Instance_Cleanup E i w = (Err e, w') \<Longrightarrow> solid e"
  by (auto simp: Instance_Cleanup_def Bosh_Cleanup_def Standalone_Cleanup_def cleanupArtifact_def
      dest: collect_Err_solid wrapped_Err split: instanceKind.splits if_splits)

lemma Instance_Cleanup_trace:
  assumes "Instance_Cleanup E i w = (r, w')" "cleanup_returns E"
  shows "(\<forall>p. r \<noteq> Panic p) \<and> calm w w' \<and>
    (\<exists>h. events w' = events w @ h \<and> cleanup_history (ArtifactDirCreated i w) i h r)"
proof (cases "inst_kind i")
  case (BoshInstance dep)
  with assms Bosh_Cleanup_trace show ?thesis by (simp add: Instance_Cleanup_def)
next
  case StandaloneInstance
  show ?thesis
  proof (cases "ArtifactDirCreated i w")
    case True
    with StandaloneInstance assms(1) have "wrapped ''Unable to clean up backup artifact'' (RemoveArtifactDir E i) w = (r, w')"
      by (simp add: Instance_Cleanup_def Standalone_Cleanup_def cleanupArtifact_def)
    from RemoveArtifactDir_trace [OF this] show ?thesis
      using True StandaloneInstance by (auto simp: cleanup_history_def ssh_events_def)
  qed (use StandaloneInstance assms(1) in \<open>auto simp: Instance_Cleanup_def Standalone_Cleanup_def
      cleanup_history_def ssh_events_def\<close>)
qed

section \<open>Properties\<close>

text \<open>C18: cleaning up a list of instances goes through all of them in order whatever fails on the way:
  each instance of a BOSH deployment has its SSH credentials cleaned up once, each instance
  whose artifact directory was marked as created has the directory removed, no other instance
  has; if no error is returned all of this was done. Nothing local changes.\<close>

theorem cleanup_complete:
  assumes "instances_Cleanup E is w = (r, w')" "cleanup_returns E"
  shows "(\<forall>p. r \<noteq> Panic p) \<and> calm w w' \<and>
    (\<exists>hs. events w' = events w @ concat hs \<and>
      list_all2 (\<lambda>i h. \<exists>r. cleanup_history (ArtifactDirCreated i w) i h r) is hs \<and>
      (r = Ok () \<longrightarrow> list_all2 (\<lambda>i h. cleanup_history (ArtifactDirCreated i w) i h (Ok ())) is hs))"
proof (rule collect_trace [where I = "calm w" and f = "Instance_Cleanup E"
      and Q = "\<lambda>i h r. cleanup_history (ArtifactDirCreated i w) i h r"])
  show "collect (map (Instance_Cleanup E) is) w = (r, w')" using assms(1) by (simp add: instances_Cleanup_def)
  show "calm w w" by simp
next
  fix i u s u' assume u: "calm w u" and run: "Instance_Cleanup E i u = (s, u')"
  from u have "ArtifactDirCreated i u = ArtifactDirCreated i w" by (simp add: calm_def ArtifactDirCreated_def)
  with Instance_Cleanup_trace [OF run assms(2)] calm_trans [OF u]
  show "(\<forall>p. s \<noteq> Panic p) \<and> calm w u' \<and>
      (\<exists>h. events u' = events u @ h \<and> cleanup_history (ArtifactDirCreated i w) i h s)"
    by simp
qed (rule Instance_Cleanup_solid)

definition sample_instance :: Instance where
  "sample_instance = \<lparr>inst_Index = ''0'', inst_ID = ''id'', inst_Name = ''vm'', inst_addr = 0,
     inst_jobs = [sample_job ''db'' []], inst_remoteRunner = sample_connection, inst_kind = BoshInstance ''dep''\<rparr>"

lemma sample_cleanup_returns: "cleanup_returns (sample_director_env ms)"
  by (simp add: cleanup_returns_def sample_director_simps)

theorem cleanup_complete_witness:
  "\<exists>r w'. instances_Cleanup (sample_director_env []) [sample_instance] (sample_world (\<lambda>_. None)) = (r, w') \<and>
     events w' = [CleanUpSSH ''dep'' (''vm'', ''id'') ''vcap'']"
proof -
  obtain r w' where run: "instances_Cleanup (sample_director_env []) [sample_instance] (sample_world (\<lambda>_. None)) = (r, w')"
    by fastforce
  from cleanup_complete [OF run sample_cleanup_returns] obtain hs where
    "events w' = events (sample_world (\<lambda>_. None)) @ concat hs"
    "list_all2 (\<lambda>i h. \<exists>r. cleanup_history (ArtifactDirCreated i (sample_world (\<lambda>_. None))) i h r) [sample_instance] hs"
    by blast
  then have "events w' = [CleanUpSSH ''dep'' (''vm'', ''id'') ''vcap'']"
    by (auto simp: list_all2_Cons1 cleanup_history_def ArtifactDirCreated_def sample_world_def ssh_events_def
        sample_instance_def sample_connection_def)
  with run show ?thesis by blast
qed

end
