(* ===== verification/Orderer.thy ===== *)
theory Orderer
  imports Jobs
begin

text \<open>
  The lock orderer: \<^verbatim>\<open>orderer/kahn_lock_orderer.go\<close>, the two constraint specifiers beside it,
  and \<^verbatim>\<open>orchestrator/reverse.go\<close>. Jobs are ordered into stages by Kahn's algorithm over the
  \<open>should be locked before\<close> constraints of their metadata. Two jobs are the same to the
  orderer when their name and their instance agree.

  The locale \<open>lock_orderer\<close> is the interface \<^verbatim>\<open>orchestrator.LockOrderer\<close> with the laws its
  clients rely on; it is interpreted on the backup and on the restore orderer.
\<close>

section \<open>The orderer\<close>

datatype orderConstraintSpecifier =
    BackupLockOrderConstraintSpecifier
  | RestoreLockOrderConstraintSpecifier

fun Before :: "orderConstraintSpecifier \<Rightarrow> Job \<Rightarrow> JobSpecifier list" where
  "Before BackupLockOrderConstraintSpecifier job = BackupShouldBeLockedBefore job"
| "Before RestoreLockOrderConstraintSpecifier job = RestoreShouldBeLockedBefore job"

record lockingDependency =
  dep_Before :: Job
  dep_After :: Job

record KahnLockOrderer =
  constraintSpecifier :: orderConstraintSpecifier

definition NewKahnBackupLockOrderer :: KahnLockOrderer where
  "NewKahnBackupLockOrderer = \<lparr>constraintSpecifier = BackupLockOrderConstraintSpecifier\<rparr>"

definition NewKahnRestoreLockOrderer :: KahnLockOrderer where
  "NewKahnRestoreLockOrderer = \<lparr>constraintSpecifier = RestoreLockOrderConstraintSpecifier\<rparr>"

definition areTheSameJob :: "Job \<Rightarrow> Job \<Rightarrow> bool" where
  "areTheSameJob left right \<longleftrightarrow>
     job_name left = job_name right \<and> instanceIdentifier left = instanceIdentifier right"

fun findJobsBySpecifier :: "Job list \<Rightarrow> JobSpecifier \<Rightarrow> Job list" where
  "findJobsBySpecifier [] specifier = []"
| "findJobsBySpecifier (job # jobs) specifier =
     (if job_name job = spec_Name specifier \<and> job_release job = spec_Release specifier
      then job # findJobsBySpecifier jobs specifier else findJobsBySpecifier jobs specifier)"

definition findLockingDependencies :: "Job list \<Rightarrow> orderConstraintSpecifier \<Rightarrow> lockingDependency list" where
  "findLockingDependencies jobs specifier =
     concat (map (\<lambda>job.
       concat (map (\<lambda>jobSpecifier.
         map (\<lambda>afterJob. \<lparr>dep_Before = job, dep_After = afterJob\<rparr>)
           (findJobsBySpecifier jobs jobSpecifier))
         (Before specifier job)))
       jobs)"

fun dependencyFound :: "Job \<Rightarrow> lockingDependency list \<Rightarrow> bool" where
  "dependencyFound job [] = False"
| "dependencyFound job (dependency # dependencies) =
     (areTheSameJob (dep_After dependency) job \<or> dependencyFound job dependencies)"

fun jobsThatCanBeLocked :: "Job list \<Rightarrow> lockingDependency list \<Rightarrow> Job list" where
  "jobsThatCanBeLocked [] dependencies = []"
| "jobsThatCanBeLocked (job # jobs) dependencies =
     (if \<not> dependencyFound job dependencies then job # jobsThatCanBeLocked jobs dependencies
      else jobsThatCanBeLocked jobs dependencies)"

fun removeJobs :: "Job list \<Rightarrow> Job list \<Rightarrow> Job list" where
  "removeJobs [] jobsToRemove = []"
| "removeJobs (job # jobs) jobsToRemove =
     (if \<not> list_ex (\<lambda>jobToRemove. areTheSameJob jobToRemove job) jobsToRemove
      then job # removeJobs jobs jobsToRemove else removeJobs jobs jobsToRemove)"

fun removeDependenciesThatHaveAnyOneJobInBefore ::
  "lockingDependency list \<Rightarrow> Job list \<Rightarrow> lockingDependency list" where
  "removeDependenciesThatHaveAnyOneJobInBefore [] jobs = []"
| "removeDependenciesThatHaveAnyOneJobInBefore (dependency # dependencies) jobs =
     (if \<not> list_ex (\<lambda>job. areTheSameJob (dep_Before dependency) job) jobs
      then dependency # removeDependenciesThatHaveAnyOneJobInBefore dependencies jobs
      else removeDependenciesThatHaveAnyOneJobInBefore dependencies jobs)"

definition job_key :: "Job \<Rightarrow> string \<times> string" where
  "job_key j = (job_name j, instanceIdentifier j)"

lemma areTheSameJob_key: "areTheSameJob a b \<longleftrightarrow> job_key a = job_key b"
  by (simp add: areTheSameJob_def job_key_def)

lemma dependencyFound_iff: "dependencyFound job deps \<longleftrightarrow> (\<exists>d \<in> set deps. job_key (dep_After d) = job_key job)"
  by (induction deps) (auto simp: areTheSameJob_key)

lemma jobsThatCanBeLocked_filter:
  "jobsThatCanBeLocked jobs deps = filter (\<lambda>job. \<not> dependencyFound job deps) jobs"
  by (induction jobs) auto

lemma removeJobs_filter: "removeJobs jobs rm = filter (\<lambda>job. job_key job \<notin> job_key ` set rm) jobs"
  by (induction jobs) (simp_all add: areTheSameJob_key list_ex_iff image_iff eq_commute)

lemma removeDependencies_filter:
  "removeDependenciesThatHaveAnyOneJobInBefore deps jobs =
     filter (\<lambda>d. job_key (dep_Before d) \<notin> job_key ` set jobs) deps"
  by (induction deps) (auto simp: areTheSameJob_key list_ex_iff)

lemma removeJobs_lockable:
  "removeJobs jobs (jobsThatCanBeLocked jobs deps) = filter (\<lambda>job. dependencyFound job deps) jobs"
  by (auto simp: removeJobs_filter jobsThatCanBeLocked_filter dependencyFound_iff intro!: filter_cong)

definition cyclic_error :: goerror where
  "cyclic_error = ErrorString ''job locking dependency graph is cyclic''"

function kahnLoop :: "Job list \<Rightarrow> lockingDependency list \<Rightarrow> Job list list \<Rightarrow> Job list list result" where
  "kahnLoop jobs lockingDependencies orderedJobs =
     (if length jobs \<noteq> 0 then
        (let jobsToLock = jobsThatCanBeLocked jobs lockingDependencies;
             jobs' = removeJobs jobs jobsToLock;
             deps' = removeDependenciesThatHaveAnyOneJobInBefore lockingDependencies jobsToLock
         in if length jobsToLock = 0 then Err cyclic_error
            else kahnLoop jobs' deps' (orderedJobs @ [jobsToLock]))
      else Ok orderedJobs)"
  by pat_completeness auto
termination
proof (relation "measure (\<lambda>(jobs, deps, acc). length jobs)", goal_cases)
  case 1
  show ?case by simp
next
  case (2 jobs deps acc x xa xb)
  then have ne: "jobsThatCanBeLocked jobs deps \<noteq> []" by auto
  have "length (filter (\<lambda>job. dependencyFound job deps) jobs) < length jobs"
    using ne by (auto simp: jobsThatCanBeLocked_filter filter_empty_conv intro: length_filter_less)
  with 2 show ?case by (simp add: removeJobs_lockable)
qed

declare kahnLoop.simps [simp del]

definition orderJobsUsingTheKahnAlgorithm :: "Job list \<Rightarrow> lockingDependency list \<Rightarrow> Job list list result" where
  "orderJobsUsingTheKahnAlgorithm jobs lockingDependencies = kahnLoop jobs lockingDependencies []"

definition KahnLockOrderer_Order :: "KahnLockOrderer \<Rightarrow> Job list \<Rightarrow> Job list list result" where
  "KahnLockOrderer_Order lo jobs =
     orderJobsUsingTheKahnAlgorithm jobs (findLockingDependencies jobs (constraintSpecifier lo))"

fun Reverse :: "Job list list \<Rightarrow> Job list list" where
  "Reverse jobsSliceOfSlices = fold (\<lambda>jobSlice reversedJobs. [jobSlice] @ reversedJobs) jobsSliceOfSlices []"

section \<open>Specification\<close>

text \<open>The constraint of the metadata: \<open>a\<close> names \<open>b\<close> by job name and release.\<close>

definition must_precede :: "(Job \<Rightarrow> JobSpecifier list) \<Rightarrow> Job \<Rightarrow> Job \<Rightarrow> bool" where
  "must_precede before a b \<longleftrightarrow>
     (\<exists>s \<in> set (before a). spec_Name s = job_name b \<and> spec_Release s = job_release b)"

text \<open>The constraint graph on the identities of the jobs at hand.\<close>

definition constraint_graph :: "(Job \<Rightarrow> JobSpecifier list) \<Rightarrow> Job list \<Rightarrow> ((string \<times> string) \<times> (string \<times> string)) set" where
  "constraint_graph before jobs =
     {(job_key a, job_key b) | a b. a \<in> set jobs \<and> b \<in> set jobs \<and> must_precede before a b}"

definition staged :: "Job list list \<Rightarrow> nat \<Rightarrow> Job \<Rightarrow> bool" where
  "staged st i j \<longleftrightarrow> i < length st \<and> j \<in> set (st ! i)"

section \<open>Correctness of the algorithm\<close>

lemma findJobsBySpecifier_filter:
  "findJobsBySpecifier jobs s = filter (\<lambda>j. job_name j = spec_Name s \<and> job_release j = spec_Release s) jobs"
  by (induction jobs) auto

lemma set_findLockingDependencies:
  "set (findLockingDependencies jobs sp) =
     {\<lparr>dep_Before = a, dep_After = b\<rparr> | a b. a \<in> set jobs \<and> b \<in> set jobs \<and> must_precede (Before sp) a b}"
  unfolding findLockingDependencies_def findJobsBySpecifier_filter must_precede_def
  by simp (force simp: image_iff)

definition dep_graph :: "lockingDependency list \<Rightarrow> ((string \<times> string) \<times> (string \<times> string)) set" where
  "dep_graph deps = (\<lambda>d. (job_key (dep_Before d), job_key (dep_After d))) ` set deps"

lemma dep_graph_findLockingDependencies:
  "dep_graph (findLockingDependencies jobs sp) = constraint_graph (Before sp) jobs"
  unfolding dep_graph_def set_findLockingDependencies constraint_graph_def by force

text \<open>One round of the loop, as an equation on the stages still to come.\<close>

lemma kahnLoop_round:
  assumes "jobs \<noteq> []" "jobsThatCanBeLocked jobs deps \<noteq> []"
  shows "kahnLoop jobs deps acc =
    kahnLoop (removeJobs jobs (jobsThatCanBeLocked jobs deps))
      (removeDependenciesThatHaveAnyOneJobInBefore deps (jobsThatCanBeLocked jobs deps))
      (acc @ [jobsThatCanBeLocked jobs deps])"
  using assms by (subst kahnLoop.simps) simp

lemma kahnLoop_Nil [simp]: "kahnLoop [] deps acc = Ok acc"
  by (subst kahnLoop.simps) simp

lemma kahnLoop_stuck: "jobs \<noteq> [] \<Longrightarrow> jobsThatCanBeLocked jobs deps = [] \<Longrightarrow> kahnLoop jobs deps acc = Err cyclic_error"
  by (subst kahnLoop.simps) simp

lemma kahn_induct [case_names empty stuck round]:
  assumes empty: "\<And>deps acc. P [] deps acc"
    and stuck: "\<And>jobs deps acc. jobs \<noteq> [] \<Longrightarrow> jobsThatCanBeLocked jobs deps = [] \<Longrightarrow> P jobs deps acc"
    and round: "\<And>jobs deps acc now. jobs \<noteq> [] \<Longrightarrow> now = jobsThatCanBeLocked jobs deps \<Longrightarrow> now \<noteq> [] \<Longrightarrow>
      P (removeJobs jobs now) (removeDependenciesThatHaveAnyOneJobInBefore deps now) (acc @ [now]) \<Longrightarrow>
      P jobs deps acc"
  shows "P jobs deps acc"
proof (induction jobs deps acc rule: kahnLoop.induct)
  case (1 jobs deps acc)
  show ?case
  proof (cases "jobs = []")
    case True then show ?thesis using empty by simp
  next
    case jobs: False
    show ?thesis
    proof (cases "jobsThatCanBeLocked jobs deps = []")
      case True then show ?thesis using stuck jobs by simp
    next
      case False
      from jobs False have "length jobs \<noteq> 0" "length (jobsThatCanBeLocked jobs deps) \<noteq> 0" by auto
      from round [OF jobs refl False 1 [OF this(1) refl refl refl this(2)]] show ?thesis .
    qed
  qed
qed

definition keeps_order :: "lockingDependency list \<Rightarrow> Job list list \<Rightarrow> bool" where
  "keeps_order deps st \<longleftrightarrow>
     (\<forall>d \<in> set deps. \<forall>k i a b. staged st k a \<longrightarrow> staged st i b \<longrightarrow>
        job_key a = job_key (dep_Before d) \<longrightarrow> job_key b = job_key (dep_After d) \<longrightarrow> k < i)"

lemma staged_Cons:
  "staged (s # st) i j \<longleftrightarrow> (case i of 0 \<Rightarrow> j \<in> set s | Suc i' \<Rightarrow> staged st i' j)"
  by (auto simp: staged_def split: nat.splits)

lemma staged_in_concat: "staged st i j \<Longrightarrow> j \<in> set (concat st)"
  by (auto simp: staged_def)

lemma concat_staged: "j \<in> set (concat st) \<Longrightarrow> \<exists>i. staged st i j"
  by (auto simp: staged_def) (metis in_set_conv_nth)

lemma respects_Cons:
  assumes st: "set (concat st) \<subseteq> set (removeJobs jobs now)"
    and now: "now = jobsThatCanBeLocked jobs deps"
    and rest: "keeps_order (removeDependenciesThatHaveAnyOneJobInBefore deps now) st"
  shows "keeps_order deps (now # st)"
  unfolding keeps_order_def
proof (intro ballI allI impI)
  fix d k i a b
  assume d: "d \<in> set deps" and a: "staged (now # st) k a" and b: "staged (now # st) i b"
    and ka: "job_key a = job_key (dep_Before d)" and kb: "job_key b = job_key (dep_After d)"
  have "b \<notin> set now" using d kb by (auto simp: now jobsThatCanBeLocked_filter dependencyFound_iff)
  with b obtain i' where i: "i = Suc i'" and b': "staged st i' b"
    by (auto simp: staged_Cons split: nat.splits)
  show "k < i"
  proof (cases k)
    case 0 then show ?thesis by (simp add: i)
  next
    case (Suc k')
    with a have a': "staged st k' a" by (simp add: staged_Cons)
    with st have "a \<in> set (removeJobs jobs now)" using staged_in_concat by blast
    then have "job_key a \<notin> job_key ` set now" by (simp add: removeJobs_filter)
    with d ka have "d \<in> set (removeDependenciesThatHaveAnyOneJobInBefore deps now)"
      by (simp add: removeDependencies_filter)
    with rest a' b' ka kb have "k' < i'" unfolding keeps_order_def by blast
    with Suc i show ?thesis by simp
  qed
qed

lemma mset_split_round:
  "mset (jobsThatCanBeLocked jobs deps) + mset (removeJobs jobs (jobsThatCanBeLocked jobs deps)) = mset jobs"
  unfolding removeJobs_lockable unfolding jobsThatCanBeLocked_filter
  by (induction jobs) auto

lemma kahnLoop_Ok:
  "kahnLoop jobs deps acc = Ok res \<Longrightarrow>
     \<exists>st. res = acc @ st \<and> mset (concat st) = mset jobs \<and> [] \<notin> set st \<and> keeps_order deps st"
proof (induction jobs deps acc rule: kahn_induct)
  case (empty deps acc)
  then show ?case by (auto simp: keeps_order_def staged_def)
next
  case (stuck jobs deps acc)
  then show ?case by (simp add: kahnLoop_stuck)
next
  case (round jobs deps acc now)
  then obtain st where st: "res = (acc @ [now]) @ st"
      "mset (concat st) = mset (removeJobs jobs now)" "[] \<notin> set st"
      "keeps_order (removeDependenciesThatHaveAnyOneJobInBefore deps now) st"
    using kahnLoop_round [of jobs deps acc] by auto
  have "set (concat st) \<subseteq> set (removeJobs jobs now)" by (metis order_refl set_mset_mset st(2))
  then have "keeps_order deps (now # st)" using round(2) st(4) by (rule respects_Cons)
  with st round(2,3) mset_split_round [of jobs deps] show ?case
    by (intro exI [of _ "now # st"]) auto
qed

text \<open>Both ends of every remaining dependency are among the remaining jobs.\<close>

definition closed_deps :: "Job list \<Rightarrow> lockingDependency list \<Rightarrow> bool" where
  "closed_deps jobs deps \<longleftrightarrow>
     (\<forall>d \<in> set deps. job_key (dep_Before d) \<in> job_key ` set jobs \<and> job_key (dep_After d) \<in> job_key ` set jobs)"

lemma closed_deps_round:
  assumes "closed_deps jobs deps"
  shows "closed_deps (removeJobs jobs (jobsThatCanBeLocked jobs deps))
           (removeDependenciesThatHaveAnyOneJobInBefore deps (jobsThatCanBeLocked jobs deps))"
  unfolding closed_deps_def
proof (intro ballI conjI)
  let ?now = "jobsThatCanBeLocked jobs deps"
  fix d assume "d \<in> set (removeDependenciesThatHaveAnyOneJobInBefore deps ?now)"
  then have d: "d \<in> set deps" and nb: "job_key (dep_Before d) \<notin> job_key ` set ?now"
    by (auto simp: removeDependencies_filter)
  have na: "job_key (dep_After d) \<notin> job_key ` set ?now"
    using d by (auto simp: jobsThatCanBeLocked_filter dependencyFound_iff)
  from assms d obtain a b where "a \<in> set jobs" "job_key (dep_Before d) = job_key a"
    "b \<in> set jobs" "job_key (dep_After d) = job_key b" unfolding closed_deps_def by blast
  with nb na show "job_key (dep_Before d) \<in> job_key ` set (removeJobs jobs ?now)"
    "job_key (dep_After d) \<in> job_key ` set (removeJobs jobs ?now)"
    by (auto simp: removeJobs_filter)
qed

lemma no_source_cyclic:
  assumes "finite R" "x \<in> K" "\<And>x. x \<in> K \<Longrightarrow> \<exists>y \<in> K. (y, x) \<in> R"
  shows "\<not> acyclic R"
proof
  assume "acyclic R"
  with assms(1) have "wf R" by (rule finite_acyclic_wf)
  from wfE_min [OF this assms(2)] assms(3) show False by metis
qed

lemma kahnLoop_Err:
  "kahnLoop jobs deps acc = Err e \<Longrightarrow> closed_deps jobs deps \<Longrightarrow> \<not> acyclic (dep_graph deps)"
proof (induction jobs deps acc rule: kahn_induct)
  case (empty deps acc)
  then show ?case by simp
next
  case (stuck jobs deps acc)
  then have all: "\<And>j. j \<in> set jobs \<Longrightarrow> \<exists>d \<in> set deps. job_key (dep_After d) = job_key j"
    by (auto simp: jobsThatCanBeLocked_filter filter_empty_conv dependencyFound_iff)
  from stuck obtain j where "job_key j \<in> job_key ` set jobs" by (cases jobs) auto
  then show ?case
  proof (rule no_source_cyclic [rotated])
    show "finite (dep_graph deps)" by (simp add: dep_graph_def)
    fix x assume "x \<in> job_key ` set jobs"
    then obtain d where "d \<in> set deps" "job_key (dep_After d) = x" using all by blast
    then show "\<exists>y \<in> job_key ` set jobs. (y, x) \<in> dep_graph deps"
      using stuck.prems(2) unfolding closed_deps_def dep_graph_def by blast
  qed
next
  case (round jobs deps acc now)
  let ?deps = "removeDependenciesThatHaveAnyOneJobInBefore deps now"
  have "kahnLoop (removeJobs jobs now) ?deps (acc @ [now]) = Err e"
    using round.prems(1) round.hyps kahnLoop_round [of jobs deps acc] by simp
  moreover have "closed_deps (removeJobs jobs now) ?deps"
    using closed_deps_round [OF round.prems(2)] round.hyps(2) by simp
  ultimately have "\<not> acyclic (dep_graph ?deps)" by (rule round.IH)
  moreover have "dep_graph ?deps \<subseteq> dep_graph deps"
    by (auto simp: dep_graph_def removeDependencies_filter)
  ultimately show ?case using acyclic_subset by blast
qed

lemma kahnLoop_no_panic: "kahnLoop jobs deps acc \<noteq> Panic p"
  by (induction jobs deps acc rule: kahn_induct) (auto simp: kahnLoop_stuck kahnLoop_round)

lemma respects_acyclic:
  assumes "keeps_order deps st" "closed_deps jobs deps" "mset (concat st) = mset jobs"
  shows "acyclic (dep_graph deps)"
proof -
  let ?f = "\<lambda>x. LEAST i. \<exists>j. staged st i j \<and> job_key j = x"
  have ex: "\<exists>i j. staged st i j \<and> job_key j = x" if "x \<in> job_key ` set jobs" for x
    using that concat_staged assms(3) by (metis imageE set_mset_mset)
  have "dep_graph deps \<subseteq> measure ?f"
  proof
    fix e assume "e \<in> dep_graph deps"
    then obtain d where d: "d \<in> set deps" and e: "e = (job_key (dep_Before d), job_key (dep_After d))"
      by (auto simp: dep_graph_def)
    with assms(2) have "\<exists>i j. staged st i j \<and> job_key j = job_key (dep_Before d)"
      "\<exists>i j. staged st i j \<and> job_key j = job_key (dep_After d)"
      using ex by (auto simp: closed_deps_def)
    from this [THEN LeastI_ex] obtain a b where
      "staged st (?f (job_key (dep_Before d))) a" "job_key a = job_key (dep_Before d)"
      "staged st (?f (job_key (dep_After d))) b" "job_key b = job_key (dep_After d)"
      by blast
    with assms(1) d have "?f (job_key (dep_Before d)) < ?f (job_key (dep_After d))"
      unfolding keeps_order_def by blast
    then show "e \<in> measure ?f" by (simp add: e)
  qed
  then show ?thesis by (meson wf_acyclic wf_measure acyclic_subset)
qed

lemma closed_findLockingDependencies: "closed_deps jobs (findLockingDependencies jobs sp)"
  by (auto simp: closed_deps_def set_findLockingDependencies)

lemma Order_Ok_facts:
  assumes "KahnLockOrderer_Order lo jobs = Ok st"
  shows "mset (concat st) = mset jobs" "[] \<notin> set st"
    "keeps_order (findLockingDependencies jobs (constraintSpecifier lo)) st"
  using kahnLoop_Ok [of jobs "findLockingDependencies jobs (constraintSpecifier lo)" "[]" st] assms
  by (auto simp: KahnLockOrderer_Order_def orderJobsUsingTheKahnAlgorithm_def)

lemma Order_respects:
  assumes ok: "KahnLockOrderer_Order lo jobs = Ok st"
    and a: "staged st k a" and b: "staged st i b"
    and must: "must_precede (Before (constraintSpecifier lo)) a b"
  shows "k < i"
proof -
  note facts = Order_Ok_facts [OF ok]
  from facts(1) a b have "a \<in> set jobs" "b \<in> set jobs"
    by (metis staged_in_concat set_mset_mset)+
  with must have "\<lparr>dep_Before = a, dep_After = b\<rparr> \<in> set (findLockingDependencies jobs (constraintSpecifier lo))"
    by (auto simp: set_findLockingDependencies)
  with facts(3) a b show ?thesis unfolding keeps_order_def by fastforce
qed

lemma Order_no_panic: "KahnLockOrderer_Order lo jobs \<noteq> Panic p"
  by (simp add: KahnLockOrderer_Order_def orderJobsUsingTheKahnAlgorithm_def kahnLoop_no_panic)

lemma Order_Ok_acyclic:
  "KahnLockOrderer_Order lo jobs = Ok st \<Longrightarrow> acyclic (constraint_graph (Before (constraintSpecifier lo)) jobs)"
  using respects_acyclic [OF Order_Ok_facts(3) closed_findLockingDependencies Order_Ok_facts(1)]
  by (simp add: dep_graph_findLockingDependencies)

lemma Order_Err_cyclic:
  "KahnLockOrderer_Order lo jobs = Err e \<Longrightarrow> \<not> acyclic (constraint_graph (Before (constraintSpecifier lo)) jobs)"
  using kahnLoop_Err [OF _ closed_findLockingDependencies]
  by (auto simp: KahnLockOrderer_Order_def orderJobsUsingTheKahnAlgorithm_def
      dep_graph_findLockingDependencies [symmetric])

lemma kahnLoop_Err_message: "kahnLoop jobs deps acc = Err e \<Longrightarrow> e = cyclic_error"
  by (induction jobs deps acc rule: kahnLoop.induct)
    (subst (asm) (2) kahnLoop.simps, auto split: if_splits)

lemma Order_Err_message: "KahnLockOrderer_Order lo jobs = Err e \<Longrightarrow> e = cyclic_error"
  unfolding KahnLockOrderer_Order_def orderJobsUsingTheKahnAlgorithm_def by (rule kahnLoop_Err_message)

lemma Reverse_rev [simp]: "Reverse st = rev st"
proof -
  have "fold (\<lambda>jobSlice reversedJobs. [jobSlice] @ reversedJobs) st acc = rev st @ acc" for acc
    by (induction st arbitrary: acc) auto
  then show ?thesis by (simp only: Reverse.simps append_Nil2)
qed

declare Reverse.simps [simp del]

lemma staged_rev: "staged (rev st) i j \<longleftrightarrow> i < length st \<and> staged st (length st - 1 - i) j"
  by (auto simp: staged_def rev_nth)

section \<open>The interface\<close>

locale lock_orderer =
  fixes order :: "Job list \<Rightarrow> Job list list result"
    and before :: "Job \<Rightarrow> JobSpecifier list"
  assumes order_partition: "order jobs = Ok st \<Longrightarrow> mset (concat st) = mset jobs"
    and order_nonempty: "order jobs = Ok st \<Longrightarrow> [] \<notin> set st"
    and order_respects: "order jobs = Ok st \<Longrightarrow> staged st k a \<Longrightarrow> staged st i b \<Longrightarrow>
          must_precede before a b \<Longrightarrow> k < i"
    and order_defined: "acyclic (constraint_graph before jobs) \<Longrightarrow> \<exists>st. order jobs = Ok st"
    and order_cyclic: "\<not> acyclic (constraint_graph before jobs) \<Longrightarrow> \<exists>e. order jobs = Err e"
begin

lemma order_set: "order jobs = Ok st \<Longrightarrow> set (concat st) = set jobs"
  by (metis order_partition set_mset_mset)

lemma order_decides: "(\<exists>st. order jobs = Ok st) \<longleftrightarrow> acyclic (constraint_graph before jobs)"
  by (metis order_cyclic order_defined result.distinct(1))

text \<open>Unlocking in reverse stages releases the job that was locked later first.\<close>

lemma reverse_respects:
  assumes "order jobs = Ok st" "staged (Reverse st) k a" "staged (Reverse st) i b" "must_precede before a b"
  shows "i < k"
  using order_respects [OF assms(1), of "length st - 1 - k" a "length st - 1 - i" b] assms(2-4)
  by (auto simp: staged_rev)

end

lemma kahn_orderer_laws: "lock_orderer (KahnLockOrderer_Order lo) (Before (constraintSpecifier lo))"
proof
  fix jobs
  let ?g = "constraint_graph (Before (constraintSpecifier lo)) jobs"
  consider st where "KahnLockOrderer_Order lo jobs = Ok st" | e where "KahnLockOrderer_Order lo jobs = Err e"
    by (cases "KahnLockOrderer_Order lo jobs") (auto simp: Order_no_panic)
  then show "acyclic ?g \<Longrightarrow> \<exists>st. KahnLockOrderer_Order lo jobs = Ok st"
    and "\<not> acyclic ?g \<Longrightarrow> \<exists>e. KahnLockOrderer_Order lo jobs = Err e"
    by (auto dest: Order_Err_cyclic Order_Ok_acyclic)
qed (fact Order_Ok_facts Order_respects)+

interpretation backup_orderer: lock_orderer
  "KahnLockOrderer_Order NewKahnBackupLockOrderer" BackupShouldBeLockedBefore
proof -
  have sp: "Before (constraintSpecifier NewKahnBackupLockOrderer) = BackupShouldBeLockedBefore"
    by (simp add: NewKahnBackupLockOrderer_def fun_eq_iff)
  show "lock_orderer (KahnLockOrderer_Order NewKahnBackupLockOrderer) BackupShouldBeLockedBefore"
    using kahn_orderer_laws [of NewKahnBackupLockOrderer] by (simp add: sp)
qed

interpretation restore_orderer: lock_orderer
  "KahnLockOrderer_Order NewKahnRestoreLockOrderer" RestoreShouldBeLockedBefore
proof -
  have sp: "Before (constraintSpecifier NewKahnRestoreLockOrderer) = RestoreShouldBeLockedBefore"
    by (simp add: NewKahnRestoreLockOrderer_def fun_eq_iff)
  show "lock_orderer (KahnLockOrderer_Order NewKahnRestoreLockOrderer) RestoreShouldBeLockedBefore"
    using kahn_orderer_laws [of NewKahnRestoreLockOrderer] by (simp add: sp)
qed

section \<open>Properties\<close>

definition sample_db :: Job where
  "sample_db = sample_job ''db'' []"

definition sample_api :: Job where
  "sample_api = sample_job ''api'' [\<lparr>lb_JobName = ''db'', lb_Release = ''rel''\<rparr>]"

definition sample_jobs :: "Job list" where
  "sample_jobs = [sample_db, sample_api]"

lemma sample_order:
  "KahnLockOrderer_Order NewKahnBackupLockOrderer sample_jobs =
     Ok [[sample_api], [sample_db]]"
  by code_simp

lemma sample_order_restore:
  "KahnLockOrderer_Order NewKahnRestoreLockOrderer sample_jobs =
     Ok [[sample_api], [sample_db]]"
  by code_simp

text \<open>C11: when the backup orderer returns stages, they hold every job exactly as often as the input
  does, no stage is empty, and a job stands in an earlier stage than every job its
  backup_should_be_locked_before metadata names.\<close>

theorem backup_order_correct:
  assumes "KahnLockOrderer_Order NewKahnBackupLockOrderer jobs = Ok st"
  shows "mset (concat st) = mset jobs \<and> [] \<notin> set st \<and>
    (\<forall>k i a b. staged st k a \<longrightarrow> staged st i b \<longrightarrow> must_precede BackupShouldBeLockedBefore a b \<longrightarrow> k < i)"
  using backup_orderer.order_partition [OF assms] backup_orderer.order_nonempty [OF assms]
    backup_orderer.order_respects [OF assms] by blast

theorem backup_order_correct_witness:
  "\<exists>st. KahnLockOrderer_Order NewKahnBackupLockOrderer sample_jobs = Ok st \<and> mset (concat st) = mset sample_jobs"
  using backup_order_correct [OF sample_order] sample_order by blast

text \<open>C12: both orderers succeed exactly when the constraint graph of the given jobs, taken on their
  names and instances, is acyclic; in every other case they return the cyclic-graph error.\<close>

theorem order_decides_cycles:
  "(\<exists>st. KahnLockOrderer_Order lo jobs = Ok st) = acyclic (constraint_graph (Before (constraintSpecifier lo)) jobs) \<and>
   (KahnLockOrderer_Order lo jobs = Err cyclic_error) = (\<not> acyclic (constraint_graph (Before (constraintSpecifier lo)) jobs))"
  using lock_orderer.order_decides [OF kahn_orderer_laws, of lo jobs] Order_no_panic [of lo jobs]
    Order_Err_message [of lo jobs] by (metis result.distinct(1) result.exhaust)

text \<open>In the reversed stages, which the unlock phases follow, a job that had to be locked before
  another is unlocked in a strictly later stage than it, for the backup and for the restore orderer.\<close>

theorem unlock_order_reversed:
  assumes "KahnLockOrderer_Order lo jobs = Ok st"
    and "staged (Reverse st) k a" "staged (Reverse st) i b"
    and "must_precede (Before (constraintSpecifier lo)) a b"
  shows "i < k"
  by (rule lock_orderer.reverse_respects [OF kahn_orderer_laws assms])

theorem unlock_order_reversed_witness:
  "KahnLockOrderer_Order NewKahnRestoreLockOrderer sample_jobs = Ok [[sample_api], [sample_db]] \<and>
   staged (Reverse [[sample_api], [sample_db]]) 1 sample_api \<and>
   staged (Reverse [[sample_api], [sample_db]]) 0 sample_db \<and> (0::nat) < 1"
proof -
  have st: "staged (Reverse [[sample_api], [sample_db]]) 1 sample_api"
    "staged (Reverse [[sample_api], [sample_db]]) 0 sample_db"
    by (simp_all add: staged_def)
  have "must_precede (Before (constraintSpecifier NewKahnRestoreLockOrderer)) sample_api sample_db"
    by code_simp
  from unlock_order_reversed [OF sample_order_restore st this] st sample_order_restore show ?thesis by simp
qed

end
