(* ===== verification/Deployment.thy ===== *)
theory Deployment
  imports Instances Orderer
begin

text \<open>
  A deployment: \<^verbatim>\<open>orchestrator/deployment.go\<close>, with the executables of
  \<^verbatim>\<open>orchestrator/job_executables.go\<close> and \<^verbatim>\<open>orchestrator/backup_executable.go\<close>.

  The lock and unlock phases hand the stages of a lock orderer to an executor. The lemmas join
  the two interfaces: \<open>executor.run_history\<close> gives the order in which scripts run and
  \<open>lock_orderer.order_respects\<close> what the stages guarantee.
\<close>

section \<open>Deployments\<close>

record deployment =
  bd_instances :: "Instance list"

definition NewDeployment :: "Instance list \<Rightarrow> deployment" where
  "NewDeployment instancesArray = \<lparr>bd_instances = instancesArray\<rparr>"

definition Deployment_IsBackupable :: "deployment \<Rightarrow> bool" where
  "Deployment_IsBackupable bd \<longleftrightarrow> AllBackupable (bd_instances bd) \<noteq> []"

definition BackupableInstances :: "deployment \<Rightarrow> Instance list" where
  "BackupableInstances bd = AllBackupable (bd_instances bd)"

definition Deployment_IsRestorable :: "deployment \<Rightarrow> bool" where
  "Deployment_IsRestorable bd \<longleftrightarrow> AllRestoreable (bd_instances bd) \<noteq> []"

definition RestorableInstances :: "deployment \<Rightarrow> Instance list" where
  "RestorableInstances bd = AllRestoreable (bd_instances bd)"

fun checkArtifactDirs :: "('r, 'x) env_scheme \<Rightarrow> Instance list \<Rightarrow> string list \<Rightarrow> ('r, string list) io" where
  "checkArtifactDirs E [] errs w = (Ok errs, w)"
| "checkArtifactDirs E (inst # insts) errs w =
     (case ArtifactDirExists E inst w of
        (Panic p, w') \<Rightarrow> (Panic p, w')
      | (Err _, w') \<Rightarrow>
          checkArtifactDirs E insts (errs @ [''Error checking '' @ ArtifactDirectory @ '' on instance '' @
            inst_Name inst @ ''/'' @ inst_ID inst]) w'
      | (Ok exists, w') \<Rightarrow>
          checkArtifactDirs E insts
            (if exists then errs @ [''Directory '' @ ArtifactDirectory @ '' already exists on instance '' @
               inst_Name inst @ ''/'' @ inst_ID inst] else errs) w')"

definition CheckArtifactDir :: "('r, 'x) env_scheme \<Rightarrow> deployment \<Rightarrow> ('r, unit) io" where
  "CheckArtifactDir E bd =
     bindr (checkArtifactDirs E (bd_instances bd) [])
       (\<lambda>errs w. if length errs > 0 then (Err (ErrorString (Join errs newline)), w) else (Ok (), w))"

definition ValidateLockingDependencies :: "KahnLockOrderer \<Rightarrow> deployment \<Rightarrow> unit result" where
  "ValidateLockingDependencies lockOrderer bd =
     map_result (\<lambda>_. ()) (KahnLockOrderer_Order lockOrderer (instances_Jobs (bd_instances bd)))"

definition newJobExecutables :: "Job list list \<Rightarrow> (Job \<Rightarrow> 'w executable) \<Rightarrow> 'w executable list list" where
  "newJobExecutables jobsList newJobExecutable = map (map newJobExecutable) jobsList"

text \<open>The executables: the constructor applied to a job is the job's method.\<close>

definition NewJobPreBackupLockExecutable :: "('r, 'x) env_scheme \<Rightarrow> Job \<Rightarrow> 'r world executable" where
  "NewJobPreBackupLockExecutable E job = Job_PreBackupLock E job"

definition NewJobPostSuccessfulBackupUnlockExecutable :: "('r, 'x) env_scheme \<Rightarrow> Job \<Rightarrow> 'r world executable" where
  "NewJobPostSuccessfulBackupUnlockExecutable E job = Job_PostBackupUnlock E True job"

definition NewJobPostFailedBackupUnlockExecutable :: "('r, 'x) env_scheme \<Rightarrow> Job \<Rightarrow> 'r world executable" where
  "NewJobPostFailedBackupUnlockExecutable E job = Job_PostBackupUnlock E False job"

definition NewJobPreRestoreLockExecutable :: "('r, 'x) env_scheme \<Rightarrow> Job \<Rightarrow> 'r world executable" where
  "NewJobPreRestoreLockExecutable E job = Job_PreRestoreLock E job"

definition NewJobPostRestoreUnlockExecutable :: "('r, 'x) env_scheme \<Rightarrow> Job \<Rightarrow> 'r world executable" where
  "NewJobPostRestoreUnlockExecutable E job = Job_PostRestoreUnlock E job"

definition NewBackupExecutable :: "('r, 'x) env_scheme \<Rightarrow> Job \<Rightarrow> 'r world executable" where
  "NewBackupExecutable E j = Job_Backup E j"

text \<open>Running stages and converting the errors, and the same after asking the orderer.\<close>

definition run_stages :: "('r, 'x) env_scheme \<Rightarrow> Executor \<Rightarrow> 'r world executable list list \<Rightarrow> ('r, unit) io" where
  "run_stages E ex stages =
     bindr (Executor_Run (finish_order E) ex stages) (\<lambda>errs w. (of_error (ConvertErrors errs), w))"

definition with_order :: "KahnLockOrderer \<Rightarrow> deployment \<Rightarrow> (Job list list \<Rightarrow> ('r, unit) io) \<Rightarrow> ('r, unit) io" where
  "with_order lockOrderer bd f w =
     (case KahnLockOrderer_Order lockOrderer (instances_Jobs (bd_instances bd)) of
        Err e \<Rightarrow> (Err e, w)
      | Panic p \<Rightarrow> (Panic p, w)
      | Ok orderedJobs \<Rightarrow> f orderedJobs w)"

definition PreBackupLock :: "('r, 'x) env_scheme \<Rightarrow> KahnLockOrderer \<Rightarrow> Executor \<Rightarrow> deployment \<Rightarrow> ('r, unit) io" where
  "PreBackupLock E lockOrderer ex bd =
     with_order lockOrderer bd (\<lambda>orderedJobs.
       run_stages E ex (newJobExecutables orderedJobs (NewJobPreBackupLockExecutable E)))"

definition Deployment_Backup :: "('r, 'x) env_scheme \<Rightarrow> Executor \<Rightarrow> deployment \<Rightarrow> ('r, unit) io" where
  "Deployment_Backup E ex bd w =
     (let insts = AllBackupable (bd_instances bd);
          executables = concat (map (\<lambda>i. map (NewBackupExecutable E) (inst_jobs i)) insts)
      in run_stages E ex [executables] (fold MarkArtifactDirCreated insts w))"

definition PostBackupUnlock :: "('r, 'x) env_scheme \<Rightarrow> bool \<Rightarrow> KahnLockOrderer \<Rightarrow> Executor \<Rightarrow> deployment \<Rightarrow> ('r, unit) io" where
  "PostBackupUnlock E afterSuccessfulBackup lockOrderer ex bd =
     with_order lockOrderer bd (\<lambda>orderedJobs.
       run_stages E ex (newJobExecutables (Reverse orderedJobs)
         (if afterSuccessfulBackup then NewJobPostSuccessfulBackupUnlockExecutable E
          else NewJobPostFailedBackupUnlockExecutable E)))"

definition PreRestoreLock :: "('r, 'x) env_scheme \<Rightarrow> KahnLockOrderer \<Rightarrow> Executor \<Rightarrow> deployment \<Rightarrow> ('r, unit) io" where
  "PreRestoreLock E lockOrderer ex bd =
     with_order lockOrderer bd (\<lambda>orderedJobs.
       run_stages E ex (newJobExecutables orderedJobs (NewJobPreRestoreLockExecutable E)))"

definition Deployment_Restore :: "('r, 'x) env_scheme \<Rightarrow> deployment \<Rightarrow> ('r, unit) io" where
  "Deployment_Restore E bd = instances_Restore E (AllRestoreable (bd_instances bd))"

definition PostRestoreUnlock :: "('r, 'x) env_scheme \<Rightarrow> KahnLockOrderer \<Rightarrow> Executor \<Rightarrow> deployment \<Rightarrow> ('r, unit) io" where
  "PostRestoreUnlock E lockOrderer ex bd =
     with_order lockOrderer bd (\<lambda>orderedJobs.
       run_stages E ex (newJobExecutables (Reverse orderedJobs) (NewJobPostRestoreUnlockExecutable E)))"

definition Deployment_Cleanup :: "('r, 'x) director_env_scheme \<Rightarrow> deployment \<Rightarrow> ('r, unit) io" where
  "Deployment_Cleanup E bd = instances_Cleanup E (bd_instances bd)"

definition Deployment_CleanupPrevious :: "('r, 'x) director_env_scheme \<Rightarrow> deployment \<Rightarrow> ('r, unit) io" where
  "Deployment_CleanupPrevious E bd = instances_CleanupPrevious E (AllBackupableOrRestorable (bd_instances bd))"

fun firstTenLoop :: "nat \<Rightarrow> string list \<Rightarrow> string list \<Rightarrow> string list" where
  "firstTenLoop i [] output = output"
| "firstTenLoop i (x # input) output = (if i = 10 then output else firstTenLoop (i + 1) input (output @ [x]))"

definition getFirstTen :: "string list \<Rightarrow> string list" where
  "getFirstTen input = firstTenLoop 0 input []"

section \<open>The order of scripts\<close>

text \<open>\<open>before\<close> points from a stage to a strictly later one.\<close>

definition forward :: "(Job \<Rightarrow> Job \<Rightarrow> bool) \<Rightarrow> Job list list \<Rightarrow> bool" where
  "forward P st \<longleftrightarrow> (\<forall>k i a b. staged st k a \<longrightarrow> staged st i b \<longrightarrow> P a b \<longrightarrow> k < i)"

lemma forward_Cons:
  "forward P (s # st) \<longleftrightarrow> forward P st \<and> (\<forall>a \<in> set s. \<forall>b \<in> set (concat (s # st)). \<not> P b a)"
proof
  assume fw: "forward P (s # st)"
  have "forward P st"
    unfolding forward_def
  proof (intro allI impI)
    fix k i a b assume "staged st k a" "staged st i b" "P a b"
    then have "staged (s # st) (Suc k) a" "staged (s # st) (Suc i) b" by (simp_all add: staged_def)
    with fw \<open>P a b\<close> show "k < i" unfolding forward_def by blast
  qed
  moreover have "\<not> P b a" if a: "a \<in> set s" and b: "b \<in> set (concat (s # st))" for a b
  proof
    assume "P b a"
    from a have "staged (s # st) 0 a" by (simp add: staged_def)
    moreover from concat_staged [OF b] obtain i where "staged (s # st) i b" ..
    ultimately show False using fw \<open>P b a\<close> unfolding forward_def by blast
  qed
  ultimately show "forward P st \<and> (\<forall>a \<in> set s. \<forall>b \<in> set (concat (s # st)). \<not> P b a)" by blast
next
  assume *: "forward P st \<and> (\<forall>a \<in> set s. \<forall>b \<in> set (concat (s # st)). \<not> P b a)"
  show "forward P (s # st)"
    unfolding forward_def
  proof (intro allI impI)
    fix k i a b assume st: "staged (s # st) k a" "staged (s # st) i b" and "P a b"
    from st(1) have "a \<in> set (concat (s # st))" by (rule staged_in_concat)
    with * \<open>P a b\<close> have "b \<notin> set s" by blast
    with st(2) obtain i' where i: "i = Suc i'" "staged st i' b" by (cases i) (auto simp: staged_def)
    show "k < i"
    proof (cases k)
      case (Suc k')
      with st(1) have "staged st k' a" by (simp add: staged_def)
      with * i \<open>P a b\<close> show ?thesis unfolding forward_def Suc i(1) by blast
    qed (simp add: i)
  qed
qed

lemma forward_same_stages: "same_stages st kss \<Longrightarrow> forward P st \<Longrightarrow> forward P kss"
proof (induction st arbitrary: kss)
  case Nil
  then show ?case by (simp add: same_stages_def)
next
  case (Cons s st)
  then obtain ks kss' where kss: "kss = ks # kss'" "mset ks = mset s" "same_stages st kss'"
    by (auto simp: same_stages_def list_all2_Cons1)
  from same_stages_concat [OF kss(3)] kss(2) have "set (concat kss') = set (concat st)" "set ks = set s"
    by (metis set_mset_mset)+
  with Cons kss show ?case by (simp add: forward_Cons)
qed

lemma forward_sorted: "forward P st \<Longrightarrow> sorted_wrt (\<lambda>a b. \<not> P b a) (concat st)"
proof (induction st)
  case (Cons s st)
  from Cons.prems have "sorted_wrt (\<lambda>a b. \<not> P b a) s"
    by (auto simp: forward_Cons sorted_wrt_iff_nth_less)
  with Cons show ?case by (auto simp: forward_Cons sorted_wrt_append)
qed simp

lemma forward_Reverse: "forward P st \<Longrightarrow> forward (\<lambda>a b. P b a) (Reverse st)"
  unfolding forward_def Reverse_rev staged_rev
proof (intro allI impI)
  fix k i a b
  assume fw: "\<forall>k i a b. staged st k a \<longrightarrow> staged st i b \<longrightarrow> P a b \<longrightarrow> k < i"
    and "k < length st \<and> staged st (length st - 1 - k) a" "i < length st \<and> staged st (length st - 1 - i) b"
    and "P b a"
  moreover from this have "length st - 1 - i < length st - 1 - k" by blast
  ultimately show "k < i" by linarith
qed

text \<open>What a run of one script per job adds to the history.\<close>

definition attempts :: "(Job \<Rightarrow> 'r world executable) \<Rightarrow> (Job \<Rightarrow> event list) \<Rightarrow> bool" where
  "attempts f ev \<longleftrightarrow> (\<forall>j w r w'. f j w = (r, w') \<longrightarrow>
     (\<forall>p. r \<noteq> Panic p) \<and> (\<forall>es. r \<noteq> Err (Error es)) \<and>
     (events w' = events w \<or> events w' = events w @ ev j) \<and> (r = Ok () \<longrightarrow> events w' = events w @ ev j))"

text \<open>
  A phase: the scripts of the ordered jobs. The schedule \<open>sched\<close> lists every job as often as the
  deployment has it, in an order the constraints allow; each script was run at most once, in
  that order, and when the phase succeeds all of them were run.
\<close>

definition phase :: "(Job \<Rightarrow> event list) \<Rightarrow> (Job \<Rightarrow> Job \<Rightarrow> bool) \<Rightarrow> Job list \<Rightarrow> unit result \<Rightarrow> 'r world \<Rightarrow> 'r world \<Rightarrow> bool" where
  "phase ev P jobs r w w' \<longleftrightarrow>
     (\<exists>sched hs. mset sched = mset jobs \<and> sorted_wrt (\<lambda>a b. \<not> P b a) sched \<and>
        events w' = events w @ concat hs \<and> list_all2 (\<lambda>j x. x = ev j \<or> x = []) sched hs \<and>
        (r = Ok () \<longrightarrow> hs = map ev sched))"

lemma run_stages_phase:
  assumes run: "run_stages E ex (newJobExecutables st f) w = (r, w')"
    and fw: "forward P st" and jobs: "mset (concat st) = mset jobs" and att: "attempts f ev"
  shows "(\<forall>p. r \<noteq> Panic p) \<and> phase ev P jobs r w w'"
proof -
  obtain r0 where run0: "Executor_Run (finish_order E) ex (map (map f) st) w = (r0, w')"
    and r: "r = (case r0 of Ok errs \<Rightarrow> of_error (ConvertErrors errs) | Err e \<Rightarrow> Err e | Panic p \<Rightarrow> Panic p)"
    using run unfolding run_stages_def newJobExecutables_def by (elim bindrE) auto
  have "\<exists>kss errs hs. same_stages st kss \<and> r0 = Ok errs \<and> events w' = events w @ concat hs \<and>
      list_all2 (\<lambda>j x. x = ev j \<or> x = []) (concat kss) hs \<and> (errs = [] \<longrightarrow> hs = map ev (concat kss))"
    by (rule executor.run_history [OF any_executor run0]) (use att in \<open>simp add: attempts_def\<close>)
  then obtain kss errs hs where
    same: "same_stages st kss" and r0: "r0 = Ok errs" and hist: "events w' = events w @ concat hs"
    and hs: "list_all2 (\<lambda>j x. x = ev j \<or> x = []) (concat kss) hs" "errs = [] \<longrightarrow> hs = map ev (concat kss)"
    by blast
  have none: "errs = []" if "r = Ok ()"
  proof -
    from that r r0 have flat: "flattenErrors errs = []" by (simp add: ConvertErrors_None)
    obtain lss where "Executor_Run (finish_order E) ex (map (map f) st) w = runStage (map f lss) [] w"
      using executor.run_labelled [OF any_executor [of "finish_order E" ex], of st f w] by blast
    with run0 r0 have "runStage (map f lss) [] w = (Ok errs, w')" by simp
    from runStage_errors [OF this] att have "\<forall>es. Error es \<notin> set errs"
      unfolding attempts_def by (fastforce simp: prod_eq_iff)
    with flat show ?thesis by (simp add: flattenErrors_id)
  qed
  from same_stages_concat [OF same] jobs have "mset (concat kss) = mset jobs" by simp
  moreover have "sorted_wrt (\<lambda>a b. \<not> P b a) (concat kss)"
    by (rule forward_sorted [OF forward_same_stages [OF same fw]])
  ultimately have "phase ev P jobs r w w'"
    unfolding phase_def using hist hs none by blast
  moreover have "\<forall>p. r \<noteq> Panic p" using r r0 by simp
  ultimately show ?thesis by blast
qed

text \<open>The script each executable runs, if its job has one.\<close>

definition script_event :: "Script \<Rightarrow> event \<Rightarrow> event list" where
  "script_event s ev = (if s = '''' then [] else [ev])"

lemma attemptsI:
  assumes "\<And>j w r w'. f j w = (r, w') \<Longrightarrow> (\<forall>p. r \<noteq> Panic p) \<and>
      (if s j = [] then r = Ok () \<and> w' = w
       else (events w' = events w \<or> events w' = events w @ [ev j]) \<and> (r = Ok () \<longrightarrow> events w' = events w @ [ev j]))"
    and "\<And>j w e w'. f j w = (Err e, w') \<Longrightarrow> \<exists>e0 msg. e = WithMessage e0 msg"
  shows "attempts f (\<lambda>j. script_event (s j) (ev j))"
  unfolding attempts_def
proof (intro allI impI)
  fix j w r w' assume run: "f j w = (r, w')"
  then have "r \<noteq> Err (Error es)" for es using assms(2) by fastforce
  moreover note assms(1) [OF run]
  ultimately show "(\<forall>p. r \<noteq> Panic p) \<and> (\<forall>es. r \<noteq> Err (Error es)) \<and>
      (events w' = events w \<or> events w' = events w @ script_event (s j) (ev j)) \<and>
      (r = Ok () \<longrightarrow> events w' = events w @ script_event (s j) (ev j))"
    by (cases "s j = []") (simp_all add: script_event_def)
qed

abbreviation lock_events :: "Job \<Rightarrow> event list" where
  "lock_events j \<equiv> script_event (preBackupScript j) (lock_command j)"

abbreviation unlock_events :: "bool \<Rightarrow> Job \<Rightarrow> event list" where
  "unlock_events ok j \<equiv> script_event (postBackupScript j) (unlock_command ok j)"

abbreviation restore_lock_events :: "Job \<Rightarrow> event list" where
  "restore_lock_events j \<equiv> script_event (preRestoreScript j) (restore_lock_command j)"

abbreviation restore_unlock_events :: "Job \<Rightarrow> event list" where
  "restore_unlock_events j \<equiv> script_event (postRestoreScript j) (restore_unlock_command j)"

lemma attempts_lock: "attempts (NewJobPreBackupLockExecutable E) lock_events"
proof (rule attemptsI)
  fix j w r w' assume "NewJobPreBackupLockExecutable E j w = (r, w')"
  from Job_PreBackupLock_frame [OF this [unfolded NewJobPreBackupLockExecutable_def]]
  show "(\<forall>p. r \<noteq> Panic p) \<and> (if preBackupScript j = [] then r = Ok () \<and> w' = w
      else (events w' = events w \<or> events w' = events w @ [lock_command j]) \<and> (r = Ok () \<longrightarrow> events w' = events w @ [lock_command j]))"
    by (auto simp: ran_def lock_command_def)
qed (auto simp: NewJobPreBackupLockExecutable_def Job_PreBackupLock_def dest: wrapped_Err split: if_splits)

lemma attempts_unlock:
  "attempts (if ok then NewJobPostSuccessfulBackupUnlockExecutable E else NewJobPostFailedBackupUnlockExecutable E)
     (unlock_events ok)"
proof -
  have f: "(if ok then NewJobPostSuccessfulBackupUnlockExecutable E else NewJobPostFailedBackupUnlockExecutable E) =
      Job_PostBackupUnlock E ok"
    by (auto simp: NewJobPostSuccessfulBackupUnlockExecutable_def NewJobPostFailedBackupUnlockExecutable_def)
  show ?thesis unfolding f
  proof (rule attemptsI)
    fix j w r w' assume "Job_PostBackupUnlock E ok j w = (r, w')"
    from Job_PostBackupUnlock_frame [OF this]
    show "(\<forall>p. r \<noteq> Panic p) \<and> (if postBackupScript j = [] then r = Ok () \<and> w' = w
        else (events w' = events w \<or> events w' = events w @ [unlock_command ok j]) \<and>
          (r = Ok () \<longrightarrow> events w' = events w @ [unlock_command ok j]))" .
  qed (auto simp: Job_PostBackupUnlock_def dest: wrapped_Err split: if_splits)
qed

lemma attempts_restore_lock: "attempts (NewJobPreRestoreLockExecutable E) restore_lock_events"
proof (rule attemptsI)
  fix j w r w' assume "NewJobPreRestoreLockExecutable E j w = (r, w')"
  from Job_PreRestoreLock_frame [OF this [unfolded NewJobPreRestoreLockExecutable_def]]
  show "(\<forall>p. r \<noteq> Panic p) \<and> (if preRestoreScript j = [] then r = Ok () \<and> w' = w
      else (events w' = events w \<or> events w' = events w @ [restore_lock_command j]) \<and>
        (r = Ok () \<longrightarrow> events w' = events w @ [restore_lock_command j]))"
    by (auto simp: ran_def restore_lock_command_def)
qed (auto simp: NewJobPreRestoreLockExecutable_def Job_PreRestoreLock_def dest: wrapped_Err split: if_splits)

lemma attempts_restore_unlock: "attempts (NewJobPostRestoreUnlockExecutable E) restore_unlock_events"
proof (rule attemptsI)
  fix j w r w' assume "NewJobPostRestoreUnlockExecutable E j w = (r, w')"
  from Job_PostRestoreUnlock_frame [OF this [unfolded NewJobPostRestoreUnlockExecutable_def]]
  show "(\<forall>p. r \<noteq> Panic p) \<and> (if postRestoreScript j = [] then r = Ok () \<and> w' = w
      else (events w' = events w \<or> events w' = events w @ [restore_unlock_command j]) \<and>
        (r = Ok () \<longrightarrow> events w' = events w @ [restore_unlock_command j]))"
    by (auto simp: ran_def restore_unlock_command_def)
qed (auto simp: NewJobPostRestoreUnlockExecutable_def Job_PostRestoreUnlock_def dest: wrapped_Err split: if_splits)

lemma mset_concat_rev: "mset (concat (rev xss)) = mset (concat xss)"
  by (induction xss) simp_all

text \<open>The two patterns of a phase: locking in the orderer's stages, unlocking in their reverse.\<close>

lemma with_order_lock_phase:
  assumes "with_order lo bd (\<lambda>st. run_stages E ex (newJobExecutables st f)) w = (r, w')" "attempts f ev"
  shows "(\<forall>p. r \<noteq> Panic p) \<and> (r = Err cyclic_error \<and> w' = w \<or>
    phase ev (must_precede (Before (constraintSpecifier lo))) (instances_Jobs (bd_instances bd)) r w w')"
proof (cases "KahnLockOrderer_Order lo (instances_Jobs (bd_instances bd))")
  case (Ok st)
  have "forward (must_precede (Before (constraintSpecifier lo))) st"
    unfolding forward_def using lock_orderer.order_respects [OF kahn_orderer_laws Ok] by blast
  moreover from assms(1) Ok have "run_stages E ex (newJobExecutables st f) w = (r, w')" by (simp add: with_order_def)
  ultimately show ?thesis
    using run_stages_phase lock_orderer.order_partition [OF kahn_orderer_laws Ok] assms(2) by blast
next
  case (Err e)
  with assms(1) Order_Err_message show ?thesis by (auto simp: with_order_def)
qed (simp add: Order_no_panic)

lemma with_order_unlock_phase:
  assumes "with_order lo bd (\<lambda>st. run_stages E ex (newJobExecutables (Reverse st) f)) w = (r, w')" "attempts f ev"
  shows "(\<forall>p. r \<noteq> Panic p) \<and> (r = Err cyclic_error \<and> w' = w \<or>
    phase ev (\<lambda>a b. must_precede (Before (constraintSpecifier lo)) b a) (instances_Jobs (bd_instances bd)) r w w')"
proof (cases "KahnLockOrderer_Order lo (instances_Jobs (bd_instances bd))")
  case (Ok st)
  have "forward (must_precede (Before (constraintSpecifier lo))) st"
    unfolding forward_def using lock_orderer.order_respects [OF kahn_orderer_laws Ok] by blast
  note fw = forward_Reverse [OF this]
  have "mset (concat (Reverse st)) = mset (instances_Jobs (bd_instances bd))"
    using lock_orderer.order_partition [OF kahn_orderer_laws Ok] by (simp add: mset_concat_rev)
  moreover from assms(1) Ok have "run_stages E ex (newJobExecutables (Reverse st) f) w = (r, w')"
    by (simp add: with_order_def)
  ultimately show ?thesis using run_stages_phase [OF _ fw] assms(2) by blast
next
  case (Err e)
  with assms(1) Order_Err_message show ?thesis by (auto simp: with_order_def)
qed (simp add: Order_no_panic)

lemma Deployment_Backup_marks:
  "fold MarkArtifactDirCreated insts w =
     w\<lparr>artifactDirCreated := (\<lambda>a. a \<in> inst_addr ` set insts \<or> artifactDirCreated w a)\<rparr>"
  by (induction insts arbitrary: w) (auto simp: MarkArtifactDirCreated_def fun_eq_iff)

lemma Job_Backup_calm: "Job_Backup E j w = (r, w') \<Longrightarrow> calm w w'"
  by (auto simp: Job_Backup_def elim!: bindrE wrappedE split: if_splits
      dest!: CreateDirectory_frame RunScriptQuietly_frame) (blast intro: calm_trans ran_calm)+

lemma runStage_calm:
  "runStage xs es w = (r, w') \<Longrightarrow> \<forall>x \<in> set xs. \<forall>w. calm w (snd (x w)) \<Longrightarrow> calm w w'"
proof (induction xs arbitrary: es w)
  case (Cons x xs)
  obtain r1 w1 where x: "x w = (r1, w1)" by fastforce
  with Cons.prems(2) have "calm w w1" by (metis list.set_intros(1) snd_conv)
  with Cons x show ?case by (cases r1) (auto intro: calm_trans)
qed simp

lemma getFirstTen_take: "getFirstTen xs = take 10 xs"
proof -
  have "i \<le> 10 \<Longrightarrow> firstTenLoop i ys out = out @ take (10 - i) ys" for i ys out
  proof (induction ys arbitrary: i out)
    case (Cons y ys)
    then show ?case by (cases "i = 10") (auto simp: Suc_diff_le take_Cons')
  qed simp
  then show ?thesis by (simp add: getFirstTen_def)
qed

lemma run_stages_calm:
  assumes "run_stages E ex stages w = (r, w')"
    "\<forall>x \<in> set (concat stages). \<forall>w. calm w (snd (x w))"
  shows "calm w w'"
proof -
  from assms(1) obtain r0 where run: "Executor_Run (finish_order E) ex stages w = (r0, w')"
    unfolding run_stages_def by (elim bindrE) auto
  obtain yss where yss: "same_stages stages yss" "runStage (concat yss) [] w = (r0, w')"
    using executor.run_stages [OF any_executor [of "finish_order E" ex], of stages w] run by auto
  have "set (concat yss) = set (concat stages)" using same_stages_concat [OF yss(1)] by (metis set_mset_mset)
  with assms(2) show ?thesis by (intro runStage_calm [OF yss(2)]) (simp only:)
qed

section \<open>Properties\<close>

text \<open>C13: the lock phase of a backup never panics. With a cyclic constraint graph it returns the
  cyclic-graph error and does nothing. Otherwise it runs the pre-backup-lock script of every job at
  most once, in a sequence in which no job comes after one it should be locked before; if it
  succeeds, every job with such a script had it run.\<close>

theorem pre_backup_lock_order:
  "case PreBackupLock E lo ex bd w of (r, w') \<Rightarrow>
     (\<forall>p. r \<noteq> Panic p) \<and> (r = Err cyclic_error \<and> w' = w \<or>
       phase lock_events (must_precede (Before (constraintSpecifier lo))) (instances_Jobs (bd_instances bd)) r w w')"
  using with_order_lock_phase [OF _ attempts_lock] unfolding PreBackupLock_def by fastforce

text \<open>C14: the unlock phase of a backup never panics and runs the post-backup-unlock script of every
  job at most once, telling it whether the backup succeeded, in a sequence in which no job comes
  before one it was to be locked before; if it succeeds, every job with such a script had it run.
  With a cyclic constraint graph nothing is unlocked.\<close>

theorem post_backup_unlock_order:
  "case PostBackupUnlock E ok lo ex bd w of (r, w') \<Rightarrow>
     (\<forall>p. r \<noteq> Panic p) \<and> (r = Err cyclic_error \<and> w' = w \<or>
       phase (unlock_events ok) (\<lambda>a b. must_precede (Before (constraintSpecifier lo)) b a)
         (instances_Jobs (bd_instances bd)) r w w')"
  using with_order_unlock_phase [OF _ attempts_unlock] unfolding PostBackupUnlock_def by fastforce

text \<open>The lock and unlock phases of a restore have the same guarantees as those of a backup: locks
  along the restore constraints, unlocks in the opposite direction, each script at most once, all
  of them when the phase succeeds.\<close>

theorem restore_lock_phases:
  "(case PreRestoreLock E lo ex bd w of (r, w') \<Rightarrow>
      (\<forall>p. r \<noteq> Panic p) \<and> (r = Err cyclic_error \<and> w' = w \<or>
        phase restore_lock_events (must_precede (Before (constraintSpecifier lo))) (instances_Jobs (bd_instances bd)) r w w')) \<and>
   (case PostRestoreUnlock E lo ex bd w of (r, w') \<Rightarrow>
      (\<forall>p. r \<noteq> Panic p) \<and> (r = Err cyclic_error \<and> w' = w \<or>
        phase restore_unlock_events (\<lambda>a b. must_precede (Before (constraintSpecifier lo)) b a)
          (instances_Jobs (bd_instances bd)) r w w'))"
  using with_order_lock_phase [OF _ attempts_restore_lock] with_order_unlock_phase [OF _ attempts_restore_unlock]
  unfolding PreRestoreLock_def PostRestoreUnlock_def by fastforce

text \<open>Running the backup scripts marks the artifact directory of every backupable instance as created
  before the first script runs, whatever the scripts return, marks no other instance, and
  changes no local file; so a later cleanup removes every directory the scripts may have made.\<close>

theorem backup_marks_directories:
  "case Deployment_Backup E ex bd w of (r, w') \<Rightarrow>
     artifactDirCreated w' = (\<lambda>a. a \<in> inst_addr ` set (BackupableInstances bd) \<or> artifactDirCreated w a) \<and>
     fs w' = fs w \<and> grows w w'"
proof -
  let ?is = "AllBackupable (bd_instances bd)"
  let ?xs = "concat (map (\<lambda>i. map (NewBackupExecutable E) (inst_jobs i)) ?is)"
  let ?w = "fold MarkArtifactDirCreated ?is w"
  obtain r w' where run: "run_stages E ex [?xs] ?w = (r, w')" by fastforce
  have "calm ?w w'"
    by (rule run_stages_calm [OF run]) (auto simp: NewBackupExecutable_def intro: Job_Backup_calm [OF prod.collapse [symmetric]])
  with run show ?thesis
    by (simp add: Deployment_Backup_def BackupableInstances_def calm_def Deployment_Backup_marks grows_def)
qed

end
