(* ===== verification/Artifact_Copier.thy ===== *)
theory Artifact_Copier
  imports Deployment
begin

text \<open>
  The transfers between the local backup and the instances:
  \<^verbatim>\<open>orchestrator/backup_download_executable.go\<close>,
  \<^verbatim>\<open>orchestrator/backup_upload_executable.go\<close> and \<^verbatim>\<open>orchestrator/artifact_copier.go\<close>.
\<close>

section \<open>Download\<close>

text \<open>The local file behind the percentage writer, as the writer of a session.\<close>

definition percentageLogger :: "('r, 'x) env_scheme \<Rightarrow> string \<Rightarrow> (LogPercentageWriter, 'r) writer" where
  "percentageLogger E path p \<sigma> =
     (let (r, \<sigma>') = LogPercentageWriter_Write (file_Write E path) p \<sigma> in (map_result (\<lambda>_. ()) r, \<sigma>'))"

definition downloadBackupArtifact :: "('r, 'x) backup_env_scheme \<Rightarrow> BackupDirectory \<Rightarrow> Artifact \<Rightarrow> ('r, unit) io" where
  "downloadBackupArtifact E localBackup a =
     bindr (CreateArtifact E localBackup (artifact_id a)) (\<lambda>path.
     bindr (Artifact_Size E a) (\<lambda>_.
     bindr (Artifact_SizeInBytes E a) (\<lambda>sizeInBytes.
     bindr (\<lambda>w. let (res, _, w') = StreamFromRemote E a (percentageLogger E path) (NewLogPercentageWriter sizeInBytes) w
                in (res, w')) (\<lambda>_.
     file_Close E path))))"

definition fmt_list :: "string list \<Rightarrow> string" where
  "fmt_list xs = ''['' @ Join xs '' '' @ '']''"

definition mismatch_error :: "string \<Rightarrow> string \<Rightarrow> string \<Rightarrow> string \<Rightarrow> string list \<Rightarrow> goerror" where
  "mismatch_error what iname iid aname files =
     ErrorString (what @ '', checksum failed for '' @ iname @ ''/'' @ iid @ '' '' @ aname @
       '' - checksums don'' @ [CHR 0x27] @ ''t match for '' @ fmt_list (getFirstTen files) @
       ''. Checksum failed for '' @ Itoa (int (length files)) @ '' files in total'')"

definition compareChecksums :: "('r, 'x) backup_env_scheme \<Rightarrow> BackupDirectory \<Rightarrow> Artifact \<Rightarrow> ('r, BackupChecksum) io" where
  "compareChecksums E localBackup a =
     bindr (\<lambda>w. (CalculateChecksum E localBackup (artifact_id a) w, w)) (\<lambda>localChecksum.
     bindr (Artifact_Checksum E a) (\<lambda>remoteChecksum w.
       (let (match, mismatchedFiles) = Match (range_ord E) localChecksum remoteChecksum
        in if \<not> match
           then (Err (mismatch_error ''Backup is corrupted'' (inst_Name (artifact_instance a))
                   (inst_ID (artifact_instance a)) (artifact_name a) mismatchedFiles), w)
           else (Ok localChecksum, w))))"

definition BackupDownloadExecutable_Execute :: "('r, 'x) backup_env_scheme \<Rightarrow> BackupDirectory \<Rightarrow> Artifact \<Rightarrow> ('r, unit) io" where
  "BackupDownloadExecutable_Execute E localBackup a =
     bindr (downloadBackupArtifact E localBackup a) (\<lambda>_.
     bindr (compareChecksums E localBackup a) (\<lambda>checksum.
     bindr (AddChecksum E localBackup (artifact_id a) checksum) (\<lambda>_.
     Artifact_Delete E a)))"

section \<open>Upload\<close>

text \<open>The SSH library copies standard input in buffers of 32 KiB.\<close>

function file_chunks :: "string \<Rightarrow> string list" where
  "file_chunks s = (if s = '''' then [] else take 32768 s # file_chunks (drop 32768 s))"
  by pat_completeness auto
termination by (relation "measure length") auto

declare file_chunks.simps [simp del]

definition read_through_logger :: "('r, 'x) env_scheme \<Rightarrow> string \<Rightarrow> int \<Rightarrow> 'r world \<Rightarrow> string result" where
  "read_through_logger E path sizeInBytes w =
     (case os_read E OpRead path w of
        Ok content \<Rightarrow>
          consume (Suc (length (file_chunks content))) (NewLogPercentageReader sizeInBytes) (file_chunks content) ''''
      | r \<Rightarrow> r)"

definition BackupUploadExecutable_Execute ::
  "('r, 'x) backup_env_scheme \<Rightarrow> BackupDirectory \<Rightarrow> Instance \<Rightarrow> Artifact \<Rightarrow> ('r, unit) io" where
  "BackupUploadExecutable_Execute E localBackup inst a =
     bindr (\<lambda>w. (ReadArtifact E localBackup (artifact_id a) w, w)) (\<lambda>path.
     bindr (\<lambda>w. (GetArtifactSize E localBackup (artifact_id a) w, w)) (\<lambda>_.
     bindr (\<lambda>w. (GetArtifactByteSize E localBackup (artifact_id a) w, w)) (\<lambda>sizeInBytes.
     bindr (\<lambda>w. StreamToRemote E a (read_through_logger E path sizeInBytes w) w) (\<lambda>_ w0.
     bindr (\<lambda>w. (FetchChecksum E localBackup (artifact_id a) w, w)) (\<lambda>localChecksum.
     bindr (Artifact_Checksum E a) (\<lambda>remoteChecksum w.
       (let (match, mismatchedFiles) = Match (range_ord E) localChecksum remoteChecksum
        in if \<not> match
           then (Err (mismatch_error (''Backup couldn'' @ [CHR 0x27] @ ''t be transferred'') (inst_Name inst) (inst_ID inst) (artifact_name a) mismatchedFiles), w)
           else (Ok (), w)))) (MarkArtifactDirCreated inst w0)))))"

section \<open>The copier\<close>

definition DownloadBackupFromDeployment ::
  "('r, 'x) backup_env_scheme \<Rightarrow> Executor \<Rightarrow> BackupDirectory \<Rightarrow> deployment \<Rightarrow> ('r, unit) io" where
  "DownloadBackupFromDeployment E ex localBackup bd =
     run_stages E ex [concat (map (\<lambda>i. map (BackupDownloadExecutable_Execute E localBackup) (ArtifactsToBackup i))
       (BackupableInstances bd))]"

definition UploadBackupToDeployment ::
  "('r, 'x) backup_env_scheme \<Rightarrow> Executor \<Rightarrow> BackupDirectory \<Rightarrow> deployment \<Rightarrow> ('r, unit) io" where
  "UploadBackupToDeployment E ex localBackup bd =
     run_stages E ex [concat (map (\<lambda>i. map (BackupUploadExecutable_Execute E localBackup i) (ArtifactsToRestore i))
       (RestorableInstances bd))]"

section \<open>Lemmas\<close>

text \<open>The commands of a transfer.\<close>

definition size_cmd :: "Artifact \<Rightarrow> event" where
  "size_cmd a = session_command (artifact_remoteRunner a) (''sudo du -sh '' @ artifactDirectory a)"

definition bytes_cmd :: "Artifact \<Rightarrow> event" where
  "bytes_cmd a = session_command (artifact_remoteRunner a) (''sudo du -s '' @ artifactDirectory a)"

definition tar_cmd :: "Artifact \<Rightarrow> event" where
  "tar_cmd a = session_command (artifact_remoteRunner a) (''sudo tar -C '' @ artifactDirectory a @ '' -c .'')"

definition sha_cmd :: "Artifact \<Rightarrow> event" where
  "sha_cmd a = session_command (artifact_remoteRunner a) (''sudo sh -c '' @ [CHR 0x27] @ ''cd '' @ artifactDirectory a @
     '' && find . -type f | xargs shasum -a 256'' @ [CHR 0x27])"

definition rm_cmd :: "Artifact \<Rightarrow> event" where
  "rm_cmd a = session_command (artifact_remoteRunner a) (''sudo rm -rf '' @ artifactDirectory a)"

lemmas transfer_cmds = size_cmd_def bytes_cmd_def tar_cmd_def sha_cmd_def rm_cmd_def

lemma rm_cmd_other: "rm_cmd a \<notin> {size_cmd a, bytes_cmd a, tar_cmd a, sha_cmd a}"
  by (simp add: transfer_cmds session_command_def)

lemma CreateArtifact_quiet: "CreateArtifact E bd ai w = (r, w') \<Longrightarrow> quiet w w'"
  by (auto simp: CreateArtifact_def wrapped_def elim!: bindrE split: prod.splits dest: os_Create_quiet)

lemma percentageLogger_quiet: "percentageLogger E path p (s, w) = (r, (s', w')) \<Longrightarrow> quiet w w'"
  by (auto simp: percentageLogger_def LogPercentageWriter_Write_def split: prod.splits result.splits
      dest: file_Write_quiet)

lemma stays_Artifact_Size: "size_cmd a \<in> S \<Longrightarrow> stays (Artifact_Size E a) S"
  unfolding Artifact_Size_def SizeOf_def by (intro history_intros) (simp add: size_cmd_def)

lemma does_Artifact_Size: "does (Artifact_Size E a) [size_cmd a]"
  unfolding Artifact_Size_def SizeOf_def size_cmd_def
  using does_wrapped [OF does_bindr [OF does_runOnInstance does_pure]] by simp

lemma stays_Artifact_SizeInBytes: "bytes_cmd a \<in> S \<Longrightarrow> stays (Artifact_SizeInBytes E a) S"
  unfolding Artifact_SizeInBytes_def SizeInBytes_def by (intro history_intros) (simp add: bytes_cmd_def)

lemma does_Artifact_SizeInBytes: "does (Artifact_SizeInBytes E a) [bytes_cmd a]"
  unfolding Artifact_SizeInBytes_def SizeInBytes_def bytes_cmd_def
  using does_wrapped [OF does_bindr [OF does_runOnInstance does_pure]] by simp

lemma stays_Artifact_Checksum: "sha_cmd a \<in> S \<Longrightarrow> stays (Artifact_Checksum E a) S"
  unfolding Artifact_Checksum_def ChecksumDirectory_def by (intro history_intros) (simp add: sha_cmd_def)

lemma does_Artifact_Checksum: "does (Artifact_Checksum E a) [sha_cmd a]"
  unfolding Artifact_Checksum_def ChecksumDirectory_def sha_cmd_def
  using does_wrapped [OF does_bindr [OF does_runOnInstance does_pure]] by simp

lemma StreamFromRemote_adds:
  assumes "StreamFromRemote E a (percentageLogger E path) s w = (res, s', w')"
  shows "(\<exists>h. adds h w w' \<and> set h \<subseteq> {tar_cmd a}) \<and> (\<forall>u. res = Ok u \<longrightarrow> adds [tar_cmd a] w w')"
proof -
  obtain res0 stderr s0 w0 where
    run: "runInSession E (artifact_remoteRunner a) (''sudo tar -C '' @ artifactDirectory a @ '' -c .'')
      (percentageLogger E path) '''' s w = (res0, stderr, s0, w0)" by (metis prod_cases4)
  from run assms have w': "w' = w0" and ok: "res = Ok u \<Longrightarrow> res0 = Ok 0" for u
    by (auto simp: StreamFromRemote_def ArchiveAndDownload_def Connection_Stream_def split: result.splits)
  have "(\<exists>h. adds h w w0 \<and> set h \<subseteq> {tar_cmd a}) \<and> (\<forall>n. res0 = Ok n \<longrightarrow> adds [tar_cmd a] w w0)"
    unfolding tar_cmd_def by (rule runInSession_adds [OF run]) (rule percentageLogger_quiet)
  with w' ok show ?thesis by blast
qed

lemma stays_download:
  "stays (downloadBackupArtifact E bd a) {size_cmd a, bytes_cmd a, tar_cmd a, sha_cmd a}"
proof -
  have stream: "stays (\<lambda>w. let (res, _, w') = StreamFromRemote E a (percentageLogger E path) s w in (res, w'))
      {size_cmd a, bytes_cmd a, tar_cmd a, sha_cmd a}" for path s
    unfolding stays_def using StreamFromRemote_adds [of E a path s] by (fastforce split: prod.splits)
  have close: "stays (file_Close E path) S" for path S
    unfolding file_Close_def [abs_def] by (rule stays_pure)
  show ?thesis
    unfolding downloadBackupArtifact_def
    by (intro stays_bindr stays_quiet stays_Artifact_Size stays_Artifact_SizeInBytes stream close)
      (auto dest: CreateArtifact_quiet)
qed

lemma does_download: "does (downloadBackupArtifact E bd a) [size_cmd a, bytes_cmd a, tar_cmd a]"
proof -
  have stream: "does (\<lambda>w. let (res, _, w') = StreamFromRemote E a (percentageLogger E path) s w in (res, w')) [tar_cmd a]"
    for path s
    unfolding does_def using StreamFromRemote_adds [of E a path s] by (fastforce split: prod.splits)
  have close: "does (file_Close E path) []" for path
    unfolding file_Close_def [abs_def] by (rule does_pure)
  have "does (downloadBackupArtifact E bd a) ([] @ [size_cmd a] @ [bytes_cmd a] @ [tar_cmd a] @ [])"
    unfolding downloadBackupArtifact_def
    by (intro does_bindr does_quiet does_Artifact_Size does_Artifact_SizeInBytes stream close)
      (auto dest: CreateArtifact_quiet)
  then show ?thesis by simp
qed

lemma compareChecksums_Ok:
  assumes "compareChecksums E bd a w = (Ok c, w')"
  obtains rc where "CalculateChecksum E bd (artifact_id a) w = Ok c" "Artifact_Checksum E a w = (Ok rc, w')"
    "fst (Match (range_ord E) c rc)" "adds [sha_cmd a] w w'"
proof -
  from assms obtain lc rc w1 where calc: "CalculateChecksum E bd (artifact_id a) w = Ok lc"
    "Artifact_Checksum E a w = (Ok rc, w1)"
    and "(if \<not> fst (Match (range_ord E) lc rc) then (Err (mismatch_error ''Backup is corrupted''
        (inst_Name (artifact_instance a)) (inst_ID (artifact_instance a)) (artifact_name a)
        (snd (Match (range_ord E) lc rc))), w1) else (Ok lc, w1)) = (Ok c, w')"
    unfolding compareChecksums_def bindr_eq_Ok by (auto simp: case_prod_beta)
  then have "lc = c" "w1 = w'" "fst (Match (range_ord E) lc rc)" by (auto split: if_splits)
  with calc have "CalculateChecksum E bd (artifact_id a) w = Ok c" "Artifact_Checksum E a w = (Ok rc, w')"
    "fst (Match (range_ord E) c rc)" by simp_all
  with does_Artifact_Checksum [of E a] that show thesis unfolding does_def by blast
qed

lemma stays_compare: "sha_cmd a \<in> S \<Longrightarrow> stays (compareChecksums E bd a) S"
proof -
  assume "sha_cmd a \<in> S"
  moreover have "stays (\<lambda>w. let (match, files) = Match it c rc in if \<not> match then (e files, w) else (x, w)) S"
    for it c rc e x
    by (cases "Match it c rc") (auto simp: stays_def intro: exI [of _ "[]"])
  ultimately show ?thesis
    unfolding compareChecksums_def by (intro stays_bindr stays_pure stays_Artifact_Checksum)
qed

text \<open>How a download can end: before the artifact is deleted, or with the deletion.\<close>

lemma download_cases:
  assumes "BackupDownloadExecutable_Execute E bd a w = (r, w')"
  obtains (early) h where "adds h w w'" "set h \<subseteq> {size_cmd a, bytes_cmd a, tar_cmd a, sha_cmd a}" "r \<noteq> Ok ()"
  | (late) c rc w1 w2 w3 where "downloadBackupArtifact E bd a w = (Ok (), w1)"
      "CalculateChecksum E bd (artifact_id a) w1 = Ok c"
      "Artifact_Checksum E a w1 = (Ok rc, w2)" "fst (Match (range_ord E) c rc)"
      "AddChecksum E bd (artifact_id a) c w2 = (Ok (), w3)" "Artifact_Delete E a w3 = (r, w')"
      "adds [size_cmd a, bytes_cmd a, tar_cmd a, sha_cmd a] w w3"
proof -
  let ?S = "{size_cmd a, bytes_cmd a, tar_cmd a, sha_cmd a}"
  let ?m = "bindr (downloadBackupArtifact E bd a) (\<lambda>_. compareChecksums E bd a)"
  have "bindr ?m (\<lambda>c. bindr (AddChecksum E bd (artifact_id a) c) (\<lambda>_. Artifact_Delete E a)) w = (r, w')"
    using assms by (simp add: BackupDownloadExecutable_Execute_def bindr_assoc)
  moreover have m: "stays ?m ?S" by (intro stays_bindr stays_download stays_compare) simp
  ultimately show thesis
  proof (cases rule: bindrE)
    case (ok c w2)
    from m ok(1) obtain h where h: "adds h w w2" "set h \<subseteq> ?S" unfolding stays_def by blast
    from ok(2) show thesis
    proof (cases rule: bindrE)
      case add: (ok u w3)
      from ok(1) obtain w1 where d: "downloadBackupArtifact E bd a w = (Ok (), w1)"
        and cmp: "compareChecksums E bd a w1 = (Ok c, w2)" by (auto simp: bindr_eq_Ok)
      from compareChecksums_Ok [OF cmp] obtain rc where rc: "CalculateChecksum E bd (artifact_id a) w1 = Ok c"
        "Artifact_Checksum E a w1 = (Ok rc, w2)" "fst (Match (range_ord E) c rc)" "adds [sha_cmd a] w1 w2" .
      from d does_download [of E bd a] have "adds [size_cmd a, bytes_cmd a, tar_cmd a] w w1" unfolding does_def by blast
      from adds_trans [OF adds_trans [OF this rc(4)] quiet_adds [OF AddChecksum_quiet [OF add(1)]]]
      show thesis using late [OF d rc(1-3)] add by simp
    next
      case (err e)
      from adds_trans [OF h(1) quiet_adds [OF AddChecksum_quiet [OF err(1)]]] h(2) err(2) show thesis
        by (intro early [of h]) simp_all
    next
      case (panic p)
      from adds_trans [OF h(1) quiet_adds [OF AddChecksum_quiet [OF panic(1)]]] h(2) panic(2) show thesis
        by (intro early [of h]) simp_all
    qed
  next
    case (err e)
    with m early show thesis unfolding stays_def by blast
  next
    case (panic p)
    with m early show thesis unfolding stays_def by blast
  qed
qed

lemma ExtractAndUpload_calm: "ExtractAndUpload E c s d w = (r, w') \<Longrightarrow> calm w w'"
  by (auto simp: ExtractAndUpload_def split: prod.splits dest!: Connection_StreamStdin_frame ran_calm)

lemma StreamToRemote_calm:
  assumes "StreamToRemote E a stdin w = (r, w')"
  shows "calm w w'"
proof -
  have up: "calm u (snd (ExtractAndUpload E c s d u))" for c s d and u :: "'a world"
    by (rule ExtractAndUpload_calm [OF prod.collapse [symmetric]])
  from assms show ?thesis
    unfolding StreamToRemote_def
  proof (cases rule: bindrE)
    case (ok x w1)
    from ok(1) have "calm w w1" by (auto elim!: wrappedE dest!: CreateDirectory_frame ran_calm)
    moreover from ok(2) up [of w1] have "calm w1 w'"
      by (auto split: result.splits dest: ExtractAndUpload_calm)
    ultimately show ?thesis by (rule calm_trans)
  qed (auto elim!: wrappedE dest!: CreateDirectory_frame ran_calm)
qed

lemma Artifact_Checksum_calm: "Artifact_Checksum E a w = (r, w') \<Longrightarrow> calm w w'"
  by (auto simp: Artifact_Checksum_def ChecksumDirectory_def elim!: wrappedE bindrE dest: runOnInstance_calm)

lemma FetchChecksum_fs: "fs w = fs w' \<Longrightarrow> FetchChecksum E bd ai w = FetchChecksum E bd ai w'"
  unfolding FetchChecksum_def readMetadata_def os_read_def by (erule ssubst) (rule refl)

lemma upload_Ok:
  assumes "BackupUploadExecutable_Execute E bd inst a w = (Ok (), w')"
  obtains c rc w1 where "FetchChecksum E bd (artifact_id a) (MarkArtifactDirCreated inst w1) = Ok c"
    "Artifact_Checksum E a (MarkArtifactDirCreated inst w1) = (Ok rc, w')" "fst (Match (range_ord E) c rc)"
    "calm w w1"
proof -
  from assms obtain path sz w1 c rc w2 where
    st: "StreamToRemote E a (read_through_logger E path sz w) w = (Ok (), w1)"
    and c: "FetchChecksum E bd (artifact_id a) (MarkArtifactDirCreated inst w1) = Ok c"
    and rc: "Artifact_Checksum E a (MarkArtifactDirCreated inst w1) = (Ok rc, w2)"
    and m: "(if \<not> fst (Match (range_ord E) c rc) then (Err (mismatch_error (''Backup couldn'' @ [CHR 0x27] @ ''t be transferred'')
        (inst_Name inst) (inst_ID inst) (artifact_name a) (snd (Match (range_ord E) c rc))), w2) else (Ok (), w2)) = (Ok (), w')"
    unfolding BackupUploadExecutable_Execute_def bindr_eq_Ok by (auto simp: case_prod_beta)
  from m have "w2 = w'" "fst (Match (range_ord E) c rc)" by (auto split: if_splits)
  with c rc StreamToRemote_calm [OF st] that show thesis by blast
qed

section \<open>Properties\<close>

text \<open>C15: downloading an artifact deletes the remote copy only at the very end. A download that ends
  before that has sent no deletion and is not a success. Otherwise the digests of the local file
  were computed after the copy, matched the remote ones, and were recorded in the metadata
  before the single deletion command was sent, as the last of five commands.\<close>

theorem download_deletes_last:
  "case BackupDownloadExecutable_Execute E bd a w of (r, w') \<Rightarrow>
     (\<exists>h. adds h w w' \<and> rm_cmd a \<notin> set h \<and> r \<noteq> Ok ()) \<or>
     (\<exists>c rc w1 w2 w3. CalculateChecksum E bd (artifact_id a) w1 = Ok c \<and> Artifact_Checksum E a w1 = (Ok rc, w2) \<and>
        fst (Match (range_ord E) c rc) \<and> AddChecksum E bd (artifact_id a) c w2 = (Ok (), w3) \<and>
        adds [size_cmd a, bytes_cmd a, tar_cmd a, sha_cmd a] w w3 \<and> Artifact_Delete E a w3 = (r, w'))"
proof -
  obtain r w' where run: "BackupDownloadExecutable_Execute E bd a w = (r, w')" by fastforce
  then show ?thesis
  proof (cases rule: download_cases)
    case (early h)
    with rm_cmd_other [of a] have "rm_cmd a \<notin> set h" by blast
    with early run show ?thesis by auto
  next
    case (late c rc w1 w2 w3)
    with run show ?thesis by auto
  qed
qed


text \<open>An upload whose copy fails returns the error and leaves the instance unmarked, although the
  artifact directory may have been created on it by then.\<close>

theorem failed_upload_unmarked:
  assumes "ReadArtifact E bd (artifact_id a) w = Ok path" "GetArtifactSize E bd (artifact_id a) w = Ok hsize"
    "GetArtifactByteSize E bd (artifact_id a) w = Ok sz"
    "StreamToRemote E a (read_through_logger E path sz w) w = (Err e, w')"
  shows "BackupUploadExecutable_Execute E bd inst a w = (Err e, w') \<and> artifactDirCreated w' = artifactDirCreated w"
  using assms StreamToRemote_calm [OF assms(4)]
  by (simp add: BackupUploadExecutable_Execute_def bindr_def calm_def)

definition sample_env_one_file :: "nat director_env" where
  "sample_env_one_file = sample_director_env [sample_metadata]"

definition sample_backup_files :: "string \<Rightarrow> fnode option" where
  "sample_backup_files p =
     (if p = ''b/metadata'' then Some (FFile '''') else if p = ''b/vm-0-db.tar'' then Some (FFile ''data'') else None)"

definition sample_restore_artifact :: Artifact where
  "sample_restore_artifact = NewRestoreArtifact (sample_job ''db'' []) sample_instance sample_connection"

lemma sample_upload_reads:
  "ReadArtifact sample_env_one_file \<lparr>baseDirName = ''b''\<rparr> (artifact_id sample_restore_artifact)
     (sample_world sample_backup_files) = Ok ''b/vm-0-db.tar''"
  "GetArtifactSize sample_env_one_file \<lparr>baseDirName = ''b''\<rparr> (artifact_id sample_restore_artifact)
     (sample_world sample_backup_files) = Ok ''1K''"
  "GetArtifactByteSize sample_env_one_file \<lparr>baseDirName = ''b''\<rparr> (artifact_id sample_restore_artifact)
     (sample_world sample_backup_files) = Ok 4"
  by code_simp+

lemma sample_upload_content:
  "read_through_logger sample_env_one_file ''b/vm-0-db.tar'' 4 (sample_world sample_backup_files) = Ok ''data''"
proof -
  have "os_read sample_env_one_file OpRead ''b/vm-0-db.tar'' (sample_world sample_backup_files) = Ok ''data''"
    by code_simp
  moreover have "file_chunks ''data'' = [''data'']" by (simp add: file_chunks.simps)
  moreover have "consume 2 (NewLogPercentageReader 4) [''data''] '''' = Ok ''data''" by code_simp
  ultimately show ?thesis by (simp add: read_through_logger_def numeral_2_eq_2)
qed

lemma sample_session [simp]: "ssh_session sample_env_one_file c cmd s r = (sample_reply, r)"
  by (simp add: sample_env_one_file_def sample_director_simps)

lemma sample_Run: "Connection_Run sample_env_one_file c cmd w = (Ok 0, '''', '''', log_event (session_command c cmd) w)"
  by (simp add: Connection_Run_def Connection_Stream_def runInSession_def sample_reply_def log_event_def)

lemma sample_upload_Ok:
  "\<exists>w'. BackupUploadExecutable_Execute sample_env_one_file \<lparr>baseDirName = ''b''\<rparr> sample_instance sample_restore_artifact
     (sample_world sample_backup_files) = (Ok (), w')"
proof -
  let ?E = sample_env_one_file and ?a = sample_restore_artifact and ?w = "sample_world sample_backup_files"
  have stream: "\<exists>w1. StreamToRemote ?E ?a (Ok s) w = (Ok (), w1) \<and> fs w1 = fs w" for s w
    by (simp add: StreamToRemote_def wrapped_def CreateDirectory_def runOnInstance_def sample_Run bindr_def
        ExtractAndUpload_def Connection_StreamStdin_def runInSession_def sample_reply_def log_event_def)
  then obtain w1 where w1: "StreamToRemote ?E ?a (Ok ''data'') ?w = (Ok (), w1)" "fs w1 = fs ?w" by blast
  have "FetchChecksum ?E \<lparr>baseDirName = ''b''\<rparr> (artifact_id ?a) ?w = Ok fmempty" by code_simp
  with w1(2) have fetch: "FetchChecksum ?E \<lparr>baseDirName = ''b''\<rparr> (artifact_id ?a) (MarkArtifactDirCreated sample_instance w1) = Ok fmempty"
    using FetchChecksum_fs [of "MarkArtifactDirCreated sample_instance w1" ?w ?E "\<lparr>baseDirName = ''b''\<rparr>" "artifact_id ?a"] by (simp add: MarkArtifactDirCreated_def)
  have "\<exists>w2. Artifact_Checksum ?E ?a w = (Ok fmempty, w2)" for w
    by (simp add: Artifact_Checksum_def ChecksumDirectory_def wrapped_def runOnInstance_def sample_Run bindr_def
        convertShasToMap_def TrimSpace_def)
  then obtain w2 where "Artifact_Checksum ?E ?a (MarkArtifactDirCreated sample_instance w1) = (Ok fmempty, w2)" by blast
  with fetch w1(1) show ?thesis
    by (simp add: BackupUploadExecutable_Execute_def bindr_def sample_upload_reads sample_upload_content Match_def matchLoop_iff)
qed


text \<open>An instance on which the copy fails: every command but the creation of the directory does.\<close>

definition sample_env_failing :: "nat director_env" where
  "sample_env_failing = sample_env_one_file\<lparr>ssh_session := (\<lambda>c cmd s r.
     (if take 10 cmd = ''sudo mkdir'' then sample_reply else sample_reply\<lparr>runErr := RunExitError 1\<rparr>, r))\<rparr>"

lemma sample_failing_stream:
  "\<exists>e w'. StreamToRemote sample_env_failing sample_restore_artifact
     (read_through_logger sample_env_failing ''b/vm-0-db.tar'' 4 (sample_world sample_backup_files))
     (sample_world sample_backup_files) = (Err e, w')"
proof -
  have "read_through_logger sample_env_failing ''b/vm-0-db.tar'' 4 (sample_world sample_backup_files) = Ok ''data''"
    using sample_upload_content by (simp add: read_through_logger_def os_read_def sample_env_failing_def)
  then show ?thesis
    by (simp add: StreamToRemote_def wrapped_def CreateDirectory_def runOnInstance_def Connection_Run_def Connection_Stream_def
        bindr_def ExtractAndUpload_def Connection_StreamStdin_def runInSession_def sample_reply_def log_event_def
        sample_env_failing_def)
qed

theorem failed_upload_unmarked_witness:
  "\<exists>e w'. BackupUploadExecutable_Execute sample_env_failing \<lparr>baseDirName = ''b''\<rparr> sample_instance sample_restore_artifact
     (sample_world sample_backup_files) = (Err e, w') \<and> \<not> artifactDirCreated w' 0"
proof -
  obtain e w' where run: "StreamToRemote sample_env_failing sample_restore_artifact
     (read_through_logger sample_env_failing ''b/vm-0-db.tar'' 4 (sample_world sample_backup_files))
     (sample_world sample_backup_files) = (Err e, w')" using sample_failing_stream by blast
  have "ReadArtifact sample_env_failing \<lparr>baseDirName = ''b''\<rparr> (artifact_id sample_restore_artifact)
      (sample_world sample_backup_files) = Ok ''b/vm-0-db.tar''"
    "GetArtifactSize sample_env_failing \<lparr>baseDirName = ''b''\<rparr> (artifact_id sample_restore_artifact)
      (sample_world sample_backup_files) = Ok ''1K''"
    "GetArtifactByteSize sample_env_failing \<lparr>baseDirName = ''b''\<rparr> (artifact_id sample_restore_artifact)
      (sample_world sample_backup_files) = Ok 4"
    by code_simp+
  from failed_upload_unmarked [OF this run, of sample_instance] show ?thesis
    by (auto simp: sample_world_def)
qed

end
