(* ===== verification/Job_Finder.thy ===== *)
theory Job_Finder
  imports Director
begin

text \<open>
  Finding the jobs of an instance: \<^verbatim>\<open>instance/job_finder.go\<close>, the manifest queriers of
  \<^verbatim>\<open>instance/manifest_querier.go\<close> and \<^verbatim>\<open>bosh/manifest_querier.go\<close>.

  Scripts are grouped by job in a Go map, so the order of the jobs is the iteration order of
  that map. A manifest is its text; the YAML parser and the patch library that look into it are
  parameters.
\<close>

section \<open>Manifest queriers\<close>

record BoshManifestQuerier =
  mq_manifest :: string
  v2Manifest :: bool

datatype ManifestQuerier = NoopManifestQuerier | BoshQuerier BoshManifestQuerier

definition isV2Manifest :: "('r, 'x) director_env_scheme \<Rightarrow> string \<Rightarrow> bool" where
  "isV2Manifest E manifest = (case patch_Find E manifest ''/instance_groups'' of Ok _ \<Rightarrow> True | _ \<Rightarrow> False)"

definition NewBoshManifestQuerier :: "('r, 'x) director_env_scheme \<Rightarrow> string \<Rightarrow> ManifestQuerier result" where
  "NewBoshManifestQuerier E manifest =
     (case yaml_ParseManifest E manifest of
        Some e \<Rightarrow> Err (WithMessage e ''error unmarshalling manifest yaml'')
      | None \<Rightarrow> Ok (BoshQuerier \<lparr>mq_manifest = manifest, v2Manifest = isV2Manifest E manifest\<rparr>))"

definition Bosh_FindReleaseName ::
  "('r, 'x) director_env_scheme \<Rightarrow> BoshManifestQuerier \<Rightarrow> string \<Rightarrow> string \<Rightarrow> string result" where
  "Bosh_FindReleaseName E mq instanceGroupName jobName =
     (let releasePath = (if v2Manifest mq
            then ''/instance_groups/name='' @ instanceGroupName @ ''/jobs/name='' @ jobName @ ''/release''
            else ''/jobs/name='' @ instanceGroupName @ ''/templates/name='' @ jobName @ ''/release'');
          msg = ''error finding release name for job '' @ jobName @ '' in instance group '' @ instanceGroupName
      in case patch_NewPointer E releasePath of
           Some e \<Rightarrow> Err (WithMessage e msg)
         | None \<Rightarrow>
             (case patch_Find E (mq_manifest mq) releasePath of
                Err e \<Rightarrow> Err (WithMessage e msg)
              | Panic p \<Rightarrow> Panic p
              | Ok (PString release) \<Rightarrow> Ok release
              | Ok _ \<Rightarrow> Panic ''interface conversion: interface {} is not string''))"

definition Bosh_IsJobBackupOneRestoreAll ::
  "('r, 'x) director_env_scheme \<Rightarrow> BoshManifestQuerier \<Rightarrow> string \<Rightarrow> string \<Rightarrow> bool result" where
  "Bosh_IsJobBackupOneRestoreAll E mq instanceGroupName jobName =
     (let jobPath = (if v2Manifest mq
            then ''/instance_groups/name='' @ instanceGroupName @ ''/jobs/name='' @ jobName
            else ''/jobs/name='' @ instanceGroupName @ ''/templates/name='' @ jobName);
          propertyPath = (if v2Manifest mq then jobPath @ ''/properties/bbr/backup_one_restore_all''
            else ''/jobs/name='' @ instanceGroupName @ ''/properties/bbr/backup_one_restore_all'')
      in case patch_Find E (mq_manifest mq) jobPath of
           Err e \<Rightarrow> Err (WithMessage e (''error finding job '' @ jobName @ '' in instance group '' @ instanceGroupName))
         | Panic p \<Rightarrow> Panic p
         | Ok _ \<Rightarrow>
             (case patch_Find E (mq_manifest mq) propertyPath of
                Err _ \<Rightarrow> Ok False
              | Panic p \<Rightarrow> Panic p
              | Ok (PBool b) \<Rightarrow> Ok b
              | Ok _ \<Rightarrow> Panic ''interface conversion: interface {} is not bool''))"

fun FindReleaseName :: "('r, 'x) director_env_scheme \<Rightarrow> ManifestQuerier \<Rightarrow> string \<Rightarrow> string \<Rightarrow> string result" where
  "FindReleaseName E NoopManifestQuerier instanceGroupName jobName = Ok ''''"
| "FindReleaseName E (BoshQuerier mq) instanceGroupName jobName = Bosh_FindReleaseName E mq instanceGroupName jobName"

fun IsJobBackupOneRestoreAll :: "('r, 'x) director_env_scheme \<Rightarrow> ManifestQuerier \<Rightarrow> string \<Rightarrow> string \<Rightarrow> bool result" where
  "IsJobBackupOneRestoreAll E NoopManifestQuerier instanceGroupName jobName = Ok False"
| "IsJobBackupOneRestoreAll E (BoshQuerier mq) instanceGroupName jobName =
     Bosh_IsJobBackupOneRestoreAll E mq instanceGroupName jobName"

section \<open>The finder\<close>

record InstanceIdentifier =
  InstanceGroupName :: string
  InstanceId :: string
  Bootstrap :: bool

definition InstanceIdentifier_String :: "InstanceIdentifier \<Rightarrow> string" where
  "InstanceIdentifier_String i = InstanceGroupName i @ ''/'' @ InstanceId i"

record JobFinder =
  bbrVersion :: string
  omitsReleases :: bool

definition NewJobFinder :: "string \<Rightarrow> JobFinder" where
  "NewJobFinder version = \<lparr>bbrVersion = version, omitsReleases = False\<rparr>"

definition NewJobFinderOmitMetadataReleases :: "string \<Rightarrow> JobFinder" where
  "NewJobFinderOmitMetadataReleases version = \<lparr>bbrVersion = version, omitsReleases = True\<rparr>"

definition parseJobMetadata :: "('r, 'x) director_env_scheme \<Rightarrow> JobFinder \<Rightarrow> string \<Rightarrow> Metadata result" where
  "parseJobMetadata E j =
     (if omitsReleases j then ParseJobMetadataOmitReleases (yaml_UnmarshalJob E) else ParseJobMetadata (yaml_UnmarshalJob E))"

definition findBBRScripts :: "('r, 'x) env_scheme \<Rightarrow> InstanceIdentifier \<Rightarrow> Connection \<Rightarrow> ('r, string list) io" where
  "findBBRScripts E ident remoteRunner =
     wrapped (''finding scripts failed on '' @ InstanceIdentifier_String ident)
       (FindFiles E remoteRunner ''/var/vcap/jobs/*/bin/bbr/*'')"

definition findMetadata ::
  "('r, 'x) director_env_scheme \<Rightarrow> JobFinder \<Rightarrow> InstanceIdentifier \<Rightarrow> Script \<Rightarrow> Connection \<Rightarrow> ('r, Metadata) io" where
  "findMetadata E j ident script remoteRunner w =
     (let (res, buffer, w') = RunScriptWithEnv E remoteRunner script (fmupd ''BBR_VERSION'' (bbrVersion j) fmempty)
            bytes_Buffer '''' w
      in case res of
           Err e \<Rightarrow> (Err (WithMessage e (''An error occurred while running metadata script for job '' @
                     Script_JobName script @ '' on '' @ InstanceIdentifier_String ident)), w')
         | Panic p \<Rightarrow> (Panic p, w')
         | Ok _ \<Rightarrow>
             (wrap_result (''Parsing metadata from job '' @ Script_JobName script @ '' on '' @
                InstanceIdentifier_String ident @ '' failed'') (parseJobMetadata E j buffer), w'))"

fun metadataLoop ::
  "('r, 'x) director_env_scheme \<Rightarrow> JobFinder \<Rightarrow> InstanceIdentifier \<Rightarrow> Connection \<Rightarrow> Script list \<Rightarrow>
     (string, Metadata) fmap \<Rightarrow> ('r, (string, Metadata) fmap) io" where
  "metadataLoop E j ident remoteRunner [] metadata w = (Ok metadata, w)"
| "metadataLoop E j ident remoteRunner (script # scripts) metadata w =
     (if isMetadata script then
        bindr (findMetadata E j ident script remoteRunner)
          (\<lambda>jobMetadata. metadataLoop E j ident remoteRunner scripts
             (fmupd (Script_JobName script) (jobMetadata\<lparr>BackupName := ''''\<rparr>) metadata)) w
      else metadataLoop E j ident remoteRunner scripts metadata w)"

text \<open>\<open>metadata[jobName]\<close> reads as the zero struct when the key is missing.\<close>

definition metadata_of :: "(string, Metadata) fmap \<Rightarrow> string \<Rightarrow> Metadata" where
  "metadata_of metadata jobName = (case fmlookup metadata jobName of None \<Rightarrow> zero_Metadata | Some m \<Rightarrow> m)"

fun groupByJobName :: "Script list \<Rightarrow> (string, Script list) fmap \<Rightarrow> (string, Script list) fmap" where
  "groupByJobName [] grouped = grouped"
| "groupByJobName (script # scripts) grouped =
     (let jobName = Script_JobName script;
          existingScripts = (case fmlookup grouped jobName of None \<Rightarrow> [] | Some ss \<Rightarrow> ss)
      in groupByJobName scripts (fmupd jobName (existingScripts @ [script]) grouped))"

fun jobsLoop ::
  "('r, 'x) director_env_scheme \<Rightarrow> Connection \<Rightarrow> InstanceIdentifier \<Rightarrow> (string, Script list) fmap \<Rightarrow>
     (string, Metadata) fmap \<Rightarrow> ManifestQuerier \<Rightarrow> string list \<Rightarrow> Job list \<Rightarrow> Job list result" where
  "jobsLoop E remoteRunner ident grouped metadata querier [] jobs = Ok jobs"
| "jobsLoop E remoteRunner ident grouped metadata querier (jobName # names) jobs =
     (if SkipBBRScripts (metadata_of metadata jobName)
      then jobsLoop E remoteRunner ident grouped metadata querier names jobs
      else (case FindReleaseName E querier (InstanceGroupName ident) jobName of
              Panic p \<Rightarrow> Panic p
            | released \<Rightarrow>
                (let releaseName = (case released of Ok n \<Rightarrow> n | _ \<Rightarrow> '''')
                 in case IsJobBackupOneRestoreAll E querier (InstanceGroupName ident) jobName of
                      Panic p \<Rightarrow> Panic p
                    | oneRestoreAll \<Rightarrow>
                        (case NewJob remoteRunner (InstanceIdentifier_String ident) releaseName
                                (case fmlookup grouped jobName of None \<Rightarrow> [] | Some ss \<Rightarrow> ss)
                                (metadata_of metadata jobName)
                                (case oneRestoreAll of Ok b \<Rightarrow> b | _ \<Rightarrow> False) (Bootstrap ident) of
                           Ok job \<Rightarrow> jobsLoop E remoteRunner ident grouped metadata querier names (jobs @ [job])
                         | Err e \<Rightarrow> Err e
                         | Panic p \<Rightarrow> Panic p))))"

definition buildJobs ::
  "('r, 'x) director_env_scheme \<Rightarrow> Connection \<Rightarrow> InstanceIdentifier \<Rightarrow> Script list \<Rightarrow> (string, Metadata) fmap \<Rightarrow>
     ManifestQuerier \<Rightarrow> Job list result" where
  "buildJobs E remoteRunner ident scripts metadata querier =
     (let grouped = groupByJobName scripts fmempty
      in jobsLoop E remoteRunner ident grouped metadata querier (range_keys (range_ord E) grouped) [])"

definition FindJobs ::
  "('r, 'x) director_env_scheme \<Rightarrow> JobFinder \<Rightarrow> InstanceIdentifier \<Rightarrow> Connection \<Rightarrow> ManifestQuerier \<Rightarrow> ('r, Job list) io" where
  "FindJobs E j ident remoteRunner querier =
     bindr (findBBRScripts E ident remoteRunner) (\<lambda>findOutput.
       (let scripts = NewBackupAndRestoreScripts findOutput
        in bindr (metadataLoop E j ident remoteRunner scripts fmempty)
             (\<lambda>metadata w. (buildJobs E remoteRunner ident scripts metadata querier, w))))"

section \<open>Lemmas\<close>

lemma groupByJobName_lookup:
  "fmlookup (groupByJobName scripts grouped) n =
     (case fmlookup grouped n of
        None \<Rightarrow> (if filter (\<lambda>s. Script_JobName s = n) scripts = [] then None
                 else Some (filter (\<lambda>s. Script_JobName s = n) scripts))
      | Some ss \<Rightarrow> Some (ss @ filter (\<lambda>s. Script_JobName s = n) scripts))"
  by (induction scripts arbitrary: grouped) (auto split: option.splits)

lemma groupByJobName_dom: "fset (fmdom (groupByJobName scripts fmempty)) = Script_JobName ` set scripts"
proof -
  have "n \<in> fset (fmdom (groupByJobName scripts fmempty)) \<longleftrightarrow> n \<in> Script_JobName ` set scripts" for n
    by (auto simp: fmlookup_dom_iff groupByJobName_lookup filter_empty_conv image_iff)
  then show ?thesis by blast
qed

text \<open>The scripts of a job are in its own directory, and its fields are those of \<^const>\<open>NewJob\<close>.\<close>

definition built_from :: "Connection \<Rightarrow> InstanceIdentifier \<Rightarrow> Script list \<Rightarrow> Job \<Rightarrow> bool" where
  "built_from remoteRunner ident scripts job \<longleftrightarrow>
     (let own = filter (\<lambda>s. Script_JobName s = job_name job) scripts
      in own \<noteq> [] \<and> job_remoteRunner job = remoteRunner \<and> instanceIdentifier job = InstanceIdentifier_String ident \<and>
         onBootstrapNode job = Bootstrap ident \<and>
         backupScript job = firstOrBlank (BackupOnly own) \<and> restoreScript job = firstOrBlank (RestoreOnly own) \<and>
         preBackupScript job = firstOrBlank (PreBackupLockOnly own) \<and>
         postBackupScript job = firstOrBlank (PostBackupUnlockOnly own) \<and>
         preRestoreScript job = firstOrBlank (PreRestoreLockOnly own) \<and>
         postRestoreScript job = SinglePostRestoreUnlockScript own)"

lemma NewJob_built:
  assumes "own = filter (\<lambda>s. Script_JobName s = n) scripts" "own \<noteq> []"
  shows "\<exists>job. NewJob c (InstanceIdentifier_String ident) rel own md b (Bootstrap ident) = Ok job \<and> job_name job = n \<and>
    built_from c ident scripts job \<and> job_metadata job = md"
proof -
  from assms(2) obtain s rest where own: "own = s # rest" by (cases own) auto
  then have "s \<in> set (filter (\<lambda>s. Script_JobName s = n) scripts)" using assms(1) by (metis list.set_intros(1))
  then have "Script_JobName s = n" by simp
  with own assms(1) show ?thesis by (simp add: NewJob_def built_from_def)
qed

lemma jobsLoop_Ok:
  assumes "jobsLoop E c ident (groupByJobName scripts fmempty) metadata q names jobs = Ok res"
    and "set names \<subseteq> Script_JobName ` set scripts"
  shows "\<exists>new. res = jobs @ new \<and>
    map job_name new = filter (\<lambda>n. \<not> SkipBBRScripts (metadata_of metadata n)) names \<and>
    list_all (\<lambda>j. built_from c ident scripts j \<and> job_metadata j = metadata_of metadata (job_name j)) new"
  using assms
proof (induction names arbitrary: jobs)
  case (Cons n names)
  let ?own = "filter (\<lambda>s. Script_JobName s = n) scripts"
  from Cons.prems(2) have ne: "?own \<noteq> []" by (auto simp: filter_empty_conv)
  then have look: "fmlookup (groupByJobName scripts fmempty) n = Some ?own" by (simp add: groupByJobName_lookup)
  show ?case
  proof (cases "SkipBBRScripts (metadata_of metadata n)")
    case True
    with Cons show ?thesis by simp
  next
    case False
    with Cons.prems(1) look obtain rel b job where
      nj: "NewJob c (InstanceIdentifier_String ident) rel ?own (metadata_of metadata n) b (Bootstrap ident) = Ok job"
      and rest: "jobsLoop E c ident (groupByJobName scripts fmempty) metadata q names (jobs @ [job]) = Ok res"
      by (auto split: result.splits)
    from NewJob_built [OF refl ne, of c ident rel "metadata_of metadata n" b] nj
    have job: "job_name job = n" "built_from c ident scripts job" "job_metadata job = metadata_of metadata n" by auto
    from Cons.IH [OF rest] Cons.prems(2) obtain new where "res = (jobs @ [job]) @ new"
      "map job_name new = filter (\<lambda>n. \<not> SkipBBRScripts (metadata_of metadata n)) names"
      "list_all (\<lambda>j. built_from c ident scripts j \<and> job_metadata j = metadata_of metadata (job_name j)) new" by auto
    with job False show ?thesis by (intro exI [of _ "job # new"]) simp
  qed
qed simp

section \<open>Properties\<close>

text \<open>C37: the jobs found on an instance are exactly the jobs that own at least one of the kept scripts and
  whose metadata does not disable them, each once, whatever order the map of scripts is walked
  in; every script a job runs is the first of its kind among the job's own scripts.\<close>

theorem jobs_built:
  assumes "buildJobs E c ident scripts metadata q = Ok jobs"
  shows "distinct (map job_name jobs) \<and>
    set (map job_name jobs) = {n \<in> Script_JobName ` set scripts. \<not> SkipBBRScripts (metadata_of metadata n)} \<and>
    list_all (\<lambda>j. built_from c ident scripts j \<and> job_metadata j = metadata_of metadata (job_name j)) jobs"
proof -
  let ?names = "range_keys (range_ord E) (groupByJobName scripts fmempty)"
  have names: "set ?names = Script_JobName ` set scripts" "distinct ?names"
    by (simp_all add: groupByJobName_dom)
  from jobsLoop_Ok [OF assms [unfolded buildJobs_def Let_def]] names(1) obtain new where new: "jobs = [] @ new"
    "map job_name new = filter (\<lambda>n. \<not> SkipBBRScripts (metadata_of metadata n)) ?names"
    "list_all (\<lambda>j. built_from c ident scripts j \<and> job_metadata j = metadata_of metadata (job_name j)) new"
    by blast
  have "map job_name jobs = filter (\<lambda>n. \<not> SkipBBRScripts (metadata_of metadata n)) ?names" using new by simp
  moreover have "distinct (filter (\<lambda>n. \<not> SkipBBRScripts (metadata_of metadata n)) ?names)" using names(2) by simp
  ultimately show ?thesis using new names(1) by simp
qed

theorem jobs_built_witness:
  "\<exists>jobs. buildJobs (sample_director_env []) sample_connection \<lparr>InstanceGroupName = ''vm'', InstanceId = ''0'', Bootstrap = True\<rparr>
     [script_path ''db'' ''backup''] fmempty NoopManifestQuerier = Ok jobs \<and> set (map job_name jobs) = {''db''}"
proof -
  let ?c = "buildJobs (sample_director_env []) sample_connection \<lparr>InstanceGroupName = ''vm'', InstanceId = ''0'', Bootstrap = True\<rparr>
     [script_path ''db'' ''backup''] fmempty NoopManifestQuerier"
  have dom: "range_keys it (fmupd ''db'' ss fmempty) = [''db'']" for it and ss :: "Script list"
    by (simp add: range_keys_def map_keys_def sorted_list_of_fset.rep_eq)
  obtain jobs where jobs: "?c = Ok jobs"
    by (simp add: buildJobs_def dom metadata_of_def zero_Metadata_def NewJob_def)
  from jobs_built [OF jobs] jobs show ?thesis by (auto simp: metadata_of_def zero_Metadata_def)
qed

end
