(* ===== verification/Bosh_Client.thy ===== *)
theory Bosh_Client
  imports Job_Finder Deployment
begin

text \<open>
  The deployment managers: \<^verbatim>\<open>bosh/client.go\<close>, \<^verbatim>\<open>bosh/deployment_manager.go\<close> and
  \<^verbatim>\<open>standalone/deployment_manager.go\<close>.
\<close>

section \<open>Helpers of the client\<close>

abbreviation couldnt :: string where
  "couldnt \<equiv> ''couldn'' @ [CHR 0x27] @ ''t ''"

definition NewSshRemoteRunner ::
  "('r, 'x) env_scheme \<Rightarrow> string \<Rightarrow> string \<Rightarrow> string \<Rightarrow> string option \<Rightarrow> string list \<Rightarrow> Connection result" where
  "NewSshRemoteRunner E host user privateKey hostKey algorithms = NewConnection E host user privateKey hostKey algorithms"

definition supportedEncryptionAlgorithms :: "string \<Rightarrow> string list" where
  "supportedEncryptionAlgorithms keyType =
     (if keyType \<noteq> ''ssh-rsa'' then [keyType] else [''rsa-sha2-512'', ''rsa-sha2-256'', ''ssh-rsa''])"

fun isInstanceABootstrapNode :: "string \<Rightarrow> string \<Rightarrow> VMInfo list \<Rightarrow> bool" where
  "isInstanceABootstrapNode jobName ip [] = False"
| "isInstanceABootstrapNode jobName ip (vm # vms) =
     (if jobName \<noteq> vm_JobName vm \<or> \<not> vm_Bootstrap vm then isInstanceABootstrapNode jobName ip vms
      else if list_ex (\<lambda>vmIP. ip = vmIP) (vm_IPs vm) then True
      else isInstanceABootstrapNode jobName ip vms)"

fun bosh_contains :: "string list \<Rightarrow> string \<Rightarrow> bool" where
  "bosh_contains [] e = False"
| "bosh_contains (a # s) e = (a = e \<or> bosh_contains s e)"

fun uniqueLoop :: "VMInfo list \<Rightarrow> string list \<Rightarrow> string list" where
  "uniqueLoop [] jobs = jobs"
| "uniqueLoop (vm # vms) jobs =
     uniqueLoop vms (if \<not> bosh_contains jobs (vm_JobName vm) then jobs @ [vm_JobName vm] else jobs)"

definition uniqueInstanceGroupNamesFromVMs :: "VMInfo list \<Rightarrow> string list" where
  "uniqueInstanceGroupNamesFromVMs vms = uniqueLoop vms []"

fun findInstanceIndexById :: "VMInfo list \<Rightarrow> string \<Rightarrow> string result" where
  "findInstanceIndexById [] vmID = Err (ErrorString (''vmInfo does not contain given vmID '' @ vmID))"
| "findInstanceIndexById (vm # vms) vmID =
     (if vmID = vm_ID vm
      then (case vm_Index vm of
              None \<Rightarrow> Err (ErrorString (''vmInfo index is nil, given vmID '' @ vmID))
            | Some i \<Rightarrow> Ok (Itoa i))
      else findInstanceIndexById vms vmID)"

text \<open>The errors of the library are ignored here.\<close>

fun cleanupAlreadyMadeConnections :: "('r, 'x) director_env_scheme \<Rightarrow> string \<Rightarrow> Slug list \<Rightarrow> SSHOpts \<Rightarrow> ('r, unit) io" where
  "cleanupAlreadyMadeConnections E dep [] opts w = (Ok (), w)"
| "cleanupAlreadyMadeConnections E dep (slug # slugs) opts w =
     (case Deployment_CleanUpSSH E dep slug (so_Username opts) w of
        (Panic p, w') \<Rightarrow> (Panic p, w')
      | (_, w') \<Rightarrow> cleanupAlreadyMadeConnections E dep slugs opts w')"

text \<open>The error return of the loops below: clean up, then return the wrapped error.\<close>

definition cleanup_and_fail ::
  "('r, 'x) director_env_scheme \<Rightarrow> string \<Rightarrow> Slug list \<Rightarrow> SSHOpts \<Rightarrow> string \<Rightarrow> goerror \<Rightarrow> ('r, 'a) io" where
  "cleanup_and_fail E dep slugs opts msg e =
     bindr (cleanupAlreadyMadeConnections E dep slugs opts) (\<lambda>_ w. (Err (WithMessage e msg), w))"

text \<open>A call whose error leads there.\<close>

definition guarded ::
  "('r, 'x) director_env_scheme \<Rightarrow> string \<Rightarrow> Slug list \<Rightarrow> SSHOpts \<Rightarrow> string \<Rightarrow> ('r, 'a) io \<Rightarrow> ('r, 'a) io" where
  "guarded E dep slugs opts msg m w =
     (case m w of
        (Err e, w') \<Rightarrow> cleanup_and_fail E dep slugs opts msg e w'
      | res \<Rightarrow> res)"

section \<open>Finding the instances\<close>

record Client =
  client_jobFinder :: JobFinder

fun hostLoop ::
  "('r, 'x) director_env_scheme \<Rightarrow> JobFinder \<Rightarrow> ManifestQuerier \<Rightarrow> string \<Rightarrow> VMInfo list \<Rightarrow> SSHOpts \<Rightarrow> string \<Rightarrow>
     Slug list \<Rightarrow> string \<Rightarrow> Host list \<Rightarrow> Instance list \<Rightarrow> ('r, Instance list) io" where
  "hostLoop E jf q dep vms opts privateKey slugs grp [] instances w = (Ok instances, w)"
| "hostLoop E jf q dep vms opts privateKey slugs grp (host # hosts) instances w =
     (case parseAuthorizedKey E (host_HostPublicKey host) of
        Err e \<Rightarrow> (Err (WithMessage e ''ssh.NewConnection.ParseAuthorizedKey failed''), w)
      | Panic p \<Rightarrow> (Panic p, w)
      | Ok keyType \<Rightarrow>
          bindr (guarded E dep slugs opts ''failed to connect using ssh'' (\<lambda>w.
            (NewSshRemoteRunner E (host_Host host) (host_Username host) privateKey (Some (host_HostPublicKey host))
               (supportedEncryptionAlgorithms keyType), w))) (\<lambda>remoteRunner.
          bindr (guarded E dep slugs opts ''failed to check os'' (IsWindows E remoteRunner)) (\<lambda>isWindows.
          if isWindows then hostLoop E jf q dep vms opts privateKey slugs grp hosts instances
          else
            bindr (guarded E dep slugs opts (couldnt @ ''find jobs'')
              (FindJobs E jf \<lparr>InstanceGroupName = grp, InstanceId = host_IndexOrID host,
                 Bootstrap = isInstanceABootstrapNode grp (host_Host host) vms\<rparr> remoteRunner q)) (\<lambda>jobs.
            bindr (guarded E dep slugs opts (couldnt @ ''find instance index'')
              (\<lambda>w. (findInstanceIndexById vms (host_IndexOrID host), w))) (\<lambda>vmIndex w.
            (let (inst, w') = NewBoshDeployedInstance grp vmIndex (host_IndexOrID host) remoteRunner dep False jobs w
             in if length jobs = 0 then (Ok (instances @ [inst]), w')
                else hostLoop E jf q dep vms opts privateKey slugs grp hosts (instances @ [inst]) w'))))) w)"

fun groupLoop ::
  "('r, 'x) director_env_scheme \<Rightarrow> JobFinder \<Rightarrow> ManifestQuerier \<Rightarrow> string \<Rightarrow> VMInfo list \<Rightarrow> SSHOpts \<Rightarrow> string \<Rightarrow>
     string list \<Rightarrow> Slug list \<Rightarrow> Instance list \<Rightarrow> ('r, Instance list) io" where
  "groupLoop E jf q dep vms opts privateKey [] slugs instances w = (Ok instances, w)"
| "groupLoop E jf q dep vms opts privateKey (grp # grps) slugs instances w =
     bindr (guarded E dep slugs opts (''invalid instance group name: '' @ grp) (\<lambda>w. (dir_ParseSlug E grp, w))) (\<lambda>slug.
     bindr (guarded E dep slugs opts ''failed to set up ssh'' (Deployment_SetUpSSH E dep slug opts)) (\<lambda>hosts.
     bindr (hostLoop E jf q dep vms opts privateKey (slugs @ [slug]) grp hosts instances) (\<lambda>instances'.
     groupLoop E jf q dep vms opts privateKey grps (slugs @ [slug]) instances'))) w"

definition FindInstances :: "('r, 'x) director_env_scheme \<Rightarrow> Client \<Rightarrow> string \<Rightarrow> ('r, Instance list) io" where
  "FindInstances E c deploymentName =
     bindr (wrapped (couldnt @ ''find deployment '' @ deploymentName) (dir_call (dir_FindDeployment E deploymentName))) (\<lambda>_.
     bindr (wrapped (couldnt @ ''get vm infos'') (dir_call (dir_VMInfos E deploymentName))) (\<lambda>vms.
     bindr (wrapped ''failed to generate ssh options'' (dir_call (sshOptsGenerator E))) (\<lambda>(sshOpts, privateKey).
     bindr (wrapped (couldnt @ ''find manifest for deployment '' @ deploymentName) (dir_call (dir_Manifest E deploymentName))) (\<lambda>manifest.
     bindr (wrapped (couldnt @ ''generate manifest querier for deployment '' @ deploymentName)
              (\<lambda>w. (NewBoshManifestQuerier E manifest, w))) (\<lambda>querier.
     groupLoop E (client_jobFinder c) querier deploymentName vms sshOpts privateKey
       (uniqueInstanceGroupNamesFromVMs vms) [] [])))))"

definition GetManifest :: "('r, 'x) director_env_scheme \<Rightarrow> string \<Rightarrow> ('r, string) io" where
  "GetManifest E deploymentName =
     bindr (wrapped (couldnt @ ''find deployment '' @ deploymentName) (dir_call (dir_FindDeployment E deploymentName)))
       (\<lambda>_. dir_call (dir_Manifest E deploymentName))"

section \<open>Deployment managers\<close>

record BoshDeploymentManager =
  bdm_client :: Client
  downloadManifest :: bool

record StandaloneDeploymentManager =
  sdm_hostName :: string
  sdm_username :: string
  sdm_privateKeyFile :: string
  sdm_jobFinder :: JobFinder

datatype DeploymentManager = BoshManager BoshDeploymentManager | StandaloneManager StandaloneDeploymentManager

definition Bosh_Find :: "('r, 'x) director_env_scheme \<Rightarrow> BoshDeploymentManager \<Rightarrow> string \<Rightarrow> ('r, deployment) io" where
  "Bosh_Find E b deploymentName =
     wrapped (''failed to find instances for deployment '' @ deploymentName)
       (bindr (FindInstances E (bdm_client b) deploymentName) (\<lambda>instances w. (Ok (NewDeployment instances), w)))"

definition Bosh_SaveManifest :: "('r, 'x) director_env_scheme \<Rightarrow> BoshDeploymentManager \<Rightarrow> string \<Rightarrow> BackupDirectory \<Rightarrow> ('r, unit) io" where
  "Bosh_SaveManifest E b deploymentName backup w =
     (if downloadManifest b then
        bindr (wrapped (''failed to get manifest for deployment '' @ deploymentName) (GetManifest E deploymentName))
          (\<lambda>manifest. SaveManifest E backup manifest) w
      else (Ok (), w))"

definition Standalone_Find :: "('r, 'x) director_env_scheme \<Rightarrow> StandaloneDeploymentManager \<Rightarrow> string \<Rightarrow> ('r, deployment) io" where
  "Standalone_Find E dm deploymentName =
     bindr (wrapped ''failed reading private key'' (\<lambda>w. (os_read E OpRead (sdm_privateKeyFile dm) w, w))) (\<lambda>keyContents.
     bindr (\<lambda>w. (NewSshRemoteRunner E (sdm_hostName dm) (sdm_username dm) keyContents None [], w)) (\<lambda>remoteRunner.
     bindr (FindJobs E (sdm_jobFinder dm) \<lparr>InstanceGroupName = ''bosh'', InstanceId = ''0'', Bootstrap = False\<rparr>
              remoteRunner NoopManifestQuerier) (\<lambda>jobs w.
     (let (inst, w') = NewStandaloneDeployedInstance ''bosh'' remoteRunner jobs False w
      in (Ok (NewDeployment [inst]), w')))))"

definition Standalone_SaveManifest :: "string \<Rightarrow> BackupDirectory \<Rightarrow> ('r, unit) io" where
  "Standalone_SaveManifest deploymentName artifact w = (Ok (), w)"

fun DeploymentManager_Find :: "('r, 'x) director_env_scheme \<Rightarrow> DeploymentManager \<Rightarrow> string \<Rightarrow> ('r, deployment) io" where
  "DeploymentManager_Find E (BoshManager b) deploymentName = Bosh_Find E b deploymentName"
| "DeploymentManager_Find E (StandaloneManager s) deploymentName = Standalone_Find E s deploymentName"

fun DeploymentManager_SaveManifest ::
  "('r, 'x) director_env_scheme \<Rightarrow> DeploymentManager \<Rightarrow> string \<Rightarrow> BackupDirectory \<Rightarrow> ('r, unit) io" where
  "DeploymentManager_SaveManifest E (BoshManager b) deploymentName backup = Bosh_SaveManifest E b deploymentName backup"
| "DeploymentManager_SaveManifest E (StandaloneManager s) deploymentName backup = Standalone_SaveManifest deploymentName backup"

section \<open>Lemmas\<close>

lemma bosh_contains_iff [simp]: "bosh_contains xs x \<longleftrightarrow> x \<in> set xs"
  by (induction xs) auto

lemma uniqueLoop_facts:
  "distinct jobs \<Longrightarrow> distinct (uniqueLoop vms jobs) \<and> set (uniqueLoop vms jobs) = set jobs \<union> vm_JobName ` set vms"
  by (induction vms arbitrary: jobs) auto

text \<open>Commands sent over SSH.\<close>

definition commands :: "event set" where
  "commands = {SshCommand h u c | h u c. True}"

lemma session_command_commands [simp]: "session_command c cmd \<in> commands"
  by (auto simp: commands_def session_command_def)

lemma stays_frame:
  assumes "\<And>w r w'. m w = (r, w') \<Longrightarrow> \<exists>c cmd. ran c cmd w w'"
  shows "stays m commands"
  unfolding stays_def
proof (intro allI impI)
  fix w r w' assume "m w = (r, w')"
  then obtain c cmd where "ran c cmd w w'" using assms by blast
  then obtain h where "adds h w w'" "set h \<subseteq> {session_command c cmd}" using ran_adds by blast
  then show "\<exists>h. adds h w w' \<and> set h \<subseteq> commands" using session_command_commands by blast
qed

lemma stays_IsWindows: "stays (IsWindows E c) commands"
  by (rule stays_frame) (auto simp: IsWindows_def split: prod.splits dest: Connection_Run_frame)

lemma stays_FindFiles: "stays (FindFiles E c pattern) commands"
  by (rule stays_frame) (auto simp: FindFiles_def split: prod.splits dest!: Connection_Run_frame)

lemma stays_findMetadata: "stays (findMetadata E j ident script c) commands"
proof (rule stays_frame)
  fix w r w' assume run: "findMetadata E j ident script c w = (r, w')"
  let ?cmd = "''sudo '' @ varsList (range_ord E) (fmupd ''BBR_VERSION'' (bbrVersion j) fmempty) @ script"
  obtain res stderr s w1 where sess: "runInSession E c ?cmd bytes_Buffer '''' '''' w = (res, stderr, s, w1)"
    by (metis prod_cases4)
  from run sess have "w' = w1"
    by (auto simp: findMetadata_def RunScriptWithEnv_def Connection_Stream_def split: result.splits)
  with runInSession_buffer [OF sess] show "\<exists>c cmd. ran c cmd w w'" by blast
qed

lemma stays_metadataLoop: "stays (metadataLoop E j ident c scripts metadata) commands"
proof (induction scripts arbitrary: metadata)
  case Nil
  then show ?case using stays_pure [of "\<lambda>_. Ok metadata"] by (simp add: stays_def)
next
  case (Cons s scripts)
  show ?case
  proof (cases "isMetadata s")
    case True
    then have "metadataLoop E j ident c (s # scripts) metadata = bindr (findMetadata E j ident s c)
        (\<lambda>m. metadataLoop E j ident c scripts (fmupd (Script_JobName s) (m\<lparr>BackupName := ''''\<rparr>) metadata))"
      by (simp add: fun_eq_iff)
    with Cons show ?thesis by (simp add: stays_bindr stays_findMetadata)
  next
    case False
    then have "metadataLoop E j ident c (s # scripts) metadata = metadataLoop E j ident c scripts metadata"
      by (simp add: fun_eq_iff)
    with Cons show ?thesis by simp
  qed
qed

lemma stays_FindJobs: "stays (FindJobs E j ident c q) commands"
  unfolding FindJobs_def findBBRScripts_def Let_def
  by (intro stays_bindr stays_wrapped stays_FindFiles stays_metadataLoop stays_pure)

text \<open>
  \<open>tidy cl S m\<close>: when \<open>m\<close> succeeds it has added events of \<open>S\<close> only; when it returns an error
  it has added events of \<open>S\<close> and then exactly \<open>cl\<close>.
\<close>

definition tidy :: "event list \<Rightarrow> event set \<Rightarrow> ('r, 'a) io \<Rightarrow> bool" where
  "tidy cl S m \<longleftrightarrow> (\<forall>w r w'. m w = (r, w') \<longrightarrow>
     (case r of
        Ok _ \<Rightarrow> \<exists>h. events w' = events w @ h \<and> set h \<subseteq> S
      | Err _ \<Rightarrow> \<exists>h. events w' = events w @ h @ cl \<and> set h \<subseteq> S
      | Panic _ \<Rightarrow> True))"

lemma tidy_Ok: "tidy cl S m \<Longrightarrow> m w = (Ok x, w') \<Longrightarrow> \<exists>h. events w' = events w @ h \<and> set h \<subseteq> S"
  unfolding tidy_def by fastforce

lemma tidy_Err: "tidy cl S m \<Longrightarrow> m w = (Err e, w') \<Longrightarrow> \<exists>h. events w' = events w @ h @ cl \<and> set h \<subseteq> S"
  unfolding tidy_def by fastforce

lemma tidy_bindr:
  assumes m: "tidy cl S m" and f: "\<And>x. tidy cl S (f x)"
  shows "tidy cl S (bindr m f)"
  unfolding tidy_def
proof (intro allI impI)
  fix w r w'' assume "bindr m f w = (r, w'')"
  then show "case r of Ok _ \<Rightarrow> \<exists>h. events w'' = events w @ h \<and> set h \<subseteq> S
      | Err _ \<Rightarrow> \<exists>h. events w'' = events w @ h @ cl \<and> set h \<subseteq> S | Panic _ \<Rightarrow> True"
  proof (cases rule: bindrE)
    case (ok x w')
    from tidy_Ok [OF m ok(1)] obtain h1 where h1: "events w' = events w @ h1" "set h1 \<subseteq> S" by blast
    show ?thesis
    proof (cases r)
      case (Ok y)
      from tidy_Ok [OF f ok(2) [unfolded Ok]] obtain h2 where "events w'' = events w' @ h2" "set h2 \<subseteq> S" by blast
      with h1 Ok show ?thesis by (auto intro!: exI [of _ "h1 @ h2"])
    next
      case (Err e)
      from tidy_Err [OF f ok(2) [unfolded Err]] obtain h2 where "events w'' = events w' @ h2 @ cl" "set h2 \<subseteq> S" by blast
      with h1 Err show ?thesis by (auto intro!: exI [of _ "h1 @ h2"])
    qed simp
  qed (use m in \<open>auto dest: tidy_Err\<close>)
qed

definition cleanups :: "string \<Rightarrow> Slug list \<Rightarrow> SSHOpts \<Rightarrow> event list" where
  "cleanups dep slugs opts = map (\<lambda>s. CleanUpSSH dep s (so_Username opts)) slugs"

lemma cleanupAlreadyMade_events:
  "cleanupAlreadyMadeConnections E dep slugs opts w = (Ok u, w') \<Longrightarrow> events w' = events w @ cleanups dep slugs opts"
proof (induction slugs arbitrary: w)
  case (Cons s slugs)
  obtain r1 w1 where c: "Deployment_CleanUpSSH E dep s (so_Username opts) w = (r1, w1)" by fastforce
  from Deployment_CleanUpSSH_events [OF c] have "events w1 = events w @ [CleanUpSSH dep s (so_Username opts)]" by blast
  moreover from c Cons.prems have "cleanupAlreadyMadeConnections E dep slugs opts w1 = (Ok u, w')" by (cases r1) auto
  ultimately show ?case using Cons.IH [of w1] by (simp add: cleanups_def)
qed (simp add: cleanups_def)

lemma cleanupAlreadyMade_not_Err: "cleanupAlreadyMadeConnections E dep slugs opts w \<noteq> (Err e, w')"
  by (induction slugs arbitrary: w) (auto split: prod.splits result.splits)

lemma tidy_if: "(b \<Longrightarrow> tidy cl S m) \<Longrightarrow> (\<not> b \<Longrightarrow> tidy cl S n) \<Longrightarrow> tidy cl S (if b then m else n)"
  by simp

lemma tidy_guarded:
  assumes "stays m S"
  shows "tidy (cleanups dep slugs opts) S (guarded E dep slugs opts msg m)"
  unfolding tidy_def
proof (intro allI impI)
  fix w r w' assume run: "guarded E dep slugs opts msg m w = (r, w')"
  obtain r1 w1 where m: "m w = (r1, w1)" by fastforce
  with assms obtain h where h: "events w1 = events w @ h" "set h \<subseteq> S" unfolding stays_def adds_def by blast
  show "case r of Ok _ \<Rightarrow> \<exists>h. events w' = events w @ h \<and> set h \<subseteq> S
      | Err _ \<Rightarrow> \<exists>h. events w' = events w @ h @ cleanups dep slugs opts \<and> set h \<subseteq> S | Panic _ \<Rightarrow> True"
  proof (cases r1)
    case (Err e)
    with run m have "cleanup_and_fail E dep slugs opts msg e w1 = (r, w')" by (simp add: guarded_def)
    then show ?thesis using h unfolding cleanup_and_fail_def
      by (elim bindrE) (auto simp: cleanupAlreadyMade_not_Err dest: cleanupAlreadyMade_events)
  qed (use run m h in \<open>auto simp: guarded_def\<close>)
qed

lemma tidy_pure_Ok: "tidy cl S (\<lambda>w. (Ok (x w), w))"
  by (auto simp: tidy_def)

text \<open>With host keys that parse, the loop over the hosts of a group cleans up before each error.\<close>

lemma tidy_hostLoop:
  assumes "\<forall>k e. parseAuthorizedKey E k \<noteq> Err e"
  shows "tidy (cleanups dep slugs opts) commands (hostLoop E jf q dep vms opts pk slugs grp hosts insts)"
proof (induction hosts arbitrary: insts)
  case Nil
  show ?case using tidy_pure_Ok [of _ _ "\<lambda>_. insts"] by (simp add: tidy_def)
next
  case (Cons host hosts)
  note IH = Cons.IH
  have new: "tidy cl commands (\<lambda>w. let (inst, w') = NewBoshDeployedInstance grp i hid c dep False jobs w
      in if length jobs = 0 then (Ok (insts @ [inst]), w')
         else hostLoop E jf q dep vms opts pk slugs grp hosts (insts @ [inst]) w')"
    if "cl = cleanups dep slugs opts" for cl i hid c jobs
    using IH unfolding tidy_def that
    by (auto simp: NewBoshDeployedInstance_def NewDeployedInstance_def split: result.splits) fastforce+
  show ?case
  proof (cases "parseAuthorizedKey E (host_HostPublicKey host)")
    case (Ok kt)
    then have eq: "hostLoop E jf q dep vms opts pk slugs grp (host # hosts) insts =
      bindr (guarded E dep slugs opts ''failed to connect using ssh'' (\<lambda>w.
            (NewSshRemoteRunner E (host_Host host) (host_Username host) pk (Some (host_HostPublicKey host))
               (supportedEncryptionAlgorithms kt), w))) (\<lambda>remoteRunner.
          bindr (guarded E dep slugs opts ''failed to check os'' (IsWindows E remoteRunner)) (\<lambda>isWindows.
          if isWindows then hostLoop E jf q dep vms opts pk slugs grp hosts insts
          else
            bindr (guarded E dep slugs opts (couldnt @ ''find jobs'')
              (FindJobs E jf \<lparr>InstanceGroupName = grp, InstanceId = host_IndexOrID host,
                 Bootstrap = isInstanceABootstrapNode grp (host_Host host) vms\<rparr> remoteRunner q)) (\<lambda>jobs.
            bindr (guarded E dep slugs opts (couldnt @ ''find instance index'')
              (\<lambda>w. (findInstanceIndexById vms (host_IndexOrID host), w))) (\<lambda>vmIndex w.
            (let (inst, w') = NewBoshDeployedInstance grp vmIndex (host_IndexOrID host) remoteRunner dep False jobs w
             in if length jobs = 0 then (Ok (insts @ [inst]), w')
                else hostLoop E jf q dep vms opts pk slugs grp hosts (insts @ [inst]) w')))))"
      by (simp add: fun_eq_iff)
    show ?thesis unfolding eq
      by (intro tidy_bindr tidy_if tidy_guarded stays_pure stays_IsWindows stays_FindJobs IH new refl)
  next
    case (Panic p)
    then show ?thesis by (simp add: tidy_def)
  qed (use assms in simp)
qed

definition set_ups :: "string \<Rightarrow> Slug list \<Rightarrow> SSHOpts \<Rightarrow> event set" where
  "set_ups dep slugs opts = (\<lambda>s. SetUpSSH dep s (so_Username opts)) ` set slugs"

lemma SetUpSSH_events:
  "Deployment_SetUpSSH E dep slug opts w = (r, w') \<Longrightarrow>
     events w' = events w @ (case r of Ok _ \<Rightarrow> [SetUpSSH dep slug (so_Username opts)] | _ \<Rightarrow> [])"
  by (auto simp: Deployment_SetUpSSH_def dir_call_def log_event_def split: prod.splits result.splits)

lemma guarded_cases:
  assumes "guarded E dep slugs opts msg m w = (r, w')"
  obtains (ok) x where "m w = (Ok x, w')" "r = Ok x"
    | (err) e e' w1 where "m w = (Err e, w1)" "r = Err e'" "events w' = events w1 @ cleanups dep slugs opts"
    | (panic) p where "r = Panic p"
proof (cases "m w")
  case (Pair r1 w1)
  show thesis
  proof (cases r1)
    case (Err e)
    with assms Pair have "cleanup_and_fail E dep slugs opts msg e w1 = (r, w')" by (simp add: guarded_def)
    then show thesis unfolding cleanup_and_fail_def
      by (elim bindrE) (use err panic Pair Err in \<open>auto simp: cleanupAlreadyMade_not_Err dest: cleanupAlreadyMade_events\<close>)
  qed (use assms Pair ok panic in \<open>auto simp: guarded_def\<close>)
qed

lemma groupLoop_Err:
  assumes "\<forall>k e. parseAuthorizedKey E k \<noteq> Err e"
    and "groupLoop E jf q dep vms opts pk grps slugs insts w = (Err e, w')"
  shows "\<exists>h new. events w' = events w @ h @ cleanups dep (slugs @ new) opts \<and> set h \<subseteq> commands \<union> set_ups dep new opts"
  using assms(2)
proof (induction grps arbitrary: slugs insts w)
  case (Cons grp grps)
  from Cons.prems show ?case
    unfolding groupLoop.simps
  proof (cases rule: bindrE)
    case parse: (ok slug w1)
    then have w1: "events w1 = events w" by (auto elim!: guarded_cases)
    from parse(2) show ?thesis
    proof (cases rule: bindrE)
      case up: (ok hosts w2)
      then have "Deployment_SetUpSSH E dep slug opts w1 = (Ok hosts, w2)" by (auto elim!: guarded_cases)
      from SetUpSSH_events [OF this] w1 have w2: "events w2 = events w @ [SetUpSSH dep slug (so_Username opts)]" by simp
      have tidy: "tidy (cleanups dep (slugs @ [slug]) opts) commands
          (hostLoop E jf q dep vms opts pk (slugs @ [slug]) grp hosts insts)" by (rule tidy_hostLoop [OF assms(1)])
      from up(2) show ?thesis
      proof (cases rule: bindrE)
        case run: (ok insts' w3)
        from tidy_Ok [OF tidy run(1)] obtain h1 where h1: "events w3 = events w2 @ h1" "set h1 \<subseteq> commands" by blast
        from Cons.IH [OF run(2)] obtain h new where
          "events w' = events w3 @ h @ cleanups dep ((slugs @ [slug]) @ new) opts" "set h \<subseteq> commands \<union> set_ups dep new opts"
          by blast
        with h1 w2 show ?thesis
          by (intro exI [of _ "SetUpSSH dep slug (so_Username opts) # h1 @ h"] exI [of _ "slug # new"])
            (auto simp: set_ups_def)
      next
        case (err e')
        from tidy_Err [OF tidy err(1)] obtain h where
          "events w' = events w2 @ h @ cleanups dep (slugs @ [slug]) opts" "set h \<subseteq> commands" by blast
        with w2 show ?thesis
          by (intro exI [of _ "SetUpSSH dep slug (so_Username opts) # h"] exI [of _ "[slug]"]) (auto simp: set_ups_def)
      qed simp
    next
      case (err e')
      from err(1) have "events w' = events w1 @ cleanups dep slugs opts"
        by (elim guarded_cases) (auto dest!: SetUpSSH_events)
      with w1 show ?thesis by (intro exI [of _ "[]"]) simp
    qed simp
  next
    case (err e')
    from err(1) have "events w' = events w @ cleanups dep slugs opts" by (elim guarded_cases) auto
    then show ?thesis by (intro exI [of _ "[]"]) simp
  qed simp
qed simp

lemma stays_dir_call: "stays (dir_call f) S"
  unfolding stays_def adds_def by (auto simp: dir_call_def split: prod.splits intro: exI [of _ "[]"])

text \<open>Every credential set up in a history is cleaned up in it, and operations whose errors ensure that.\<close>

definition balanced :: "event list \<Rightarrow> bool" where
  "balanced h \<longleftrightarrow> (\<forall>d s u. SetUpSSH d s u \<in> set h \<longrightarrow> CleanUpSSH d s u \<in> set h)"

definition errs_balanced :: "('r, 'a) io \<Rightarrow> bool" where
  "errs_balanced m \<longleftrightarrow> (\<forall>w e w'. m w = (Err e, w') \<longrightarrow> (\<exists>h. events w' = events w @ h \<and> balanced h))"

lemma errs_balanced_bindr:
  assumes m: "stays m {}" and f: "\<And>x. errs_balanced (f x)"
  shows "errs_balanced (bindr m f)"
  unfolding errs_balanced_def
proof (intro allI impI)
  fix w e w'' assume "bindr m f w = (Err e, w'')"
  then show "\<exists>h. events w'' = events w @ h \<and> balanced h"
  proof (cases rule: bindrE)
    case (ok x w')
    from m ok(1) have "events w' = events w" unfolding stays_def adds_def by fastforce
    with f [of x] ok(2) show ?thesis unfolding errs_balanced_def by metis
  next
    case (err e')
    from m err(1) have "events w'' = events w" unfolding stays_def adds_def by fastforce
    then show ?thesis by (intro exI [of _ "[]"]) (simp add: balanced_def)
  qed simp
qed

lemma errs_balanced_prod: "(\<And>a b. errs_balanced (f a b)) \<Longrightarrow> errs_balanced (case x of (a, b) \<Rightarrow> f a b)"
  by (cases x) simp

lemma errs_balanced_groupLoop:
  assumes "\<forall>k e. parseAuthorizedKey E k \<noteq> Err e"
  shows "errs_balanced (groupLoop E jf q dep vms opts pk grps [] insts)"
  unfolding errs_balanced_def
proof (intro allI impI)
  fix w e w' assume "groupLoop E jf q dep vms opts pk grps [] insts w = (Err e, w')"
  from groupLoop_Err [OF assms this] obtain h new where
    "events w' = events w @ h @ cleanups dep new opts" "set h \<subseteq> commands \<union> set_ups dep new opts" by auto
  then show "\<exists>h. events w' = events w @ h \<and> balanced h"
    by (intro exI [of _ "h @ cleanups dep new opts"]) (auto simp: balanced_def cleanups_def set_ups_def commands_def)
qed

section \<open>Properties\<close>


text \<open>The instance groups for which credentials are set up are the job names of the VMs, each once.\<close>

theorem instance_groups_unique:
  "distinct (uniqueInstanceGroupNamesFromVMs vms) \<and>
   set (uniqueInstanceGroupNamesFromVMs vms) = vm_JobName ` set vms"
  using uniqueLoop_facts [of "[]" vms] by (simp add: uniqueInstanceGroupNamesFromVMs_def)

definition sample_client :: Client where
  "sample_client = \<lparr>client_jobFinder = NewJobFinder ''1.0''\<rparr>"

text \<open>A director whose VM list does not know the instance it sets up credentials for.\<close>

definition sample_unknown_vm :: "nat director_env" where
  "sample_unknown_vm = (sample_director_env [])\<lparr>dir_VMInfos := (\<lambda>n r. (Ok [sample_vm\<lparr>vm_ID := ''other''\<rparr>], r))\<rparr>"

text \<open>A director that reports a host key that cannot be parsed.\<close>

definition sample_bad_key :: "nat director_env" where
  "sample_bad_key = (sample_director_env [])\<lparr>parseAuthorizedKey := (\<lambda>k. Err (ErrorString ''ssh: no key found''))\<rparr>"

lemma sample_unknown_vm_fails:
  "error_of (fst (FindInstances sample_unknown_vm sample_client ''dep'' (sample_world (\<lambda>_. None)))) \<noteq> None"
  by code_simp


text \<open>A host key that cannot be parsed makes finding the instances fail without cleaning up: there is a
  director for which credentials are set up, an error is returned, and no credential is cleaned up.\<close>

theorem bad_host_key_leaves_credentials:
  "\<exists>(E :: nat director_env) c dep w. case FindInstances E c dep w of (r, w') \<Rightarrow>
     error_of r \<noteq> None \<and> events w' = events w @ [SetUpSSH ''dep'' (''vm'', '''') ''bbr'']"
  by (intro exI [of _ sample_bad_key] exI [of _ sample_client] exI [of _ "''dep''"]
      exI [of _ "sample_world (\<lambda>_. None)"]) code_simp

end
