(* ===== verification/Orchestrator.thy ===== *)
theory Orchestrator
  imports Workflow Artifact_Copier Bosh_Client
begin

text \<open>
  The five workflows of the program: \<^verbatim>\<open>orchestrator/session.go\<close>, every
  \<^verbatim>\<open>orchestrator/*_step.go\<close>, \<^verbatim>\<open>backuper.go\<close>, \<^verbatim>\<open>restorer.go\<close>, \<^verbatim>\<open>backup_checker.go\<close>,
  \<^verbatim>\<open>backup_cleaner.go\<close> and \<^verbatim>\<open>restore_cleaner.go\<close>.

  A step object is a constructor of \<open>Step\<close> with the fields its \<^verbatim>\<open>Run\<close> uses (the logger and the
  stateless \<^verbatim>\<open>BackupDirectoryManager\<close> apart); an artifact copier is its executor. The
  function \<^verbatim>\<open>nowFunc\<close> is the field \<open>time_Now\<close> of the environment. \<open>Step_Run\<close> acts on the
  session and the world; calling a method of a deployment or an artifact the session does not have is
  the nil dereference of the source, a panic. The section on paths proves the order in which each
  workflow runs its steps, for every possible outcome of each of them.
\<close>

section \<open>Sessions\<close>

record Session =
  deploymentName :: string
  session_deployment :: "deployment option"
  currentArtifact :: "BackupDirectory option"
  currentArtifactPath :: string

definition NewSession :: "string \<Rightarrow> Session" where
  "NewSession name = \<lparr>deploymentName = name, session_deployment = None, currentArtifact = None, currentArtifactPath = ''''\<rparr>"

definition SetCurrentArtifact :: "BackupDirectory \<Rightarrow> Session \<Rightarrow> Session" where
  "SetCurrentArtifact artifact session = session\<lparr>currentArtifact := Some artifact\<rparr>"

definition SetCurrentDeployment :: "deployment \<Rightarrow> Session \<Rightarrow> Session" where
  "SetCurrentDeployment dep session = session\<lparr>session_deployment := Some dep\<rparr>"

definition SetCurrentArtifactPath :: "string \<Rightarrow> Session \<Rightarrow> Session" where
  "SetCurrentArtifactPath artifactPath session = session\<lparr>currentArtifactPath := artifactPath\<rparr>"

record 'r orch_env = "'r director_env" +
  time_Now :: "'r world \<Rightarrow> int"

type_synonym 'r step_state = "Session \<times> 'r world"

section \<open>Steps\<close>

datatype Step =
    is_Find: FindDeploymentStep DeploymentManager
  | is_Backupable: BackupableStep KahnLockOrderer
  | is_CreateArtifact: CreateArtifactStep DeploymentManager string
  | is_Lock: LockStep KahnLockOrderer Executor
  | is_Backup: BackupStep Executor
  | is_PostBackupUnlock: PostBackupUnlockStep (afterSuccessfulBackup: bool) KahnLockOrderer Executor
  | is_Drain: DrainStep Executor
  | is_Cleanup: CleanupStep
  | is_AddFinishTime: AddFinishTimeStep
  | is_Skip: SkipStep string
  | is_ValidateArtifact: ValidateArtifactStep
  | is_Restorable: RestorableStep KahnLockOrderer
  | is_CopyToRemote: CopyToRemoteStep Executor
  | is_PreRestoreLock: PreRestoreLockStep KahnLockOrderer Executor
  | is_Restore: RestoreStep
  | is_PostRestoreUnlock: PostRestoreUnlockStep KahnLockOrderer Executor
  | is_CleanupPrevious: CleanupPreviousStep

text \<open>The session's deployment and artifact, dereferenced.\<close>

definition with_deployment :: "(deployment \<Rightarrow> ('r, 'a) io) \<Rightarrow> Session \<Rightarrow> ('r, 'a) io" where
  "with_deployment f session w =
     (case session_deployment session of
        None \<Rightarrow> (Panic ''invalid memory address or nil pointer dereference'', w)
      | Some dep \<Rightarrow> f dep w)"

definition with_artifact :: "(BackupDirectory \<Rightarrow> ('r, 'a) io) \<Rightarrow> Session \<Rightarrow> ('r, 'a) io" where
  "with_artifact f session w =
     (case currentArtifact session of
        None \<Rightarrow> (Panic ''invalid memory address or nil pointer dereference'', w)
      | Some artifact \<Rightarrow> f artifact w)"

text \<open>Steps that turn an error into another one.\<close>

definition map_err :: "(goerror \<Rightarrow> goerror) \<Rightarrow> ('r, unit) io \<Rightarrow> ('r, unit) io" where
  "map_err f m w = (case m w of (Err e, w') \<Rightarrow> (Err (f e), w') | (r, w') \<Rightarrow> (r, w'))"

definition FindDeploymentStep_Run ::
  "('r, 'x) orch_env_scheme \<Rightarrow> DeploymentManager \<Rightarrow> 'r step_state \<Rightarrow> unit result \<times> 'r step_state" where
  "FindDeploymentStep_Run E deploymentManager = (\<lambda>(session, w).
     case DeploymentManager_Find E deploymentManager (deploymentName session) w of
       (Ok dep, w') \<Rightarrow> (Ok (), SetCurrentDeployment dep session, w')
     | (Err e, w') \<Rightarrow> (Err e, session, w')
     | (Panic p, w') \<Rightarrow> (Panic p, session, w'))"

definition BackupableStep_Run :: "('r, 'x) orch_env_scheme \<Rightarrow> KahnLockOrderer \<Rightarrow> Session \<Rightarrow> ('r, unit) io" where
  "BackupableStep_Run E lockOrderer session =
     with_deployment (\<lambda>dep w.
       if \<not> Deployment_IsBackupable dep
       then (Err (ErrorString (''Deployment '' @ quoted (deploymentName session) @ '' has no backup scripts'')), w)
       else bindr (map_err (\<lambda>e. NewArtifactDirError (error_message e)) (CheckArtifactDir E dep))
              (\<lambda>_ w. (ValidateLockingDependencies lockOrderer dep, w)) w) session"

definition CreateArtifactStep_Run ::
  "('r, 'x) orch_env_scheme \<Rightarrow> DeploymentManager \<Rightarrow> string \<Rightarrow> 'r step_state \<Rightarrow> unit result \<times> 'r step_state" where
  "CreateArtifactStep_Run E deploymentManager timeStamp = (\<lambda>(session, w).
     let directoryName = deploymentName session @ ''_'' @ timeStamp in
     case BackupDirectoryManager_Create E (currentArtifactPath session) directoryName w of
       (Err e, w1) \<Rightarrow> (Err e, session, w1)
     | (Panic p, w1) \<Rightarrow> (Panic p, session, w1)
     | (Ok artifact, w1) \<Rightarrow>
         (case CreateMetadataFileWithStartTime E artifact (time_Now E w1) w1 of
            (Panic p, w2) \<Rightarrow> (Panic p, session, w2)
          | (_, w2) \<Rightarrow>
              (case DeploymentManager_SaveManifest E deploymentManager (deploymentName session) artifact w2 of
                 (r, w3) \<Rightarrow> (r, SetCurrentArtifact artifact session, w3))))"

definition LockStep_Run :: "('r, 'x) orch_env_scheme \<Rightarrow> KahnLockOrderer \<Rightarrow> Executor \<Rightarrow> Session \<Rightarrow> ('r, unit) io" where
  "LockStep_Run E lockOrderer ex =
     with_deployment (\<lambda>dep. map_err (\<lambda>e. NewLockError (error_message e)) (PreBackupLock E lockOrderer ex dep))"

definition BackupStep_Run :: "('r, 'x) orch_env_scheme \<Rightarrow> Executor \<Rightarrow> Session \<Rightarrow> ('r, unit) io" where
  "BackupStep_Run E ex =
     with_deployment (\<lambda>dep. map_err (\<lambda>e. NewBackupError (error_message e)) (Deployment_Backup E ex dep))"

definition PostBackupUnlockStep_Run ::
  "('r, 'x) orch_env_scheme \<Rightarrow> bool \<Rightarrow> KahnLockOrderer \<Rightarrow> Executor \<Rightarrow> Session \<Rightarrow> ('r, unit) io" where
  "PostBackupUnlockStep_Run E after lockOrderer ex =
     with_deployment (\<lambda>dep. map_err (\<lambda>e. NewPostUnlockError (error_message e)) (PostBackupUnlock E after lockOrderer ex dep))"

text \<open>A nil artifact is only dereferenced when there is something to download or upload.\<close>

definition nil_artifact :: "Artifact list \<Rightarrow> ('r, unit) io" where
  "nil_artifact artifacts w =
     (if artifacts = [] then Ok () else Panic ''invalid memory address or nil pointer dereference'', w)"

definition DrainStep_Run :: "('r, 'x) orch_env_scheme \<Rightarrow> Executor \<Rightarrow> Session \<Rightarrow> ('r, unit) io" where
  "DrainStep_Run E copier session =
     with_deployment (\<lambda>dep. map_err (\<lambda>e. NewDrainError (error_message e))
       (case currentArtifact session of
          None \<Rightarrow> nil_artifact (concat (map ArtifactsToBackup (BackupableInstances dep)))
        | Some artifact \<Rightarrow> DownloadBackupFromDeployment E copier artifact dep)) session"

definition CleanupStep_Run :: "('r, 'x) orch_env_scheme \<Rightarrow> Session \<Rightarrow> ('r, unit) io" where
  "CleanupStep_Run E session =
     with_deployment (\<lambda>dep. map_err (\<lambda>e. NewCleanupError
       (''Deployment '' @ quoted (deploymentName session) @ '' failed while cleaning up with error: '' @ error_message e))
       (Deployment_Cleanup E dep)) session"

definition AddFinishTimeStep_Run :: "('r, 'x) orch_env_scheme \<Rightarrow> Session \<Rightarrow> ('r, unit) io" where
  "AddFinishTimeStep_Run E session w =
     (case currentArtifact session of
        Some artifact \<Rightarrow> AddFinishTime E artifact (time_Now E w) w
      | None \<Rightarrow> (Ok (), w))"

definition ValidateArtifactStep_Run ::
  "('r, 'x) orch_env_scheme \<Rightarrow> 'r step_state \<Rightarrow> unit result \<times> 'r step_state" where
  "ValidateArtifactStep_Run E = (\<lambda>(session, w).
     case wrap_result ''Could not open backup'' (BackupDirectoryManager_Open E (currentArtifactPath session) w) of
       Err e \<Rightarrow> (Err e, session, w)
     | Panic p \<Rightarrow> (Panic p, session, w)
     | Ok backup \<Rightarrow>
         (case wrap_result ''Could not validate backup'' (Valid E backup w) of
            Err e \<Rightarrow> (Err e, SetCurrentArtifact backup session, w)
          | Panic p \<Rightarrow> (Panic p, SetCurrentArtifact backup session, w)
          | Ok valid \<Rightarrow>
              (if valid then Ok () else Err (ErrorString ''Backup is corrupted''), SetCurrentArtifact backup session, w)))"

text \<open>The first restorable instance with the discontinued metadata names is an error.\<close>

fun restoreNamesLoop :: "Instance list \<Rightarrow> unit result" where
  "restoreNamesLoop [] = Ok ()"
| "restoreNamesLoop (inst # insts) =
     (if Instance_HasMetadataRestoreNames inst
      then Err (ErrorString (''discontinued metadata keys backup_name/restore_name found on instance '' @
        inst_Name inst @ ''. bbr cannot restore this backup artifact.''))
      else restoreNamesLoop insts)"

definition RestorableStep_Run :: "('r, 'x) orch_env_scheme \<Rightarrow> KahnLockOrderer \<Rightarrow> Session \<Rightarrow> ('r, unit) io" where
  "RestorableStep_Run E lockOrderer session =
     with_deployment (\<lambda>dep.
       bindr (\<lambda>w. (restoreNamesLoop (RestorableInstances dep), w)) (\<lambda>_ w.
       if \<not> Deployment_IsRestorable dep
       then (Err (ErrorString (''Deployment '' @ quoted (deploymentName session) @ '' has no restore scripts'')), w)
       else with_artifact (\<lambda>artifact w.
         case DeploymentMatches E artifact (map (\<lambda>i. (inst_Name i, inst_Index i)) (bd_instances dep)) w of
           Err e \<Rightarrow> (Err (ErrorString (''Unable to check if deployment '' @ quoted (deploymentName session) @
             '' matches the structure of the provided backup'')), w)
         | Panic p \<Rightarrow> (Panic p, w)
         | Ok match \<Rightarrow>
             (if \<not> match
              then (Err (ErrorString (''Deployment '' @ quoted (deploymentName session) @
                '' does not match the structure of the provided backup'')), w)
              else bindr (wrapped ''Check artifact dir failed'' (CheckArtifactDir E dep))
                     (\<lambda>_ w. (ValidateLockingDependencies lockOrderer dep, w)) w)) session w)) session"

definition CopyToRemoteStep_Run :: "('r, 'x) orch_env_scheme \<Rightarrow> Executor \<Rightarrow> Session \<Rightarrow> ('r, unit) io" where
  "CopyToRemoteStep_Run E copier session =
     with_deployment (\<lambda>dep. map_err (\<lambda>e. ErrorString (''Unable to send backup to remote machine. Got error: '' @ error_message e))
       (case currentArtifact session of
          None \<Rightarrow> nil_artifact (concat (map ArtifactsToRestore (RestorableInstances dep)))
        | Some artifact \<Rightarrow> UploadBackupToDeployment E copier artifact dep)) session"

definition PreRestoreLockStep_Run :: "('r, 'x) orch_env_scheme \<Rightarrow> KahnLockOrderer \<Rightarrow> Executor \<Rightarrow> Session \<Rightarrow> ('r, unit) io" where
  "PreRestoreLockStep_Run E lockOrderer ex =
     with_deployment (\<lambda>dep. wrapped ''pre-restore-lock failed'' (PreRestoreLock E lockOrderer ex dep))"

definition RestoreStep_Run :: "('r, 'x) orch_env_scheme \<Rightarrow> Session \<Rightarrow> ('r, unit) io" where
  "RestoreStep_Run E = with_deployment (\<lambda>dep. wrapped ''Failed to restore'' (Deployment_Restore E dep))"

definition PostRestoreUnlockStep_Run :: "('r, 'x) orch_env_scheme \<Rightarrow> KahnLockOrderer \<Rightarrow> Executor \<Rightarrow> Session \<Rightarrow> ('r, unit) io" where
  "PostRestoreUnlockStep_Run E lockOrderer ex =
     with_deployment (\<lambda>dep. map_err (\<lambda>e. NewPostUnlockError (error_message e)) (PostRestoreUnlock E lockOrderer ex dep))"

definition CleanupPreviousStep_Run :: "('r, 'x) orch_env_scheme \<Rightarrow> Session \<Rightarrow> ('r, unit) io" where
  "CleanupPreviousStep_Run E = with_deployment (Deployment_CleanupPrevious E)"

definition SkipStep_Run :: "string \<Rightarrow> Session \<Rightarrow> ('r, unit) io" where
  "SkipStep_Run name session w = (Ok (), w)"

text \<open>The interface method: the steps that do not write to the session keep it.\<close>

definition keep_session :: "(Session \<Rightarrow> ('r, unit) io) \<Rightarrow> 'r step_state \<Rightarrow> unit result \<times> 'r step_state" where
  "keep_session f = (\<lambda>(session, w). case f session w of (r, w') \<Rightarrow> (r, session, w'))"

fun Step_Run :: "('r, 'x) orch_env_scheme \<Rightarrow> Step \<Rightarrow> 'r step_state \<Rightarrow> unit result \<times> 'r step_state" where
  "Step_Run E (FindDeploymentStep dm) = FindDeploymentStep_Run E dm"
| "Step_Run E (BackupableStep lo) = keep_session (BackupableStep_Run E lo)"
| "Step_Run E (CreateArtifactStep dm ts) = CreateArtifactStep_Run E dm ts"
| "Step_Run E (LockStep lo ex) = keep_session (LockStep_Run E lo ex)"
| "Step_Run E (BackupStep ex) = keep_session (BackupStep_Run E ex)"
| "Step_Run E (PostBackupUnlockStep b lo ex) = keep_session (PostBackupUnlockStep_Run E b lo ex)"
| "Step_Run E (DrainStep copier) = keep_session (DrainStep_Run E copier)"
| "Step_Run E CleanupStep = keep_session (CleanupStep_Run E)"
| "Step_Run E AddFinishTimeStep = keep_session (AddFinishTimeStep_Run E)"
| "Step_Run E (SkipStep name) = keep_session (SkipStep_Run name)"
| "Step_Run E ValidateArtifactStep = ValidateArtifactStep_Run E"
| "Step_Run E (RestorableStep lo) = keep_session (RestorableStep_Run E lo)"
| "Step_Run E (CopyToRemoteStep copier) = keep_session (CopyToRemoteStep_Run E copier)"
| "Step_Run E (PreRestoreLockStep lo ex) = keep_session (PreRestoreLockStep_Run E lo ex)"
| "Step_Run E RestoreStep = keep_session (RestoreStep_Run E)"
| "Step_Run E (PostRestoreUnlockStep lo ex) = keep_session (PostRestoreUnlockStep_Run E lo ex)"
| "Step_Run E CleanupPreviousStep = keep_session (CleanupPreviousStep_Run E)"

section \<open>Workflows\<close>

text \<open>The fluent construction: each call acts on the workflow built so far.\<close>

definition NewBackuper ::
  "DeploymentManager \<Rightarrow> KahnLockOrderer \<Rightarrow> Executor \<Rightarrow> Executor \<Rightarrow> bool \<Rightarrow> string \<Rightarrow> Step Workflow" where
  "NewBackuper deploymentManager lockOrderer ex artifactCopier unsafeLockFree timestamp =
     (let findDeploymentStep = FindDeploymentStep deploymentManager;
          backupable = BackupableStep lockOrderer;
          createArtifact = CreateArtifactStep deploymentManager timestamp;
          backup = BackupStep ex;
          drain = DrainStep artifactCopier;
          cleanup = CleanupStep;
          addFinishTimeStep = AddFinishTimeStep;
          lock = (if \<not> unsafeLockFree then LockStep lockOrderer ex else SkipStep ''lock'');
          unlockAfterSuccessfulBackup =
            (if \<not> unsafeLockFree then PostBackupUnlockStep True lockOrderer ex else SkipStep ''unlock after successful backup'');
          unlockAfterFailedBackup =
            (if \<not> unsafeLockFree then PostBackupUnlockStep False lockOrderer ex else SkipStep ''unlock after unsuccessful backup'');
          w0 = NewWorkflow;
          w1 = OnSuccess backupable (StartWith findDeploymentStep w0);
          w2 = OnFailure cleanup (OnSuccess createArtifact (Workflow_Add backupable w1));
          w3 = OnFailure cleanup (OnSuccess lock (Workflow_Add createArtifact w2));
          w4 = OnFailure unlockAfterFailedBackup (OnSuccess backup (Workflow_Add lock w3));
          w5 = OnFailure unlockAfterFailedBackup (OnSuccess unlockAfterSuccessfulBackup (Workflow_Add backup w4));
          w6 = OnSuccessOrFailure drain (Workflow_Add unlockAfterSuccessfulBackup w5);
          w7 = OnSuccessOrFailure cleanup (Workflow_Add unlockAfterFailedBackup w6);
          w8 = OnSuccessOrFailure cleanup (Workflow_Add drain w7);
          w9 = OnSuccessOrFailure addFinishTimeStep (Workflow_Add cleanup w8)
      in Workflow_Add addFinishTimeStep w9)"

definition NewRestorer :: "DeploymentManager \<Rightarrow> KahnLockOrderer \<Rightarrow> Executor \<Rightarrow> Executor \<Rightarrow> Step Workflow" where
  "NewRestorer deploymentManager lockOrderer ex artifactCopier =
     (let validateArtifactStep = ValidateArtifactStep;
          findDeploymentStep = FindDeploymentStep deploymentManager;
          restorableStep = RestorableStep lockOrderer;
          cleanupStep = CleanupStep;
          copyToRemoteStep = CopyToRemoteStep artifactCopier;
          preRestoreLockStep = PreRestoreLockStep lockOrderer ex;
          restoreStep = RestoreStep;
          postRestoreUnlockStep = PostRestoreUnlockStep lockOrderer ex;
          w0 = NewWorkflow;
          w1 = OnSuccess findDeploymentStep (StartWith validateArtifactStep w0);
          w2 = OnSuccess restorableStep (Workflow_Add findDeploymentStep w1);
          w3 = OnFailure cleanupStep (OnSuccess copyToRemoteStep (Workflow_Add restorableStep w2));
          w4 = OnFailure cleanupStep (OnSuccess preRestoreLockStep (Workflow_Add copyToRemoteStep w3));
          w5 = OnFailure postRestoreUnlockStep (OnSuccess restoreStep (Workflow_Add preRestoreLockStep w4));
          w6 = OnFailure postRestoreUnlockStep (OnSuccess postRestoreUnlockStep (Workflow_Add restoreStep w5));
          w7 = OnSuccessOrFailure cleanupStep (Workflow_Add postRestoreUnlockStep w6)
      in Workflow_Add cleanupStep w7)"

definition NewBackupChecker :: "DeploymentManager \<Rightarrow> KahnLockOrderer \<Rightarrow> Step Workflow" where
  "NewBackupChecker deploymentManager lockOrderer =
     (let checkDeployment = FindDeploymentStep deploymentManager;
          backupable = BackupableStep lockOrderer;
          cleanup = CleanupStep;
          w0 = NewWorkflow;
          w1 = OnSuccess backupable (StartWith checkDeployment w0);
          w2 = OnSuccessOrFailure cleanup (Workflow_Add backupable w1)
      in Workflow_Add cleanup w2)"

definition NewBackupCleaner :: "DeploymentManager \<Rightarrow> KahnLockOrderer \<Rightarrow> Executor \<Rightarrow> Step Workflow" where
  "NewBackupCleaner deploymentManager lockOrderer ex =
     (let w0 = NewWorkflow;
          findDeploymentStep = FindDeploymentStep deploymentManager;
          postBackUnlockStep = PostBackupUnlockStep False lockOrderer ex;
          cleanupPreviousStep = CleanupPreviousStep;
          w1 = OnSuccess postBackUnlockStep (StartWith findDeploymentStep w0);
          w2 = OnSuccessOrFailure cleanupPreviousStep (Workflow_Add postBackUnlockStep w1)
      in Workflow_Add cleanupPreviousStep w2)"

definition NewRestoreCleaner :: "DeploymentManager \<Rightarrow> KahnLockOrderer \<Rightarrow> Executor \<Rightarrow> Step Workflow" where
  "NewRestoreCleaner deploymentManager lockOrderer ex =
     (let w0 = NewWorkflow;
          findDeploymentStep = FindDeploymentStep deploymentManager;
          postRestoreUnlockStep = PostRestoreUnlockStep lockOrderer ex;
          cleanupPreviousStep = CleanupPreviousStep;
          w1 = OnSuccess postRestoreUnlockStep (StartWith findDeploymentStep w0);
          w2 = OnSuccessOrFailure cleanupPreviousStep (Workflow_Add postRestoreUnlockStep w1)
      in Workflow_Add cleanupPreviousStep w2)"

text \<open>Running them: a fresh session, then the workflow; the session is dropped.\<close>

definition run_session ::
  "('r, 'x) orch_env_scheme \<Rightarrow> Step Workflow \<Rightarrow> Session \<Rightarrow> 'r world \<Rightarrow> (goerror list result \<times> 'r world) option" where
  "run_session E workflow session w =
     map_option (\<lambda>(r, (_, w')). (r, w')) (Workflow_Run workflow (Step_Run E) (session, w))"

definition Backuper_Backup ::
  "('r, 'x) orch_env_scheme \<Rightarrow> Step Workflow \<Rightarrow> string \<Rightarrow> string \<Rightarrow> 'r world \<Rightarrow> (goerror list result \<times> 'r world) option" where
  "Backuper_Backup E b name artifactPath =
     run_session E b (SetCurrentArtifactPath artifactPath (NewSession name))"

definition Restorer_Restore ::
  "('r, 'x) orch_env_scheme \<Rightarrow> Step Workflow \<Rightarrow> string \<Rightarrow> string \<Rightarrow> 'r world \<Rightarrow> (goerror list result \<times> 'r world) option" where
  "Restorer_Restore E r name backupPath =
     run_session E r (SetCurrentArtifactPath backupPath (NewSession name))"

definition BackupChecker_Check ::
  "('r, 'x) orch_env_scheme \<Rightarrow> Step Workflow \<Rightarrow> string \<Rightarrow> 'r world \<Rightarrow> (goerror list result \<times> 'r world) option" where
  "BackupChecker_Check E b name = run_session E b (NewSession name)"

definition BackupCleaner_Cleanup ::
  "('r, 'x) orch_env_scheme \<Rightarrow> Step Workflow \<Rightarrow> string \<Rightarrow> 'r world \<Rightarrow> (goerror list result \<times> 'r world) option" where
  "BackupCleaner_Cleanup E c name = run_session E c (NewSession name)"

definition RestoreCleaner_Cleanup ::
  "('r, 'x) orch_env_scheme \<Rightarrow> Step Workflow \<Rightarrow> string \<Rightarrow> 'r world \<Rightarrow> (goerror list result \<times> 'r world) option" where
  "RestoreCleaner_Cleanup E c name = run_session E c (NewSession name)"

section \<open>Paths\<close>

text \<open>\<open>requires P Q\<close>: a step of \<open>Q\<close> is taken only after a step of \<open>P\<close> that succeeded.
  \<open>leads_to P Q\<close>: a step of \<open>P\<close>, succeeded or not, is followed by a step of \<open>Q\<close>.\<close>

fun requires :: "('k \<Rightarrow> bool) \<Rightarrow> ('k \<Rightarrow> bool) \<Rightarrow> ('k \<times> bool) list \<Rightarrow> bool" where
  "requires P Q [] = True"
| "requires P Q ((k, b) # p) \<longleftrightarrow> \<not> Q k \<and> (P k \<and> b \<or> requires P Q p)"

fun leads_to :: "('k \<Rightarrow> bool) \<Rightarrow> ('k \<Rightarrow> bool) \<Rightarrow> ('k \<times> bool) list \<Rightarrow> bool" where
  "leads_to P Q [] = True"
| "leads_to P Q ((k, b) # p) \<longleftrightarrow> (P k \<longrightarrow> list_ex (\<lambda>(q, c). Q q) p) \<and> leads_to P Q p"

definition taken :: "('k \<Rightarrow> bool) \<Rightarrow> ('k \<times> bool) list \<Rightarrow> nat" where
  "taken P p = length (filter (\<lambda>(k, b). P k) p)"

definition worked :: "('k \<Rightarrow> bool) \<Rightarrow> ('k \<times> bool) list \<Rightarrow> bool" where
  "worked P p = list_ex (\<lambda>(k, b). P k \<and> b) p"

lemma requires_prefix: "prefix q p \<Longrightarrow> requires P Q p \<Longrightarrow> requires P Q q"
proof (induction q arbitrary: p)
  case (Cons a q)
  then obtain k b p' where "a = (k, b)" "p = (k, b) # p'" "prefix q p'" by (cases p; cases a) auto
  with Cons show ?case by auto
qed simp

lemmas workflow_defs = NewWorkflow_def NewNode_def Workflow_Add_def StartWith_def update_last_def
  OnSuccess_def OnFailure_def OnSuccessOrFailure_def

lemmas path_defs = all_paths_def start_node_def ranked_def descends_def depth_def taken_def worked_def

interpretation checker: ranked_workflow "NewBackupChecker dm lo" "depth (NewBackupChecker dm lo)"
  by (rule ranked_by_depth) (simp add: NewBackupChecker_def workflow_defs path_defs)

interpretation backup_cleaner: ranked_workflow "NewBackupCleaner dm lo ex" "depth (NewBackupCleaner dm lo ex)"
  by (rule ranked_by_depth) (simp add: NewBackupCleaner_def workflow_defs path_defs)

interpretation restore_cleaner: ranked_workflow "NewRestoreCleaner dm lo ex" "depth (NewRestoreCleaner dm lo ex)"
  by (rule ranked_by_depth) (simp add: NewRestoreCleaner_def workflow_defs path_defs)

interpretation restorer: ranked_workflow "NewRestorer dm lo ex copier" "depth (NewRestorer dm lo ex copier)"
  by (rule ranked_by_depth) (simp add: NewRestorer_def workflow_defs path_defs)

interpretation backuper: ranked_workflow "NewBackuper dm lo ex copier free ts" "depth (NewBackuper dm lo ex copier free ts)"
  by (rule ranked_by_depth) (cases free; simp add: NewBackuper_def workflow_defs path_defs)


section \<open>Properties\<close>

text \<open>The order of a backup: nothing before its precondition succeeded, every lock followed by one unlock that is
  told whether the backup succeeded, no unlock after the download started.\<close>

definition backup_order :: "(Step \<times> bool) list \<Rightarrow> bool" where
  "backup_order p \<longleftrightarrow>
     requires is_Find (\<lambda>k. \<not> is_Find k) p \<and> requires is_Backupable is_CreateArtifact p \<and>
     requires is_CreateArtifact is_Lock p \<and> requires is_Lock is_Backup p \<and>
     requires is_Backup (\<lambda>k. is_PostBackupUnlock k \<and> afterSuccessfulBackup k) p \<and> requires is_Backup is_Drain p"

definition locks_released :: "(Step \<times> bool) list \<Rightarrow> bool" where
  "locks_released p \<longleftrightarrow>
     taken is_Lock p \<le> 1 \<and> taken is_PostBackupUnlock p = taken is_Lock p \<and>
     leads_to is_Lock is_PostBackupUnlock p \<and> leads_to is_Backup is_PostBackupUnlock p \<and>
     (worked is_Backup p \<longleftrightarrow> list_ex (\<lambda>(k, b). is_PostBackupUnlock k \<and> afterSuccessfulBackup k) p) \<and>
     (worked is_Backup p \<longleftrightarrow> taken is_Drain p = 1) \<and> leads_to is_PostBackupUnlock is_Cleanup p \<and>
     sorted_wrt (\<lambda>(k, b) (k', b'). is_Drain k \<longrightarrow> \<not> is_PostBackupUnlock k') p"

lemma backup_order_prefix: "backup_order p \<Longrightarrow> prefix q p \<Longrightarrow> backup_order q"
  unfolding backup_order_def by (blast intro: requires_prefix)

text \<open>C2: every run of a locking backup returns. Whatever each step returns: locks are taken only after the
  artifact was created, backup scripts run only after locking succeeded, and once the lock step
  was attempted, successfully or not, exactly one unlock step follows, which is told whether the backup
  scripts succeeded; artifacts are downloaded exactly when they did, never before the unlock; the
  errors returned are those of the steps, in order. If a step panics, the order up to there is
  the same.\<close>

theorem backup_releases_locks:
  "complies (NewBackuper dm lo ex copier False ts) (Step_Run E) s
     (\<lambda>p. backup_order p \<and> locks_released p) backup_order"
proof (rule backuper.run_satisfies)
  show "list_all (\<lambda>p. backup_order p \<and> locks_released p) (all_paths (NewBackuper dm lo ex copier False ts))"
    by (simp add: NewBackuper_def workflow_defs path_defs backup_order_def locks_released_def)
qed (blast intro: backup_order_prefix)


definition ends_clean :: "(Step \<times> bool) list \<Rightarrow> bool" where
  "ends_clean p \<longleftrightarrow>
     taken is_Cleanup p = of_bool (worked is_Find p) \<and>
     sorted_wrt (\<lambda>(k, b) (k', b'). is_Cleanup k \<longrightarrow> is_AddFinishTime k') p \<and>
     taken is_AddFinishTime p = taken is_Cleanup p"

text \<open>C3: a backup, with or without locks, cleans up the deployment exactly once if it found it and not at
  all otherwise; after the cleanup only the finish time is written, also when the cleanup or
  any step before it failed.\<close>

theorem backup_cleans_up:
  "complies (NewBackuper dm lo ex copier unsafeLockFree ts) (Step_Run E) s
     ends_clean (\<lambda>q. \<exists>p. ends_clean p \<and> prefix q p)"
proof (rule backuper.run_satisfies)
  show "list_all ends_clean (all_paths (NewBackuper dm lo ex copier unsafeLockFree ts))"
    by (cases unsafeLockFree) (simp_all add: NewBackuper_def workflow_defs path_defs ends_clean_def)
qed blast

definition lock_free :: "(Step \<times> bool) list \<Rightarrow> bool" where
  "lock_free p \<longleftrightarrow> list_all (\<lambda>(k, b). \<not> is_Lock k \<and> \<not> is_PostBackupUnlock k) p \<and>
     requires is_CreateArtifact is_Backup p \<and> requires is_Backup is_Drain p"

lemma lock_free_prefix: "lock_free p \<Longrightarrow> prefix q p \<Longrightarrow> lock_free q"
  unfolding lock_free_def using requires_prefix by (fastforce simp: prefix_def)

text \<open>With the flag for lock-free backups no lock or unlock step is ever taken, and the backup scripts still
  run only after the artifact was created and the download only after the backup scripts succeeded.\<close>

theorem unsafe_lock_free_takes_no_lock:
  "complies (NewBackuper dm lo ex copier True ts) (Step_Run E) s
     (\<lambda>p. lock_free p \<and> (worked is_Backup p = (taken is_Drain p = 1))) lock_free"
proof (rule backuper.run_satisfies)
  show "list_all (\<lambda>p. lock_free p \<and> (worked is_Backup p = (taken is_Drain p = 1))) (all_paths (NewBackuper dm lo ex copier True ts))"
    by (simp add: NewBackuper_def workflow_defs path_defs lock_free_def)
qed (blast intro: lock_free_prefix)

definition restore_order :: "(Step \<times> bool) list \<Rightarrow> bool" where
  "restore_order p \<longleftrightarrow>
     requires is_ValidateArtifact (\<lambda>k. \<not> is_ValidateArtifact k) p \<and>
     requires is_Find (\<lambda>k. \<not> is_Find k \<and> \<not> is_ValidateArtifact k) p \<and>
     requires is_Restorable is_CopyToRemote p \<and> requires is_CopyToRemote is_PreRestoreLock p \<and>
     requires is_PreRestoreLock is_Restore p"

definition restore_ends_clean :: "(Step \<times> bool) list \<Rightarrow> bool" where
  "restore_ends_clean p \<longleftrightarrow>
     taken is_PostRestoreUnlock p = taken is_PreRestoreLock p \<and> taken is_PreRestoreLock p \<le> 1 \<and>
     leads_to is_PreRestoreLock is_PostRestoreUnlock p \<and> leads_to is_Restore is_PostRestoreUnlock p \<and>
     taken is_Cleanup p = of_bool (worked is_Find p) \<and>
     sorted_wrt (\<lambda>(k, b) (k', b'). \<not> is_Cleanup k) p"

lemma restore_order_prefix: "restore_order p \<Longrightarrow> prefix q p \<Longrightarrow> restore_order q"
  unfolding restore_order_def by (blast intro: requires_prefix)

text \<open>C6: every run of a restore returns. Nothing remote happens before the local artifact was validated; the
  artifact is uploaded only after the deployment was found to be restorable, locks are
  taken only after the upload succeeded, the restore scripts run only after locking succeeded.
  Once locking was attempted exactly one unlock step follows, and a deployment that was found is
  cleaned up exactly once, at the very end.\<close>

theorem restore_protocol:
  "complies (NewRestorer dm lo ex copier) (Step_Run E) s
     (\<lambda>p. restore_order p \<and> restore_ends_clean p) restore_order"
proof (rule restorer.run_satisfies)
  show "list_all (\<lambda>p. restore_order p \<and> restore_ends_clean p) (all_paths (NewRestorer dm lo ex copier))"
    by (simp add: NewRestorer_def workflow_defs path_defs restore_order_def restore_ends_clean_def)
qed (blast intro: restore_order_prefix)


text \<open>The three short workflows: what their paths are.\<close>

definition one_after_find :: "(Step \<Rightarrow> bool) \<Rightarrow> (Step \<Rightarrow> bool) \<Rightarrow> (Step \<times> bool) list \<Rightarrow> bool" where
  "one_after_find P Q p \<longleftrightarrow>
     (case p of
        [(f, False)] \<Rightarrow> is_Find f
      | [(f, True), (k, _), (c, _)] \<Rightarrow> is_Find f \<and> P k \<and> Q c
      | _ \<Rightarrow> False)"

text \<open>C36: a pre-backup check runs no step but finding the deployment, checking that it can be backed up and cleaning
  up; the last two run exactly when the deployment was found. The cleanup commands run one
  unlock step, the one for a failed backup or the one for a restore, and then always remove what a
  previous run left, whether or not unlocking worked.\<close>

theorem checks_and_cleanups:
  "complies (NewBackupChecker dm lo) (Step_Run E) s (one_after_find is_Backupable is_Cleanup)
     (\<lambda>q. \<exists>p. one_after_find is_Backupable is_Cleanup p \<and> prefix q p) \<and>
   complies (NewBackupCleaner dm lo ex) (Step_Run E) s
     (one_after_find (\<lambda>k. k = PostBackupUnlockStep False lo ex) is_CleanupPrevious)
     (\<lambda>q. \<exists>p. one_after_find (\<lambda>k. k = PostBackupUnlockStep False lo ex) is_CleanupPrevious p \<and> prefix q p) \<and>
   complies (NewRestoreCleaner dm lo ex) (Step_Run E) s
     (one_after_find (\<lambda>k. k = PostRestoreUnlockStep lo ex) is_CleanupPrevious)
     (\<lambda>q. \<exists>p. one_after_find (\<lambda>k. k = PostRestoreUnlockStep lo ex) is_CleanupPrevious p \<and> prefix q p)"
  by (intro conjI checker.run_satisfies backup_cleaner.run_satisfies restore_cleaner.run_satisfies)
    (auto simp: NewBackupChecker_def NewBackupCleaner_def NewRestoreCleaner_def workflow_defs path_defs one_after_find_def)

end
