(* ===== verification/Frames.thy ===== *)
theory Frames
  imports Orchestrator
begin

text \<open>
  What the operations behind the steps leave alone. A frame is a relation between the worlds before and after that is
  reflexive and transitive, holds for every calm operation (one that only talks to the instances and the
  director, see \<open>Director\<close>) and does not look at the program's own flags. \<open>keeps R m\<close> says that
  \<open>m\<close> stays within the frame. Everything the steps do but the writing of the local backup
  keeps every frame; there are two: the history only grows, and the local files stay as they are.
\<close>

definition keeps :: "('r world \<Rightarrow> 'r world \<Rightarrow> bool) \<Rightarrow> ('r, 'a) io \<Rightarrow> bool" where
  "keeps R m \<longleftrightarrow> (\<forall>w r w'. m w = (r, w') \<longrightarrow> R w w')"

named_theorems frame_intros \<open>rules for \<open>keeps\<close>\<close>

lemma keepsI: "(\<And>w r w'. m w = (r, w') \<Longrightarrow> R w w') \<Longrightarrow> keeps R m"
  by (simp add: keeps_def)

lemma keepsD: "keeps R m \<Longrightarrow> m w = (r, w') \<Longrightarrow> R w w'"
  by (simp add: keeps_def)

lemma keeps_if [frame_intros]: "keeps R f \<Longrightarrow> keeps R g \<Longrightarrow> keeps R (if b then f else g)"
  by simp

lemma keeps_prod [frame_intros]: "(\<And>a b. keeps R (f a b)) \<Longrightarrow> keeps R (case x of (a, b) \<Rightarrow> f a b)"
  by (cases x) simp

lemma keeps_option [frame_intros]: "keeps R f \<Longrightarrow> (\<And>x. keeps R (g x)) \<Longrightarrow> keeps R (case opt of None \<Rightarrow> f | Some x \<Rightarrow> g x)"
  by (cases opt) auto

text \<open>The scripts of jobs are calm.\<close>

lemma RunScriptWithEnv_calm:
  "RunScriptWithEnv E c s vars bytes_Buffer b w = (r, b', w') \<Longrightarrow> calm w w'"
  using runInSession_buffer [of E c "''sudo '' @ varsList (range_ord E) vars @ s" "''''" b w]
  by (auto simp: RunScriptWithEnv_def Connection_Stream_def split: prod.splits dest: ran_calm)

lemma job_calm:
  "Job_PreBackupLock E j w = (r, w') \<Longrightarrow> calm w w'" "Job_PostBackupUnlock E ok j w = (r, w') \<Longrightarrow> calm w w'"
  "Job_PreRestoreLock E j w = (r, w') \<Longrightarrow> calm w w'" "Job_PostRestoreUnlock E j w = (r, w') \<Longrightarrow> calm w w'"
  "Job_Restore E j w = (r, w') \<Longrightarrow> calm w w'"
  by (auto simp: Job_PreBackupLock_def Job_PostBackupUnlock_def Job_PreRestoreLock_def Job_PostRestoreUnlock_def Job_Restore_def
      elim!: wrappedE split: if_splits dest!: RunScript_frame RunScriptQuietly_frame ran_calm)

section \<open>Frames\<close>

locale frame =
  fixes R :: "'r world \<Rightarrow> 'r world \<Rightarrow> bool"
  assumes R_refl: "R w w"
    and R_trans: "R u v \<Longrightarrow> R v w \<Longrightarrow> R u w"
    and R_calm: "calm w w' \<Longrightarrow> R w w'"
    and R_flags: "R w (w\<lparr>artifactDirCreated := f, next_instance := n\<rparr>)"
begin

lemma mark_one: "R w (MarkArtifactDirCreated i w)"
proof -
  have "MarkArtifactDirCreated i w =
      w\<lparr>artifactDirCreated := (artifactDirCreated w)(inst_addr i := True), next_instance := next_instance w\<rparr>"
    by (cases w) (simp add: MarkArtifactDirCreated_def)
  then show ?thesis by (simp only: R_flags)
qed

lemma marks: "R w (fold MarkArtifactDirCreated is w)"
  by (induction "is" arbitrary: w) (auto intro: R_refl R_trans [OF mark_one])

lemma keeps_calm: "(\<And>w r w'. m w = (r, w') \<Longrightarrow> calm w w') \<Longrightarrow> keeps R m"
  unfolding keeps_def by (blast intro: R_refl R_calm)

lemma keeps_bindr [frame_intros]: "keeps R m \<Longrightarrow> (\<And>x. keeps R (f x)) \<Longrightarrow> keeps R (bindr m f)"
  by (rule keepsI, erule bindrE) (blast intro: R_trans dest: keepsD)+

lemma keeps_bindr_run: "bindr m f w = (r, w') \<Longrightarrow> keeps R m \<Longrightarrow> (\<And>x. keeps R (f x)) \<Longrightarrow> R w w'"
  by (rule keepsD [OF keeps_bindr])

lemma keeps_wrapped [frame_intros]: "keeps R m \<Longrightarrow> keeps R (wrapped msg m)"
  by (auto simp: keeps_def R_refl wrapped_def split: prod.splits)

lemma keeps_map_err [frame_intros]: "keeps R m \<Longrightarrow> keeps R (map_err f m)"
  by (auto simp: keeps_def R_refl map_err_def split: prod.splits result.splits)

lemma keeps_pure [frame_intros]: "keeps R (\<lambda>w. (f w, w))"
  by (simp add: keeps_def R_refl)

lemma keeps_with_deployment [frame_intros]: "(\<And>d. keeps R (f d)) \<Longrightarrow> keeps R (with_deployment f session)"
  by (auto simp: keeps_def R_refl with_deployment_def split: option.splits)

lemma keeps_runStage: "(\<And>x. x \<in> set xs \<Longrightarrow> keeps R x) \<Longrightarrow> keeps R (runStage xs es)"
proof (induction xs arbitrary: es)
  case (Cons x xs)
  then have x: "keeps R x" and xs: "keeps R (runStage xs es')" for es' by simp_all
  show ?case
  proof (rule keepsI)
    fix w r w' assume run: "runStage (x # xs) es w = (r, w')"
    obtain r1 w1 where x1: "x w = (r1, w1)" by fastforce
    note R_trans [OF keepsD [OF x x1] keepsD [OF xs]]
    with x1 run keepsD [OF x x1] show "R w w'" by (cases r1) auto
  qed
qed (simp add: keeps_def R_refl)

lemma keeps_collect [frame_intros]: "(\<And>x. x \<in> set xs \<Longrightarrow> keeps R x) \<Longrightarrow> keeps R (collect xs)"
  unfolding collect_def by (intro frame_intros keeps_runStage)

lemma keeps_run_stages [frame_intros]:
  assumes "\<And>x. x \<in> set (concat stages) \<Longrightarrow> keeps R x"
  shows "keeps R (run_stages E ex stages)"
  unfolding keeps_def
proof (intro allI impI)
  fix w r w' assume "run_stages E ex stages w = (r, w')"
  then obtain r0 where run: "Executor_Run (finish_order E) ex stages w = (r0, w')"
    unfolding run_stages_def by (elim bindrE) auto
  obtain yss where yss: "same_stages stages yss" "runStage (concat yss) [] w = (r0, w')"
    using executor.run_stages [OF any_executor [of "finish_order E" ex], of stages w] run by auto
  have "set (concat yss) = set (concat stages)" using same_stages_concat [OF yss(1)] by (metis set_mset_mset)
  with assms have "keeps R (runStage (concat yss) [])" by (intro keeps_runStage) (simp only:)
  with yss(2) show "R w w'" unfolding keeps_def by blast
qed

lemma keeps_with_order [frame_intros]: "(\<And>st. keeps R (f st)) \<Longrightarrow> keeps R (with_order lo bd f)"
  by (auto simp: keeps_def R_refl with_order_def split: result.splits)


section \<open>The operations behind the steps\<close>

lemma keeps_dir_call [frame_intros]: "keeps R (dir_call f)"
  by (rule keeps_calm) (blast dest: dir_call_calm)

lemma keeps_SetUpSSH [frame_intros]: "keeps R (Deployment_SetUpSSH E dep slug opts)"
  by (rule keeps_calm) (rule Deployment_SetUpSSH_calm)

lemma keeps_CleanUpSSH [frame_intros]: "keeps R (Deployment_CleanUpSSH E dep slug u)"
  by (rule keeps_calm) (blast dest: Deployment_CleanUpSSH_events)

lemma keeps_IsWindows [frame_intros]: "keeps R (IsWindows E c)"
  by (rule keeps_calm) (auto simp: IsWindows_def split: prod.splits dest!: Connection_Run_frame ran_calm)

lemma keeps_FindJobs [frame_intros]: "keeps R (FindJobs E j ident c q)"
proof -
  have scripts: "keeps R (findBBRScripts E ident c)"
    unfolding findBBRScripts_def
    by (intro keeps_wrapped keeps_calm) (auto simp: FindFiles_def split: prod.splits dest!: Connection_Run_frame ran_calm)
  have meta: "keeps R (findMetadata E j ident s c)" for s
    by (rule keeps_calm) (auto simp: findMetadata_def split: prod.splits result.splits dest!: RunScriptWithEnv_calm)
  have loop: "keeps R (metadataLoop E j ident c scripts m)" for scripts m
  proof (induction scripts arbitrary: m)
    case (Cons s ss)
    show ?case
    proof (rule keepsI)
      fix w r w' assume "metadataLoop E j ident c (s # ss) m w = (r, w')"
      then show "R w w'"
        using keepsD [OF keeps_bindr [OF meta Cons.IH]] keepsD [OF Cons.IH] by (auto split: if_splits)
    qed
  qed (simp add: keeps_def R_refl)
  show ?thesis unfolding FindJobs_def Let_def by (intro frame_intros scripts loop)
qed

lemma keeps_cleanupAlreadyMade: "keeps R (cleanupAlreadyMadeConnections E dep slugs opts)"
proof (induction slugs)
  case (Cons slug slugs)
  show ?case
  proof (rule keepsI)
    fix w r w' assume run: "cleanupAlreadyMadeConnections E dep (slug # slugs) opts w = (r, w')"
    obtain r1 w1 where cl: "Deployment_CleanUpSSH E dep slug (so_Username opts) w = (r1, w1)" by fastforce
    note g = keepsD [OF keeps_CleanUpSSH cl]
    from run cl g R_trans [OF g keepsD [OF Cons.IH]] show "R w w'" by (cases r1) auto
  qed
qed (simp add: keeps_def R_refl)

lemma keeps_guarded [frame_intros]: "keeps R m \<Longrightarrow> keeps R (guarded E dep slugs opts msg m)"
proof (rule keepsI)
  fix w r w' assume m: "keeps R m" and run: "guarded E dep slugs opts msg m w = (r, w')"
  obtain r1 w1 where m1: "m w = (r1, w1)" by fastforce
  have "keeps R (cleanup_and_fail E dep slugs opts msg e :: ('r, 'a) io)" for e
    unfolding cleanup_and_fail_def by (intro frame_intros keeps_cleanupAlreadyMade)
  from R_trans [OF keepsD [OF m m1] keepsD [OF this]] keepsD [OF m m1] run m1 show "R w w'"
    by (cases r1) (auto simp: guarded_def)
qed

lemma keeps_NewInstance:
  assumes "\<And>inst. keeps R (f inst)"
  shows "keeps R (\<lambda>w. case NewBoshDeployedInstance grp i hid c dep flag jobs w of (inst, w') \<Rightarrow> f inst w')"
proof (rule keepsI)
  fix w r w' assume "(case NewBoshDeployedInstance grp i hid c dep flag jobs w of (inst, w') \<Rightarrow> f inst w') = (r, w')"
  from keepsD [OF assms this [unfolded NewBoshDeployedInstance_def NewDeployedInstance_def prod.case]]
  show "R w w'" by (rule R_trans [OF R_flags])
qed

lemma keeps_hostLoop: "keeps R (hostLoop E jf q dep vms opts pk slugs grp hosts insts)"
proof (induction hosts arbitrary: insts)
  case (Cons host hosts)
  have tail: "keeps R (\<lambda>w. let (inst, w') = NewBoshDeployedInstance grp i hid c dep False jobs w
      in if length jobs = 0 then (Ok (insts @ [inst]), w')
         else hostLoop E jf q dep vms opts pk slugs grp hosts (insts @ [inst]) w')" for i hid c jobs
    unfolding Let_def
    using keeps_NewInstance [of "\<lambda>inst w'. if length jobs = 0 then (Ok (insts @ [inst]), w')
      else hostLoop E jf q dep vms opts pk slugs grp hosts (insts @ [inst]) w'"] Cons.IH
    by (cases "length jobs = 0") (simp_all add: keeps_pure)
  show ?case
  proof (rule keepsI)
    fix w r w' assume run: "hostLoop E jf q dep vms opts pk slugs grp (host # hosts) insts w = (r, w')"
    show "R w w'"
    proof (cases "parseAuthorizedKey E (host_HostPublicKey host)")
      case (Ok kt)
      show ?thesis
        by (rule keeps_bindr_run [OF run [unfolded hostLoop.simps Ok result.case]])
          (intro frame_intros Cons.IH tail)+
    qed (use run in \<open>auto simp: R_refl\<close>)
  qed
qed (simp add: keeps_def R_refl)

lemma keeps_groupLoop: "keeps R (groupLoop E jf q dep vms opts pk grps slugs insts)"
proof (induction grps arbitrary: slugs insts)
  case (Cons grp grps)
  show ?case
  proof (rule keepsI)
    fix w r w' assume "groupLoop E jf q dep vms opts pk (grp # grps) slugs insts w = (r, w')"
    then show "R w w'"
      unfolding groupLoop.simps by (rule keeps_bindr_run) (intro frame_intros keeps_hostLoop Cons.IH)+
  qed
qed (simp add: keeps_def R_refl)

lemma keeps_Find: "keeps R (DeploymentManager_Find E dm name)"
proof (cases dm)
  case (BoshManager b)
  then show ?thesis
    by (simp add: Bosh_Find_def FindInstances_def) (intro frame_intros keeps_groupLoop)
next
  case (StandaloneManager s)
  have "keeps R (\<lambda>w. let (inst, w') = NewStandaloneDeployedInstance n c jobs False w in (Ok (NewDeployment [inst]), w'))" for n c jobs
    by (rule keepsI) (auto simp: NewStandaloneDeployedInstance_def NewDeployedInstance_def intro: R_flags)
  with StandaloneManager show ?thesis
    by (simp only: DeploymentManager_Find.simps Standalone_Find_def) (intro frame_intros)
qed

lemma keeps_checkArtifactDirs: "keeps R (checkArtifactDirs E insts errs)"
proof (induction insts arbitrary: errs)
  case (Cons i insts)
  show ?case
  proof (rule keepsI)
    fix w r w' assume run: "checkArtifactDirs E (i # insts) errs w = (r, w')"
    obtain r1 w1 where e: "ArtifactDirExists E i w = (r1, w1)" by fastforce
    then have "R w w1"
      by (auto simp: ArtifactDirExists_def DirectoryExists_def split: prod.splits dest!: Connection_Run_frame ran_calm intro: R_refl R_calm)
    with run e R_trans [OF this keepsD [OF Cons.IH]] show "R w w'" by (auto split: result.splits if_splits)
  qed
qed (simp add: keeps_def R_refl)

lemma keeps_CheckArtifactDir [frame_intros]: "keeps R (CheckArtifactDir E bd)"
proof -
  have "keeps R (\<lambda>w. if length errs > 0 then (Err (f errs), w) else (Ok (), w))" for errs :: "string list" and f
    by (simp add: keeps_def R_refl)
  then show ?thesis unfolding CheckArtifactDir_def by (intro frame_intros keeps_checkArtifactDirs)
qed


lemma keeps_jobs [frame_intros]:
  "keeps R (NewJobPreBackupLockExecutable E j)" "keeps R (NewJobPostSuccessfulBackupUnlockExecutable E j)"
  "keeps R (NewJobPostFailedBackupUnlockExecutable E j)" "keeps R (NewJobPreRestoreLockExecutable E j)"
  "keeps R (NewJobPostRestoreUnlockExecutable E j)"
  unfolding NewJobPreBackupLockExecutable_def NewJobPostSuccessfulBackupUnlockExecutable_def
    NewJobPostFailedBackupUnlockExecutable_def NewJobPreRestoreLockExecutable_def NewJobPostRestoreUnlockExecutable_def
  by (rule keeps_calm, erule job_calm)+

lemma keeps_phases [frame_intros]:
  "keeps R (PreBackupLock E lo ex bd)" "keeps R (PostBackupUnlock E ok lo ex bd)"
  "keeps R (PreRestoreLock E lo ex bd)" "keeps R (PostRestoreUnlock E lo ex bd)"
  unfolding PreBackupLock_def PostBackupUnlock_def PreRestoreLock_def PostRestoreUnlock_def
  by (intro frame_intros; auto simp: newJobExecutables_def intro: frame_intros)+

lemma keeps_Deployment_Backup [frame_intros]: "keeps R (Deployment_Backup E ex bd)"
proof -
  let ?is = "AllBackupable (bd_instances bd)"
  have "keeps R (run_stages E ex [concat (map (\<lambda>i. map (NewBackupExecutable E) (inst_jobs i)) ?is)])"
    by (intro frame_intros) (auto simp: NewBackupExecutable_def intro: keeps_calm Job_Backup_calm)
  then show ?thesis
    by (intro keepsI) (auto simp: Deployment_Backup_def Deployment_Backup_marks dest!: keepsD intro: R_trans [OF marks])
qed

lemma keeps_Job_Restore: "keeps R (Job_Restore E j)"
  by (rule keepsI) (auto simp: Job_Restore_def elim!: bindrE wrappedE split: if_splits dest!: RunScriptQuietly_frame ran_calm intro: R_refl R_calm)

lemma keeps_Deployment_Restore [frame_intros]: "keeps R (Deployment_Restore E bd)"
proof -
  have "keeps R (instances_Restore E is)" for "is"
  proof (induction "is")
    case (Cons i "is")
    show ?case
    proof (rule keepsI)
      fix w r w' assume "instances_Restore E (i # is) w = (r, w')"
      then show "R w w'"
        unfolding instances_Restore.simps Instance_Restore_def
        by (rule keeps_bindr_run) (intro frame_intros Cons.IH; auto intro: keeps_Job_Restore)+
    qed
  qed (simp add: keeps_def R_refl)
  then show ?thesis by (simp add: Deployment_Restore_def)
qed

lemma keeps_rm: "keeps R (wrapped msg (RemoveArtifactDir E i))"
  by (rule keeps_calm) (blast dest: RemoveArtifactDir_trace)

lemma keeps_ssh: "keeps R (wrapped msg (cleanupSSHConnections E dep i))"
  unfolding cleanupSSHConnections_def by (intro frame_intros)

lemma keeps_Instance_Cleanup: "keeps R (Instance_Cleanup E i)"
proof (rule keepsI)
  fix w r w' assume run: "Instance_Cleanup E i w = (r, w')"
  show "R w w'"
  proof (cases "inst_kind i")
    case (BoshInstance dep)
    with run have "Bosh_Cleanup E dep i w = (r, w')" by (simp add: Instance_Cleanup_def)
    then show ?thesis unfolding Bosh_Cleanup_def
      by (rule keepsD [rotated]) (intro frame_intros; auto intro: keeps_rm keeps_ssh split: if_splits)
  next
    case StandaloneInstance
    with run keepsD [OF keeps_rm] show ?thesis
      by (auto simp: R_refl Instance_Cleanup_def Standalone_Cleanup_def cleanupArtifact_def split: if_splits)
  qed
qed

lemma keeps_Instance_CleanupPrevious: "keeps R (Instance_CleanupPrevious E i)"
  unfolding Instance_CleanupPrevious_def Bosh_CleanupPrevious_def Standalone_CleanupPrevious_def cleanupArtifact_def
  by (cases "inst_kind i") (auto intro!: keeps_collect intro: keeps_rm keeps_ssh)

lemma keeps_Cleanups [frame_intros]:
  "keeps R (Deployment_Cleanup E bd)" "keeps R (Deployment_CleanupPrevious E bd)"
  unfolding Deployment_Cleanup_def instances_Cleanup_def Deployment_CleanupPrevious_def instances_CleanupPrevious_def
  by (auto intro!: keeps_collect keeps_Instance_Cleanup keeps_Instance_CleanupPrevious)

lemma keeps_Checksum: "keeps R (Artifact_Checksum E a)"
  by (rule keeps_calm) (rule Artifact_Checksum_calm)

lemma keeps_Upload_Execute: "keeps R (BackupUploadExecutable_Execute E artifact i a)"
proof -
  have mark: "keeps R (\<lambda>w0. f (MarkArtifactDirCreated i w0))" if "keeps R f" for f :: "('r, unit) io" and i
    using that by (auto simp: keeps_def R_refl intro: R_trans [OF mark_one])
  have stream: "keeps R (\<lambda>w. StreamToRemote E a (g w) w)" for a and g :: "'r world \<Rightarrow> string result"
    by (rule keeps_calm) (rule StreamToRemote_calm)
  show ?thesis
    unfolding BackupUploadExecutable_Execute_def
    by (intro frame_intros stream mark keeps_Checksum) (auto simp: keeps_def R_refl split: prod.splits)
qed

lemma keeps_Upload [frame_intros]: "keeps R (UploadBackupToDeployment E ex artifact bd)"
  unfolding UploadBackupToDeployment_def by (intro frame_intros) (auto intro: keeps_Upload_Execute)

end

interpretation growing_history: frame grows
  by unfold_locales (auto simp: calm_def grows_def)

text \<open>The local files stay as they are.\<close>

abbreviation same_files :: "'r world \<Rightarrow> 'r world \<Rightarrow> bool" where
  "same_files w w' \<equiv> fs w' = fs w"

interpretation untouched_files: frame same_files
  by unfold_locales (simp_all add: calm_def)

end
