(* ===== verification/Protocol.thy ===== *)
theory Protocol
  imports Frames
begin

text \<open>
  Whole runs and their histories: the workflow of a backup or a restore (\<^verbatim>\<open>Orchestrator\<close>), its steps, the
  phases that run scripts on the instances (\<^verbatim>\<open>Deployment\<close>) and the order of the jobs
  (\<^verbatim>\<open>Orderer\<close>) put together.

  \<open>growing m\<close> says that an operation only appends to the history; every step of every workflow
  does, so the history of a run is the concatenation of the histories of its steps.
\<close>

section \<open>Operations that only append to the history\<close>

text \<open>Beyond what keeps every frame (\<open>Frames\<close>): the operations that write the local backup.\<close>

abbreviation growing :: "('r, 'a) io \<Rightarrow> bool" where
  "growing m \<equiv> keeps grows m"

lemma growing_stays: "stays m S \<Longrightarrow> growing m"
  unfolding keeps_def stays_def adds_def grows_def by meson

lemma growing_quiet: "(\<And>w r w'. m w = (r, w') \<Longrightarrow> quiet w w') \<Longrightarrow> growing m"
  unfolding keeps_def by (blast intro: quiet_grows)

lemma growing_SaveManifest: "growing (DeploymentManager_SaveManifest E dm name artifact)"
proof (cases dm)
  case (BoshManager b)
  have "growing (SaveManifest E artifact m)" for m
    unfolding SaveManifest_def by (intro frame_intros growing_quiet) (rule os_WriteFile_quiet)
  then have "growing (bindr (wrapped msg (GetManifest E name)) (\<lambda>manifest. SaveManifest E artifact manifest))" for msg
    unfolding GetManifest_def by (intro frame_intros)
  with BoshManager show ?thesis
    by (cases "downloadManifest b") (simp_all add: keeps_def Bosh_SaveManifest_def)
qed (simp add: keeps_def Standalone_SaveManifest_def)

lemma growing_Delete: "growing (Artifact_Delete E a)"
  unfolding Artifact_Delete_def by (intro frame_intros keepsI) (auto dest!: RemoveDirectory_frame ran_grows)

lemma growing_Download [frame_intros]: "growing (DownloadBackupFromDeployment E ex artifact bd)"
proof -
  have "growing (BackupDownloadExecutable_Execute E artifact a)" for a
    unfolding BackupDownloadExecutable_Execute_def
    by (intro frame_intros growing_Delete growing_stays [OF stays_download] growing_stays [OF stays_compare [of a UNIV]]
        growing_quiet AddChecksum_quiet UNIV_I)
  then show ?thesis unfolding DownloadBackupFromDeployment_def by (intro frame_intros) auto
qed

lemma growing_AddFinishTime: "growing (AddFinishTime E artifact t)"
  by (rule growing_quiet) (auto simp: AddFinishTime_def wrapped_def dest: metadata_save_quiet
      split: result.splits prod.splits)

section \<open>Steps\<close>

definition step_keeps :: "('r world \<Rightarrow> 'r world \<Rightarrow> bool) \<Rightarrow> ('r step_state \<Rightarrow> unit result \<times> 'r step_state) \<Rightarrow> bool" where
  "step_keeps R f \<longleftrightarrow> (\<forall>session w r session' w'. f (session, w) = (r, session', w') \<longrightarrow> R w w')"

text \<open>The steps that write into the local backup.\<close>

definition writes :: "Step \<Rightarrow> bool" where
  "writes k \<longleftrightarrow> is_CreateArtifact k \<or> is_Drain k \<or> is_AddFinishTime k"

lemma step_keepsD: "step_keeps R f \<Longrightarrow> f (session, w) = (r, session', w') \<Longrightarrow> R w w'"
  unfolding step_keeps_def by blast

lemma step_keeps_keep: "(\<And>session. keeps R (f session)) \<Longrightarrow> step_keeps R (keep_session f)"
  by (auto simp: step_keeps_def keep_session_def keeps_def split: prod.splits)

context frame
begin

lemma keeps_guard: "keeps R f \<Longrightarrow> keeps R (\<lambda>w. if b then (x, w) else f w)"
  by (simp add: keeps_def R_refl)

lemma keeps_Restorable: "keeps R (RestorableStep_Run E lo session)"
proof -
  have wa: "keeps R (with_artifact f session)" if "\<And>a. keeps R (f a)" for f :: "BackupDirectory \<Rightarrow> ('r, unit) io"
    using that by (auto simp: keeps_def with_artifact_def R_refl split: option.splits)
  have match: "keeps R (\<lambda>w. case m w of Err e \<Rightarrow> (Err (x e), w) | Panic p \<Rightarrow> (Panic p, w)
      | Ok b \<Rightarrow> if \<not> b then (Err y, w) else f w)" if "keeps R f" for f :: "('r, unit) io" and m x y
    using that by (auto simp: keeps_def R_refl split: result.splits)
  show ?thesis unfolding RestorableStep_Run_def
    by (intro frame_intros wa match keeps_guard)
qed

lemma keeps_Backupable: "keeps R (BackupableStep_Run E lo session)"
  unfolding BackupableStep_Run_def by (intro frame_intros keeps_guard)

lemma keeps_Skip: "keeps R (SkipStep_Run name session)"
  by (simp add: keeps_def SkipStep_Run_def R_refl)

lemma keeps_nil_artifact [frame_intros]: "keeps R (nil_artifact artifacts)"
  by (simp add: keeps_def nil_artifact_def R_refl)

lemma Step_Run_keeps_frame: "\<not> writes k \<Longrightarrow> step_keeps R (Step_Run E k)"
proof (cases k)
  case (FindDeploymentStep dm)
  show ?thesis unfolding step_keeps_def FindDeploymentStep
    by (auto simp: FindDeploymentStep_Run_def split: prod.splits result.splits dest: keepsD [OF keeps_Find])
next
  case ValidateArtifactStep
  then show ?thesis
    by (auto simp: step_keeps_def ValidateArtifactStep_Run_def R_refl split: result.splits)
qed (auto intro!: step_keeps_keep keeps_Restorable keeps_Backupable keeps_Skip frame_intros
    simp: writes_def LockStep_Run_def BackupStep_Run_def PostBackupUnlockStep_Run_def CleanupStep_Run_def
    CopyToRemoteStep_Run_def PreRestoreLockStep_Run_def RestoreStep_Run_def PostRestoreUnlockStep_Run_def
    CleanupPreviousStep_Run_def)

end

abbreviation step_grows :: "('r step_state \<Rightarrow> unit result \<times> 'r step_state) \<Rightarrow> bool" where
  "step_grows f \<equiv> step_keeps grows f"

lemma step_grows_CreateArtifact: "step_grows (CreateArtifactStep_Run E dm ts)"
  unfolding step_keeps_def
proof (intro allI impI)
  fix session w r session' w' assume run: "CreateArtifactStep_Run E dm ts (session, w) = (r, session', w')"
  obtain r1 w1 where c: "BackupDirectoryManager_Create E (currentArtifactPath session) (deploymentName session @ ''_'' @ ts) w = (r1, w1)"
    by fastforce
  then have q1: "quiet w w1"
    by (auto simp: BackupDirectoryManager_Create_def split: prod.splits result.splits if_splits fnode.splits dest: os_Mkdir_quiet)
  show "grows w w'"
  proof (cases r1)
    case (Ok artifact)
    obtain r2 w2 where m: "CreateMetadataFileWithStartTime E artifact (time_Now E w1) w1 = (r2, w2)" by fastforce
    then have "quiet w1 w2"
      by (auto simp: CreateMetadataFileWithStartTime_def split: prod.splits result.splits dest: metadata_save_quiet)
    with q1 have g: "grows w w2" by (blast intro: quiet_grows quiet_trans)
    obtain r3 w3 where s: "DeploymentManager_SaveManifest E dm (deploymentName session) artifact w2 = (r3, w3)" by fastforce
    from run c Ok m s g grows_trans [OF g keepsD [OF growing_SaveManifest s]] show ?thesis
      by (cases r2) (auto simp: CreateArtifactStep_Run_def)
  qed (use run c q1 in \<open>auto simp: CreateArtifactStep_Run_def dest: quiet_grows\<close>)
qed

lemma Step_Run_grows: "step_grows (Step_Run E k)"
proof (cases "writes k")
  case True
  then consider dm ts where "k = CreateArtifactStep dm ts" | copier where "k = DrainStep copier" | "k = AddFinishTimeStep"
    by (cases k) (auto simp: writes_def)
  then show ?thesis
  proof cases
    case (2 copier)
    then show ?thesis by (auto intro!: step_keeps_keep frame_intros simp: DrainStep_Run_def)
  next
    case 3
    have "growing (\<lambda>w. AddFinishTime E artifact (f w) w)" for artifact f
      using growing_AddFinishTime [of E artifact] by (simp add: keeps_def)
    then have "growing (AddFinishTimeStep_Run E session)" for session
      by (cases "currentArtifact session") (simp_all add: keeps_def AddFinishTimeStep_Run_def)
    with 3 show ?thesis by (simp add: step_keeps_keep)
  qed (simp add: step_grows_CreateArtifact)
qed (rule growing_history.Step_Run_keeps_frame)

text \<open>Every other step leaves the local files as they are.\<close>

lemma Step_same_files: "Step_Run E k (session, w) = (r, session', w') \<Longrightarrow> \<not> writes k \<Longrightarrow> fs w' = fs w"
  by (rule step_keepsD [OF untouched_files.Step_Run_keeps_frame])

lemma Step_Run_keeps_deployment:
  "Step_Run E k (session, w) = (r, session', w') \<Longrightarrow> \<not> is_Find k \<Longrightarrow> session_deployment session' = session_deployment session"
  by (cases k) (auto simp: keep_session_def CreateArtifactStep_Run_def ValidateArtifactStep_Run_def SetCurrentArtifact_def
      split: prod.splits result.splits)

lemma replays_frame:
  "replays (Step_Run E) (session, w) tr (session', w') \<Longrightarrow>
     grows w w' \<and> (list_all (\<lambda>(k, r). \<not> is_Find k) tr \<longrightarrow> session_deployment session' = session_deployment session)"
proof (induction tr arbitrary: session w)
  case (Cons x tr)
  obtain k r where x: "x = (k, r)" by fastforce
  with Cons.prems obtain session1 w1 where
    run: "Step_Run E k (session, w) = (r, session1, w1)" and rest: "replays (Step_Run E) (session1, w1) tr (session', w')"
    by auto
  from Step_Run_grows [of E k] run have "grows w w1" unfolding step_keeps_def by blast
  with Cons.IH [OF rest] Step_Run_keeps_deployment [OF run] x show ?case by (auto intro: grows_trans)
qed simp

lemma Find_Ok:
  assumes "Step_Run E (FindDeploymentStep dm) (session, w) = (Ok u, session', w')"
  obtains dep where "session_deployment session' = Some dep"
  using assms by (auto simp: FindDeploymentStep_Run_def SetCurrentDeployment_def split: prod.splits result.splits)

text \<open>A check that succeeded has shown that the orderer succeeds on the deployment.\<close>

lemma Backupable_Ok:
  assumes "Step_Run E (BackupableStep lo) (session, w) = (Ok u, session', w')" "session_deployment session = Some dep"
  shows "session' = session \<and> (\<exists>st. KahnLockOrderer_Order lo (instances_Jobs (bd_instances dep)) = Ok st)"
proof -
  from assms have "session' = session" and run: "BackupableStep_Run E lo session w = (Ok u, w')"
    by (auto simp: keep_session_def split: prod.splits)
  moreover from run assms(2) have "ValidateLockingDependencies lo dep = Ok u"
    by (auto simp: BackupableStep_Run_def with_deployment_def bindr_eq_Ok split: if_splits)
  ultimately show ?thesis
    by (cases "KahnLockOrderer_Order lo (instances_Jobs (bd_instances dep))") (auto simp: ValidateLockingDependencies_def)
qed

lemma map_errE:
  assumes "map_err f m w = (r, w')"
  obtains r0 where "m w = (r0, w')" "succeeded r0 = succeeded r" "is_panic r0 = is_panic r"
  using assms by (auto simp: map_err_def split: prod.splits result.splits)

lemma Lock_runs:
  assumes "Step_Run E (LockStep lo ex) (session, w) = (r, session', w')" "session_deployment session = Some dep"
  obtains r0 where "PreBackupLock E lo ex dep w = (r0, w')" "succeeded r0 = succeeded r" "session' = session"
  using assms
  by (auto simp: keep_session_def LockStep_Run_def with_deployment_def split: prod.splits elim!: map_errE)

lemma Unlock_runs:
  assumes "Step_Run E (PostBackupUnlockStep ok lo ex) (session, w) = (r, session', w')" "session_deployment session = Some dep"
  obtains r0 where "PostBackupUnlock E ok lo ex dep w = (r0, w')" "succeeded r0 = succeeded r" "session' = session"
  using assms
  by (auto simp: keep_session_def PostBackupUnlockStep_Run_def with_deployment_def split: prod.splits elim!: map_errE)

text \<open>With an order there is no cyclic-graph error, so the phases did run.\<close>

lemma ordered_forward:
  "KahnLockOrderer_Order lo jobs = Ok st \<Longrightarrow> forward (must_precede (Before (constraintSpecifier lo))) st"
  unfolding forward_def using lock_orderer.order_respects [OF kahn_orderer_laws] by blast

lemma ordered_lock_phase:
  assumes "KahnLockOrderer_Order lo jobs = Ok st" "attempts f ev" "run_stages E ex (newJobExecutables st f) w = (r, w')"
  shows "phase ev (must_precede (Before (constraintSpecifier lo))) jobs r w w'"
  using run_stages_phase [OF assms(3) ordered_forward [OF assms(1)] lock_orderer.order_partition(1) [OF kahn_orderer_laws assms(1)] assms(2)]
  by blast

lemma ordered_unlock_phase:
  assumes "KahnLockOrderer_Order lo jobs = Ok st" "attempts f ev" "run_stages E ex (newJobExecutables (Reverse st) f) w = (r, w')"
  shows "phase ev (\<lambda>a b. must_precede (Before (constraintSpecifier lo)) b a) jobs r w w'"
proof -
  have "mset (concat (Reverse st)) = mset jobs"
    using lock_orderer.order_partition [OF kahn_orderer_laws assms(1)] by (simp add: mset_concat_rev)
  from run_stages_phase [OF assms(3) forward_Reverse [OF ordered_forward [OF assms(1)]] this assms(2)] show ?thesis by blast
qed

lemma lock_phase:
  assumes "KahnLockOrderer_Order lo (instances_Jobs (bd_instances dep)) = Ok st" "PreBackupLock E lo ex dep w = (r, w')"
  shows "phase lock_events (must_precede (Before (constraintSpecifier lo))) (instances_Jobs (bd_instances dep)) r w w'"
  by (rule ordered_lock_phase [OF assms(1) attempts_lock]) (use assms in \<open>simp add: PreBackupLock_def with_order_def\<close>)

lemma unlock_phase:
  assumes "KahnLockOrderer_Order lo (instances_Jobs (bd_instances dep)) = Ok st" "PostBackupUnlock E ok lo ex dep w = (r, w')"
  shows "phase (unlock_events ok) (\<lambda>a b. must_precede (Before (constraintSpecifier lo)) b a) (instances_Jobs (bd_instances dep)) r w w'"
  by (rule ordered_unlock_phase [OF assms(1) attempts_unlock]) (use assms in \<open>simp add: PostBackupUnlock_def with_order_def\<close>)


section \<open>Properties\<close>

text \<open>The paths of a backup that got as far as creating its artifact. The steps after its unlock step find, lock, back up and
  unlock nothing.\<close>

definition after_unlock :: "Step \<Rightarrow> bool" where
  "after_unlock k \<longleftrightarrow> \<not> is_Find k \<and> \<not> is_Lock k \<and> \<not> is_Backup k \<and> \<not> is_PostBackupUnlock k"

definition locking_path :: "DeploymentManager \<Rightarrow> KahnLockOrderer \<Rightarrow> Executor \<Rightarrow> string \<Rightarrow> (Step \<times> bool) list \<Rightarrow> bool" where
  "locking_path dm lo ex ts p \<longleftrightarrow>
     (let start = [(FindDeploymentStep dm, True), (BackupableStep lo, True), (CreateArtifactStep dm ts, True)];
          ended = list_all (\<lambda>(k, b). after_unlock k);
          ok = snd (p ! 4)
      in p = start @ [(LockStep lo ex, True), (BackupStep ex, ok), (PostBackupUnlockStep ok lo ex, snd (p ! 5))] @ drop 6 p \<and>
           ended (drop 6 p) \<or>
         p = start @ [(LockStep lo ex, False), (PostBackupUnlockStep False lo ex, ok)] @ drop 5 p \<and> ended (drop 5 p))"

lemma backuper_paths:
  "list_all (\<lambda>p. if worked is_CreateArtifact p then locking_path dm lo ex ts p
       else taken is_Lock p = 0 \<and> taken is_Backup p = 0 \<and> taken is_PostBackupUnlock p = 0)
     (all_paths (NewBackuper dm lo ex copier False ts))"
  by (simp add: NewBackuper_def workflow_defs path_defs locking_path_def after_unlock_def)

text \<open>The outcome of a backup in terms of its history: \<open>ok\<close> is the flag for the unlock scripts, \<open>locked\<close> and \<open>unlocked\<close>
  say whether all scripts of the two phases succeeded.\<close>

definition locked_and_released ::
  "('r, 'x) orch_env_scheme \<Rightarrow> KahnLockOrderer \<Rightarrow> Executor \<Rightarrow> deployment \<Rightarrow> bool \<Rightarrow> bool \<Rightarrow> bool \<Rightarrow>
     'r world \<Rightarrow> 'r world \<Rightarrow> bool" where
  "locked_and_released E lo ex dep ok locked unlocked w w' \<longleftrightarrow>
     (\<exists>w1 r1 w2 w3 r2 w4. grows w w1 \<and> succeeded r1 = locked \<and> succeeded r2 = unlocked \<and>
        PreBackupLock E lo ex dep w1 = (r1, w2) \<and>
        phase lock_events (must_precede (Before (constraintSpecifier lo))) (instances_Jobs (bd_instances dep)) r1 w1 w2 \<and>
        grows w2 w3 \<and>
        PostBackupUnlock E ok lo ex dep w3 = (r2, w4) \<and>
        phase (unlock_events ok) (\<lambda>a b. must_precede (Before (constraintSpecifier lo)) b a)
          (instances_Jobs (bd_instances dep)) r2 w3 w4 \<and>
        grows w4 w')"

lemma outcome_Cons: "outcome tr = (k, b) # p \<longleftrightarrow> (\<exists>r tr'. tr = (k, r) # tr' \<and> succeeded r = b \<and> outcome tr' = p)"
  by (auto simp: outcome_def)

lemma succeeded_iff: "succeeded r \<longleftrightarrow> r = Ok ()"
  by (simp add: succeeded_def)

lemma locking_path_cases:
  assumes "locking_path dm lo ex ts p"
  shows "(\<exists>ok b post. p = (FindDeploymentStep dm, True) # (BackupableStep lo, True) # (CreateArtifactStep dm ts, True) #
      (LockStep lo ex, True) # (BackupStep ex, ok) # (PostBackupUnlockStep ok lo ex, b) # post \<and>
      list_all (\<lambda>(k, b). after_unlock k) post) \<or>
    (\<exists>b post. p = (FindDeploymentStep dm, True) # (BackupableStep lo, True) # (CreateArtifactStep dm ts, True) #
      (LockStep lo ex, False) # (PostBackupUnlockStep False lo ex, b) # post \<and>
      list_all (\<lambda>(k, b). after_unlock k) post)"
  using assms unfolding locking_path_def Let_def append.simps by blast

lemma nothing_after_unlock:
  "list_all (\<lambda>(k, b). after_unlock k) p \<Longrightarrow> \<not> worked is_Backup p \<and> \<not> worked is_Lock p \<and> \<not> worked is_PostBackupUnlock p"
  by (induction p) (auto simp: worked_def after_unlock_def)

lemma outcome_list_all: "list_all (\<lambda>(k, b). P k) (outcome tr) \<longleftrightarrow> list_all (\<lambda>(k, r). P k) tr"
  by (induction tr) (auto simp: outcome_def)

lemma locking_path_shape:
  assumes "locking_path dm lo ex ts (outcome tr)"
  obtains r3 mid ok r5 post where
    "tr = (FindDeploymentStep dm, Ok ()) # (BackupableStep lo, Ok ()) # (CreateArtifactStep dm ts, Ok ()) #
       (LockStep lo ex, r3) # mid @ (PostBackupUnlockStep ok lo ex, r5) # post"
    "list_all (\<lambda>(k, r). \<not> is_Find k) mid" "ok = worked is_Backup (outcome tr)"
    "succeeded r3 = worked is_Lock (outcome tr)" "succeeded r5 = worked is_PostBackupUnlock (outcome tr)"
    "list_all (\<lambda>(k, r). \<not> is_Find k) post"
  using locking_path_cases [OF assms]
proof (elim disjE exE conjE)
  fix ok b p assume tr: "outcome tr = (FindDeploymentStep dm, True) # (BackupableStep lo, True) #
      (CreateArtifactStep dm ts, True) # (LockStep lo ex, True) # (BackupStep ex, ok) # (PostBackupUnlockStep ok lo ex, b) # p"
    and p: "list_all (\<lambda>(k, b). after_unlock k) p"
  from tr nothing_after_unlock [OF p] have ok: "ok = worked is_Backup (outcome tr)" "True = worked is_Lock (outcome tr)"
    "b = worked is_PostBackupUnlock (outcome tr)" by (simp_all add: worked_def)
  from tr obtain r3 r4 r5 post where tr': "tr = (FindDeploymentStep dm, Ok ()) # (BackupableStep lo, Ok ()) #
      (CreateArtifactStep dm ts, Ok ()) # (LockStep lo ex, r3) # [(BackupStep ex, r4)] @ (PostBackupUnlockStep ok lo ex, r5) # post"
    and r: "succeeded r3" "succeeded r5 = b" and "outcome post = p"
    by (auto simp: outcome_Cons succeeded_iff)
  with p have "list_all (\<lambda>(k, r). \<not> is_Find k) post"
    using outcome_list_all [of after_unlock post] by (auto elim!: list.pred_mono_strong simp: after_unlock_def)
  from that [OF tr' _ ok(1) _ _ this] ok r show thesis by simp
next
  fix b p assume tr: "outcome tr = (FindDeploymentStep dm, True) # (BackupableStep lo, True) #
      (CreateArtifactStep dm ts, True) # (LockStep lo ex, False) # (PostBackupUnlockStep False lo ex, b) # p"
    and p: "list_all (\<lambda>(k, b). after_unlock k) p"
  from tr nothing_after_unlock [OF p] have ok: "False = worked is_Backup (outcome tr)" "False = worked is_Lock (outcome tr)"
    "b = worked is_PostBackupUnlock (outcome tr)" by (simp_all add: worked_def)
  from tr obtain r3 r5 post where tr': "tr = (FindDeploymentStep dm, Ok ()) # (BackupableStep lo, Ok ()) #
      (CreateArtifactStep dm ts, Ok ()) # (LockStep lo ex, r3) # [] @ (PostBackupUnlockStep False lo ex, r5) # post"
    and r: "\<not> succeeded r3" "succeeded r5 = b" and "outcome post = p"
    by (auto simp: outcome_Cons succeeded_iff)
  with p have "list_all (\<lambda>(k, r). \<not> is_Find k) post"
    using outcome_list_all [of after_unlock post] by (auto elim!: list.pred_mono_strong simp: after_unlock_def)
  from that [OF tr' _ ok(1) _ _ this] ok r show thesis by simp
qed

lemma replays_ConsE:
  assumes "replays run (s, w) ((k, r) # tr) (s', w')"
  obtains s1 w1 where "run k (s, w) = (r, s1, w1)" "replays run (s1, w1) tr (s', w')"
  using assms by auto

lemma replays_appendE:
  assumes "replays run (s, w) (xs @ ys) (s', w')"
  obtains s1 w1 where "replays run (s, w) xs (s1, w1)" "replays run (s1, w1) ys (s', w')"
  using assms by (auto simp: replays_append)

lemma Step_grows: "Step_Run E k (session, w) = (r, session', w') \<Longrightarrow> grows w w'"
  using Step_Run_grows [of E k] unfolding step_keeps_def by blast

lemma locking_run:
  assumes run: "replays (Step_Run E) (session, w) tr (session', w')" and path: "locking_path dm lo ex ts (outcome tr)"
  shows "\<exists>dep. session_deployment session' = Some dep \<and>
    locked_and_released E lo ex dep (worked is_Backup (outcome tr)) (worked is_Lock (outcome tr))
      (worked is_PostBackupUnlock (outcome tr)) w w'"
proof -
  from path obtain r3 mid ok r5 post where
    tr: "tr = (FindDeploymentStep dm, Ok ()) # (BackupableStep lo, Ok ()) # (CreateArtifactStep dm ts, Ok ()) #
       (LockStep lo ex, r3) # mid @ (PostBackupUnlockStep ok lo ex, r5) # post"
    and frame1: "list_all (\<lambda>(k, r). \<not> is_Find k) mid"
    and ok: "ok = worked is_Backup (outcome tr)"
    and results: "succeeded r3 = worked is_Lock (outcome tr)" "succeeded r5 = worked is_PostBackupUnlock (outcome tr)"
    and frame2: "list_all (\<lambda>(k, r). \<not> is_Find k) post"
    by (rule locking_path_shape)
  note run' = run [unfolded tr]
  from run' obtain s0 u0 where find: "Step_Run E (FindDeploymentStep dm) (session, w) = (Ok (), s0, u0)" and
    t0: "replays (Step_Run E) (s0, u0) ((BackupableStep lo, Ok ()) # (CreateArtifactStep dm ts, Ok ()) # (LockStep lo ex, r3) #
      mid @ (PostBackupUnlockStep ok lo ex, r5) # post) (session', w')" by (rule replays_ConsE)
  from t0 obtain s1 u1 where check: "Step_Run E (BackupableStep lo) (s0, u0) = (Ok (), s1, u1)" and
    t1: "replays (Step_Run E) (s1, u1) ((CreateArtifactStep dm ts, Ok ()) # (LockStep lo ex, r3) #
      mid @ (PostBackupUnlockStep ok lo ex, r5) # post) (session', w')" by (rule replays_ConsE)
  from t1 obtain s2 u2 where create: "Step_Run E (CreateArtifactStep dm ts) (s1, u1) = (Ok (), s2, u2)" and
    t2: "replays (Step_Run E) (s2, u2) ((LockStep lo ex, r3) # mid @ (PostBackupUnlockStep ok lo ex, r5) # post) (session', w')"
    by (rule replays_ConsE)
  from t2 obtain s3 u3 where lock: "Step_Run E (LockStep lo ex) (s2, u2) = (r3, s3, u3)" and
    t3: "replays (Step_Run E) (s3, u3) (mid @ (PostBackupUnlockStep ok lo ex, r5) # post) (session', w')" by (rule replays_ConsE)
  from t3 obtain s4 u4 where mid: "replays (Step_Run E) (s3, u3) mid (s4, u4)" and
    t4: "replays (Step_Run E) (s4, u4) ((PostBackupUnlockStep ok lo ex, r5) # post) (session', w')" by (rule replays_appendE)
  from t4 obtain s5 u5 where unlock: "Step_Run E (PostBackupUnlockStep ok lo ex) (s4, u4) = (r5, s5, u5)" and
    post: "replays (Step_Run E) (s5, u5) post (session', w')" by (rule replays_ConsE)
  from find obtain dep where dep0: "session_deployment s0 = Some dep" by (rule Find_Ok)
  from Backupable_Ok [OF check dep0] obtain st where
    st: "KahnLockOrderer_Order lo (instances_Jobs (bd_instances dep)) = Ok st" and s1: "s1 = s0" by blast
  have dep2: "session_deployment s2 = Some dep" using Step_Run_keeps_deployment [OF create] dep0 s1 by simp
  from lock dep2 obtain r1 where r1: "PreBackupLock E lo ex dep u2 = (r1, u3)" "succeeded r1 = succeeded r3" and s3: "s3 = s2"
    by (rule Lock_runs)
  note mid' = replays_frame [OF mid] and post' = replays_frame [OF post]
  from mid' frame1 dep2 s3 have dep4: "session_deployment s4 = Some dep" by simp
  from unlock dep4 obtain r2 where r2: "PostBackupUnlock E ok lo ex dep u4 = (r2, u5)" "succeeded r2 = succeeded r5" and s5: "s5 = s4"
    by (rule Unlock_runs)
  have "grows w u2" by (blast intro: grows_trans Step_grows find check create)
  then have "locked_and_released E lo ex dep (worked is_Backup (outcome tr)) (worked is_Lock (outcome tr))
      (worked is_PostBackupUnlock (outcome tr)) w w'"
    unfolding locked_and_released_def ok [symmetric] results [symmetric]
    using r1 lock_phase [OF st r1(1)] mid' r2 unlock_phase [OF st r2(1)] post' by blast
  with post' frame2 dep4 s5 show ?thesis by auto
qed

text \<open>C1: the history of a whole backup with locks. If it got as far as creating the artifact, there is one
  deployment on which the locks were taken and released, in this order: the pre-backup-lock script
  of each job at most once and in an order its metadata allows, and after that the post-backup-unlock
  script of each job at most once, in an order that reverses the constraints and with the
  flag that says whether every backup script succeeded; neither phase can be refused for a cyclic
  constraint graph. Everything else only adds to the history. If no artifact was created,
  nothing was locked, backed up or unlocked.\<close>

theorem backup_history:
  "case Workflow_Run (NewBackuper dm lo ex copier False ts) (traced (Step_Run E)) ([], session, w) of
     Some (Ok errs, tr, session', w') \<Rightarrow>
       (if worked is_CreateArtifact (outcome tr)
        then \<exists>dep. session_deployment session' = Some dep \<and>
          locked_and_released E lo ex dep (worked is_Backup (outcome tr)) (worked is_Lock (outcome tr))
            (worked is_PostBackupUnlock (outcome tr)) w w'
        else taken is_Lock (outcome tr) = 0 \<and> taken is_Backup (outcome tr) = 0 \<and>
          taken is_PostBackupUnlock (outcome tr) = 0 \<and> grows w w')
   | Some (Panic m, tr, session', w') \<Rightarrow> grows w w'
   | _ \<Rightarrow> False"
proof -
  let ?B = "NewBackuper dm lo ex copier False ts"
  obtain tr session' w' where run: "Workflow_Run ?B (traced (Step_Run E)) ([], session, w) = Some (run_result [] tr, tr, session', w')"
    and rep: "replays (Step_Run E) (session, w) tr (session', w')"
    using backuper.run_returns [of dm lo ex copier False ts "Step_Run E" "(session, w)"] by auto
  show ?thesis
  proof (cases "run_result [] tr")
    case (Ok errs)
    with run have "Workflow_Run ?B (traced (Step_Run E)) ([], session, w) = Some (Ok errs, tr, session', w')" by simp
    from backuper.run_replays [OF this] backuper_paths [of dm lo ex ts copier]
    have "if worked is_CreateArtifact (outcome tr) then locking_path dm lo ex ts (outcome tr)
      else taken is_Lock (outcome tr) = 0 \<and> taken is_Backup (outcome tr) = 0 \<and> taken is_PostBackupUnlock (outcome tr) = 0"
      unfolding list_all_iff by blast
    with Ok run locking_run [OF rep] replays_frame [OF rep] show ?thesis by (auto split: if_splits)
  next
    case (Panic m)
    with run replays_frame [OF rep] show ?thesis by simp
  qed (use run in simp)
qed

end
