(* ===== verification/Restore_Protocol.thy ===== *)
theory Restore_Protocol
  imports Protocol
begin

text \<open>
  The history of a whole restore, in the way of the theory \<open>Protocol\<close>: the lock and unlock phases around the
  restore scripts, on the deployment that was found and checked.
\<close>

section \<open>The steps of a restore\<close>

lemma Restorable_Ok:
  assumes "Step_Run E (RestorableStep lo) (session, w) = (Ok u, session', w')" "session_deployment session = Some dep"
  shows "session' = session \<and> (\<exists>st. KahnLockOrderer_Order lo (instances_Jobs (bd_instances dep)) = Ok st)"
proof -
  from assms have "session' = session" and run: "RestorableStep_Run E lo session w = (Ok u, w')"
    by (auto simp: keep_session_def split: prod.splits)
  moreover from run assms(2) have "ValidateLockingDependencies lo dep = Ok u"
    by (auto simp: RestorableStep_Run_def with_deployment_def with_artifact_def bindr_eq_Ok split: if_splits option.splits result.splits)
  ultimately show ?thesis
    by (cases "KahnLockOrderer_Order lo (instances_Jobs (bd_instances dep))") (auto simp: ValidateLockingDependencies_def)
qed

lemma PreRestoreLock_runs:
  assumes "Step_Run E (PreRestoreLockStep lo ex) (session, w) = (r, session', w')" "session_deployment session = Some dep"
  obtains r0 where "PreRestoreLock E lo ex dep w = (r0, w')" "succeeded r0 = succeeded r" "session' = session"
proof -
  obtain r0 w0 where run: "PreRestoreLock E lo ex dep w = (r0, w0)" by fastforce
  with assms have "wrapped ''pre-restore-lock failed'' (PreRestoreLock E lo ex dep) w = (r, w')" "session' = session"
    by (auto simp: keep_session_def PreRestoreLockStep_Run_def with_deployment_def split: prod.splits)
  with run that show thesis by (cases r0) (auto simp: wrapped_def)
qed

lemma PostRestoreUnlock_runs:
  assumes "Step_Run E (PostRestoreUnlockStep lo ex) (session, w) = (r, session', w')" "session_deployment session = Some dep"
  obtains r0 where "PostRestoreUnlock E lo ex dep w = (r0, w')" "succeeded r0 = succeeded r" "session' = session"
  using assms
  by (auto simp: keep_session_def PostRestoreUnlockStep_Run_def with_deployment_def split: prod.splits elim!: map_errE)

lemma restore_lock_phase:
  assumes "KahnLockOrderer_Order lo (instances_Jobs (bd_instances dep)) = Ok st" "PreRestoreLock E lo ex dep w = (r, w')"
  shows "phase restore_lock_events (must_precede (Before (constraintSpecifier lo))) (instances_Jobs (bd_instances dep)) r w w'"
  by (rule ordered_lock_phase [OF assms(1) attempts_restore_lock]) (use assms in \<open>simp add: PreRestoreLock_def with_order_def\<close>)

lemma restore_unlock_phase:
  assumes "KahnLockOrderer_Order lo (instances_Jobs (bd_instances dep)) = Ok st" "PostRestoreUnlock E lo ex dep w = (r, w')"
  shows "phase restore_unlock_events (\<lambda>a b. must_precede (Before (constraintSpecifier lo)) b a) (instances_Jobs (bd_instances dep)) r w w'"
  by (rule ordered_unlock_phase [OF assms(1) attempts_restore_unlock]) (use assms in \<open>simp add: PostRestoreUnlock_def with_order_def\<close>)

section \<open>Paths\<close>

text \<open>A restore that attempted to lock: the steps before, the restore scripts only after a successful lock, one unlock.\<close>

definition restoring_path :: "DeploymentManager \<Rightarrow> KahnLockOrderer \<Rightarrow> Executor \<Rightarrow> Executor \<Rightarrow> (Step \<times> bool) list \<Rightarrow> bool" where
  "restoring_path dm lo ex copier p \<longleftrightarrow>
     (let start = [(ValidateArtifactStep, True), (FindDeploymentStep dm, True), (RestorableStep lo, True), (CopyToRemoteStep copier, True)]
      in p = start @ [(PreRestoreLockStep lo ex, True), (RestoreStep, snd (p ! 5)), (PostRestoreUnlockStep lo ex, snd (p ! 6)),
               (CleanupStep, snd (p ! 7))] \<or>
         p = start @ [(PreRestoreLockStep lo ex, False), (PostRestoreUnlockStep lo ex, snd (p ! 5)), (CleanupStep, snd (p ! 6))])"

lemma restorer_paths:
  "list_all (\<lambda>p. if 0 < taken is_PreRestoreLock p then restoring_path dm lo ex copier p
       else taken is_Restore p = 0 \<and> taken is_PostRestoreUnlock p = 0)
     (all_paths (NewRestorer dm lo ex copier))"
  by (simp add: NewRestorer_def workflow_defs path_defs restoring_path_def)

lemma outcome_Nil: "outcome tr = [] \<longleftrightarrow> tr = []"
  by (simp add: outcome_def)

lemma restoring_path_shape:
  assumes "restoring_path dm lo ex copier (outcome tr)"
  obtains r4 mid r6 r7 where
    "tr = (ValidateArtifactStep, Ok ()) # (FindDeploymentStep dm, Ok ()) # (RestorableStep lo, Ok ()) # (CopyToRemoteStep copier, Ok ()) #
       (PreRestoreLockStep lo ex, r4) # mid @ [(PostRestoreUnlockStep lo ex, r6), (CleanupStep, r7)]"
    "if succeeded r4 then \<exists>r5. mid = [(RestoreStep, r5)] else mid = []"
proof -
  from assms consider
    (locked) b5 b6 b7 where "outcome tr = (ValidateArtifactStep, True) # (FindDeploymentStep dm, True) # (RestorableStep lo, True) #
        (CopyToRemoteStep copier, True) # (PreRestoreLockStep lo ex, True) # (RestoreStep, b5) # (PostRestoreUnlockStep lo ex, b6) #
        (CleanupStep, b7) # []"
    | (failed) b5 b6 where "outcome tr = (ValidateArtifactStep, True) # (FindDeploymentStep dm, True) # (RestorableStep lo, True) #
        (CopyToRemoteStep copier, True) # (PreRestoreLockStep lo ex, False) # (PostRestoreUnlockStep lo ex, b5) # (CleanupStep, b6) # []"
    unfolding restoring_path_def Let_def append.simps by blast
  then show thesis
  proof cases
    case locked
    then obtain r5 r6 r7 where "tr = (ValidateArtifactStep, Ok ()) # (FindDeploymentStep dm, Ok ()) # (RestorableStep lo, Ok ()) #
        (CopyToRemoteStep copier, Ok ()) # (PreRestoreLockStep lo ex, Ok ()) # [(RestoreStep, r5)] @
        [(PostRestoreUnlockStep lo ex, r6), (CleanupStep, r7)]"
      by (auto simp: outcome_Cons outcome_Nil succeeded_iff)
    from that [OF this] show thesis by (simp add: succeeded_iff)
  next
    case failed
    then obtain r4 r5 r6 where "tr = (ValidateArtifactStep, Ok ()) # (FindDeploymentStep dm, Ok ()) # (RestorableStep lo, Ok ()) #
        (CopyToRemoteStep copier, Ok ()) # (PreRestoreLockStep lo ex, r4) # [] @
        [(PostRestoreUnlockStep lo ex, r5), (CleanupStep, r6)]" and "\<not> succeeded r4"
      by (auto simp: outcome_Cons outcome_Nil succeeded_iff)
    from that [OF this(1)] this(2) show thesis by simp
  qed
qed

text \<open>The outcome of a restore in terms of its history; \<open>locked\<close> and \<open>unlocked\<close> say whether the two phases succeeded.\<close>

definition restored_under_locks ::
  "('r, 'x) orch_env_scheme \<Rightarrow> KahnLockOrderer \<Rightarrow> Executor \<Rightarrow> deployment \<Rightarrow> bool \<Rightarrow> bool \<Rightarrow> 'r world \<Rightarrow> 'r world \<Rightarrow> bool" where
  "restored_under_locks E lo ex dep locked unlocked w w' \<longleftrightarrow>
     (\<exists>w1 r1 w2 w3 r2 w4. grows w w1 \<and> succeeded r1 = locked \<and> succeeded r2 = unlocked \<and>
        PreRestoreLock E lo ex dep w1 = (r1, w2) \<and>
        phase restore_lock_events (must_precede (Before (constraintSpecifier lo))) (instances_Jobs (bd_instances dep)) r1 w1 w2 \<and>
        (if succeeded r1 then \<exists>r. Deployment_Restore E dep w2 = (r, w3) else w3 = w2) \<and>
        PostRestoreUnlock E lo ex dep w3 = (r2, w4) \<and>
        phase restore_unlock_events (\<lambda>a b. must_precede (Before (constraintSpecifier lo)) b a)
          (instances_Jobs (bd_instances dep)) r2 w3 w4 \<and>
        grows w4 w')"

lemma Restore_runs:
  assumes "Step_Run E RestoreStep (session, w) = (r, session', w')" "session_deployment session = Some dep"
  shows "session' = session \<and> (\<exists>r0. Deployment_Restore E dep w = (r0, w'))"
proof -
  obtain r0 w0 where "Deployment_Restore E dep w = (r0, w0)" by fastforce
  with assms show ?thesis
    by (auto simp: keep_session_def RestoreStep_Run_def with_deployment_def wrapped_def split: prod.splits)
qed

lemma restoring_run:
  assumes run: "replays (Step_Run E) (session, w) tr (session', w')" and path: "restoring_path dm lo ex copier (outcome tr)"
  shows "\<exists>dep. session_deployment session' = Some dep \<and>
    restored_under_locks E lo ex dep (worked is_PreRestoreLock (outcome tr)) (worked is_PostRestoreUnlock (outcome tr)) w w'"
proof -
  from path obtain r4 mid r6 r7 where
    tr: "tr = (ValidateArtifactStep, Ok ()) # (FindDeploymentStep dm, Ok ()) # (RestorableStep lo, Ok ()) # (CopyToRemoteStep copier, Ok ()) #
       (PreRestoreLockStep lo ex, r4) # mid @ [(PostRestoreUnlockStep lo ex, r6), (CleanupStep, r7)]"
    and shape: "if succeeded r4 then \<exists>r5. mid = [(RestoreStep, r5)] else mid = []"
    by (rule restoring_path_shape)
  from tr shape have results: "worked is_PreRestoreLock (outcome tr) = succeeded r4"
    "worked is_PostRestoreUnlock (outcome tr) = succeeded r6"
    by (auto simp: worked_def outcome_def split: if_splits)
  let ?rest = "mid @ [(PostRestoreUnlockStep lo ex, r6), (CleanupStep, r7)]"
  note run' = run [unfolded tr]
  from run' obtain s0 u0 where valid: "Step_Run E ValidateArtifactStep (session, w) = (Ok (), s0, u0)" and
    t0: "replays (Step_Run E) (s0, u0) ((FindDeploymentStep dm, Ok ()) # (RestorableStep lo, Ok ()) # (CopyToRemoteStep copier, Ok ()) #
       (PreRestoreLockStep lo ex, r4) # ?rest) (session', w')" by (rule replays_ConsE)
  from t0 obtain s1 u1 where find: "Step_Run E (FindDeploymentStep dm) (s0, u0) = (Ok (), s1, u1)" and
    t1: "replays (Step_Run E) (s1, u1) ((RestorableStep lo, Ok ()) # (CopyToRemoteStep copier, Ok ()) #
       (PreRestoreLockStep lo ex, r4) # ?rest) (session', w')" by (rule replays_ConsE)
  from t1 obtain s2 u2 where check: "Step_Run E (RestorableStep lo) (s1, u1) = (Ok (), s2, u2)" and
    t2: "replays (Step_Run E) (s2, u2) ((CopyToRemoteStep copier, Ok ()) # (PreRestoreLockStep lo ex, r4) # ?rest) (session', w')"
    by (rule replays_ConsE)
  from t2 obtain s3 u3 where copy: "Step_Run E (CopyToRemoteStep copier) (s2, u2) = (Ok (), s3, u3)" and
    t3: "replays (Step_Run E) (s3, u3) ((PreRestoreLockStep lo ex, r4) # ?rest) (session', w')" by (rule replays_ConsE)
  from t3 obtain s4 u4 where lock: "Step_Run E (PreRestoreLockStep lo ex) (s3, u3) = (r4, s4, u4)" and
    t4: "replays (Step_Run E) (s4, u4) ?rest (session', w')" by (rule replays_ConsE)
  from t4 obtain s5 u5 where mid: "replays (Step_Run E) (s4, u4) mid (s5, u5)" and
    t5: "replays (Step_Run E) (s5, u5) [(PostRestoreUnlockStep lo ex, r6), (CleanupStep, r7)] (session', w')" by (rule replays_appendE)
  from t5 obtain s6 u6 where unlock: "Step_Run E (PostRestoreUnlockStep lo ex) (s5, u5) = (r6, s6, u6)" and
    post: "replays (Step_Run E) (s6, u6) [(CleanupStep, r7)] (session', w')" by (rule replays_ConsE)
  from find obtain dep where dep1: "session_deployment s1 = Some dep" by (rule Find_Ok)
  from Restorable_Ok [OF check dep1] obtain st where
    st: "KahnLockOrderer_Order lo (instances_Jobs (bd_instances dep)) = Ok st" and s2: "s2 = s1" by blast
  have dep3: "session_deployment s3 = Some dep" using Step_Run_keeps_deployment [OF copy] dep1 s2 by simp
  from lock dep3 obtain r1 where r1: "PreRestoreLock E lo ex dep u3 = (r1, u4)" and ok: "succeeded r1 = succeeded r4"
    and s4: "s4 = s3" by (rule PreRestoreLock_runs)
  have middle: "s5 = s4 \<and> (if succeeded r1 then \<exists>r. Deployment_Restore E dep u4 = (r, u5) else u5 = u4)"
  proof (cases "succeeded r4")
    case True
    with shape obtain r5 where "mid = [(RestoreStep, r5)]" by auto
    with mid have "replays (Step_Run E) (s4, u4) ((RestoreStep, r5) # []) (s5, u5)" by simp
    then obtain s u where "Step_Run E RestoreStep (s4, u4) = (r5, s, u)" "replays (Step_Run E) (s, u) [] (s5, u5)" by (rule replays_ConsE)
    with Restore_runs [of E s4 u4 r5 s u dep] dep3 s4 ok True show ?thesis by simp
  next
    case False
    with shape mid ok show ?thesis by simp
  qed
  with s4 dep3 have dep5: "session_deployment s5 = Some dep" by simp
  from unlock dep5 obtain r2 where r2: "PostRestoreUnlock E lo ex dep u5 = (r2, u6)" and ok2: "succeeded r2 = succeeded r6"
    and s6: "s6 = s5" by (rule PostRestoreUnlock_runs)
  note post' = replays_frame [OF post]
  have "grows w u3" by (blast intro: grows_trans Step_grows valid find check copy)
  then have "restored_under_locks E lo ex dep (succeeded r4) (succeeded r6) w w'"
    unfolding restored_under_locks_def
    using r1 restore_lock_phase [OF st r1] middle r2 restore_unlock_phase [OF st r2] post' ok ok2 by blast
  with post' s6 dep5 results show ?thesis by auto
qed

section \<open>Properties\<close>

text \<open>C7: the history of a whole restore. If locking was attempted, there is one deployment, found and checked before, on
  which the pre-restore-lock scripts ran, each at most once and in an order the restore
  constraints allow; the restore scripts ran directly after that if locking succeeded, and
  not at all otherwise; then the post-restore-unlock scripts ran, each at most once and in an order that
  reverses the constraints. Neither phase can be refused for a cyclic constraint graph. If locking
  was not attempted, no restore and no unlock step was run.\<close>

theorem restore_history:
  "case Workflow_Run (NewRestorer dm lo ex copier) (traced (Step_Run E)) ([], session, w) of
     Some (Ok errs, tr, session', w') \<Rightarrow>
       (if 0 < taken is_PreRestoreLock (outcome tr)
        then \<exists>dep. session_deployment session' = Some dep \<and>
          restored_under_locks E lo ex dep (worked is_PreRestoreLock (outcome tr)) (worked is_PostRestoreUnlock (outcome tr)) w w'
        else taken is_Restore (outcome tr) = 0 \<and> taken is_PostRestoreUnlock (outcome tr) = 0 \<and> grows w w')
   | Some (Panic m, tr, session', w') \<Rightarrow> grows w w'
   | _ \<Rightarrow> False"
proof -
  let ?B = "NewRestorer dm lo ex copier"
  obtain tr session' w' where run: "Workflow_Run ?B (traced (Step_Run E)) ([], session, w) = Some (run_result [] tr, tr, session', w')"
    and rep: "replays (Step_Run E) (session, w) tr (session', w')"
    using restorer.run_returns [of dm lo ex copier "Step_Run E" "(session, w)"] by auto
  show ?thesis
  proof (cases "run_result [] tr")
    case (Ok errs)
    with run have "Workflow_Run ?B (traced (Step_Run E)) ([], session, w) = Some (Ok errs, tr, session', w')" by simp
    from restorer.run_replays [OF this] restorer_paths [of dm lo ex copier]
    have "if 0 < taken is_PreRestoreLock (outcome tr) then restoring_path dm lo ex copier (outcome tr)
      else taken is_Restore (outcome tr) = 0 \<and> taken is_PostRestoreUnlock (outcome tr) = 0"
      unfolding list_all_iff by blast
    with Ok run restoring_run [OF rep] replays_frame [OF rep] show ?thesis by (auto split: if_splits)
  next
    case (Panic m)
    with run replays_frame [OF rep] show ?thesis by simp
  qed (use run in simp)
qed

end
