(* ===== verification/Session_Types.thy ===== *)
theory Session_Types
  imports Restore_Protocol
begin

text \<open>
  What a session holds when a step runs. A session is created without a deployment and without an
  artifact (\<^verbatim>\<open>orchestrator/session.go\<close>), and the steps dereference both without a check. A type of a
  session says which of the two it is known to hold; the typing of a step says what it needs
  and what it leaves. Preservation and progress are proved for \<open>Step_Run\<close>, the typing is
  checked on the finitely many paths of each workflow, and soundness follows for every run: no
  step is reached without what it dereferences, and a panic can only come from a step that
  parses what a remote machine, the director or a file holds.
\<close>

section \<open>Types of sessions\<close>

record session_type =
  knows_deployment :: bool
  knows_artifact :: bool

definition has_type :: "Session \<Rightarrow> session_type \<Rightarrow> bool" where
  "has_type session t \<longleftrightarrow>
     (knows_deployment t \<longrightarrow> session_deployment session \<noteq> None) \<and> (knows_artifact t \<longrightarrow> currentArtifact session \<noteq> None)"

text \<open>What \<^verbatim>\<open>Run\<close> of a step dereferences.\<close>

fun needs :: "Step \<Rightarrow> session_type" where
  "needs (FindDeploymentStep _) = \<lparr>knows_deployment = False, knows_artifact = False\<rparr>"
| "needs (CreateArtifactStep _ _) = \<lparr>knows_deployment = False, knows_artifact = False\<rparr>"
| "needs AddFinishTimeStep = \<lparr>knows_deployment = False, knows_artifact = False\<rparr>"
| "needs (SkipStep _) = \<lparr>knows_deployment = False, knows_artifact = False\<rparr>"
| "needs ValidateArtifactStep = \<lparr>knows_deployment = False, knows_artifact = False\<rparr>"
| "needs (DrainStep _) = \<lparr>knows_deployment = True, knows_artifact = True\<rparr>"
| "needs (RestorableStep _) = \<lparr>knows_deployment = True, knows_artifact = True\<rparr>"
| "needs (CopyToRemoteStep _) = \<lparr>knows_deployment = True, knows_artifact = True\<rparr>"
| "needs _ = \<lparr>knows_deployment = True, knows_artifact = False\<rparr>"

definition accepts :: "Step \<Rightarrow> session_type \<Rightarrow> bool" where
  "accepts k t \<longleftrightarrow> (knows_deployment (needs k) \<longrightarrow> knows_deployment t) \<and> (knows_artifact (needs k) \<longrightarrow> knows_artifact t)"

text \<open>The type after a step that succeeded (\<open>b\<close>) or failed.\<close>

definition type_after :: "Step \<Rightarrow> bool \<Rightarrow> session_type \<Rightarrow> session_type" where
  "type_after k b t =
     \<lparr>knows_deployment = (knows_deployment t \<or> is_Find k \<and> b),
      knows_artifact = (knows_artifact t \<or> (is_CreateArtifact k \<or> is_ValidateArtifact k) \<and> b)\<rparr>"

fun well_typed :: "session_type \<Rightarrow> (Step \<times> bool) list \<Rightarrow> bool" where
  "well_typed t [] = True"
| "well_typed t ((k, b) # p) \<longleftrightarrow> accepts k t \<and> well_typed (type_after k b t) p"

text \<open>The type of a new session.\<close>

definition new_type :: session_type where
  "new_type = \<lparr>knows_deployment = False, knows_artifact = False\<rparr>"

lemma any_session_has_new_type [simp]: "has_type session new_type"
  by (simp add: has_type_def new_type_def)

lemma accepted_has_needs: "accepts k t \<Longrightarrow> has_type session t \<Longrightarrow> has_type session (needs k)"
  by (auto simp: accepts_def has_type_def)


lemma well_typed_prefix: "prefix q p \<Longrightarrow> well_typed t p \<Longrightarrow> well_typed t q"
proof (induction q arbitrary: p t)
  case (Cons a q)
  then obtain p' where p': "p = a # p'" "prefix q p'" by (cases p) auto
  obtain k b where "a = (k, b)" by fastforce
  with Cons p' show ?case by simp
qed simp

section \<open>Preservation\<close>

text \<open>No step takes the deployment or the artifact out of a session.\<close>

lemma Step_Run_keeps:
  assumes "Step_Run E k (session, w) = (r, session', w')"
  shows "session_deployment session \<noteq> None \<Longrightarrow> session_deployment session' \<noteq> None"
    and "currentArtifact session \<noteq> None \<Longrightarrow> currentArtifact session' \<noteq> None"
  using assms
  by (cases k; auto simp: keep_session_def FindDeploymentStep_Run_def CreateArtifactStep_Run_def ValidateArtifactStep_Run_def
      SetCurrentArtifact_def SetCurrentDeployment_def split: prod.splits result.splits)+

lemma Step_Run_provides_artifact:
  assumes "Step_Run E k (session, w) = (Ok u, session', w')" "is_CreateArtifact k \<or> is_ValidateArtifact k"
  shows "currentArtifact session' \<noteq> None"
  using assms
  by (cases k) (auto simp: CreateArtifactStep_Run_def ValidateArtifactStep_Run_def SetCurrentArtifact_def
      split: prod.splits result.splits)

lemma Step_Run_provides_deployment:
  assumes "Step_Run E k (session, w) = (Ok u, session', w')" "is_Find k"
  shows "session_deployment session' \<noteq> None"
  using assms by (cases k) (auto elim: Find_Ok simp del: Step_Run.simps)

lemma preservation:
  assumes "Step_Run E k (session, w) = (r, session', w')" "has_type session t"
  shows "has_type session' (type_after k (succeeded r) t)"
proof (cases "succeeded r")
  case True
  then have "Step_Run E k (session, w) = (Ok (), session', w')" using assms(1) by (simp add: succeeded_iff)
  from Step_Run_provides_artifact [OF this] Step_Run_provides_deployment [OF this] Step_Run_keeps [OF this] assms(2)
  show ?thesis by (auto simp: has_type_def type_after_def)
qed (use Step_Run_keeps [OF assms(1)] assms(2) in \<open>auto simp: has_type_def type_after_def\<close>)

section \<open>Progress\<close>

definition no_panic :: "('r, 'a) io \<Rightarrow> bool" where
  "no_panic m \<longleftrightarrow> (\<forall>w. \<not> is_panic (fst (m w)))"

named_theorems no_panic_intros \<open>rules for \<open>no_panic\<close>\<close>

lemma no_panicI: "(\<And>w r w'. m w = (r, w') \<Longrightarrow> \<forall>p. r \<noteq> Panic p) \<Longrightarrow> no_panic m"
  unfolding no_panic_def by (metis is_panic.elims(2) prod.collapse)

lemma no_panicD: "no_panic m \<Longrightarrow> m w \<noteq> (Panic p, w')"
  unfolding no_panic_def by (metis fst_conv is_panic.simps(1))

lemma no_panic_bindr [no_panic_intros]: "no_panic m \<Longrightarrow> (\<And>x. no_panic (f x)) \<Longrightarrow> no_panic (bindr m f)"
  by (rule no_panicI, erule bindrE) (auto dest: no_panicD)

lemma no_panic_wrapped [no_panic_intros]: "no_panic m \<Longrightarrow> no_panic (wrapped msg m)"
  by (rule no_panicI, erule wrappedE) (auto dest: no_panicD)

lemma no_panic_map_err [no_panic_intros]: "no_panic m \<Longrightarrow> no_panic (map_err f m)"
  by (rule no_panicI) (auto simp: map_err_def split: prod.splits result.splits dest: no_panicD)

lemma no_panic_pure [no_panic_intros]: "\<not> is_panic x \<Longrightarrow> no_panic (\<lambda>w. (x, w))"
  by (simp add: no_panic_def)

lemma no_panic_if [no_panic_intros]:
  "no_panic f \<Longrightarrow> no_panic g \<Longrightarrow> no_panic (\<lambda>w. if b then f w else g w)"
  by (simp add: no_panic_def)

lemma map_result_Panic: "map_result f r = Panic p \<longleftrightarrow> r = Panic p"
  by (cases r) simp_all

lemma of_error_returns [simp]: "\<not> is_panic (of_error e)"
  by (cases e) simp_all

lemma no_panic_runStage [no_panic_intros]: "(\<And>x. x \<in> set xs \<Longrightarrow> no_panic x) \<Longrightarrow> no_panic (runStage xs es)"
proof (induction xs arbitrary: es)
  case (Cons x xs)
  then have x: "no_panic x" and xs: "no_panic (runStage xs es')" for es' by simp_all
  show ?case
  proof (rule no_panicI)
    fix w r w' assume "runStage (x # xs) es w = (r, w')"
    with x xs show "\<forall>p. r \<noteq> Panic p" by (auto split: prod.splits result.splits dest: no_panicD)
  qed
qed (simp add: no_panic_def)

lemma no_panic_collect [no_panic_intros]: "(\<And>x. x \<in> set xs \<Longrightarrow> no_panic x) \<Longrightarrow> no_panic (collect xs)"
  unfolding collect_def by (intro no_panic_intros of_error_returns)

lemma no_panic_run_stages [no_panic_intros]:
  assumes "\<And>x. x \<in> set (concat stages) \<Longrightarrow> no_panic x"
  shows "no_panic (run_stages E ex stages)"
  unfolding run_stages_def
proof (intro no_panic_intros of_error_returns, rule no_panicI)
  fix w r w' assume run: "Executor_Run (finish_order E) ex stages w = (r, w')"
  obtain yss where yss: "same_stages stages yss" "runStage (concat yss) [] w = (r, w')"
    using executor.run_stages [OF any_executor [of "finish_order E" ex], of stages w] run by auto
  have "set (concat yss) = set (concat stages)" using same_stages_concat [OF yss(1)] by (metis set_mset_mset)
  with assms have "no_panic (runStage (concat yss) [])" by (intro no_panic_runStage) (simp only:)
  with yss(2) show "\<forall>p. r \<noteq> Panic p" by (auto dest: no_panicD)
qed

text \<open>The operations that run scripts or look for directories do not panic.\<close>

lemma no_panic_scripts [no_panic_intros]:
  "no_panic (Job_Backup E j)" "no_panic (Job_Restore E j)"
proof -
  have q: "no_panic (RunScriptQuietly E c s vars)" for c s vars
    by (rule no_panicI) (blast dest: RunScriptQuietly_frame)
  have d: "no_panic (CreateDirectory E c dir)" for c dir
    by (rule no_panicI) (blast dest: CreateDirectory_frame)
  show "no_panic (Job_Backup E j)" "no_panic (Job_Restore E j)"
    unfolding Job_Backup_def [abs_def] Job_Restore_def [abs_def] by (intro no_panic_intros q d; simp)+
qed

lemma no_panic_phases [no_panic_intros]:
  "no_panic (PreBackupLock E lo ex bd)" "no_panic (PostBackupUnlock E ok lo ex bd)"
  "no_panic (PreRestoreLock E lo ex bd)" "no_panic (PostRestoreUnlock E lo ex bd)"
  unfolding PreBackupLock_def PostBackupUnlock_def PreRestoreLock_def PostRestoreUnlock_def
     apply (rule no_panicI, erule conjunct1 [OF with_order_lock_phase [OF _ attempts_lock]])
    apply (rule no_panicI, erule conjunct1 [OF with_order_unlock_phase [OF _ attempts_unlock]])
   apply (rule no_panicI, erule conjunct1 [OF with_order_lock_phase [OF _ attempts_restore_lock]])
  apply (rule no_panicI, erule conjunct1 [OF with_order_unlock_phase [OF _ attempts_restore_unlock]])
  done

lemma no_panic_Deployment_Backup [no_panic_intros]: "no_panic (Deployment_Backup E ex bd)"
proof -
  let ?is = "AllBackupable (bd_instances bd)"
  have "no_panic (run_stages E ex [concat (map (\<lambda>i. map (NewBackupExecutable E) (inst_jobs i)) ?is)])"
    by (intro no_panic_intros) (auto simp: NewBackupExecutable_def intro: no_panic_intros)
  then show ?thesis by (simp add: no_panic_def Deployment_Backup_def)
qed

lemma no_panic_Deployment_Restore [no_panic_intros]: "no_panic (Deployment_Restore E bd)"
proof -
  have "no_panic (instances_Restore E is)" for "is"
  proof (induction "is")
    case (Cons i "is")
    have "no_panic (Instance_Restore E i)"
      unfolding Instance_Restore_def by (intro no_panic_intros) (auto intro: no_panic_intros)
    with Cons have "no_panic (bindr (Instance_Restore E i) (\<lambda>_. instances_Restore E is))" by (intro no_panic_intros)
    then show ?case by (simp add: no_panic_def)
  qed (simp add: no_panic_def)
  then show ?thesis by (simp add: Deployment_Restore_def)
qed

lemma no_panic_CheckArtifactDir [no_panic_intros]: "no_panic (CheckArtifactDir E bd)"
proof -
  have dir: "no_panic (ArtifactDirExists E i)" for i
    unfolding ArtifactDirExists_def DirectoryExists_def [abs_def]
    by (rule no_panicI) (auto simp: map_result_Panic split: prod.splits dest: Connection_Run_frame)
  have "no_panic (checkArtifactDirs E is errs)" for "is" errs
  proof (induction "is" arbitrary: errs)
    case (Cons i "is")
    show ?case
    proof (rule no_panicI)
      fix w r w' assume "checkArtifactDirs E (i # is) errs w = (r, w')"
      with Cons.IH dir show "\<forall>p. r \<noteq> Panic p"
        by (auto split: prod.splits result.splits if_splits dest: no_panicD)
    qed
  qed (simp add: no_panic_def)
  then show ?thesis unfolding CheckArtifactDir_def by (intro no_panic_intros) simp_all
qed

lemma locking_dependencies_return [simp]: "\<not> is_panic (ValidateLockingDependencies lo bd)"
  using Order_no_panic
  by (cases "KahnLockOrderer_Order lo (instances_Jobs (bd_instances bd))") (simp_all add: ValidateLockingDependencies_def)


text \<open>The steps that never panic in a session that holds what they need.\<close>

definition never_panics :: "Step \<Rightarrow> bool" where
  "never_panics k \<longleftrightarrow> is_Backupable k \<or> is_Lock k \<or> is_Backup k \<or> is_PostBackupUnlock k \<or> is_Skip k \<or>
     is_PreRestoreLock k \<or> is_Restore k \<or> is_PostRestoreUnlock k"

lemma keep_session_panic:
  assumes "keep_session f (session, w) = (Panic m, session', w')"
  shows "\<not> no_panic (f session)"
  using assms by (auto simp: keep_session_def split: prod.splits dest: no_panicD)

lemma no_panic_with_deployment:
  "session_deployment session \<noteq> None \<Longrightarrow> (\<And>dep. no_panic (f dep)) \<Longrightarrow> no_panic (with_deployment f session)"
  by (auto simp: no_panic_def with_deployment_def split: option.splits)

lemma progress:
  assumes "has_type session (needs k)" "never_panics k"
  shows "Step_Run E k (session, w) \<noteq> (Panic m, session', w')"
proof
  assume run: "Step_Run E k (session, w) = (Panic m, session', w')"
  note [intro!] = no_panic_with_deployment no_panic_intros
  have backupable: "no_panic (BackupableStep_Run E lo session)" if "session_deployment session \<noteq> None" for lo
    unfolding BackupableStep_Run_def
    by (intro no_panic_with_deployment no_panic_intros that locking_dependencies_return) simp
  show False
    using assms run
    by (cases k; auto simp: has_type_def never_panics_def LockStep_Run_def BackupStep_Run_def PostBackupUnlockStep_Run_def
        PreRestoreLockStep_Run_def RestoreStep_Run_def PostRestoreUnlockStep_Run_def SkipStep_Run_def [abs_def] no_panic_def
        dest!: keep_session_panic intro: backupable)
qed


section \<open>Soundness\<close>

lemma well_typed_run:
  "replays (Step_Run E) (session, w) tr (session', w') \<Longrightarrow> well_typed t (outcome tr) \<Longrightarrow> has_type session t \<Longrightarrow>
     (k, r) \<in> set tr \<Longrightarrow> \<exists>s1 u s2 u'. Step_Run E k (s1, u) = (r, s2, u') \<and> has_type s1 (needs k)"
proof (induction tr arbitrary: session w t)
  case (Cons x tr)
  obtain k0 r0 where x: "x = (k0, r0)" by fastforce
  with Cons.prems(1) obtain s1 w1 where run: "Step_Run E k0 (session, w) = (r0, s1, w1)" and
    rest: "replays (Step_Run E) (s1, w1) tr (session', w')" by (auto elim: replays_ConsE)
  from Cons.prems(2,3) x have "has_type session (needs k0)" by (auto intro: accepted_has_needs)
  with run x Cons.prems(4) Cons.IH [OF rest _ preservation [OF run Cons.prems(3)]] Cons.prems(2) show ?case by auto
qed simp

text \<open>The session at the end of a run that panicked is the one the last step ran in, with its needs.\<close>

lemma well_typed_end:
  "replays (Step_Run E) (session, w) (pre @ [(k, Panic m)]) (session', w') \<Longrightarrow> well_typed t (outcome (pre @ [(k, Panic m)])) \<Longrightarrow>
     has_type session t \<Longrightarrow> has_type session' (needs k)"
proof (induction pre arbitrary: session w t)
  case Nil
  then have run: "Step_Run E k (session, w) = (Panic m, session', w')" and "has_type session (needs k)"
    by (auto intro: accepted_has_needs)
  with Step_Run_keeps [OF run] show ?case by (simp add: has_type_def)
next
  case (Cons x pre)
  obtain k0 r0 where x: "x = (k0, r0)" by fastforce
  with Cons.prems(1) obtain s1 w1 where run: "Step_Run E k0 (session, w) = (r0, s1, w1)" and
    rest: "replays (Step_Run E) (s1, w1) (pre @ [(k, Panic m)]) (session', w')" by (auto elim: replays_ConsE)
  from Cons.IH [OF rest _ preservation [OF run Cons.prems(3)]] Cons.prems(2) x show ?case by simp
qed

text \<open>Soundness of the typing of one workflow.\<close>

definition nil_safe :: "('r, 'x) orch_env_scheme \<Rightarrow> Step Workflow \<Rightarrow> 'r step_state \<Rightarrow> bool" where
  "nil_safe E workflow s \<longleftrightarrow>
     (case Workflow_Run workflow (traced (Step_Run E)) ([], s) of
        Some (Ok errs, tr, session', w') \<Rightarrow> True
      | Some (Panic m, tr, session', w') \<Rightarrow>
          (\<exists>pre k. tr = pre @ [(k, Panic m)] \<and> has_type session' (needs k) \<and> \<not> never_panics k)
      | _ \<Rightarrow> False)"

lemma panic_typed:
  assumes tr: "tr = pre @ [(k, Panic m)]" and run: "replays (Step_Run E) (session, w) tr (session', w')"
    and typed: "well_typed new_type p" and p: "prefix (outcome tr) p"
  shows "has_type session' (needs k) \<and> \<not> never_panics k"
proof -
  from well_typed_prefix [OF p typed] have t: "well_typed new_type (outcome tr)" .
  have "(k, Panic m) \<in> set tr" using tr by simp
  from well_typed_run [OF run t _ this] obtain s1 u s2 u' where
    "Step_Run E k (s1, u) = (Panic m, s2, u')" "has_type s1 (needs k)" by auto
  with progress [of s1 k E u m s2 u'] have "\<not> never_panics k" by blast
  with well_typed_end [OF run [unfolded tr] t [unfolded tr]] show ?thesis by simp
qed

lemma typed_nil_safe:
  assumes "ranked_workflow workflow rank" "list_all (well_typed new_type) (all_paths workflow)"
  shows "nil_safe E workflow s"
proof -
  obtain session w where s: "s = (session, w)" by fastforce
  obtain tr session' w' where run: "Workflow_Run workflow (traced (Step_Run E)) ([], s) = Some (run_result [] tr, tr, session', w')"
    using ranked_workflow.run_returns [OF assms(1), of "Step_Run E" s] by auto
  show ?thesis
  proof (cases "run_result [] tr")
    case (Panic m)
    with run have "Workflow_Run workflow (traced (Step_Run E)) ([], s) = Some (Panic m, tr, session', w')" by simp
    from ranked_workflow.run_panics [OF assms(1) this] obtain pre k p where
      pre: "tr = pre @ [(k, Panic m)]" and rep: "replays (Step_Run E) s tr (session', w')" and
      p: "p \<in> set (all_paths workflow)" "prefix (outcome tr) p" .
    from assms(2) p(1) have "well_typed new_type p" by (simp add: list_all_iff)
    from panic_typed [OF pre rep [unfolded s] this p(2)] pre run Panic show ?thesis by (simp add: nil_safe_def)
  qed (use run in \<open>simp_all add: nil_safe_def\<close>)
qed


section \<open>Properties\<close>

lemmas typing_defs = well_typed.simps accepts_def type_after_def new_type_def

lemma backuper_typed: "list_all (well_typed new_type) (all_paths (NewBackuper dm lo ex copier unsafeLockFree ts))"
  by (cases unsafeLockFree) (simp_all add: NewBackuper_def workflow_defs path_defs typing_defs)

lemma restorer_typed: "list_all (well_typed new_type) (all_paths (NewRestorer dm lo ex copier))"
  by (simp add: NewRestorer_def workflow_defs path_defs typing_defs)

text \<open>C9: type safety of sessions. Every run of each of the five workflows, started in any session, returns, and
  no step of it dereferences a deployment or an artifact the session does not hold: if the run
  panics, then in its last step, whose session holds everything it dereferences, and which is not one
  of the steps that check for backup scripts, lock, back up, restore or unlock: these never
  panic.\<close>

theorem sessions_type_safe:
  "nil_safe E (NewBackuper dm lo ex copier unsafeLockFree ts) s \<and> nil_safe E (NewRestorer dm lo ex copier) s \<and>
   nil_safe E (NewBackupChecker dm lo) s \<and> nil_safe E (NewBackupCleaner dm lo ex) s \<and>
   nil_safe E (NewRestoreCleaner dm lo ex) s"
proof (intro conjI)
  show "nil_safe E (NewBackuper dm lo ex copier unsafeLockFree ts) s"
    by (rule typed_nil_safe [OF backuper.ranked_workflow_axioms backuper_typed])
  show "nil_safe E (NewRestorer dm lo ex copier) s"
    by (rule typed_nil_safe [OF restorer.ranked_workflow_axioms restorer_typed])
  show "nil_safe E (NewBackupChecker dm lo) s"
    by (rule typed_nil_safe [OF checker.ranked_workflow_axioms])
      (simp add: NewBackupChecker_def workflow_defs path_defs typing_defs)
  show "nil_safe E (NewBackupCleaner dm lo ex) s"
    by (rule typed_nil_safe [OF backup_cleaner.ranked_workflow_axioms])
      (simp add: NewBackupCleaner_def workflow_defs path_defs typing_defs)
  show "nil_safe E (NewRestoreCleaner dm lo ex) s"
    by (rule typed_nil_safe [OF restore_cleaner.ranked_workflow_axioms])
      (simp add: NewRestoreCleaner_def workflow_defs path_defs typing_defs)
qed

text \<open>A prefix of a path that a panic can cut off there has released its locks.\<close>

fun locked_after :: "(Step \<Rightarrow> bool) \<Rightarrow> (Step \<Rightarrow> bool) \<Rightarrow> bool \<Rightarrow> (Step \<times> bool) list \<Rightarrow> bool" where
  "locked_after L U b [] = b"
| "locked_after L U b ((k, c) # p) = locked_after L U (L k \<or> b \<and> \<not> U k) p"

fun released_when_cut :: "(Step \<Rightarrow> bool) \<Rightarrow> (Step \<Rightarrow> bool) \<Rightarrow> bool \<Rightarrow> (Step \<times> bool) list \<Rightarrow> bool" where
  "released_when_cut L U b [] \<longleftrightarrow> \<not> b"
| "released_when_cut L U b ((k, c) # p) \<longleftrightarrow>
     (never_panics k \<or> \<not> (L k \<or> b \<and> \<not> U k)) \<and> released_when_cut L U (L k \<or> b \<and> \<not> U k) p"

lemma locked_after_iff: "locked_after L U b p \<longleftrightarrow> b \<and> \<not> list_ex (\<lambda>(q, c). U q) p \<or> \<not> leads_to L U p"
  by (induction L U b p rule: locked_after.induct) auto

lemma released_prefix:
  "released_when_cut L U b p \<Longrightarrow> prefix q p \<Longrightarrow> q \<noteq> [] \<Longrightarrow> \<not> never_panics (fst (last q)) \<Longrightarrow> \<not> locked_after L U b q"
proof (induction L U b p arbitrary: q rule: released_when_cut.induct)
  case (2 L U b k c p)
  then obtain q' where q: "q = (k, c) # q'" "prefix q' p" by (cases q) auto
  show ?case
  proof (cases "q' = []")
    case False
    with 2 q show ?thesis by simp
  qed (use 2 q in simp)
qed simp

lemma released_path: "released_when_cut L U b p \<Longrightarrow> \<not> locked_after L U b p"
  by (induction L U b p rule: released_when_cut.induct) simp_all

lemma run_released:
  assumes rw: "ranked_workflow workflow rank" and typed: "list_all (well_typed new_type) (all_paths workflow)"
    and rel: "list_all (released_when_cut L U False) (all_paths workflow)"
  shows "complies workflow (Step_Run E) s (leads_to L U) (leads_to L U)"
proof -
  have ok: "complies workflow (Step_Run E) s (leads_to L U) (\<lambda>_. True)"
    by (rule ranked_workflow.run_satisfies [OF rw])
      (use rel in \<open>auto simp: list_all_iff locked_after_iff dest!: bspec released_path\<close>)
  have "leads_to L U (outcome tr)" if "Workflow_Run workflow (traced (Step_Run E)) ([], s) = Some (Panic m, tr, s')" for m tr s'
  proof -
    obtain session w session' w' where s: "s = (session, w)" "s' = (session', w')" by fastforce
    from ranked_workflow.run_panics [OF rw that] obtain pre k p where
      pre: "tr = pre @ [(k, Panic m)]" and rep: "replays (Step_Run E) s tr s'" and
      p: "p \<in> set (all_paths workflow)" "prefix (outcome tr) p" .
    from typed p(1) have "well_typed new_type p" by (simp add: list_all_iff)
    from panic_typed [OF pre rep [unfolded s] this p(2)] have "\<not> never_panics k" by simp
    moreover from pre have "fst (last (outcome tr)) = k" "outcome tr \<noteq> []" by (simp_all add: outcome_def)
    moreover from rel p(1) have "released_when_cut L U False p" by (simp add: list_all_iff)
    ultimately show ?thesis using released_prefix [OF _ p(2), of L U False] by (simp add: locked_after_iff)
  qed
  with ok show ?thesis
    by (auto simp: complies_def split: option.splits prod.splits result.splits)
qed

text \<open>C10: no run leaves a deployment locked without having tried to unlock it, not even one that ends in a panic: after the
  lock step of a backup was attempted an unlock step was attempted before the program can panic,
  and likewise for a restore.\<close>

theorem panics_after_unlocking:
  "complies (NewBackuper dm lo ex copier unsafeLockFree ts) (Step_Run E) s
     (leads_to is_Lock is_PostBackupUnlock) (leads_to is_Lock is_PostBackupUnlock) \<and>
   complies (NewRestorer dm lo ex copier) (Step_Run E) s
     (leads_to is_PreRestoreLock is_PostRestoreUnlock) (leads_to is_PreRestoreLock is_PostRestoreUnlock)"
proof
  show "complies (NewBackuper dm lo ex copier unsafeLockFree ts) (Step_Run E) s
     (leads_to is_Lock is_PostBackupUnlock) (leads_to is_Lock is_PostBackupUnlock)"
    by (rule run_released [OF backuper.ranked_workflow_axioms backuper_typed])
      (cases unsafeLockFree; simp add: NewBackuper_def workflow_defs path_defs never_panics_def)
  show "complies (NewRestorer dm lo ex copier) (Step_Run E) s
     (leads_to is_PreRestoreLock is_PostRestoreUnlock) (leads_to is_PreRestoreLock is_PostRestoreUnlock)"
    by (rule run_released [OF restorer.ranked_workflow_axioms restorer_typed])
      (simp add: NewRestorer_def workflow_defs path_defs never_panics_def)
qed

end
