(* ===== verification/Exit_Status.thy ===== *)
theory Exit_Status
  imports Restore_Protocol
begin

text \<open>
  What the exit code of a backup or a restore says about the instances: the errors of the steps
  (\<^verbatim>\<open>orchestrator/*_step.go\<close>), their bits in the exit code (\<^verbatim>\<open>orchestrator/error.go\<close>) and the histories
  of whole runs put together. An operator who finds the bits for locking and unlocking clear
  can rely on every lock script and every unlock script having been run.
\<close>

section \<open>The errors of the steps\<close>

lemma map_err_Err:
  assumes "map_err f m w = (Err e, w')"
  obtains e0 where "e = f e0"
  using assms by (auto simp: map_err_def split: prod.splits result.splits)

lemma with_deployment_Err:
  assumes "keep_session (with_deployment (\<lambda>dep. map_err f (g dep))) (session, w) = (Err e, session', w')"
  obtains e0 where "e = f e0"
  using assms by (auto simp: keep_session_def with_deployment_def split: option.splits prod.splits elim: map_err_Err)

text \<open>A step that fails to lock or unlock sets its bit.\<close>

lemma Step_error_bit:
  assumes "Step_Run E k (session, w) = (Err e, session', w')"
  shows "is_Lock k \<Longrightarrow> error_bit e = 2" "is_PostBackupUnlock k \<or> is_PostRestoreUnlock k \<Longrightarrow> error_bit e = 3"
    "is_Cleanup k \<Longrightarrow> error_bit e = 4"
proof -
  assume "is_Lock k"
  with assms show "error_bit e = 2"
    by (cases k) (auto simp: LockStep_Run_def NewLockError_def error_bit_def elim!: with_deployment_Err)
next
  assume "is_PostBackupUnlock k \<or> is_PostRestoreUnlock k"
  with assms show "error_bit e = 3"
    by (cases k) (auto simp: PostBackupUnlockStep_Run_def PostRestoreUnlockStep_Run_def NewPostUnlockError_def error_bit_def
        elim!: with_deployment_Err)
next
  assume "is_Cleanup k"
  with assms show "error_bit e = 4"
    by (cases k) (auto simp: CleanupStep_Run_def keep_session_def with_deployment_def NewCleanupError_def error_bit_def
        split: option.splits prod.splits elim!: map_err_Err)
qed

lemma replays_step:
  "replays run s tr s' \<Longrightarrow> (k, r) \<in> set tr \<Longrightarrow> \<exists>s1 s2. run k s1 = (r, s2)"
proof (induction tr arbitrary: s)
  case (Cons x tr)
  then show ?case by (cases x) (auto simp del: Step_Run.simps)
qed simp

text \<open>A step of a kind that sets bit \<open>n\<close> was taken and none of the kind succeeded: the bit is set.\<close>

lemma failed_step_bit:
  assumes run: "replays (Step_Run E) s tr s'" and free: "panic_free tr" and taken: "0 < taken P (outcome tr)"
    and failed: "\<not> worked P (outcome tr)"
    and sets: "\<And>k session w e session' w'. P k \<Longrightarrow> Step_Run E k (session, w) = (Err e, session', w') \<Longrightarrow> error_bit e = n"
  shows "bit (BuildExitCode (step_errors tr)) n"
proof -
  from taken obtain k b where k: "(k, b) \<in> set (outcome tr)" "P k"
    by (auto simp: taken_def filter_empty_conv)
  then obtain r where r: "(k, r) \<in> set tr" "succeeded r = b" by (auto simp: outcome_def)
  from failed k r have "\<not> succeeded r" by (auto simp: worked_def list_ex_iff)
  moreover from free r have "\<not> is_panic r" by (auto simp: panic_free_def list_all_iff)
  ultimately obtain e where e: "r = Err e" by (cases r) auto
  from replays_step [OF run r(1)] e obtain session w session' w' where
    "Step_Run E k (session, w) = (Err e, session', w')" by auto
  from sets [OF k(2) this] have "error_bit e = n" .
  moreover from r(1) e have "e \<in> set (step_errors tr)" by (force simp: step_errors_def new_errors_def)
  ultimately show ?thesis by (auto simp: bit_BuildExitCode)
qed

section \<open>Complete phases\<close>

text \<open>Every job had its script run, each once.\<close>

definition all_ran :: "(Job \<Rightarrow> event list) \<Rightarrow> Job list \<Rightarrow> 'r world \<Rightarrow> 'r world \<Rightarrow> bool" where
  "all_ran ev jobs w w' \<longleftrightarrow> (\<exists>sched. mset sched = mset jobs \<and> events w' = events w @ concat (map ev sched))"

lemma phase_all_ran: "phase ev P jobs r w w' \<Longrightarrow> succeeded r \<Longrightarrow> all_ran ev jobs w w'"
  unfolding phase_def all_ran_def succeeded_def by metis

lemma phase_grows: "phase ev P jobs r w w' \<Longrightarrow> grows w w'"
  by (auto simp: phase_def grows_def)

text \<open>A run locked, went on and unlocked the jobs; a phase that did not run all its scripts shows in the exit code, in bit
  \<open>n\<close> for locking and in bit 3 for unlocking.\<close>

definition reported ::
  "nat \<Rightarrow> (Job \<Rightarrow> event list) \<Rightarrow> (Job \<Rightarrow> event list) \<Rightarrow> Job list \<Rightarrow> int \<Rightarrow> 'r world \<Rightarrow> 'r world \<Rightarrow> bool" where
  "reported n lock unlock jobs code w w' \<longleftrightarrow>
     (\<exists>w1 w2 w3 w4. grows w w1 \<and> grows w1 w2 \<and> grows w2 w3 \<and> grows w3 w4 \<and> grows w4 w' \<and>
        (bit code n \<or> all_ran lock jobs w1 w2) \<and> (bit code 3 \<or> all_ran unlock jobs w3 w4))"

lemma backup_reported:
  assumes "locked_and_released E lo ex dep ok locked unlocked w w'" "locked \<or> bit code 2" "unlocked \<or> bit code 3"
  shows "reported 2 lock_events (unlock_events ok) (instances_Jobs (bd_instances dep)) code w w'"
  using assms unfolding locked_and_released_def reported_def by (meson phase_all_ran phase_grows)

lemma Restore_grows: "Deployment_Restore E bd w = (r, w') \<Longrightarrow> grows w w'"
  by (rule keepsD [OF growing_history.keeps_Deployment_Restore])

lemma restore_reported:
  assumes "restored_under_locks E lo ex dep locked unlocked w w'" "locked \<or> bit code 0" "unlocked \<or> bit code 3"
  shows "reported 0 restore_lock_events restore_unlock_events (instances_Jobs (bd_instances dep)) code w w'"
proof -
  from assms(1) obtain w1 r1 w2 w3 r2 w4 where
    run: "grows w w1" "succeeded r1 = locked" "succeeded r2 = unlocked"
      "phase restore_lock_events (must_precede (Before (constraintSpecifier lo))) (instances_Jobs (bd_instances dep)) r1 w1 w2"
      "phase restore_unlock_events (\<lambda>a b. must_precede (Before (constraintSpecifier lo)) b a)
          (instances_Jobs (bd_instances dep)) r2 w3 w4" "grows w4 w'"
    and mid: "if succeeded r1 then \<exists>r. Deployment_Restore E dep w2 = (r, w3) else w3 = w2"
    unfolding restored_under_locks_def by blast
  from mid have "grows w2 w3" by (cases "succeeded r1") (auto dest: Restore_grows)
  with run assms(2,3) show ?thesis unfolding reported_def by (meson phase_all_ran phase_grows)
qed

section \<open>Properties\<close>

lemma locking_path_taken:
  assumes "locking_path dm lo ex ts p"
  shows "0 < taken is_Lock p" "0 < taken is_PostBackupUnlock p"
  using locking_path_cases [OF assms] by (auto simp: taken_def)

lemma restoring_path_taken:
  assumes "restoring_path dm lo ex copier (outcome tr)"
  shows "0 < taken is_PreRestoreLock (outcome tr)" "0 < taken is_PostRestoreUnlock (outcome tr)"
  by (rule restoring_path_shape [OF assms], simp add: taken_def outcome_def)+

lemma failed_lock_of_restore:
  assumes "Step_Run E k (session, w) = (Err e, session', w')" "is_PreRestoreLock k"
  shows "error_bit e = 0"
  using assms
  by (cases k) (auto simp: PreRestoreLockStep_Run_def keep_session_def with_deployment_def error_bit_def wrapped_def
      split: option.splits prod.splits elim!: wrap_result.elims)

lemma backup_run_reported:
  "case Workflow_Run (NewBackuper dm lo ex copier False ts) (traced (Step_Run E)) ([], session, w) of
     Some (Ok errs, tr, session', w') \<Rightarrow>
       (if worked is_CreateArtifact (outcome tr)
        then \<exists>dep. session_deployment session' = Some dep \<and>
          reported 2 lock_events (unlock_events (worked is_Backup (outcome tr))) (instances_Jobs (bd_instances dep))
            (BuildExitCode errs) w w'
        else taken is_Lock (outcome tr) = 0)
   | Some (Panic m, _) \<Rightarrow> True
   | _ \<Rightarrow> False"
proof -
  let ?B = "NewBackuper dm lo ex copier False ts"
  obtain tr session' w' where run: "Workflow_Run ?B (traced (Step_Run E)) ([], session, w) = Some (run_result [] tr, tr, session', w')"
    and rep: "replays (Step_Run E) (session, w) tr (session', w')"
    using backuper.run_returns [of dm lo ex copier False ts "Step_Run E" "(session, w)"] by auto
  show ?thesis
  proof (cases "run_result [] tr")
    case (Ok errs)
    then have free: "panic_free tr" and errs: "errs = step_errors tr" using run_result_Ok [of "[]" tr errs] by simp_all
    from Ok run have "Workflow_Run ?B (traced (Step_Run E)) ([], session, w) = Some (Ok errs, tr, session', w')" by simp
    from backuper.run_replays [OF this] backuper_paths [of dm lo ex ts copier]
    have path: "if worked is_CreateArtifact (outcome tr) then locking_path dm lo ex ts (outcome tr) else taken is_Lock (outcome tr) = 0"
      unfolding list_all_iff by (auto split: if_splits)
    show ?thesis
    proof (cases "worked is_CreateArtifact (outcome tr)")
      case True
      with path have lp: "locking_path dm lo ex ts (outcome tr)" by simp
      have "worked is_Lock (outcome tr) \<or> bit (BuildExitCode errs) 2"
        "worked is_PostBackupUnlock (outcome tr) \<or> bit (BuildExitCode errs) 3"
        unfolding errs using failed_step_bit [OF rep free] locking_path_taken [OF lp] Step_error_bit by metis+
      with locking_run [OF rep lp] backup_reported True Ok run show ?thesis by fastforce
    qed (use path Ok run in simp)
  qed (use run in simp_all)
qed

lemma restore_run_reported:
  "case Workflow_Run (NewRestorer dm lo ex copier) (traced (Step_Run E)) ([], session, w) of
     Some (Ok errs, tr, session', w') \<Rightarrow>
       (if 0 < taken is_PreRestoreLock (outcome tr)
        then \<exists>dep. session_deployment session' = Some dep \<and>
          reported 0 restore_lock_events restore_unlock_events (instances_Jobs (bd_instances dep)) (BuildExitCode errs) w w'
        else taken is_PostRestoreUnlock (outcome tr) = 0)
   | Some (Panic m, _) \<Rightarrow> True
   | _ \<Rightarrow> False"
proof -
  let ?R = "NewRestorer dm lo ex copier"
  obtain tr session' w' where run: "Workflow_Run ?R (traced (Step_Run E)) ([], session, w) = Some (run_result [] tr, tr, session', w')"
    and rep: "replays (Step_Run E) (session, w) tr (session', w')"
    using restorer.run_returns [of dm lo ex copier "Step_Run E" "(session, w)"] by auto
  show ?thesis
  proof (cases "run_result [] tr")
    case (Ok errs)
    then have free: "panic_free tr" and errs: "errs = step_errors tr" using run_result_Ok [of "[]" tr errs] by simp_all
    from Ok run have "Workflow_Run ?R (traced (Step_Run E)) ([], session, w) = Some (Ok errs, tr, session', w')" by simp
    from restorer.run_replays [OF this] restorer_paths [of dm lo ex copier]
    have path: "if 0 < taken is_PreRestoreLock (outcome tr) then restoring_path dm lo ex copier (outcome tr)
      else taken is_PostRestoreUnlock (outcome tr) = 0"
      unfolding list_all_iff by (auto split: if_splits)
    show ?thesis
    proof (cases "0 < taken is_PreRestoreLock (outcome tr)")
      case True
      with path have rp: "restoring_path dm lo ex copier (outcome tr)" by simp
      have "worked is_PreRestoreLock (outcome tr) \<or> bit (BuildExitCode errs) 0"
        "worked is_PostRestoreUnlock (outcome tr) \<or> bit (BuildExitCode errs) 3"
        unfolding errs using failed_step_bit [OF rep free] restoring_path_taken [OF rp] Step_error_bit failed_lock_of_restore by metis+
      with restoring_run [OF rep rp] restore_reported True Ok run show ?thesis by fastforce
    qed (use path Ok run in simp)
  qed (use run in simp_all)
qed

text \<open>C8: the exit code tells whether the deployment was locked and unlocked completely. If a backup got as far as
  creating its artifact and bit 2 of its exit code is clear, then every pre-backup-lock script was
  run, and if bit 3 is clear, then after that every post-backup-unlock script was run, with the flag that tells whether
  the backup scripts succeeded. For a restore that attempted to lock the same holds of its own scripts
  with bits 0 and 3: a failed pre-restore-lock is not reported as a lock error.\<close>

theorem exit_code_tells_locks:
  "(case Workflow_Run (NewBackuper dm lo ex copier False ts) (traced (Step_Run E)) ([], session, w) of
      Some (Ok errs, tr, session', w') \<Rightarrow>
        (if worked is_CreateArtifact (outcome tr)
         then \<exists>dep. session_deployment session' = Some dep \<and>
           reported 2 lock_events (unlock_events (worked is_Backup (outcome tr))) (instances_Jobs (bd_instances dep))
             (BuildExitCode errs) w w'
         else taken is_Lock (outcome tr) = 0)
    | Some (Panic m, _) \<Rightarrow> True
    | _ \<Rightarrow> False) \<and>
   (case Workflow_Run (NewRestorer dm lo ex copier) (traced (Step_Run E)) ([], session, w) of
      Some (Ok errs, tr, session', w') \<Rightarrow>
        (if 0 < taken is_PreRestoreLock (outcome tr)
         then \<exists>dep. session_deployment session' = Some dep \<and>
           reported 0 restore_lock_events restore_unlock_events (instances_Jobs (bd_instances dep)) (BuildExitCode errs) w w'
         else taken is_PostRestoreUnlock (outcome tr) = 0)
    | Some (Panic m, _) \<Rightarrow> True
    | _ \<Rightarrow> False)"
  using backup_run_reported restore_run_reported by (rule conjI)

end
