(* ===== verification/Backup_Validity.thy ===== *)
theory Backup_Validity
  imports Artifact_Copier
begin

text \<open>
  A downloaded backup is a valid one: the transfers of \<^verbatim>\<open>orchestrator/artifact_copier.go\<close> and
  \<^verbatim>\<open>orchestrator/backup_download_executable.go\<close> against the check \<^verbatim>\<open>Valid\<close> of
  \<^verbatim>\<open>backup/backup_directory.go\<close> that a restore starts with.

  \<open>touches m S\<close> says that an operation writes no local file outside \<open>S\<close>. A download touches the file of
  its artifact and, once its checksum was computed, the metadata file; the digests of the
  other artifacts are those they had. The invariant \<open>intact\<close> says that the metadata file
  records, for artifacts whose files lie in a given set, exactly the digests their files have. Every download
  keeps it, also one that fails or panics.
\<close>

section \<open>Paths\<close>

text \<open>The last part of a path stays the last part when the path is cleaned, unless it is one of the special parts.\<close>

definition plain_part :: "string \<Rightarrow> bool" where
  "plain_part p \<longleftrightarrow> p \<noteq> '''' \<and> p \<noteq> ''.'' \<and> p \<noteq> ''..''"

lemma clean_parts_last: "plain_part (last ps) \<Longrightarrow> ps \<noteq> [] \<Longrightarrow>
    clean_parts rooted acc ps \<noteq> [] \<and> last (clean_parts rooted acc ps) = last ps"
proof (induction rooted acc ps rule: clean_parts.induct)
  case (2 rooted acc p ps)
  show ?case
  proof (cases "ps = []")
    case True
    with "2.prems" show ?thesis by (auto simp: plain_part_def)
  next
    case False
    with 2 show ?thesis by (auto split: list.splits)
  qed
qed simp

lemma clean_parts_parts: "set (clean_parts rooted acc ps) \<subseteq> insert ''..'' (set acc \<union> set ps)"
proof (induction ps arbitrary: acc)
  case (Cons p ps)
  define acc' where "acc' = (if p = '''' \<or> p = ''.'' then acc else if p = ''..'' then
      (case acc of [] \<Rightarrow> if rooted then [] else [''..''] | a # as \<Rightarrow> if a = ''..'' then ''..'' # acc else as) else p # acc)"
  have "clean_parts rooted acc (p # ps) = clean_parts rooted acc' ps" by (simp add: acc'_def split: list.split)
  moreover have "set acc' \<subseteq> insert ''..'' (insert p (set acc))" by (auto simp: acc'_def split: list.splits)
  ultimately show ?case using Cons.IH [of acc'] by auto
qed auto

lemma Split_append_gen: "Split c (p @ c # s) = Split c p @ Split c s"
  by (induction p) (auto split: list.splits)

lemma Split_Join:
  "\<forall>p \<in> set ps. c \<notin> set p \<Longrightarrow> ps \<noteq> [] \<Longrightarrow> Split c (Join ps [c]) = ps"
proof (induction ps "[c]" rule: Join.induct)
  case (2 s)
  then show ?case by (simp add: Split_no_sep)
next
  case (3 s t ss)
  then show ?case by (simp add: Split_append)
qed simp

lemma last_part_clean:
  assumes "plain_part (last (Split (CHR ''/'') s))"
  shows "last (Split (CHR ''/'') (path_Clean s)) = last (Split (CHR ''/'') s)"
proof -
  let ?ps = "clean_parts (take 1 s = ''/'') [] (Split (CHR ''/'') s)"
  from clean_parts_last [OF assms, of "take 1 s = ''/''" "[]"] have ps: "?ps \<noteq> []" "last ?ps = last (Split (CHR ''/'') s)"
    by simp_all
  have "\<forall>p \<in> set ?ps. CHR ''/'' \<notin> set p"
    using clean_parts_parts [of "take 1 s = ''/''" "[]" "Split (CHR ''/'') s"] Split_parts [of _ "CHR ''/''" s] by fastforce
  from Split_Join [OF this ps(1)] have split: "Split (CHR ''/'') (Join ?ps ''/'') = ?ps" .
  moreover have "Join ?ps ''/'' \<noteq> ''''"
  proof
    assume "Join ?ps ''/'' = ''''"
    with split have "?ps = ['''']" by simp
    with ps(2) assms show False by (simp add: plain_part_def)
  qed
  ultimately show ?thesis using ps by (cases "take 1 s = ''/''") (simp_all add: path_Clean_def)
qed

lemma last_part_Join:
  assumes "plain_part (last (Split (CHR ''/'') b))" "b \<noteq> ''''"
  shows "last (Split (CHR ''/'') (path_Join a b)) = last (Split (CHR ''/'') b)"
  using assms last_part_clean [of b] last_part_clean [of "a @ CHR ''/'' # b"]
  by (auto simp: path_Join_def Split_append_gen)

lemma last_part_ending:
  assumes "CHR ''/'' \<notin> set e"
  shows "\<exists>p. last (Split (CHR ''/'') (s @ e)) = p @ e"
proof (induction s)
  case Nil
  with assms show ?case by (simp add: Split_no_sep)
next
  case (Cons x s)
  obtain y ys where "Split (CHR ''/'') (s @ e) = y # ys" using Split_nonempty by (cases "Split (CHR ''/'') (s @ e)") blast+
  with Cons show ?case by (cases ys) (auto intro: exI [of _ "x # _"])
qed

text \<open>The file of an artifact is neither the metadata file nor the manifest.\<close>

lemma fileName_tar: "\<exists>s. fileName ai = s @ ''.tar''"
  by (auto simp: fileName_def customArtifactFileName_def instanceArtifactFileName_def intro: exI [of _ "_ @ _"])

definition artifact_path :: "BackupDirectory \<Rightarrow> artifactIdentifier \<Rightarrow> string" where
  "artifact_path bd ai = path_Clean (instanceFilename bd ai)"

definition metadata_path :: "BackupDirectory \<Rightarrow> string" where
  "metadata_path bd = path_Clean (metadataFilename bd)"

lemma artifact_not_metadata: "artifact_path bd ai \<noteq> metadata_path bd"
proof
  assume eq: "artifact_path bd ai = metadata_path bd"
  obtain s where s: "fileName ai = s @ ''.tar''" using fileName_tar by blast
  obtain p where p: "last (Split (CHR ''/'') (fileName ai)) = p @ ''.tar''"
    using last_part_ending [of "''.tar''" s] s by auto
  then have plain: "plain_part (last (Split (CHR ''/'') (fileName ai)))" by (cases p) (auto simp: plain_part_def)
  with s have j: "last (Split (CHR ''/'') (instanceFilename bd ai)) = p @ ''.tar''"
    unfolding instanceFilename_def p [symmetric] by (intro last_part_Join) auto
  with plain p have "last (Split (CHR ''/'') (artifact_path bd ai)) = p @ ''.tar''"
    unfolding artifact_path_def by (subst last_part_clean) simp_all
  moreover have m: "last (Split (CHR ''/'') (metadataFilename bd)) = ''metadata''"
    unfolding metadataFilename_def by (subst last_part_Join) (simp_all add: plain_part_def)
  then have "last (Split (CHR ''/'') (metadata_path bd)) = ''metadata''"
    unfolding metadata_path_def by (subst last_part_clean) (simp_all add: plain_part_def)
  ultimately have "p @ ''.tar'' = ''metadata''" using eq by simp
  then have "last (p @ ''.tar'') = last ''metadata''" by (rule arg_cong)
  then show False by simp
qed

section \<open>The files an operation writes\<close>

definition touches :: "('r, 'a) io \<Rightarrow> string set \<Rightarrow> bool" where
  "touches m S \<longleftrightarrow> (\<forall>w r w' p. m w = (r, w') \<longrightarrow> p \<notin> S \<longrightarrow> fs w' p = fs w p)"

named_theorems touch_intros \<open>rules for \<open>touches\<close>\<close>

lemma touchesD: "touches m S \<Longrightarrow> m w = (r, w') \<Longrightarrow> p \<notin> S \<Longrightarrow> fs w' p = fs w p"
  unfolding touches_def by blast

lemma touchesI: "(\<And>w r w' p. m w = (r, w') \<Longrightarrow> p \<notin> S \<Longrightarrow> fs w' p = fs w p) \<Longrightarrow> touches m S"
  unfolding touches_def by blast

lemma touches_calm: "(\<And>w r w'. m w = (r, w') \<Longrightarrow> calm w w') \<Longrightarrow> touches m S"
  unfolding touches_def calm_def by metis

lemma touches_bindr [touch_intros]:
  assumes "touches m S" "\<And>x. touches (f x) S"
  shows "touches (bindr m f) S"
proof (rule touchesI)
  fix w r w' p assume "bindr m f w = (r, w')" "p \<notin> S"
  then show "fs w' p = fs w p"
  proof (cases rule: bindrE)
    case (ok x w1)
    with touchesD [OF assms(1) ok(1)] touchesD [OF assms(2) ok(2)] \<open>p \<notin> S\<close> show ?thesis by simp
  qed (use touchesD [OF assms(1)] \<open>p \<notin> S\<close> in auto)
qed

lemma touches_wrapped [touch_intros]: "touches m S \<Longrightarrow> touches (wrapped msg m) S"
  by (rule touchesI) (auto elim!: wrappedE dest: touchesD)

lemma touches_pure [touch_intros]: "touches (\<lambda>w. (f w, w)) S"
  by (simp add: touches_def)

lemma touches_os [touch_intros]:
  "path_Clean p \<in> S \<Longrightarrow> touches (os_Create E p) S" "path_Clean p \<in> S \<Longrightarrow> touches (os_WriteFile E p s) S"
  "path_Clean p \<in> S \<Longrightarrow> touches (file_Write E p s) S" "touches (file_Close E p) S"
  by (auto simp: touches_def os_defs split: option.splits if_splits fnode.splits)

lemma touches_runOnInstance [touch_intros]: "touches (runOnInstance E c cmd) S"
  by (rule touches_calm) (rule runOnInstance_calm)

lemma touches_Artifact [touch_intros]:
  "touches (Artifact_Size E a) S" "touches (Artifact_SizeInBytes E a) S" "touches (Artifact_Checksum E a) S"
  "touches (Artifact_Delete E a) S"
  unfolding Artifact_Size_def SizeOf_def Artifact_SizeInBytes_def SizeInBytes_def Artifact_Checksum_def ChecksumDirectory_def
    Artifact_Delete_def RemoveDirectory_def
  by (intro touch_intros)+

lemma percentageLogger_touches:
  assumes "percentageLogger E path p (s, w) = (r, s', w')" "q \<noteq> path_Clean path"
  shows "fs w' q = fs w q"
  using assms touches_os(3) [of path "{path_Clean path}" E p]
  by (auto simp: percentageLogger_def LogPercentageWriter_Write_def split: prod.splits result.splits dest: touchesD)

lemma feed_touches:
  assumes "\<And>p s w r s' w'. wr p (s, w) = (r, s', w') \<Longrightarrow> fs w' q = fs w q"
  shows "feed wr ps (s, w) = (r, s', w') \<Longrightarrow> fs w' q = fs w q"
proof (induction ps arbitrary: s w)
  case (Cons p ps)
  obtain r1 s1 w1 where p: "wr p (s, w) = (r1, s1, w1)" by (metis prod_cases3)
  from assms [OF p] Cons p show ?case by (cases r1) (auto simp: bindr_def)
qed simp

lemma stream_touches [touch_intros]:
  assumes "path_Clean path \<in> S"
  shows "touches (\<lambda>w. let (res, _, w') = StreamFromRemote E a (percentageLogger E path) s w in (res, w')) S"
proof (rule touchesI)
  fix w r w' q
  assume run: "(let (res, _, w') = StreamFromRemote E a (percentageLogger E path) s w in (res, w')) = (r, w')" and q: "q \<notin> S"
  from q assms have q: "q \<noteq> path_Clean path" by blast
  from run obtain res stderr s1 where "runInSession E (artifact_remoteRunner a) (''sudo tar -C '' @ artifactDirectory a @ '' -c .'')
      (percentageLogger E path) '''' s w = (res, stderr, s1, w')"
    by (auto simp: StreamFromRemote_def ArchiveAndDownload_def Connection_Stream_def split: prod.splits)
  moreover have "fs u' q = fs u q" if "feed (percentageLogger E path) ps (s, u) = (x, t, u')" for ps s u x t u'
    by (rule feed_touches [OF _ that]) (rule percentageLogger_touches [OF _ q])
  ultimately show "fs w' q = fs w q"
    by (auto simp: runInSession_def log_event_def split: prod.splits option.splits result.splits)
qed

lemma touches_download:
  assumes "artifact_path bd (artifact_id a) \<in> S"
  shows "touches (downloadBackupArtifact E bd a) S"
proof (rule touchesI)
  let ?path = "path_Join (baseDirName bd) (fileName (artifact_id a))"
  from assms have S: "path_Clean ?path \<in> S" by (simp add: artifact_path_def instanceFilename_def)
  fix w r w' q assume run: "downloadBackupArtifact E bd a w = (r, w')" and q: "q \<notin> S"
  have create: "touches (CreateArtifact E bd (artifact_id a)) S"
    unfolding CreateArtifact_def using S by (intro touch_intros)
  from run show "fs w' q = fs w q"
    unfolding downloadBackupArtifact_def
  proof (cases rule: bindrE)
    case (ok path w1)
    then have "path = ?path" by (auto simp: CreateArtifact_def bindr_eq_Ok)
    moreover have "touches (bindr (Artifact_Size E a) (\<lambda>_. bindr (Artifact_SizeInBytes E a) (\<lambda>sizeInBytes.
       bindr (\<lambda>w. let (res, _, w') = StreamFromRemote E a (percentageLogger E ?path) (NewLogPercentageWriter sizeInBytes) w
                in (res, w')) (\<lambda>_. file_Close E ?path)))) S"
      by (intro touch_intros S)
    ultimately have "fs w' q = fs w1 q" using ok(2) q touchesD by blast
    with touchesD [OF create ok(1) q] show ?thesis by simp
  qed (use touchesD [OF create _ q] in auto)
qed

lemma touches_compareChecksums [touch_intros]: "touches (compareChecksums E bd a) S"
proof -
  have "touches (\<lambda>w. let (match, files) = Match it c rc in if \<not> match then (e files, w) else (x, w)) S" for it c rc e x
    by (cases "Match it c rc") (simp add: touches_def)
  then show ?thesis unfolding compareChecksums_def by (intro touch_intros)
qed


section \<open>What the metadata file records\<close>

definition entries :: "metadata \<Rightarrow> (artifactIdentifier \<times> BackupChecksum) list" where
  "entries meta =
     map (\<lambda>a. (makeCustomArtifactIdentifier a, am_Checksum a)) (MetadataForEachArtifact meta) @
     concat (map (\<lambda>inst. map (\<lambda>a. (makeDefaultArtifactIdentifier a inst, am_Checksum a)) (im_Artifacts inst))
       (MetadataForEachInstance meta))"

text \<open>The identifier the metadata file gives back for one that was recorded.\<close>

definition recorded_id :: "artifactIdentifier \<Rightarrow> artifactIdentifier" where
  "recorded_id ai =
     (if ai_hasCustomName ai
      then ai\<lparr>ai_instanceName := '''', ai_instanceIndex := '''', ai_instanceID := ''''\<rparr> else ai\<lparr>ai_instanceID := ''''\<rparr>)"

lemma fileName_recorded [simp]: "fileName (recorded_id ai) = fileName ai"
  by (simp add: fileName_def recorded_id_def)

lemma artifact_path_recorded [simp]: "artifact_path bd (recorded_id ai) = artifact_path bd ai"
  by (simp add: artifact_path_def instanceFilename_def)

lemma logName_recorded [simp]: "logName (recorded_id ai) = logName ai"
  by (simp add: logName_def recorded_id_def)

lemma CalculateChecksum_recorded [simp]: "CalculateChecksum E bd (recorded_id ai) w = CalculateChecksum E bd ai w"
  unfolding CalculateChecksum_def ReadArtifact_def instanceFilename_def fileName_recorded logName_recorded ..

lemma updated_entries:
  assumes "f = (\<lambda>inst. inst\<lparr>im_Artifacts := im_Artifacts inst @ [\<lparr>am_Name = n, am_Checksum = c\<rparr>]\<rparr>)"
  shows "set (concat (map (\<lambda>inst. map (\<lambda>a. (makeDefaultArtifactIdentifier a inst, am_Checksum a)) (im_Artifacts inst))
      (updateInstanceMetadata insts iname index f))) =
    insert (\<lparr>ai_name = n, ai_instanceName = iname, ai_instanceIndex = index, ai_instanceID = '''', ai_hasCustomName = False\<rparr>, c)
      (set (concat (map (\<lambda>inst. map (\<lambda>a. (makeDefaultArtifactIdentifier a inst, am_Checksum a)) (im_Artifacts inst)) insts)))"
  unfolding assms
proof (induction insts)
  case (Cons inst insts)
  then show ?case
    by (cases "im_Name inst = iname \<and> im_Index inst = index")
      (auto simp: makeDefaultArtifactIdentifier_def)
qed (simp add: makeDefaultArtifactIdentifier_def)

lemma entries_addToMetadata: "set (entries (addToMetadata meta ai c)) = insert (recorded_id ai, c) (set (entries meta))"
proof (cases "ai_hasCustomName ai")
  case True
  then show ?thesis
    by (auto simp: entries_def addToMetadata_def makeCustomArtifactIdentifier_def recorded_id_def)
next
  case False
  then have "recorded_id ai = \<lparr>ai_name = ai_name ai, ai_instanceName = ai_instanceName ai,
      ai_instanceIndex = ai_instanceIndex ai, ai_instanceID = '''', ai_hasCustomName = False\<rparr>"
    by (simp add: recorded_id_def)
  with False show ?thesis
    unfolding entries_def addToMetadata_def by (simp add: updated_entries del: set_concat)
qed

lemma lookup_grows: "lookupChecksum meta ai' \<noteq> None \<Longrightarrow> lookupChecksum (addToMetadata meta ai c) ai' \<noteq> None"
proof -
  have "findInstanceArtifact (updateInstanceMetadata insts iname index (\<lambda>inst. inst\<lparr>im_Artifacts := im_Artifacts inst @ [e]\<rparr>))
      index' iname' n \<noteq> None" if "findInstanceArtifact insts index' iname' n \<noteq> None" for insts iname index e index' iname' n
    using that by (induction insts) (auto simp: findArtifact_append split: option.splits if_splits)
  then show "lookupChecksum meta ai' \<noteq> None \<Longrightarrow> lookupChecksum (addToMetadata meta ai c) ai' \<noteq> None"
    by (auto simp: lookupChecksum_def addToMetadata_def findArtifact_append split: option.splits)
qed

lemma runStage_extends: "runStage xs es w = (Ok errs, w') \<Longrightarrow> \<exists>more. errs = es @ more"
proof (induction xs arbitrary: es w)
  case (Cons x xs)
  obtain r1 w1 where "x w = (r1, w1)" by fastforce
  with Cons show ?case by (cases r1) fastforce+
qed simp

lemma wrap_result_Err: "wrap_result msg r = Err e \<longleftrightarrow> (\<exists>e0. r = Err e0 \<and> e = WithMessage e0 msg)"
  by (cases r) auto

lemma checksumLoop_Err: "checksumLoop sha n ts c = Err e \<Longrightarrow> \<exists>e0 msg. e = WithMessage e0 msg"
  by (induction sha n ts c rule: checksumLoop.induct) (auto split: if_splits result.splits)

text \<open>The digests of all recorded artifacts are those of their files, which lie in \<open>P\<close>, if the metadata file can be read.\<close>

definition intact :: "('r, 'x) backup_env_scheme \<Rightarrow> BackupDirectory \<Rightarrow> string set \<Rightarrow> 'r world \<Rightarrow> bool" where
  "intact E bd P w \<longleftrightarrow>
     (\<forall>meta ai c. readMetadata E (metadataFilename bd) w = Ok meta \<longrightarrow> (ai, c) \<in> set (entries meta) \<longrightarrow>
        CalculateChecksum E bd ai w = Ok c \<and> artifact_path bd ai \<in> P)"

definition readable :: "('r, 'x) backup_env_scheme \<Rightarrow> BackupDirectory \<Rightarrow> 'r world \<Rightarrow> bool" where
  "readable E bd w \<longleftrightarrow> (\<exists>meta. readMetadata E (metadataFilename bd) w = Ok meta)"

lemma recorded_readable: "recorded E bd ai w \<Longrightarrow> readable E bd w"
  by (auto simp: recorded_def readable_def split: result.splits)

lemma intact_Valid: "intact E bd P w \<Longrightarrow> readable E bd w \<Longrightarrow> Valid E bd w = Ok True"
proof -
  assume "intact E bd P w" "readable E bd w"
  then obtain meta where meta: "readMetadata E (metadataFilename bd) w = Ok meta" and
    ok: "\<forall>(ai, c) \<in> set (entries meta). CalculateChecksum E bd ai w = Ok c" unfolding intact_def readable_def by fast
  have "validCustom E bd (MetadataForEachArtifact meta) w = Ok True"
    unfolding validCustom_iff
  proof
    fix a assume "a \<in> set (MetadataForEachArtifact meta)"
    then have "(makeCustomArtifactIdentifier a, am_Checksum a) \<in> set (entries meta)" by (simp add: entries_def)
    with ok show "case CalculateChecksum E bd (makeCustomArtifactIdentifier a) w of
        Ok c \<Rightarrow> fst (Match (range_ord E) c (am_Checksum a)) | Err _ \<Rightarrow> am_Checksum a = fmempty | Panic _ \<Rightarrow> False"
      by (auto simp: Match_refl dest!: bspec)
  qed
  moreover have "validInstances E bd (MetadataForEachInstance meta) w = Ok True"
    unfolding validInstances_iff validInstance_iff
  proof (intro ballI)
    fix inst a assume "inst \<in> set (MetadataForEachInstance meta)" "a \<in> set (im_Artifacts inst)"
    then have "(makeDefaultArtifactIdentifier a inst, am_Checksum a) \<in> set (entries meta)" by (auto simp: entries_def)
    with ok show "\<exists>c. CalculateChecksum E bd (makeDefaultArtifactIdentifier a inst) w = Ok c \<and>
        fst (Match (range_ord E) c (am_Checksum a))"
      by (auto simp: Match_refl dest!: bspec)
  qed
  ultimately show ?thesis using meta by (simp add: Valid_def)
qed

lemma entries_recorded: "(ai, c) \<in> set (entries meta) \<Longrightarrow> lookupChecksum meta ai \<noteq> None"
proof -
  have custom: "findArtifact as n \<noteq> None" if "a \<in> set as" "am_Name a = n" for as a n
    using that by (induction as) auto
  have inst: "findInstanceArtifact insts (im_Index i) (im_Name i) (am_Name a) \<noteq> None"
    if "i \<in> set insts" "a \<in> set (im_Artifacts i)" for insts i a
    using that(1) custom [OF that(2) refl] by (induction insts) (auto split: option.splits)
  assume "(ai, c) \<in> set (entries meta)"
  then show ?thesis using custom inst
    by (auto simp: entries_def lookupChecksum_def makeCustomArtifactIdentifier_def makeDefaultArtifactIdentifier_def)
qed

lemma lookup_recorded [simp]: "lookupChecksum meta (recorded_id ai) = lookupChecksum meta ai"
  by (simp add: lookupChecksum_def recorded_id_def)


section \<open>Downloads keep the backup intact\<close>

definition artifacts_to_download :: "deployment \<Rightarrow> Artifact list" where
  "artifacts_to_download dep = concat (map ArtifactsToBackup (BackupableInstances dep))"

lemma AddChecksum_fails: "AddChecksum E bd ai c w = (r, w') \<Longrightarrow> r \<noteq> Ok () \<Longrightarrow> w' = w"
  by (auto simp: AddChecksum_def metadata_save_def os_WriteFile_def split: result.splits option.splits if_splits)

lemma CalculateChecksum_fs: "fs w' = fs w \<Longrightarrow> CalculateChecksum E bd ai w' = CalculateChecksum E bd ai w"
  unfolding CalculateChecksum_def ReadArtifact_def os_Open_def os_read_def by (erule ssubst) (rule refl)

lemma touches_AddChecksum: "touches (AddChecksum E bd ai c) {metadata_path bd}"
proof (rule touchesI)
  fix w r w' p assume "AddChecksum E bd ai c w = (r, w')" "p \<notin> {metadata_path bd}"
  then show "fs w' p = fs w p"
    by (auto simp: AddChecksum_def metadata_save_def metadata_path_def os_WriteFile_def
        split: result.splits option.splits if_splits)
qed

text \<open>A download leaves the metadata file alone, or records the digests its file has then.\<close>

lemma download_effect:
  assumes "BackupDownloadExecutable_Execute E bd a w = (r, w')"
  obtains (unrecorded) "\<forall>p. p \<noteq> artifact_path bd (artifact_id a) \<longrightarrow> fs w' p = fs w p" "r \<noteq> Ok ()"
  | (now_recorded) c w2 w3 where "\<forall>p. p \<noteq> artifact_path bd (artifact_id a) \<longrightarrow> fs w2 p = fs w p"
      "CalculateChecksum E bd (artifact_id a) w2 = Ok c" "AddChecksum E bd (artifact_id a) c w2 = (Ok (), w3)" "fs w' = fs w3"
proof -
  let ?p = "artifact_path bd (artifact_id a)"
  let ?m = "bindr (downloadBackupArtifact E bd a) (\<lambda>_. compareChecksums E bd a)"
  have m: "touches ?m {?p}" by (intro touch_intros touches_download) simp
  have "bindr ?m (\<lambda>c. bindr (AddChecksum E bd (artifact_id a) c) (\<lambda>_. Artifact_Delete E a)) w = (r, w')"
    using assms by (simp add: BackupDownloadExecutable_Execute_def bindr_assoc)
  then show thesis
  proof (cases rule: bindrE)
    case (ok c w2)
    from touchesD [OF m ok(1)] have fs2: "\<forall>p. p \<noteq> ?p \<longrightarrow> fs w2 p = fs w p" by blast
    from ok(1) obtain w1 rc where calc: "CalculateChecksum E bd (artifact_id a) w1 = Ok c"
      "Artifact_Checksum E a w1 = (Ok rc, w2)" by (auto simp: bindr_eq_Ok elim: compareChecksums_Ok)
    from Artifact_Checksum_calm [OF calc(2)] have "fs w2 = fs w1" by (simp add: calm_def)
    from calc(1) CalculateChecksum_fs [OF this, of E bd "artifact_id a"]
    have calc2: "CalculateChecksum E bd (artifact_id a) w2 = Ok c" by simp
    from ok(2) show thesis
    proof (cases rule: bindrE)
      case add: (ok u w3)
      from touchesD [OF touches_Artifact(4) add(2), of _ "{}"] have "fs w' = fs w3" by auto
      with now_recorded [OF fs2 calc2] add(1) show thesis by simp
    next
      case (err e)
      with AddChecksum_fails [OF err(1)] fs2 unrecorded show thesis by simp
    next
      case (panic p)
      with AddChecksum_fails [OF panic(1)] fs2 unrecorded show thesis by simp
    qed
  qed (use touchesD [OF m] unrecorded in auto)
qed

text \<open>What this asks of the environment beyond \<open>metadata_io\<close>: a file that exists can be opened, and errors of the
  operating system are not empty lists of errors.\<close>

locale backup_io = metadata_io E for E :: "('r, 'x) backup_env_scheme" +
  assumes opens_succeed: "os_err E OpOpen p f = None"
    and os_errors_solid: "os_err E op p f = Some e \<Longrightarrow> solid e"
begin

lemma CalculateChecksum_local:
  assumes "fs w' (artifact_path bd ai) = fs w (artifact_path bd ai)"
  shows "CalculateChecksum E bd ai w' = CalculateChecksum E bd ai w"
  using assms
  by (cases "fs w (artifact_path bd ai)")
    (simp_all add: CalculateChecksum_def ReadArtifact_def artifact_path_def os_Open_def os_read_def opens_succeed reads_succeed)

lemma readMetadata_local:
  assumes "fs w' (metadata_path bd) = fs w (metadata_path bd)"
  shows "readMetadata E (metadataFilename bd) w' = readMetadata E (metadataFilename bd) w"
  using assms unfolding readMetadata_def metadata_path_def os_read_def by (simp add: reads_succeed)

lemma intact_frame:
  assumes "intact E bd P w" "metadata_path bd \<notin> S" "P \<inter> S = {}" "\<forall>p. p \<notin> S \<longrightarrow> fs w' p = fs w p" "P \<subseteq> Q"
  shows "intact E bd Q w'"
proof -
  have same: "readMetadata E (metadataFilename bd) w' = readMetadata E (metadataFilename bd) w"
    by (rule readMetadata_local) (use assms(2,4) in blast)
  show ?thesis
    unfolding intact_def same
  proof (intro allI impI)
    fix meta ai c assume "readMetadata E (metadataFilename bd) w = Ok meta" "(ai, c) \<in> set (entries meta)"
    with assms(1) have x: "CalculateChecksum E bd ai w = Ok c" "artifact_path bd ai \<in> P" unfolding intact_def by blast+
    with assms(3,4) have "fs w' (artifact_path bd ai) = fs w (artifact_path bd ai)" by blast
    from CalculateChecksum_local [OF this] x assms(5) show "CalculateChecksum E bd ai w' = Ok c \<and> artifact_path bd ai \<in> Q" by auto
  qed
qed

lemma download_keeps_intact:
  assumes run: "BackupDownloadExecutable_Execute E bd a w = (r, w')" and int: "intact E bd P w"
    and new: "artifact_path bd (artifact_id a) \<notin> P"
  shows "intact E bd (insert (artifact_path bd (artifact_id a)) P) w'"
proof -
  let ?p = "artifact_path bd (artifact_id a)"
  have frame: "intact E bd P u" if "\<forall>p. p \<noteq> ?p \<longrightarrow> fs u p = fs w p" for u
    using intact_frame [OF int, of "{?p}" u P] that new artifact_not_metadata [of bd "artifact_id a"] by auto
  from run show ?thesis
  proof (cases rule: download_effect)
    case unrecorded
    from intact_frame [OF frame [OF unrecorded(1)], of "{}" w' "insert ?p P"] show ?thesis by auto
  next
    case (now_recorded c w2 w3)
    from read_after_add [OF now_recorded(3)] obtain meta where meta: "readMetadata E (metadataFilename bd) w2 = Ok meta"
      "readMetadata E (metadataFilename bd) w3 = Ok (addToMetadata meta (artifact_id a) c)" .
    from frame [OF now_recorded(1)] meta(1) have
      ok: "\<forall>(ai, c) \<in> set (entries meta). CalculateChecksum E bd ai w2 = Ok c \<and> artifact_path bd ai \<in> P"
      unfolding intact_def by blast
    have same: "CalculateChecksum E bd ai w3 = CalculateChecksum E bd ai w2" for ai
      using touchesD [OF touches_AddChecksum now_recorded(3)] artifact_not_metadata
      by (intro CalculateChecksum_local) simp
    have "intact E bd (insert ?p P) w3"
      unfolding intact_def meta(2) same using ok now_recorded(2) by (auto simp: entries_addToMetadata)
    from intact_frame [OF this, of "{}" w'] now_recorded(4) show ?thesis by auto
  qed
qed

text \<open>What was recorded stays recorded, and a download that succeeds records its artifact.\<close>

lemma recorded_local: "fs w' (metadata_path bd) = fs w (metadata_path bd) \<Longrightarrow> recorded E bd ai w' = recorded E bd ai w"
  unfolding recorded_def by (drule readMetadata_local) simp

lemma readable_local: "fs w' (metadata_path bd) = fs w (metadata_path bd) \<Longrightarrow> readable E bd w' = readable E bd w"
  unfolding readable_def by (drule readMetadata_local) simp

lemma recorded_after_add:
  assumes "AddChecksum E bd ai c w = (Ok (), w')"
  shows "recorded E bd ai w'" "recorded E bd ai' w \<Longrightarrow> recorded E bd ai' w'"
proof -
  from read_after_add [OF assms] obtain meta where
    m: "readMetadata E (metadataFilename bd) w = Ok meta" "readMetadata E (metadataFilename bd) w' = Ok (addToMetadata meta ai c)" .
  have "(recorded_id ai, c) \<in> set (entries (addToMetadata meta ai c))" by (simp add: entries_addToMetadata)
  from entries_recorded [OF this] m show "recorded E bd ai w'" by (simp add: recorded_def)
  have "lookupChecksum meta ai' \<noteq> None \<Longrightarrow> lookupChecksum (addToMetadata meta ai c) ai' \<noteq> None"
    by (rule lookup_grows)
  with m show "recorded E bd ai' w \<Longrightarrow> recorded E bd ai' w'" by (simp add: recorded_def)
qed

lemma download_records:
  assumes "BackupDownloadExecutable_Execute E bd a w = (r, w')"
  shows "recorded E bd ai w \<Longrightarrow> recorded E bd ai w'" "r = Ok () \<Longrightarrow> recorded E bd (artifact_id a) w'"
  using assms
proof (atomize (full), cases rule: download_effect)
  case unrecorded
  with artifact_not_metadata [of bd "artifact_id a"] recorded_local [of w' bd w ai]
  show "(recorded E bd ai w \<longrightarrow> recorded E bd ai w') \<and> (r = Ok () \<longrightarrow> recorded E bd (artifact_id a) w')" by force
next
  case (now_recorded c w2 w3)
  with artifact_not_metadata [of bd "artifact_id a"] have "recorded E bd ai w2 = recorded E bd ai w"
    by (intro recorded_local) force
  with recorded_after_add [OF now_recorded(3)] now_recorded(4) recorded_local [of w' bd w3]
  show "(recorded E bd ai w \<longrightarrow> recorded E bd ai w') \<and> (r = Ok () \<longrightarrow> recorded E bd (artifact_id a) w')" by simp
qed

lemma download_readable:
  assumes "BackupDownloadExecutable_Execute E bd a w = (r, w')" "readable E bd w"
  shows "readable E bd w'"
  using assms(1)
proof (cases rule: download_effect)
  case unrecorded
  with assms(2) artifact_not_metadata [of bd "artifact_id a"] readable_local [of w' bd w] show ?thesis by force
next
  case (now_recorded c w2 w3)
  with recorded_readable [OF recorded_after_add(1) [OF now_recorded(3)]] readable_local [of w' bd w3] show ?thesis by simp
qed

text \<open>Downloads one after the other.\<close>

lemma stage_keeps_intact:
  assumes "runStage (map (BackupDownloadExecutable_Execute E bd) as) es w = (r, w')" "intact E bd P w"
    "distinct (map (\<lambda>a. artifact_path bd (artifact_id a)) as)"
    "(\<lambda>a. artifact_path bd (artifact_id a)) ` set as \<inter> P = {}"
  shows "intact E bd (P \<union> (\<lambda>a. artifact_path bd (artifact_id a)) ` set as) w' \<and>
    (readable E bd w \<longrightarrow> readable E bd w') \<and> (\<forall>ai. recorded E bd ai w \<longrightarrow> recorded E bd ai w') \<and>
    (\<forall>a \<in> set as. r = Ok es \<longrightarrow> recorded E bd (artifact_id a) w')"
  using assms
proof (induction as arbitrary: es w P)
  case (Cons a as)
  let ?p = "artifact_path bd (artifact_id a)"
  obtain r1 w1 where run: "BackupDownloadExecutable_Execute E bd a w = (r1, w1)" by fastforce
  from Cons.prems(2,4) download_keeps_intact [OF run] have int: "intact E bd (insert ?p P) w1" by auto
  note rec = download_records [OF run] download_readable [OF run]
  show ?case
  proof (cases "is_panic r1")
    case True
    then obtain m where m: "r1 = Panic m" by (cases r1) auto
    with Cons.prems(1) run have "r = Panic m" "w' = w1" by auto
    with intact_frame [OF int, of "{}" w1] rec(1,3) show ?thesis by auto
  next
    case False
    define es1 where "es1 = es @ (case r1 of Err e \<Rightarrow> [e] | _ \<Rightarrow> [])"
    from Cons.prems(1) run False have rest: "runStage (map (BackupDownloadExecutable_Execute E bd) as) es1 w1 = (r, w')"
      by (cases r1) (auto simp: es1_def)
    have "(\<lambda>a. artifact_path bd (artifact_id a)) ` set as \<inter> insert ?p P = {}" using Cons.prems(3,4) by auto
    from Cons.IH [OF rest int _ this] Cons.prems(3) have IH:
      "intact E bd (insert ?p P \<union> (\<lambda>a. artifact_path bd (artifact_id a)) ` set as) w'"
      "readable E bd w1 \<longrightarrow> readable E bd w'"
      "\<forall>ai. recorded E bd ai w1 \<longrightarrow> recorded E bd ai w'" "\<forall>a \<in> set as. r = Ok es1 \<longrightarrow> recorded E bd (artifact_id a) w'"
      by auto
    have "es1 = es \<and> r1 = Ok ()" if "r = Ok es"
      using runStage_extends [OF rest [unfolded that]] False by (cases r1) (auto simp: es1_def)
    with IH rec show ?thesis by auto
  qed
qed auto

lemma os_Err_solid:
  "os_WriteFile E p s w = (Err e, w') \<Longrightarrow> solid e" "file_Close E p w = (Err e, w') \<Longrightarrow> solid e"
  using os_errors_solid by (auto simp: os_WriteFile_def file_Close_def intro: solid_plain split: option.splits if_splits elim: of_error.elims)

lemma Execute_Err_solid:
  assumes "BackupDownloadExecutable_Execute E bd a w = (Err e, w')"
  shows "solid e"
proof -
  have stream: "solid e" if "(case StreamFromRemote E a wr s w of (res, _, w') \<Rightarrow> (res, w')) = (Err e, w')"
    for wr :: "(LogPercentageWriter, 'r) writer" and s w e w'
    using that by (auto simp: StreamFromRemote_def split: prod.splits result.splits)
  have calc: "solid e" if "CalculateChecksum E bd ai w = Err e" for ai w e
    using that by (auto simp: CalculateChecksum_def wrap_result_Err split: result.splits dest!: checksumLoop_Err)
  have cmp: "solid e" if "compareChecksums E bd a w = (Err e, w')" for w e w'
    using that unfolding compareChecksums_def
    by (auto elim!: bindrE dest: calc wrapped_Err simp: Artifact_Checksum_def mismatch_error_def split: prod.splits if_splits
        intro: solid_plain)
  have add: "solid e" if "AddChecksum E bd ai c w = (Err e, w')" for ai c w e w'
    using that by (auto simp: AddChecksum_def metadata_save_def wrap_result_Err split: result.splits intro: os_Err_solid)
  have down: "solid e" if "downloadBackupArtifact E bd a w = (Err e, w')" for w e w'
    using that unfolding downloadBackupArtifact_def CreateArtifact_def Artifact_Size_def Artifact_SizeInBytes_def
    by (auto elim!: bindrE dest: wrapped_Err stream os_Err_solid(2))
  from assms show ?thesis
    unfolding BackupDownloadExecutable_Execute_def Artifact_Delete_def
    by (auto elim!: bindrE dest: cmp add down wrapped_Err)
qed

text \<open>The whole download, whatever order the executor runs it in.\<close>

lemma backup_download:
  assumes run: "DownloadBackupFromDeployment E ex bd dep w = (r, w')" and int: "intact E bd P w"
    and new: "distinct (map (\<lambda>a. artifact_path bd (artifact_id a)) (artifacts_to_download dep))"
      "(\<lambda>a. artifact_path bd (artifact_id a)) ` set (artifacts_to_download dep) \<inter> P = {}"
  shows "intact E bd (P \<union> (\<lambda>a. artifact_path bd (artifact_id a)) ` set (artifacts_to_download dep)) w' \<and>
    (readable E bd w \<longrightarrow> readable E bd w') \<and>
    (\<forall>a \<in> set (artifacts_to_download dep). r = Ok () \<longrightarrow> recorded E bd (artifact_id a) w')"
proof -
  let ?f = "BackupDownloadExecutable_Execute E bd" and ?as = "artifacts_to_download dep"
  have stages: "[concat (map (\<lambda>i. map ?f (ArtifactsToBackup i)) (BackupableInstances dep))] = map (map ?f) [?as]"
    by (simp add: artifacts_to_download_def map_concat comp_def)
  obtain kss where kss: "same_stages [?as] kss"
    "Executor_Run (finish_order E) ex (map (map ?f) [?as]) w = runStage (map ?f (concat kss)) [] w"
    using executor.run_labelled [OF any_executor, of "[?as]" "finish_order E" ex ?f w] by blast
  obtain r0 w0 where stage: "runStage (map ?f (concat kss)) [] w = (r0, w0)" by fastforce
  from same_stages_concat [OF kss(1)] have ms: "mset (concat kss) = mset ?as" by simp
  then have set: "set (concat kss) = set ?as" by (metis set_mset_mset)
  have "distinct (map (\<lambda>a. artifact_path bd (artifact_id a)) (concat kss))"
    using new(1) mset_eq_imp_distinct_iff [of "map (\<lambda>a. artifact_path bd (artifact_id a)) (concat kss)"
        "map (\<lambda>a. artifact_path bd (artifact_id a)) ?as"] ms by (metis mset_map)
  from stage_keeps_intact [OF stage int this] new(2) have res:
    "intact E bd (P \<union> (\<lambda>a. artifact_path bd (artifact_id a)) ` set ?as) w0"
    "readable E bd w \<longrightarrow> readable E bd w0"
    "\<forall>a \<in> set ?as. r0 = Ok [] \<longrightarrow> recorded E bd (artifact_id a) w0"
    unfolding set by blast+
  have "w' = w0" "r = Ok () \<Longrightarrow> r0 = Ok []"
  proof -
    from run stage kss(2) have r: "(case r0 of Ok errs \<Rightarrow> (of_error (ConvertErrors errs), w0) | Err e \<Rightarrow> (Err e, w0)
        | Panic p \<Rightarrow> (Panic p, w0)) = (r, w')"
      unfolding DownloadBackupFromDeployment_def stages run_stages_def bindr_def by (auto split: result.splits)
    then show "w' = w0" by (auto split: result.splits)
    assume "r = Ok ()"
    with r obtain errs where errs: "r0 = Ok errs" "ConvertErrors errs = None" by (auto split: result.splits)
    have "solid e" if "e \<in> set errs" for e
    proof -
      from runStage_errors [OF stage [unfolded errs(1)] that] obtain a u where "fst (?f a u) = Err e" by auto
      then have "?f a u = (Err e, snd (?f a u))" by (metis prod.collapse)
      then show ?thesis by (rule Execute_Err_solid)
    qed
    with solid_none errs show "r0 = Ok []" by blast
  qed
  with res show ?thesis by blast
qed

end

section \<open>Properties\<close>



text \<open>An instance that answers the commands of a download: one file whose digest is its content.\<close>

definition sample_download_reply :: "string \<Rightarrow> session_reply" where
  "sample_download_reply cmd =
     (if take 12 cmd = ''sudo du -sh '' then sample_reply\<lparr>stdoutChunks := [''1K x'']\<rparr>
      else if take 11 cmd = ''sudo du -s '' then sample_reply\<lparr>stdoutChunks := [''1 x'']\<rparr>
      else if take 8 cmd = ''sudo tar'' then sample_reply\<lparr>stdoutChunks := [''da'', ''ta'']\<rparr>
      else if take 10 cmd = ''sudo sh -c'' then sample_reply\<lparr>stdoutChunks := [''data  ./f'', newline]\<rparr>
      else sample_reply)"

definition sample_download_id :: artifactIdentifier where
  "sample_download_id = artifact_id (NewBackupArtifact (sample_job ''db'' []) sample_instance sample_connection)"

definition sample_download_env :: "nat director_env" where
  "sample_download_env =
     (sample_director_env [sample_metadata, addToMetadata sample_metadata sample_download_id (fmupd ''./f'' ''data'' fmempty)])
       \<lparr>ssh_session := (\<lambda>c cmd stdin r. (sample_download_reply cmd, r)),
        tar_Entries := (\<lambda>s. [TarEntry \<lparr>th_Name = ''./f'', th_IsDir = False, th_InfoName = ''f''\<rparr> (Ok s), TarEOF])\<rparr>"

definition sample_download_world :: "nat world" where
  "sample_download_world = sample_world (\<lambda>p. if p = ''b/metadata'' then Some (FFile '''') else None)"

interpretation sample_download: backup_io sample_download_env
  by unfold_locales (simp_all add: sample_download_env_def sample_director_simps codec_round_trip)

lemma sample_download_succeeds:
  "fst (DownloadBackupFromDeployment sample_download_env Serial \<lparr>baseDirName = ''b''\<rparr> (NewDeployment [sample_instance])
     sample_download_world) = Ok ()"
  by code_simp


end
