(* ===== verification/Backup_Roundtrip.thy ===== *)
theory Backup_Roundtrip
  imports Backup_Validity Protocol
begin

text \<open>
  A whole backup leaves a directory that a later restore accepts: the invariant of \<open>Backup_Validity\<close> along
  the runs of the workflow of \<^verbatim>\<open>orchestrator/backuper.go\<close>. The artifact is created
  with an empty metadata file, the steps up to the download leave the local files alone
  (\<open>Protocol\<close>), the download keeps the backup intact, and the finish time changes no recorded
  digest.
\<close>

section \<open>The paths of a backup\<close>

definition after_create :: "Step \<Rightarrow> bool" where
  "after_create k \<longleftrightarrow> \<not> is_Find k \<and> \<not> is_CreateArtifact k \<and> \<not> is_ValidateArtifact k"

definition saving_path :: "DeploymentManager \<Rightarrow> KahnLockOrderer \<Rightarrow> string \<Rightarrow> (Step \<times> bool) list \<Rightarrow> bool" where
  "saving_path dm lo ts p \<longleftrightarrow>
     p = [(FindDeploymentStep dm, True), (BackupableStep lo, True), (CreateArtifactStep dm ts, True)] @ drop 3 p \<and>
     list_all (\<lambda>(k, b). after_create k) (drop 3 p) \<and> taken is_Drain p \<le> 1"

lemma saving_paths:
  "list_all (\<lambda>p. if worked is_CreateArtifact p then saving_path dm lo ts p else \<not> worked is_Drain p)
     (all_paths (NewBackuper dm lo ex copier unsafeLockFree ts))"
  by (cases unsafeLockFree) (simp_all add: NewBackuper_def workflow_defs path_defs saving_path_def after_create_def)

section \<open>Steps after the creation of the artifact\<close>

lemma Step_keeps_artifact:
  "Step_Run E k (session, w) = (r, session', w') \<Longrightarrow> after_create k \<Longrightarrow> session' = session"
  by (cases k) (auto simp: after_create_def keep_session_def split: prod.splits)

context backup_io
begin

lemma AddFinishTime_intact:
  assumes "AddFinishTime E bd t w = (r, w')"
  shows "intact E bd P w \<Longrightarrow> intact E bd P w'" "readable E bd w \<Longrightarrow> readable E bd w'"
    "recorded E bd ai w \<Longrightarrow> recorded E bd ai w'"
proof -
  have "fs w' = fs w \<or> (\<exists>meta act. readMetadata E (metadataFilename bd) w = Ok meta \<and>
      readMetadata E (metadataFilename bd) w' = Ok (meta\<lparr>MetadataForBackupActivity := act\<rparr>) \<and>
      (\<forall>p. p \<noteq> metadata_path bd \<longrightarrow> fs w' p = fs w p))"
    using assms yaml_round_trip
    by (auto simp: AddFinishTime_def metadata_save_def os_WriteFile_def metadata_path_def readMetadata_def [of E "metadataFilename bd" w']
        os_read_def reads_succeed split: result.splits option.splits if_splits) (rule exI, rule refl)
  then have "(intact E bd P w \<longrightarrow> intact E bd P w') \<and> (readable E bd w \<longrightarrow> readable E bd w') \<and>
      (recorded E bd ai w \<longrightarrow> recorded E bd ai w')"
  proof (elim disjE exE conjE)
    assume "fs w' = fs w"
    with readable_local [of w' bd w] recorded_local [of w' bd w ai] intact_frame [of bd P w "{}" w' P] show ?thesis by simp
  next
    fix meta act
    assume meta: "readMetadata E (metadataFilename bd) w = Ok meta"
      "readMetadata E (metadataFilename bd) w' = Ok (meta\<lparr>MetadataForBackupActivity := act\<rparr>)"
      and frame: "\<forall>p. p \<noteq> metadata_path bd \<longrightarrow> fs w' p = fs w p"
    have "CalculateChecksum E bd ai w' = CalculateChecksum E bd ai w" for ai
      by (rule CalculateChecksum_local) (simp add: frame artifact_not_metadata)
    with meta show ?thesis
      by (simp add: intact_def readable_def recorded_def entries_def lookupChecksum_def)
  qed
  then show "intact E bd P w \<Longrightarrow> intact E bd P w'" "readable E bd w \<Longrightarrow> readable E bd w'"
    "recorded E bd ai w \<Longrightarrow> recorded E bd ai w'" by blast+
qed

end

text \<open>What the session and the local backup are known to hold.\<close>

definition keeps_backup ::
  "('r, 'x) orch_env_scheme \<Rightarrow> BackupDirectory \<Rightarrow> string set \<Rightarrow> string set \<Rightarrow> 'r world \<Rightarrow> 'r world \<Rightarrow> bool" where
  "keeps_backup E art P Q w w' \<longleftrightarrow>
     (intact E art P w \<longrightarrow> intact E art Q w') \<and> (readable E art w \<longrightarrow> readable E art w') \<and>
     (\<forall>ai. recorded E art ai w \<longrightarrow> recorded E art ai w')"

lemma keeps_backup_trans: "keeps_backup E art P Q u v \<Longrightarrow> keeps_backup E art Q S v w \<Longrightarrow> keeps_backup E art P S u w"
  unfolding keeps_backup_def by blast

lemma keeps_backup_same_files:
  assumes "backup_io E" "fs w' = fs w"
  shows "keeps_backup E art P P w w'"
  using backup_io.intact_frame [OF assms(1), of art P w "{}" w' P] backup_io.readable_local [OF assms(1), of w' art w]
    backup_io.recorded_local [OF assms(1), of w' art w] assms(2)
  by (simp add: keeps_backup_def)

lemma Step_keeps_backup:
  assumes io: "backup_io E" and run: "Step_Run E k (session, w) = (r, session', w')" and k: "after_create k" "\<not> is_Drain k"
    and art: "currentArtifact session = Some art"
  shows "keeps_backup E art P P w w'"
proof (cases "is_AddFinishTime k")
  case True
  with run art have "AddFinishTime E art (time_Now E w) w = (r, w')"
    by (cases k) (auto simp: keep_session_def AddFinishTimeStep_Run_def split: prod.splits)
  from backup_io.AddFinishTime_intact [OF io this] show ?thesis by (simp add: keeps_backup_def)
next
  case False
  with k have "\<not> writes k" by (simp add: writes_def after_create_def)
  from keeps_backup_same_files [OF io Step_same_files [OF run this]] show ?thesis .
qed

lemma replays_keep_backup:
  "replays (Step_Run E) (session, w) tr (session', w') \<Longrightarrow> list_all (\<lambda>(k, r). after_create k \<and> \<not> is_Drain k) tr \<Longrightarrow>
     backup_io E \<Longrightarrow> currentArtifact session = Some art \<Longrightarrow> session' = session \<and> keeps_backup E art P P w w'"
proof (induction tr arbitrary: session w)
  case Nil
  then show ?case by (simp add: keeps_backup_def)
next
  case (Cons x tr)
  obtain k r where x: "x = (k, r)" by fastforce
  with Cons.prems(1) obtain s1 w1 where run: "Step_Run E k (session, w) = (r, s1, w1)" and
    rest: "replays (Step_Run E) (s1, w1) tr (session', w')" by (auto elim: replays_ConsE)
  from Cons.prems(2) x have k: "after_create k" "\<not> is_Drain k" and tr: "list_all (\<lambda>(k, r). after_create k \<and> \<not> is_Drain k) tr" by auto
  from Step_keeps_artifact [OF run k(1)] have s1: "s1 = session" .
  from Cons.IH [OF rest tr Cons.prems(3)] Cons.prems(4) s1 have "session' = session" "keeps_backup E art P P w1 w'" by auto
  with keeps_backup_trans [OF Step_keeps_backup [OF Cons.prems(3) run k Cons.prems(4)]] show ?case by blast
qed

text \<open>The download step.\<close>

definition download_paths :: "BackupDirectory \<Rightarrow> deployment \<Rightarrow> string list" where
  "download_paths art dep = map (\<lambda>a. artifact_path art (artifact_id a)) (artifacts_to_download dep)"

lemma Drain_keeps_backup:
  assumes io: "backup_io E" and run: "Step_Run E (DrainStep copier) (session, w) = (r, session', w')"
    and s: "session_deployment session = Some dep" "currentArtifact session = Some art"
    and new: "distinct (download_paths art dep)" "set (download_paths art dep) \<inter> P = {}" and int: "intact E art P w"
  shows "session' = session \<and> intact E art (P \<union> set (download_paths art dep)) w' \<and>
    (r = Ok () \<longrightarrow> (\<forall>a \<in> set (artifacts_to_download dep). recorded E art (artifact_id a) w'))"
proof -
  obtain r0 w0 where dl: "DownloadBackupFromDeployment E copier art dep w = (r0, w0)" by fastforce
  with run s have "session' = session" "w' = w0" "r = Ok () \<Longrightarrow> r0 = Ok ()"
    by (auto simp: keep_session_def DrainStep_Run_def with_deployment_def map_err_def split: result.splits)
  with backup_io.backup_download [OF io dl int] new show ?thesis by (simp add: download_paths_def)
qed


section \<open>The creation of the artifact\<close>

text \<open>In the file system a directory that does not exist has no metadata file in it.\<close>

definition no_stray_metadata :: "(string \<Rightarrow> fnode option) \<Rightarrow> bool" where
  "no_stray_metadata f \<longleftrightarrow> (\<forall>d. f (path_Clean d) = None \<longrightarrow> f (metadata_path \<lparr>baseDirName = d\<rparr>) = None)"

lemma Create_new_directory:
  assumes "BackupDirectoryManager_Create E path name w = (Ok art, w')"
  shows "fs w (path_Clean (baseDirName art)) = None \<and> fs w' = (fs w)(path_Clean (baseDirName art) := Some FDir)"
  using assms
  by (auto simp: BackupDirectoryManager_Create_def os_Mkdir_def split: result.splits option.splits if_splits fnode.splits)

lemma manifest_not_metadata: "path_Clean (manifestFilename bd) \<noteq> metadata_path bd"
proof
  assume eq: "path_Clean (manifestFilename bd) = metadata_path bd"
  have ends: "last (Split (CHR ''/'') (path_Clean (path_Join (baseDirName bd) f))) = f"
    if "plain_part f" "CHR ''/'' \<notin> set f" for f
  proof -
    from that have f: "last (Split (CHR ''/'') f) = f" "f \<noteq> ''''" by (simp_all add: Split_no_sep plain_part_def)
    with that(1) last_part_Join [of f "baseDirName bd"] have "last (Split (CHR ''/'') (path_Join (baseDirName bd) f)) = f" by simp
    with that(1) last_part_clean show ?thesis by simp
  qed
  from ends [of "''manifest.yml''"] ends [of "''metadata''"] eq show False
    by (simp add: manifestFilename_def metadata_path_def metadataFilename_def plain_part_def)
qed

lemma SaveManifest_same_metadata:
  assumes "DeploymentManager_SaveManifest E dm name art w = (r, w')"
  shows "fs w' (metadata_path art) = fs w (metadata_path art)"
proof -
  have save: "touches (SaveManifest E art m) {path_Clean (manifestFilename art)}" for m
    unfolding SaveManifest_def by (intro touch_intros) simp
  have get: "touches (wrapped msg (GetManifest E name)) S" for msg S
    unfolding GetManifest_def by (intro touch_intros touches_calm) (drule dir_call_calm, blast)+
  have "touches (DeploymentManager_SaveManifest E dm name art) {path_Clean (manifestFilename art)}"
  proof (cases dm)
    case (BoshManager b)
    have "touches (bindr (wrapped msg (GetManifest E name)) (\<lambda>m. SaveManifest E art m)) {path_Clean (manifestFilename art)}" for msg
      by (intro touch_intros get save)
    with BoshManager show ?thesis by (cases "downloadManifest b") (simp_all add: touches_def Bosh_SaveManifest_def)
  qed (simp add: touches_def Standalone_SaveManifest_def)
  from touchesD [OF this assms, of "metadata_path art"] manifest_not_metadata [of art] show ?thesis by auto
qed

lemma unreadable_intact:
  "fs w (metadata_path bd) = None \<or> fs w (metadata_path bd) = Some FDir \<Longrightarrow> intact E bd P w"
  by (auto simp: intact_def readMetadata_def os_read_def metadata_path_def split: result.splits option.splits)

lemma new_metadata_intact:
  assumes io: "backup_io E" and run: "CreateMetadataFileWithStartTime E art t w = (r, w')"
    and new: "fs w (metadata_path art) = None \<or> fs w (metadata_path art) = Some FDir"
  shows "intact E art {} w'"
proof -
  let ?m = "\<lparr>MetadataForEachInstance = [], MetadataForEachArtifact = [],
      MetadataForBackupActivity = \<lparr>StartTime = time_Format E t, FinishTime = ''''\<rparr>\<rparr>"
  have io': "metadata_io E" using io by (simp add: backup_io_def)
  from run have "w' = w \<or> (\<exists>s. yaml_Marshal E ?m = Ok s \<and> fs w' (metadata_path art) = Some (FFile s))"
    by (auto simp: CreateMetadataFileWithStartTime_def metadata_save_def os_WriteFile_def metadata_path_def
        split: result.splits option.splits if_splits)
  then show ?thesis
  proof (elim disjE exE conjE)
    fix s assume "yaml_Marshal E ?m = Ok s" "fs w' (metadata_path art) = Some (FFile s)"
    with metadata_io.yaml_round_trip [OF io'] have "readMetadata E (metadataFilename art) w' = Ok ?m"
      by (simp add: readMetadata_def os_read_def metadata_path_def metadata_io.reads_succeed [OF io'])
    then show ?thesis by (simp add: intact_def entries_def)
  qed (use new unreadable_intact in auto)
qed

lemma Create_intact:
  assumes io: "backup_io E" and run: "Step_Run E (CreateArtifactStep dm ts) (session, w) = (Ok (), session', w')"
    and stray: "no_stray_metadata (fs w)"
  obtains art where "currentArtifact session' = Some art" "session_deployment session' = session_deployment session" "intact E art {} w'"
proof -
  from run obtain art w1 r2 w2 where
    create: "BackupDirectoryManager_Create E (currentArtifactPath session) (deploymentName session @ ''_'' @ ts) w = (Ok art, w1)" and
    meta: "CreateMetadataFileWithStartTime E art (time_Now E w1) w1 = (r2, w2)" and
    save: "DeploymentManager_SaveManifest E dm (deploymentName session) art w2 = (Ok (), w')" and
    s: "session' = SetCurrentArtifact art session"
    by (auto simp: CreateArtifactStep_Run_def split: prod.splits result.splits)
  from Create_new_directory [OF create] stray
  have "fs w1 (metadata_path art) = None \<or> fs w1 (metadata_path art) = Some FDir"
    by (cases art) (auto simp: no_stray_metadata_def)
  from new_metadata_intact [OF io meta this] have "intact E art {} w2" .
  moreover have "readMetadata E (metadataFilename art) w' = readMetadata E (metadataFilename art) w2"
    by (rule backup_io.readMetadata_local [OF io SaveManifest_same_metadata [OF save]])
  ultimately have "intact E art {} w'" by (simp add: intact_def)
  with s that show thesis by (simp add: SetCurrentArtifact_def)
qed


section \<open>Whole runs\<close>

lemma backupable_artifacts: "Deployment_IsBackupable dep \<Longrightarrow> artifacts_to_download dep \<noteq> []"
  by (auto simp: Deployment_IsBackupable_def artifacts_to_download_def BackupableInstances_def AllBackupable_def
      ArtifactsToBackup_def Instance_IsBackupable_def AnyAreBackupable_def filter_empty_conv)

lemma Backupable_backupable:
  assumes "Step_Run E (BackupableStep lo) (session, w) = (Ok u, session', w')" "session_deployment session = Some dep"
  shows "Deployment_IsBackupable dep"
  using assms by (auto simp: keep_session_def BackupableStep_Run_def with_deployment_def split: prod.splits if_splits)

text \<open>The backup of a session: everything the deployment has to back up is recorded, and a restore accepts it.\<close>

definition saved :: "('r, 'x) orch_env_scheme \<Rightarrow> deployment \<Rightarrow> BackupDirectory \<Rightarrow> 'r world \<Rightarrow> bool" where
  "saved E dep art w \<longleftrightarrow>
     Valid E art w = Ok True \<and> (\<forall>a \<in> set (artifacts_to_download dep). recorded E art (artifact_id a) w)"

lemma drained_saved:
  assumes io: "backup_io E" and int: "intact E art P w" and ne: "artifacts_to_download dep \<noteq> []"
    and rec: "\<forall>a \<in> set (artifacts_to_download dep). recorded E art (artifact_id a) w"
  shows "saved E dep art w"
proof -
  from ne rec have "readable E art w" by (cases "artifacts_to_download dep") (auto intro: recorded_readable)
  with int rec show ?thesis by (simp add: saved_def intact_Valid)
qed

lemma saving_run:
  assumes io: "backup_io E" and stray: "no_stray_metadata (fs w)"
    and run: "replays (Step_Run E) (session, w) tr (session', w')"
    and path: "saving_path dm lo ts (outcome tr)" and drained: "worked is_Drain (outcome tr)"
  shows "\<exists>dep art. session_deployment session' = Some dep \<and> currentArtifact session' = Some art \<and>
    (distinct (download_paths art dep) \<longrightarrow> saved E dep art w')"
proof -
  from path have start: "outcome tr = (FindDeploymentStep dm, True) # (BackupableStep lo, True) # (CreateArtifactStep dm ts, True) #
      drop 3 (outcome tr)" and rest: "list_all (\<lambda>(k, b). after_create k) (drop 3 (outcome tr))"
    and once: "taken is_Drain (outcome tr) \<le> 1" unfolding saving_path_def append.simps by blast+
  from start obtain tr0 where tr: "tr = (FindDeploymentStep dm, Ok ()) # (BackupableStep lo, Ok ()) # (CreateArtifactStep dm ts, Ok ()) # tr0"
    and tr0: "outcome tr0 = drop 3 (outcome tr)"
    by (subst (asm) outcome_Cons) (auto simp: outcome_Cons succeeded_iff)
  from rest have after: "list_all (\<lambda>(k, r). after_create k) tr0" unfolding tr0 [symmetric] outcome_list_all .
  from drained tr have "list_ex (\<lambda>(k, b). is_Drain k \<and> b) (outcome tr0)" by (auto simp: worked_def)
  then obtain k where "(k, True) \<in> set (outcome tr0)" "is_Drain k" by (auto simp: list_ex_iff)
  then obtain copier where "(DrainStep copier, Ok ()) \<in> set tr0" by (cases k) (auto simp: outcome_def succeeded_iff)
  then obtain pre post where split: "tr0 = pre @ (DrainStep copier, Ok ()) # post" by (meson split_list)
  from once have quiet: "list_all (\<lambda>(k, r). after_create k \<and> \<not> is_Drain k) pre" "list_all (\<lambda>(k, r). after_create k \<and> \<not> is_Drain k) post"
    using after by (auto simp: tr split taken_def outcome_def filter_empty_conv list_all_iff)
  note run' = run [unfolded tr split]
  from run' obtain s0 u0 where find: "Step_Run E (FindDeploymentStep dm) (session, w) = (Ok (), s0, u0)" and
    t0: "replays (Step_Run E) (s0, u0) ((BackupableStep lo, Ok ()) # (CreateArtifactStep dm ts, Ok ()) # pre @ (DrainStep copier, Ok ()) # post)
      (session', w')" by (rule replays_ConsE)
  from t0 obtain s1 u1 where check: "Step_Run E (BackupableStep lo) (s0, u0) = (Ok (), s1, u1)" and
    t1: "replays (Step_Run E) (s1, u1) ((CreateArtifactStep dm ts, Ok ()) # pre @ (DrainStep copier, Ok ()) # post) (session', w')"
    by (rule replays_ConsE)
  from t1 obtain s2 u2 where create: "Step_Run E (CreateArtifactStep dm ts) (s1, u1) = (Ok (), s2, u2)" and
    t2: "replays (Step_Run E) (s2, u2) (pre @ (DrainStep copier, Ok ()) # post) (session', w')" by (rule replays_ConsE)
  from t2 obtain s3 u3 where before: "replays (Step_Run E) (s2, u2) pre (s3, u3)" and
    t3: "replays (Step_Run E) (s3, u3) ((DrainStep copier, Ok ()) # post) (session', w')" by (rule replays_appendE)
  from t3 obtain s4 u4 where drain: "Step_Run E (DrainStep copier) (s3, u3) = (Ok (), s4, u4)" and
    post: "replays (Step_Run E) (s4, u4) post (session', w')" by (rule replays_ConsE)
  from find obtain dep where dep0: "session_deployment s0 = Some dep" by (rule Find_Ok)
  from Backupable_Ok [OF check dep0] have s1: "s1 = s0" by simp
  have "fs u1 = fs w" using Step_same_files [OF find] Step_same_files [OF check] by (simp add: writes_def)
  with stray have "no_stray_metadata (fs u1)" by simp
  from Create_intact [OF io create this] obtain art where
    art: "currentArtifact s2 = Some art" and dep2: "session_deployment s2 = Some dep" and int2: "intact E art {} u2"
    using dep0 s1 by metis
  from replays_keep_backup [OF before quiet(1) io art, of "{}"] int2
  have s3: "s3 = s2" and int3: "intact E art {} u3" by (simp_all add: keeps_backup_def)
  have "saved E dep art w' \<and> session' = s2" if new: "distinct (download_paths art dep)"
  proof -
    from Drain_keeps_backup [OF io drain _ _ new _ int3] art dep2 s3
    have s4: "s4 = s2" and int4: "intact E art (set (download_paths art dep)) u4" and
      rec4: "\<forall>a \<in> set (artifacts_to_download dep). recorded E art (artifact_id a) u4" by auto
    from replays_keep_backup [OF post quiet(2) io, of art "set (download_paths art dep)"] art s4 int4 rec4
    have "session' = s2" "intact E art (set (download_paths art dep)) w'"
      "\<forall>a \<in> set (artifacts_to_download dep). recorded E art (artifact_id a) w'" by (auto simp: keeps_backup_def)
    with drained_saved [OF io _ backupable_artifacts [OF Backupable_backupable [OF check dep0]]] show ?thesis by blast
  qed
  moreover have "session' = s2"
    using Step_keeps_artifact [OF drain] replays_keep_backup [OF post quiet(2) io] s3 art by (simp add: after_create_def)
  ultimately show ?thesis using art dep2 by auto
qed

section \<open>Properties\<close>



text \<open>A whole backup that is computed: one VM with one job that has a lock, a backup and an unlock script.\<close>

definition sample_run_reply :: "string \<Rightarrow> session_reply" where
  "sample_run_reply cmd =
     (if take 4 (drop 12 cmd) = ''find''
      then sample_reply\<lparr>stdoutChunks := [''/var/vcap/jobs/db/bin/bbr/backup'' @ newline @
        ''/var/vcap/jobs/db/bin/bbr/pre-backup-lock'' @ newline @ ''/var/vcap/jobs/db/bin/bbr/post-backup-unlock'' @ newline]\<rparr>
      else if take 9 cmd = ''sudo stat'' then sample_reply\<lparr>runErr := RunExitError 1\<rparr>
      else sample_download_reply cmd)"

definition sample_start :: metadata where
  "sample_start = sample_metadata\<lparr>MetadataForBackupActivity := \<lparr>StartTime = ''0'', FinishTime = ''''\<rparr>\<rparr>"

definition sample_recorded :: metadata where
  "sample_recorded = addToMetadata sample_start sample_download_id (fmupd ''./f'' ''data'' fmempty)"

definition sample_run_env :: "nat orch_env" where
  "sample_run_env = director_env.extend
     ((sample_director_env [sample_start, sample_recorded,
         sample_recorded\<lparr>MetadataForBackupActivity := \<lparr>StartTime = ''0'', FinishTime = ''0''\<rparr>\<rparr>])
       \<lparr>ssh_session := (\<lambda>c cmd stdin r. (sample_run_reply cmd, r)),
        tar_Entries := (\<lambda>s. [TarEntry \<lparr>th_Name = ''./f'', th_IsDir = False, th_InfoName = ''f''\<rparr> (Ok s), TarEOF]),
        patch_Find := (\<lambda>m p. if HasSuffix p ''backup_one_restore_all'' then Ok (PBool False) else Ok (PString ''rel''))\<rparr>)
     (orch_env.fields (\<lambda>_. 0))"

definition sample_manager :: DeploymentManager where
  "sample_manager = BoshManager \<lparr>bdm_client = sample_client, downloadManifest = True\<rparr>"

definition sample_backuper :: "Step Workflow" where
  "sample_backuper = NewBackuper sample_manager NewKahnBackupLockOrderer Serial Serial False ''ts''"

lemma computed_run:
  "(case x of Some (Ok errs, tr, session, w) \<Rightarrow> P errs tr session w | _ \<Rightarrow> False) \<Longrightarrow>
     \<exists>errs tr session w. x = Some (Ok errs, tr, session, w)"
  by (cases x; cases "fst (the x)") auto

lemma sample_run_computed:
  "case Workflow_Run sample_backuper (traced (Step_Run sample_run_env)) ([], NewSession ''dep'', sample_world (\<lambda>_. None)) of
     Some (Ok errs, tr, session, w) \<Rightarrow> errs = [] \<and> worked is_Drain (outcome tr) \<and>
       (case (session_deployment session, currentArtifact session) of
          (Some dep, Some art) \<Rightarrow> download_paths art dep = [''dep_ts/vm-0-db.tar'']
        | _ \<Rightarrow> False)
   | _ \<Rightarrow> False"
  by code_simp

interpretation sample_run: backup_io sample_run_env
  by unfold_locales
    (simp_all add: sample_run_env_def director_env.extend_def orch_env.fields_def sample_director_simps codec_round_trip)


end
