(* ===== verification/Restore_Integrity.thy ===== *)
theory Restore_Integrity
  imports Restore_Protocol Backup_Roundtrip
begin

text \<open>
  What a restore has checked before the first lock or restore script runs: the local backup at the start
  (\<^verbatim>\<open>orchestrator/validate_artifact_step.go\<close>), every artifact on its instance after the transfer
  (\<^verbatim>\<open>orchestrator/backup_upload_executable.go\<close>), put together along the runs of the workflow of
  \<^verbatim>\<open>orchestrator/restorer.go\<close>. The digests an instance reports are, in the end, those of the files in the
  local backup, although the two are never compared with each other: both are compared with what the
  metadata file records.
\<close>

section \<open>Digests that match\<close>

text \<open>A digest is never empty, so maps of digests that match are equal.\<close>

lemma Match_chain:
  assumes "fst (Match it a b)" "fst (Match it' b c)" "'''' |\<notin>| fmran a"
  shows "a = c"
  using Match_eq [OF assms(1,3)] Match_eq [OF assms(2)] assms(3) by simp

lemma Match_empty: "fst (Match it fmempty c) \<Longrightarrow> c = fmempty"
  using Match_eq [of it fmempty c] by simp

lemma checksumLoop_digests:
  assumes "checksumLoop sha n ts acc = Ok c" "\<forall>s. sha s \<noteq> ''''" "'''' |\<notin>| fmran acc"
  shows "'''' |\<notin>| fmran c"
  using assms
proof (induction sha n ts acc rule: checksumLoop.induct)
  case (4 sha n h body rest acc)
  show ?case
  proof (cases "th_IsDir h \<or> th_InfoName h = ''./''")
    case False
    with 4 show ?thesis by (cases body) (auto simp: fmlookup_ran_iff split: if_splits)
  qed (use 4 in auto)
qed auto

lemma CalculateChecksum_digests:
  assumes "CalculateChecksum E bd ai w = Ok c" "\<forall>s. sha256_hex E s \<noteq> ''''"
  shows "'''' |\<notin>| fmran c"
  using assms(1) checksumLoop_digests [OF _ assms(2), of _ _ fmempty c]
  by (auto simp: CalculateChecksum_def split: result.splits)

section \<open>What a valid backup records\<close>

lemma lookup_entries:
  assumes "lookupChecksum meta ai = Some c"
  shows "(recorded_id ai, c) \<in> set (entries meta)"
proof -
  have custom: "\<exists>a \<in> set as. am_Name a = n \<and> am_Checksum a = c" if "findArtifact as n = Some c" for as n
    using that by (induction as) (auto split: if_splits)
  have inst: "\<exists>i \<in> set insts. im_Index i = ix \<and> im_Name i = nm \<and> (\<exists>a \<in> set (im_Artifacts i). am_Name a = n \<and> am_Checksum a = c)"
    if "findInstanceArtifact insts ix nm n = Some c" for insts ix nm n
    using that by (induction insts) (auto split: option.splits if_splits dest: custom)
  show ?thesis
  proof (cases "ai_hasCustomName ai")
    case True
    with assms custom [of "MetadataForEachArtifact meta" "ai_name ai"] obtain a where
      a: "a \<in> set (MetadataForEachArtifact meta)" "am_Name a = ai_name ai" "am_Checksum a = c"
      by (auto simp: lookupChecksum_def)
    with True have "recorded_id ai = makeCustomArtifactIdentifier a"
      by (cases ai) (simp add: recorded_id_def makeCustomArtifactIdentifier_def)
    with a show ?thesis by (auto simp: entries_def)
  next
    case False
    with assms inst [of "MetadataForEachInstance meta" "ai_instanceIndex ai" "ai_instanceName ai" "ai_name ai"] obtain i a where
      a: "i \<in> set (MetadataForEachInstance meta)" "im_Index i = ai_instanceIndex ai" "im_Name i = ai_instanceName ai"
        "a \<in> set (im_Artifacts i)" "am_Name a = ai_name ai" "am_Checksum a = c"
      by (auto simp: lookupChecksum_def)
    with False have "recorded_id ai = makeDefaultArtifactIdentifier a i"
      by (cases ai) (simp add: recorded_id_def makeDefaultArtifactIdentifier_def)
    with a show ?thesis by (auto simp: entries_def)
  qed
qed

text \<open>A valid backup has the digests it records; only a custom artifact without digests need not be readable.\<close>

lemma Valid_entry:
  assumes "Valid E bd w = Ok True" "readMetadata E (metadataFilename bd) w = Ok meta" "(ai, c) \<in> set (entries meta)"
  shows "(\<exists>c'. CalculateChecksum E bd ai w = Ok c' \<and> fst (Match (range_ord E) c' c)) \<or> ai_hasCustomName ai \<and> c = fmempty"
proof -
  from assms(1,2) have custom: "validCustom E bd (MetadataForEachArtifact meta) w = Ok True" and
    insts: "validInstances E bd (MetadataForEachInstance meta) w = Ok True"
    by (auto simp: Valid_def split: result.splits bool.splits)
  from assms(3) consider
      (custom) a where "a \<in> set (MetadataForEachArtifact meta)" "ai = makeCustomArtifactIdentifier a" "c = am_Checksum a"
    | (default) i a where "i \<in> set (MetadataForEachInstance meta)" "a \<in> set (im_Artifacts i)"
        "ai = makeDefaultArtifactIdentifier a i" "c = am_Checksum a"
    by (auto simp: entries_def)
  then show ?thesis
  proof cases
    case custom': custom
    have "case CalculateChecksum E bd ai w of
        Ok c' \<Rightarrow> fst (Match (range_ord E) c' c) | Err _ \<Rightarrow> c = fmempty | Panic _ \<Rightarrow> False"
      unfolding custom'(2,3) by (rule bspec [OF custom [unfolded validCustom_iff] custom'(1)])
    with custom'(2) show ?thesis by (auto simp: makeCustomArtifactIdentifier_def split: result.splits)
  next
    case default
    with insts [unfolded validInstances_iff validInstance_iff] show ?thesis by simp
  qed
qed

text \<open>The digests an instance has to report for an artifact: those of its local file, or none if nothing was recorded.\<close>

definition expected_digests ::
  "('r, 'x) backup_env_scheme \<Rightarrow> BackupDirectory \<Rightarrow> artifactIdentifier \<Rightarrow> 'r world \<Rightarrow> BackupChecksum \<Rightarrow> bool" where
  "expected_digests E bd ai w rc \<longleftrightarrow>
     (if recorded E bd ai w \<and> \<not> ai_hasCustomName ai then CalculateChecksum E bd ai w = Ok rc
      else rc = fmempty \<or> CalculateChecksum E bd ai w = Ok rc)"

lemma Valid_expected:
  assumes valid: "Valid E bd w = Ok True" and fetch: "FetchChecksum E bd ai w = Ok c"
    and match: "fst (Match (range_ord E) c rc)" and sha: "\<forall>s. sha256_hex E s \<noteq> ''''"
  shows "expected_digests E bd ai w rc"
proof -
  from fetch obtain meta where meta: "readMetadata E (metadataFilename bd) w = Ok meta"
    and c: "c = (case lookupChecksum meta ai of Some c \<Rightarrow> c | None \<Rightarrow> fmempty)"
    by (cases "readMetadata E (metadataFilename bd) w") (auto simp: FetchChecksum_def split: option.splits)
  show ?thesis
  proof (cases "lookupChecksum meta ai")
    case None
    with c match have "rc = fmempty" by (simp add: Match_empty)
    with None meta show ?thesis by (simp add: expected_digests_def recorded_def)
  next
    case (Some d)
    from Valid_entry [OF valid meta lookup_entries [OF Some]] show ?thesis
    proof (elim disjE exE conjE)
      fix c' assume c': "CalculateChecksum E bd (recorded_id ai) w = Ok c'" "fst (Match (range_ord E) c' d)"
      from Match_chain [OF c'(2) _ CalculateChecksum_digests [OF c'(1) sha]] match c Some have "c' = rc" by simp
      with c'(1) show ?thesis by (simp add: expected_digests_def)
    next
      assume "ai_hasCustomName (recorded_id ai)" "d = fmempty"
      with match c Some have "rc = fmempty" "ai_hasCustomName ai"
        by (auto simp: Match_empty recorded_id_def split: if_splits)
      then show ?thesis by (simp add: expected_digests_def)
    qed
  qed
qed

section \<open>Uploads\<close>

text \<open>Between two worlds of a run the history grows and the local files stay.\<close>

definition later :: "'r world \<Rightarrow> 'r world \<Rightarrow> bool" where
  "later w w' \<longleftrightarrow> grows w w' \<and> fs w' = fs w"

interpretation later: frame later
  by unfold_locales (auto simp: later_def calm_def grows_def)

lemma later_trans: "later u v \<Longrightarrow> later v w \<Longrightarrow> later u w"
  by (rule later.R_trans)

lemma runStage_all_Ok:
  assumes "runStage xs es w = (Ok es, w')" "\<And>x. x \<in> set xs \<Longrightarrow> keeps later x"
  shows "later w w' \<and> (\<forall>x \<in> set xs. \<exists>u u'. x u = (Ok (), u') \<and> later w u \<and> later u' w')"
  using assms
proof (induction xs arbitrary: w)
  case Nil
  then show ?case by (simp add: later.R_refl)
next
  case (Cons x xs)
  obtain r u where x: "x w = (r, u)" by fastforce
  with Cons.prems(2) have wu: "later w u" by (auto dest: keepsD)
  have r: "r = Ok ()"
  proof (cases r)
    case (Err e)
    with x Cons.prems(1) runStage_extends [of xs "es @ [e]" u es w'] show ?thesis by auto
  qed (use x Cons.prems(1) in auto)
  with x Cons.prems(1) have rest: "runStage xs es u = (Ok es, w')" by simp
  from Cons.IH [OF rest] Cons.prems(2) have IH:
    "later u w'" "\<forall>y \<in> set xs. \<exists>v v'. y v = (Ok (), v') \<and> later u v \<and> later v' w'" by auto
  with wu x r show ?case by (auto intro: later_trans later.R_refl) (metis later_trans)
qed

lemma keeps_later_upload: "keeps later (BackupUploadExecutable_Execute E bd inst a)"
  by (rule later.keeps_Upload_Execute)

lemma logAndCheckErrors_Err: "logAndCheckErrors stderr res = Err e \<Longrightarrow> res = Err e \<or> (\<exists>n. e = exitError stderr n)"
  by (cases res) (auto split: if_splits)

lemma ExtractAndUpload_Err: "ExtractAndUpload E c s d w = (Err e, w') \<Longrightarrow> solid e"
  by (auto simp: ExtractAndUpload_def Connection_StreamStdin_def exitError_def wrap_result_Err split: prod.splits
      dest!: logAndCheckErrors_Err intro: solid_plain)

lemma Upload_Err_solid:
  assumes du: "\<forall>p f e. du_output E p f = Err e \<longrightarrow> solid e"
    and run: "BackupUploadExecutable_Execute E bd inst a w = (Err e, w')"
  shows "solid e"
proof -
  have read: "solid e" if "ReadArtifact E bd ai w = Err e" for ai w e
    using that by (auto simp: ReadArtifact_def wrap_result_Err)
  have hsize: "solid e" if "GetArtifactSize E bd ai w = Err e" for ai w e
    using that du by (auto simp: GetArtifactSize_def split: result.splits list.splits)
  have bytes: "solid e" if "GetArtifactByteSize E bd ai w = Err e" for ai w e
    using that by (auto simp: GetArtifactByteSize_def Let_def intro: solid_plain split: result.splits if_splits)
  have stream: "solid e" if "StreamToRemote E a x w = (Err e, w')" for x w e w'
    using that unfolding StreamToRemote_def
    by (auto elim!: bindrE dest: wrapped_Err ExtractAndUpload_Err split: result.splits)
  have fetch: "solid e" if "FetchChecksum E bd ai w = Err e" for ai w e
    using that by (auto simp: FetchChecksum_def wrap_result_Err split: result.splits option.splits)
  have sum: "solid e" if "Artifact_Checksum E a w = (Err e, w')" for w e w'
    using that unfolding Artifact_Checksum_def by (auto dest: wrapped_Err)
  from run show ?thesis
    unfolding BackupUploadExecutable_Execute_def
    by (auto elim!: bindrE dest: read hsize bytes stream fetch sum simp: mismatch_error_def intro: solid_plain
        split: prod.splits if_splits)
qed

text \<open>The artifacts a restore transfers, with their instances.\<close>

definition artifacts_to_upload :: "deployment \<Rightarrow> (Instance \<times> Artifact) list" where
  "artifacts_to_upload dep = concat (map (\<lambda>i. map (Pair i) (ArtifactsToRestore i)) (RestorableInstances dep))"

text \<open>Between the worlds \<open>w\<close> and \<open>w'\<close> every instance was asked for the digests of its artifacts, and reported those expected.\<close>

definition delivered :: "('r, 'x) backup_env_scheme \<Rightarrow> BackupDirectory \<Rightarrow> deployment \<Rightarrow> 'r world \<Rightarrow> 'r world \<Rightarrow> bool" where
  "delivered E art dep w w' \<longleftrightarrow>
     (\<forall>(i, a) \<in> set (artifacts_to_upload dep). \<exists>rc u u'.
        later w u \<and> Artifact_Checksum E a u = (Ok rc, u') \<and> later u' w' \<and> expected_digests E art (artifact_id a) w rc)"

lemma readMetadata_fs: "fs w' = fs w \<Longrightarrow> readMetadata E f w' = readMetadata E f w"
  unfolding readMetadata_def os_read_def by (erule ssubst) (rule refl)

lemma delivered_frame:
  assumes "delivered E art dep u v" "later w u" "later v w'"
  shows "delivered E art dep w w'"
proof -
  from assms(2) have "fs u = fs w" by (simp add: later_def)
  note same = readMetadata_fs [OF this] CalculateChecksum_fs [OF this]
  have "recorded E art ai u = recorded E art ai w" "CalculateChecksum E art ai u = CalculateChecksum E art ai w" for ai
    by (simp_all add: recorded_def same)
  then have "expected_digests E art ai u rc = expected_digests E art ai w rc" for ai rc
    by (simp add: expected_digests_def)
  note digests = this
  show ?thesis
    unfolding delivered_def
  proof (intro ballI, unfold split_paired_all prod.case)
    fix i a assume "(i, a) \<in> set (artifacts_to_upload dep)"
    with assms(1) obtain rc x x' where "later u x" "Artifact_Checksum E a x = (Ok rc, x')" "later x' v"
      "expected_digests E art (artifact_id a) u rc" unfolding delivered_def by blast
    with assms(2,3) later_trans digests
    show "\<exists>rc u u'. later w u \<and> Artifact_Checksum E a u = (Ok rc, u') \<and> later u' w' \<and> expected_digests E art (artifact_id a) w rc"
      by blast
  qed
qed

lemma Valid_fs: "fs w' = fs w \<Longrightarrow> Valid E bd w' = Valid E bd w"
proof -
  assume same: "fs w' = fs w"
  have meta: "readMetadata E f w' = readMetadata E f w" for f by (rule readMetadata_fs [OF same])
  have sum: "CalculateChecksum E bd ai w' = CalculateChecksum E bd ai w" for ai by (rule CalculateChecksum_fs [OF same])
  have custom: "validCustom E bd as w' = validCustom E bd as w" for as
    by (induction as) (simp_all add: sum split: result.split)
  have inst: "validInstance E bd i as w' = validInstance E bd i as w" for i as
    by (induction as) (simp_all add: sum split: result.split)
  have insts: "validInstances E bd insts w' = validInstances E bd insts w" for insts
    by (induction insts) (simp_all add: inst split: result.split bool.split)
  show ?thesis unfolding Valid_def meta custom insts ..
qed

lemma uploads_deliver:
  assumes du: "\<forall>p f e. du_output E p f = Err e \<longrightarrow> solid e" and sha: "\<forall>s. sha256_hex E s \<noteq> ''''"
    and run: "UploadBackupToDeployment E ex art dep w = (Ok (), w')" and valid: "Valid E art w = Ok True"
  shows "delivered E art dep w w'"
proof -
  let ?f = "\<lambda>(i, a). BackupUploadExecutable_Execute E art i a" and ?as = "artifacts_to_upload dep"
  have stages: "[concat (map (\<lambda>i. map (BackupUploadExecutable_Execute E art i) (ArtifactsToRestore i)) (RestorableInstances dep))] =
      map (map ?f) [?as]"
    by (simp add: artifacts_to_upload_def map_concat comp_def)
  obtain kss where kss: "same_stages [?as] kss"
    "Executor_Run (finish_order E) ex (map (map ?f) [?as]) w = runStage (map ?f (concat kss)) [] w"
    using executor.run_labelled [OF any_executor, of "[?as]" "finish_order E" ex ?f w] by blast
  from same_stages_concat [OF kss(1)] have "mset (concat kss) = mset ?as" by simp
  then have set: "set (concat kss) = set ?as" by (metis set_mset_mset)
  from run kss(2) obtain errs where stage: "runStage (map ?f (concat kss)) [] w = (Ok errs, w')" and "ConvertErrors errs = None"
    unfolding UploadBackupToDeployment_def stages run_stages_def by (auto simp: bindr_eq_Ok)
  moreover have "solid e" if "e \<in> set errs" for e
  proof -
    from runStage_errors [OF stage that] obtain i a u where "fst (BackupUploadExecutable_Execute E art i a u) = Err e" by auto
    then have "BackupUploadExecutable_Execute E art i a u = (Err e, snd (BackupUploadExecutable_Execute E art i a u))"
      by (metis prod.collapse)
    then show ?thesis by (rule Upload_Err_solid [OF du])
  qed
  ultimately have "runStage (map ?f (concat kss)) [] w = (Ok [], w')" using solid_none by blast
  from runStage_all_Ok [OF this] set have all: "\<exists>u u'. BackupUploadExecutable_Execute E art i a u = (Ok (), u') \<and> later w u \<and> later u' w'"
    if "(i, a) \<in> set ?as" for i a
    using that keeps_later_upload by (fastforce simp del: set_concat)
  show ?thesis
    unfolding delivered_def
  proof (intro ballI, unfold split_paired_all prod.case)
    fix i a assume "(i, a) \<in> set ?as"
    from all [OF this] obtain u u' where up: "BackupUploadExecutable_Execute E art i a u = (Ok (), u')" "later w u" "later u' w'" by blast
    from up(1) obtain c rc w1 where c: "FetchChecksum E art (artifact_id a) (MarkArtifactDirCreated i w1) = Ok c"
      and rc: "Artifact_Checksum E a (MarkArtifactDirCreated i w1) = (Ok rc, u')" "fst (Match (range_ord E) c rc)" and calm: "calm u w1"
      by (rule upload_Ok)
    have later: "later w (MarkArtifactDirCreated i w1)"
      using later_trans [OF up(2)] later_trans [OF later.R_calm [OF calm] later.mark_one] by blast
    then have same: "fs (MarkArtifactDirCreated i w1) = fs w" by (simp add: later_def)
    with c have "FetchChecksum E art (artifact_id a) w = Ok c" using FetchChecksum_fs by metis
    from Valid_expected [OF valid this rc(2) sha] later rc(1) up(3)
    show "\<exists>rc u u'. later w u \<and> Artifact_Checksum E a u = (Ok rc, u') \<and> later u' w' \<and> expected_digests E art (artifact_id a) w rc"
      by blast
  qed
qed

section \<open>The paths of a restore\<close>

text \<open>The steps that run scripts of jobs.\<close>

definition runs_scripts :: "Step \<Rightarrow> bool" where
  "runs_scripts k \<longleftrightarrow> is_PreRestoreLock k \<or> is_Restore k \<or> is_PostRestoreUnlock k"

definition checked_start :: "DeploymentManager \<Rightarrow> KahnLockOrderer \<Rightarrow> Executor \<Rightarrow> (Step \<times> bool) list" where
  "checked_start dm lo copier =
     [(ValidateArtifactStep, True), (FindDeploymentStep dm, True), (RestorableStep lo, True), (CopyToRemoteStep copier, True)]"

lemma restorer_checks:
  "list_all (\<lambda>p. list_ex (\<lambda>(k, b). runs_scripts k) p \<longrightarrow>
       p = checked_start dm lo copier @ drop 4 p \<and> list_all (\<lambda>(k, b). after_create k) (drop 4 p))
     (all_paths (NewRestorer dm lo ex copier))"
  by (simp add: NewRestorer_def workflow_defs path_defs runs_scripts_def checked_start_def after_create_def)

lemma checked_prefix:
  assumes "prefix (outcome tr) p" "p \<in> set (all_paths (NewRestorer dm lo ex copier))"
    "list_ex (\<lambda>(k, r). runs_scripts k) tr"
  obtains rest where "tr = (ValidateArtifactStep, Ok ()) # (FindDeploymentStep dm, Ok ()) # (RestorableStep lo, Ok ()) #
      (CopyToRemoteStep copier, Ok ()) # rest" "list_all (\<lambda>(k, r). after_create k) rest"
proof -
  have q: "list_ex (\<lambda>(k, b). runs_scripts k) (outcome tr)"
    using assms(3) outcome_list_all [of "\<lambda>k. \<not> runs_scripts k" tr] unfolding list_ex_iff list_all_iff by fast
  with assms(1) have "list_ex (\<lambda>(k, b). runs_scripts k) p" by (auto simp: list_ex_iff dest: set_mono_prefix)
  with assms(2) restorer_checks [of dm lo copier ex] have p: "p = checked_start dm lo copier @ drop 4 p"
    and after: "list_all (\<lambda>(k, b). after_create k) (drop 4 p)" unfolding list_all_iff by blast+
  have "\<not> prefix (outcome tr) (checked_start dm lo copier)"
    using q by (auto simp: checked_start_def runs_scripts_def list_ex_iff dest!: set_mono_prefix subsetD)
  with assms(1) obtain us where us: "outcome tr = checked_start dm lo copier @ us" "prefix us (drop 4 p)"
    by (subst (asm) p) (auto simp: prefix_append)
  from us(1) obtain rest where rest: "tr = (ValidateArtifactStep, Ok ()) # (FindDeploymentStep dm, Ok ()) # (RestorableStep lo, Ok ()) #
      (CopyToRemoteStep copier, Ok ()) # rest" "outcome rest = us"
    by (auto simp: checked_start_def outcome_Cons succeeded_iff)
  from after set_mono_prefix [OF us(2)] have "list_all (\<lambda>(k, b). after_create k) (outcome rest)"
    unfolding rest(2) list_all_iff by blast
  with rest(1) that show thesis by (simp add: outcome_list_all)
qed

lemma replays_keep_session:
  "replays (Step_Run E) (session, w) tr (session', w') \<Longrightarrow> list_all (\<lambda>(k, r). after_create k) tr \<Longrightarrow> session' = session"
proof (induction tr arbitrary: session w)
  case (Cons x tr)
  obtain k r where x: "x = (k, r)" by fastforce
  with Cons.prems(1) obtain s1 w1 where run: "Step_Run E k (session, w) = (r, s1, w1)" "replays (Step_Run E) (s1, w1) tr (session', w')"
    by (auto elim: replays_ConsE)
  from Cons.prems(2) x Step_keeps_artifact [OF run(1)] Cons.IH [OF run(2)] show ?case by simp
qed simp

section \<open>Whole runs\<close>

lemma Validate_Ok:
  assumes "Step_Run E ValidateArtifactStep (session, w) = (Ok u, session', w')"
  obtains art where "currentArtifact session' = Some art" "Valid E art w = Ok True" "w' = w"
proof -
  have run: "ValidateArtifactStep_Run E (session, w) = (Ok u, session', w')" using assms by simp
  show thesis
  proof (cases "BackupDirectoryManager_Open E (currentArtifactPath session) w")
    case (Ok backup)
    note backup = this
    show thesis
    proof (cases "Valid E backup w")
      case (Ok valid)
      with backup run have "valid" "session' = SetCurrentArtifact backup session" "w' = w"
        by (simp_all add: ValidateArtifactStep_Run_def split: if_splits)
      with that [of backup] Ok show thesis by (simp add: SetCurrentArtifact_def)
    qed (use run backup in \<open>simp_all add: ValidateArtifactStep_Run_def\<close>)
  qed (use run in \<open>simp_all add: ValidateArtifactStep_Run_def\<close>)
qed

lemma Find_keeps_artifact:
  "Step_Run E (FindDeploymentStep dm) (session, w) = (r, session', w') \<Longrightarrow> currentArtifact session' = currentArtifact session"
  by (auto simp: FindDeploymentStep_Run_def SetCurrentDeployment_def split: prod.splits result.splits)

lemma Copy_uploads:
  assumes "Step_Run E (CopyToRemoteStep copier) (session, w) = (Ok u, session', w')"
    "session_deployment session = Some dep" "currentArtifact session = Some art"
  shows "session' = session \<and> UploadBackupToDeployment E copier art dep w = (Ok (), w')"
  using assms by (auto simp: keep_session_def CopyToRemoteStep_Run_def with_deployment_def map_err_def split: prod.splits result.splits)

lemma Step_later: "Step_Run E k (session, w) = (r, session', w') \<Longrightarrow> \<not> writes k \<Longrightarrow> later w w'"
  using Step_grows Step_same_files unfolding later_def by blast

lemma restorer_writes_nothing:
  "list_all (list_all (\<lambda>(k, b). \<not> writes k)) (all_paths (NewRestorer dm lo ex copier))"
  by (simp add: NewRestorer_def workflow_defs path_defs writes_def)

lemma replays_same_files:
  "replays (Step_Run E) (session, w) tr (session', w') \<Longrightarrow> list_all (\<lambda>(k, r). \<not> writes k) tr \<Longrightarrow> fs w' = fs w"
proof (induction tr arbitrary: session w)
  case (Cons x tr)
  obtain k r where x: "x = (k, r)" by fastforce
  with Cons.prems(1) obtain s1 w1 where "Step_Run E k (session, w) = (r, s1, w1)" "replays (Step_Run E) (s1, w1) tr (session', w')"
    by (auto elim: replays_ConsE)
  with Cons x Step_same_files [of E k session w r s1 w1] show ?case by auto
qed simp

lemma restore_same_files:
  assumes "replays (Step_Run E) (session, w) tr (session', w')" "prefix (outcome tr) p"
    "p \<in> set (all_paths (NewRestorer dm lo ex copier))"
  shows "fs w' = fs w"
proof -
  from restorer_writes_nothing assms(3) have "list_all (\<lambda>(k, b). \<not> writes k) p" unfolding list_all_iff by blast
  with set_mono_prefix [OF assms(2)] have "list_all (\<lambda>(k, b). \<not> writes k) (outcome tr)" unfolding list_all_iff by blast
  with outcome_list_all [of "\<lambda>k. \<not> writes k" tr] replays_same_files [OF assms(1)] show ?thesis by simp
qed

lemma copied_run:
  assumes du: "\<forall>p f e. du_output E p f = Err e \<longrightarrow> solid e" and sha: "\<forall>s. sha256_hex E s \<noteq> ''''"
    and run: "replays (Step_Run E) (session, w) ((ValidateArtifactStep, Ok ()) # (FindDeploymentStep dm, Ok ()) # (RestorableStep lo, Ok ()) #
      (CopyToRemoteStep copier, Ok ()) # rest) (session', w')"
  obtains dep art s u where "replays (Step_Run E) (session, w) [(ValidateArtifactStep, Ok ()), (FindDeploymentStep dm, Ok ()),
      (RestorableStep lo, Ok ()), (CopyToRemoteStep copier, Ok ())] (s, u)" "replays (Step_Run E) (s, u) rest (session', w')"
    "session_deployment s = Some dep" "currentArtifact s = Some art" "Valid E art w = Ok True" "delivered E art dep w u"
proof -
  from run obtain s0 u0 where valid: "Step_Run E ValidateArtifactStep (session, w) = (Ok (), s0, u0)" and
    t0: "replays (Step_Run E) (s0, u0) ((FindDeploymentStep dm, Ok ()) # (RestorableStep lo, Ok ()) # (CopyToRemoteStep copier, Ok ()) #
       rest) (session', w')" by (rule replays_ConsE)
  from t0 obtain s1 u1 where find: "Step_Run E (FindDeploymentStep dm) (s0, u0) = (Ok (), s1, u1)" and
    t1: "replays (Step_Run E) (s1, u1) ((RestorableStep lo, Ok ()) # (CopyToRemoteStep copier, Ok ()) # rest) (session', w')"
    by (rule replays_ConsE)
  from t1 obtain s2 u2 where check: "Step_Run E (RestorableStep lo) (s1, u1) = (Ok (), s2, u2)" and
    t2: "replays (Step_Run E) (s2, u2) ((CopyToRemoteStep copier, Ok ()) # rest) (session', w')" by (rule replays_ConsE)
  from t2 obtain s3 u3 where copy: "Step_Run E (CopyToRemoteStep copier) (s2, u2) = (Ok (), s3, u3)" and
    t3: "replays (Step_Run E) (s3, u3) rest (session', w')" by (rule replays_ConsE)
  from valid obtain art where art: "currentArtifact s0 = Some art" and ok: "Valid E art w = Ok True" and u0: "u0 = w" by (rule Validate_Ok)
  from find obtain dep where dep: "session_deployment s1 = Some dep" by (rule Find_Ok)
  from Restorable_Ok [OF check dep] have s2: "s2 = s1" by blast
  from Copy_uploads [OF copy] dep art Find_keeps_artifact [OF find] s2
  have s3: "s3 = s1" and up: "UploadBackupToDeployment E copier art dep u2 = (Ok (), u3)" by simp_all
  have w2: "later w u2" using later_trans [OF Step_later [OF find] Step_later [OF check]] u0 by (simp add: writes_def)
  then have "Valid E art u2 = Ok True" using ok Valid_fs [of u2 w E art] by (simp add: later_def)
  from delivered_frame [OF uploads_deliver [OF du sha up this] w2 later.R_refl] have "delivered E art dep w u3" .
  with that [of s3 u3 dep art] valid find check copy t3 dep art ok Find_keeps_artifact [OF find] s3 show thesis by simp
qed

section \<open>The property\<close>


text \<open>A whole restore that is computed: one VM with one job that has the scripts of a restore, and a backup of one file.\<close>

definition sample_restore_reply :: "string \<Rightarrow> session_reply" where
  "sample_restore_reply cmd =
     (if take 4 (drop 12 cmd) = ''find''
      then sample_reply\<lparr>stdoutChunks := [''/var/vcap/jobs/db/bin/bbr/restore'' @ newline @
        ''/var/vcap/jobs/db/bin/bbr/pre-restore-lock'' @ newline @ ''/var/vcap/jobs/db/bin/bbr/post-restore-unlock'' @ newline]\<rparr>
      else if take 9 cmd = ''sudo stat'' then sample_reply\<lparr>runErr := RunExitError 1\<rparr>
      else if take 14 cmd = ''sudo sh -c '' @ [CHR 0x27] @ ''cd'' then sample_reply\<lparr>stdoutChunks := [''xdata  ./f'', newline]\<rparr>
      else sample_reply)"

definition sample_restore_env :: "nat orch_env" where
  "sample_restore_env = director_env.extend
     ((sample_director_env [addToMetadata sample_metadata sample_download_id (fmupd ''./f'' ''xdata'' fmempty)])
       \<lparr>ssh_session := (\<lambda>c cmd stdin r. (sample_restore_reply cmd, r)),
        tar_Entries := (\<lambda>s. [TarEntry \<lparr>th_Name = ''./f'', th_IsDir = False, th_InfoName = ''f''\<rparr> (Ok s), TarEOF]),
        sha256_hex := (\<lambda>s. CHR ''x'' # s),
        patch_Find := (\<lambda>m p. if HasSuffix p ''backup_one_restore_all'' then Ok (PBool False) else Ok (PString ''rel''))\<rparr>)
     (orch_env.fields (\<lambda>_. 0))"

definition sample_restorer :: "Step Workflow" where
  "sample_restorer = NewRestorer (BoshManager \<lparr>bdm_client = sample_client, downloadManifest = False\<rparr>)
     NewKahnRestoreLockOrderer Serial Serial"

definition sample_restore_files :: "string \<Rightarrow> fnode option" where
  "sample_restore_files p =
     (if p = ''b'' then Some FDir else if p = ''b/metadata'' then Some (FFile '''')
      else if p = ''b/vm-0-db.tar'' then Some (FFile ''data'') else None)"

definition sample_restore_session :: Session where
  "sample_restore_session = SetCurrentArtifactPath ''b'' (NewSession ''dep'')"

text \<open>The buffers of a small file, without counting to their size.\<close>

lemma file_chunks_code [code]:
  "file_chunks s =
     (if s = '''' then [] else if int (length s) \<le> 32768 then [s] else take 32768 s # file_chunks (drop 32768 s))"
  by (subst file_chunks.simps) (simp add: file_chunks.simps)

lemma sample_restore_computed:
  "case Workflow_Run sample_restorer (traced (Step_Run sample_restore_env))
       ([], sample_restore_session, sample_world sample_restore_files) of
     Some (Ok errs, tr, session, w) \<Rightarrow> errs = [] \<and> worked is_Restore (outcome tr) \<and>
       (case session_deployment session of
          Some dep \<Rightarrow> map (\<lambda>(i, a). (inst_Name i, artifact_id a)) (artifacts_to_upload dep) = [(''vm'', sample_download_id)]
        | _ \<Rightarrow> False)
   | _ \<Rightarrow> False"
  by code_simp


end
