(* ===== verification/Factory.thy ===== *)
theory Factory
  imports Orchestrator
begin

text \<open>
  Building the program from its parts: \<^verbatim>\<open>bosh/build_client.go\<close>, the constructors of
  \<^verbatim>\<open>bosh/client.go\<close>, \<^verbatim>\<open>bosh/deployment_manager.go\<close> and
  \<^verbatim>\<open>standalone/deployment_manager.go\<close>, and every file of \<^verbatim>\<open>factory/\<close>.

  The libraries that talk to the director and to the UAA before there is a client are fields of
  \<open>cli_env\<close>, the last extension of the environment, together with what the command line
  uses. A handle of the library is the configuration it was built from; there is one director,
  the one the environment describes.
\<close>

section \<open>The environment of the command line\<close>

record FactoryConfig =
  fc_URL :: string
  fc_CACert :: string
  fc_Client :: string
  fc_ClientSecret :: string
  fc_TokenFunc :: "(string \<times> string \<times> string \<times> string) option"

record UaaConfig =
  uaa_URL :: string
  uaa_CACert :: string
  uaa_Client :: string
  uaa_ClientSecret :: string

text \<open>The option \<^verbatim>\<open>url\<close> of the director's authentication: a string, or something else that prints as given.\<close>

datatype authUrl = UrlString string | UrlOther string

record Info =
  info_AuthType :: string
  info_AuthUrl :: authUrl

record 'r cli_env = "'r orch_env" +
  director_NewConfigFromURL :: "string \<Rightarrow> FactoryConfig result"
  director_New :: "FactoryConfig \<Rightarrow> 'r \<Rightarrow> unit result \<times> 'r"
  director_Info :: "FactoryConfig \<Rightarrow> 'r \<Rightarrow> Info result \<times> 'r"
  director_Deployments :: "'r \<Rightarrow> string list result \<times> 'r"
  uaa_NewConfigFromURL :: "string \<Rightarrow> UaaConfig result"
  uaa_New :: "UaaConfig \<Rightarrow> goerror option"
  CACertArg_Unmarshal :: "string \<Rightarrow> 'r world \<Rightarrow> string result"
  time_FormatUTC :: "string \<Rightarrow> int \<Rightarrow> string"
  url_Hostname :: "string \<Rightarrow> string option"
  ansi_Color :: "string \<Rightarrow> string \<Rightarrow> string"
  fmt_stacktrace :: "goerror \<Rightarrow> string"

section \<open>The client of the director\<close>

definition NewClient :: "JobFinder \<Rightarrow> Client" where
  "NewClient jobFinder = \<lparr>client_jobFinder = jobFinder\<rparr>"

definition getDirectorInfo :: "('r, 'x) cli_env_scheme \<Rightarrow> FactoryConfig \<Rightarrow> ('r, Info) io" where
  "getDirectorInfo E factoryConfig =
     bindr (wrapped ''error building bosh director client'' (dir_call (director_New E factoryConfig))) (\<lambda>_.
     wrapped ''bosh director unreachable or unhealthy'' (dir_call (director_Info E factoryConfig)))"

definition buildUaa :: "('r, 'x) cli_env_scheme \<Rightarrow> Info \<Rightarrow> string \<Rightarrow> string \<Rightarrow> string \<Rightarrow> UaaConfig result" where
  "buildUaa E info username password cert =
     (case info_AuthUrl info of
        UrlOther shown \<Rightarrow> Err (ErrorString (''Expected URL '' @ quoted shown @ '' to be a string''))
      | UrlString url \<Rightarrow>
          (case wrap_result ''invalid UAA URL'' (uaa_NewConfigFromURL E url) of
             Err e \<Rightarrow> Err e
           | Panic p \<Rightarrow> Panic p
           | Ok config \<Rightarrow>
               (let uaaConfig = config\<lparr>uaa_CACert := cert, uaa_Client := username, uaa_ClientSecret := password\<rparr>
                in map_result (\<lambda>_. uaaConfig) (of_error (uaa_New E uaaConfig)))))"

definition BuildClient :: "('r, 'x) cli_env_scheme \<Rightarrow> string \<Rightarrow> string \<Rightarrow> string \<Rightarrow> string \<Rightarrow> string \<Rightarrow> ('r, Client) io" where
  "BuildClient E targetUrl username password caCert version w =
     (case director_NewConfigFromURL E targetUrl of
        Err e \<Rightarrow> (Err (ErrorString (''invalid bosh URL - '' @ error_message e)), w)
      | Panic p \<Rightarrow> (Panic p, w)
      | Ok config \<Rightarrow>
          (let factoryConfig = config\<lparr>fc_CACert := caCert\<rparr>
           in bindr (getDirectorInfo E factoryConfig) (\<lambda>info.
              bindr (\<lambda>w. (if info_AuthType info = ''uaa''
                 then map_result (\<lambda>uaa. factoryConfig\<lparr>fc_TokenFunc :=
                        Some (uaa_URL uaa, uaa_CACert uaa, uaa_Client uaa, uaa_ClientSecret uaa)\<rparr>)
                        (buildUaa E info username password caCert)
                 else Ok (factoryConfig\<lparr>fc_Client := username, fc_ClientSecret := password\<rparr>), w)) (\<lambda>authenticated.
              bindr (wrapped ''error building bosh director client'' (dir_call (director_New E authenticated))) (\<lambda>_ w.
              (Ok (NewClient (NewJobFinder version)), w)))) w))"

definition BuildBoshClient :: "('r, 'x) cli_env_scheme \<Rightarrow> string \<Rightarrow> string \<Rightarrow> string \<Rightarrow> string \<Rightarrow> string \<Rightarrow> ('r, Client) io" where
  "BuildBoshClient E targetUrl username password caCertPathOrValue version =
     bindr (\<lambda>w. (CACertArg_Unmarshal E caCertPathOrValue w, w)) (\<lambda>content.
     BuildClient E targetUrl username password content version)"

section \<open>Loggers\<close>

text \<open>A logger of the library is made of a level and a writer by \<^verbatim>\<open>boshlog.NewWriterLogger\<close>, the parameter
  \<open>mk\<close>. The program logs through one writer, which the interrupt handler pauses; a logger for a buffer or a log
  file has a pausable writer of its own around it, which nothing pauses.\<close>

datatype LogLevel = LevelDebug | LevelInfo

datatype 'out LogWriter = ApplicationLoggerStdout | CustomWriter PausableWriter 'out

definition BuildBoshLogger :: "(LogLevel \<Rightarrow> 'out LogWriter \<Rightarrow> 'l) \<Rightarrow> bool \<Rightarrow> 'l" where
  "BuildBoshLogger mk debug =
     (if debug then mk LevelDebug ApplicationLoggerStdout else mk LevelInfo ApplicationLoggerStdout)"

definition BuildLogger :: "(LogLevel \<Rightarrow> 'out LogWriter \<Rightarrow> 'l) \<Rightarrow> bool \<Rightarrow> 'l" where
  "BuildLogger mk debug = BuildBoshLogger mk debug"

definition BuildBoshLoggerWithCustomBuffer :: "(LogLevel \<Rightarrow> string LogWriter \<Rightarrow> 'l) \<Rightarrow> bool \<Rightarrow> 'l \<times> string" where
  "BuildBoshLoggerWithCustomBuffer mk debug =
     (let buffer = ''''
      in if debug then (mk LevelDebug (CustomWriter NewPausableWriter buffer), buffer)
         else (mk LevelInfo (CustomWriter NewPausableWriter buffer), buffer))"

definition BuildBoshLoggerWithCustomWriter :: "(LogLevel \<Rightarrow> 'out LogWriter \<Rightarrow> 'l) \<Rightarrow> 'out \<Rightarrow> bool \<Rightarrow> 'l" where
  "BuildBoshLoggerWithCustomWriter mk out debug =
     (if debug then mk LevelDebug (CustomWriter NewPausableWriter out)
      else mk LevelInfo (CustomWriter NewPausableWriter out))"

text \<open>The debug flag alone decides the level, whatever the writer.\<close>

lemma logger_levels:
  assumes "\<And>l out. level_of (mk l out) = l"
  shows "level_of (BuildLogger mk debug) = (if debug then LevelDebug else LevelInfo)"
    and "level_of (BuildBoshLoggerWithCustomWriter mk out debug) = level_of (BuildLogger mk debug)"
  using assms by (simp_all add: BuildLogger_def BuildBoshLogger_def BuildBoshLoggerWithCustomWriter_def)

section \<open>Deployment managers\<close>

definition bosh_NewDeploymentManager :: "Client \<Rightarrow> bool \<Rightarrow> DeploymentManager" where
  "bosh_NewDeploymentManager boshDirector withManifest =
     BoshManager \<lparr>bdm_client = boshDirector, downloadManifest = withManifest\<rparr>"

definition standalone_NewDeploymentManager :: "string \<Rightarrow> string \<Rightarrow> string \<Rightarrow> JobFinder \<Rightarrow> DeploymentManager" where
  "standalone_NewDeploymentManager hostName username privateKey jobFinder =
     StandaloneManager \<lparr>sdm_hostName = hostName, sdm_username = username, sdm_privateKeyFile = privateKey,
       sdm_jobFinder = jobFinder\<rparr>"

section \<open>Factories for deployments\<close>

definition BuildDeploymentBackuper ::
  "('r, 'x) cli_env_scheme \<Rightarrow> string \<Rightarrow> string \<Rightarrow> string \<Rightarrow> string \<Rightarrow> bool \<Rightarrow> bool \<Rightarrow> string \<Rightarrow> string \<Rightarrow> ('r, Step Workflow) io" where
  "BuildDeploymentBackuper E target username password caCert withManifest unsafeLockFree version timestamp =
     bindr (BuildBoshClient E target username password caCert version) (\<lambda>boshClient w.
       (let execr = Parallel NewParallelExecutor
        in (Ok (NewBackuper (bosh_NewDeploymentManager boshClient withManifest) NewKahnBackupLockOrderer execr execr
              unsafeLockFree timestamp), w)))"

definition BuildDeploymentBackupCleanuper ::
  "('r, 'x) cli_env_scheme \<Rightarrow> string \<Rightarrow> string \<Rightarrow> string \<Rightarrow> string \<Rightarrow> string \<Rightarrow> ('r, Step Workflow) io" where
  "BuildDeploymentBackupCleanuper E target username password caCert version =
     bindr (BuildBoshClient E target username password caCert version) (\<lambda>boshClient w.
       (Ok (NewBackupCleaner (bosh_NewDeploymentManager boshClient False) NewKahnBackupLockOrderer
              (Parallel NewParallelExecutor)), w))"

definition BuildDeploymentBackupChecker :: "Client \<Rightarrow> bool \<Rightarrow> Step Workflow" where
  "BuildDeploymentBackupChecker boshClient withManifest =
     NewBackupChecker (bosh_NewDeploymentManager boshClient withManifest) NewKahnBackupLockOrderer"

definition BuildDeploymentRestorer ::
  "('r, 'x) cli_env_scheme \<Rightarrow> string \<Rightarrow> string \<Rightarrow> string \<Rightarrow> string \<Rightarrow> string \<Rightarrow> ('r, Step Workflow) io" where
  "BuildDeploymentRestorer E target username password caCert version =
     bindr (BuildBoshClient E target username password caCert version) (\<lambda>boshClient w.
       (Ok (NewRestorer (bosh_NewDeploymentManager boshClient False) NewKahnRestoreLockOrderer
              NewSerialExecutor (Parallel NewParallelExecutor)), w))"

definition BuildDeploymentRestoreCleanuper ::
  "('r, 'x) cli_env_scheme \<Rightarrow> string \<Rightarrow> string \<Rightarrow> string \<Rightarrow> string \<Rightarrow> string \<Rightarrow> bool \<Rightarrow> ('r, Step Workflow) io" where
  "BuildDeploymentRestoreCleanuper E target usename password caCert version withManifest =
     bindr (BuildBoshClient E target usename password caCert version) (\<lambda>boshClient w.
       (Ok (NewRestoreCleaner (bosh_NewDeploymentManager boshClient withManifest) NewKahnRestoreLockOrderer
              NewSerialExecutor), w))"

section \<open>Factories for the director\<close>

definition BuildDirectorBackuper :: "string \<Rightarrow> string \<Rightarrow> string \<Rightarrow> string \<Rightarrow> string \<Rightarrow> Step Workflow" where
  "BuildDirectorBackuper host username privateKeyPath version timeStamp =
     (let deploymentManager = standalone_NewDeploymentManager host username privateKeyPath (NewJobFinderOmitMetadataReleases version);
          execr = Parallel NewParallelExecutor
      in NewBackuper deploymentManager NewKahnBackupLockOrderer execr execr False timeStamp)"

definition BuildDirectorBackupChecker :: "string \<Rightarrow> string \<Rightarrow> string \<Rightarrow> string \<Rightarrow> Step Workflow" where
  "BuildDirectorBackupChecker host username privateKeyPath version =
     (let deploymentManager = standalone_NewDeploymentManager host username privateKeyPath (NewJobFinderOmitMetadataReleases version)
      in NewBackupChecker deploymentManager NewKahnBackupLockOrderer)"

definition BuildDirectorBackupCleaner :: "string \<Rightarrow> string \<Rightarrow> string \<Rightarrow> string \<Rightarrow> Step Workflow" where
  "BuildDirectorBackupCleaner host username privateKeyPath version =
     (let deploymentManager = standalone_NewDeploymentManager host username privateKeyPath (NewJobFinderOmitMetadataReleases version)
      in NewBackupCleaner deploymentManager NewKahnBackupLockOrderer (Parallel NewParallelExecutor))"

definition BuildDirectorRestorer :: "string \<Rightarrow> string \<Rightarrow> string \<Rightarrow> string \<Rightarrow> Step Workflow" where
  "BuildDirectorRestorer host username privateKeyPath version =
     (let deploymentManager = standalone_NewDeploymentManager host username privateKeyPath (NewJobFinderOmitMetadataReleases version)
      in NewRestorer deploymentManager NewKahnRestoreLockOrderer NewSerialExecutor (Parallel NewParallelExecutor))"

definition BuildDirectorRestoreCleaner :: "string \<Rightarrow> string \<Rightarrow> string \<Rightarrow> string \<Rightarrow> Step Workflow" where
  "BuildDirectorRestoreCleaner host username privateKeyPath version =
     (let deploymentManager = standalone_NewDeploymentManager host username privateKeyPath (NewJobFinderOmitMetadataReleases version)
      in NewRestoreCleaner deploymentManager NewKahnRestoreLockOrderer NewSerialExecutor)"

end
