(* ===== verification/Cli.thy ===== *)
theory Cli
  imports Factory
begin

text \<open>
  The command line: \<^verbatim>\<open>cli/command/*.go\<close>, \<^verbatim>\<open>cli/flags/validate.go\<close>,
  \<^verbatim>\<open>executor/deployment/error.go\<close> and the command table of \<^verbatim>\<open>cmd/bbr/main.go\<close>.

  The argument parser is a library: an action gets the parsed context, a record of the flags of the
  command and of its parent, and returns nil (\<open>None\<close>) or an error, of which \<^verbatim>\<open>cli.ExitError\<close>
  carries the exit code. Lines printed to the terminal are output only, but for the summary of
  \<^verbatim>\<open>runForAllDeployments\<close>, which is returned, and the dialogue of the interrupt handler.
\<close>

section \<open>Contexts and results\<close>

record cli_flags =
  fl_String :: "string \<Rightarrow> string"
  fl_Bool :: "string \<Rightarrow> bool"
  fl_Args :: "string list"

record cli_context =
  ctx_flags :: cli_flags
  ctx_Parent :: cli_flags
  ctx_GlobalBool :: "string \<Rightarrow> bool"
  ctx_Version :: string

datatype cli_error = ExitError string int | PlainError goerror

type_synonym 'r action = "'r world \<Rightarrow> cli_error option result \<times> 'r world"

section \<open>Messages\<close>

definition backupSigintQuestion :: string where
  "backupSigintQuestion = ''Stopping a backup can leave the system in bad state. Are you sure you want to cancel? [yes/no]''"

definition backupStdinErrorMessage :: string where
  "backupStdinErrorMessage =
     ''Couldn'' @ [CHR 0x27] @ ''t read from Stdin, if you still want to stop the backup send SIGTERM.''"

definition backupCleanupAdvisedNotice :: string where
  "backupCleanupAdvisedNotice =
     ''It is recommended that you run `bbr backup-cleanup` to ensure that any temp files are cleaned up and all jobs are unlocked.''"

definition backupCleanupAllDeploymentsAdvisedNotice :: string where
  "backupCleanupAllDeploymentsAdvisedNotice =
     ''It is recommended that you run `bbr deployment --all-deployments backup-cleanup` to ensure that any temp files are cleaned up and all jobs are unlocked.''"

definition restoreSigintQuestion :: string where
  "restoreSigintQuestion = ''Stopping a restore can leave the system in bad state. Are you sure you want to cancel? [yes/no]''"

definition restoreStdinErrorMessage :: string where
  "restoreStdinErrorMessage =
     ''Couldn'' @ [CHR 0x27] @ ''t read from Stdin, if you still want to stop the restore send SIGTERM.''"

definition restoreCleanupAdvisedNotice :: string where
  "restoreCleanupAdvisedNotice =
     ''It is recommended that you run `bbr restore-cleanup` to ensure that any temp files are cleaned up and all jobs are unlocked.''"

definition artifactTimeStampFormat :: string where
  "artifactTimeStampFormat = ''20060102T150405Z''"

definition RFC3339 :: string where
  "RFC3339 = ''2006-01-02T15:04:05Z07:00''"

section \<open>Flags\<close>

definition containsHelpFlag :: "cli_flags \<Rightarrow> bool" where
  "containsHelpFlag c = list_ex (\<lambda>arg. arg = ''--help'' \<or> arg = ''-h'') (fl_Args c)"

definition redCliError :: "('r, 'x) cli_env_scheme \<Rightarrow> goerror \<Rightarrow> cli_error" where
  "redCliError E err = ExitError (ansi_Color E (error_message err) ''red'') 1"

fun validateLoop :: "('r, 'x) cli_env_scheme \<Rightarrow> string list \<Rightarrow> cli_flags \<Rightarrow> cli_error option" where
  "validateLoop E [] c = None"
| "validateLoop E (flag # requiredFlags) c =
     (if fl_String c flag = '''' then Some (redCliError E (ErrorString (''--'' @ flag @ '' flag is required.'')))
      else validateLoop E requiredFlags c)"

definition Validate :: "('r, 'x) cli_env_scheme \<Rightarrow> string list \<Rightarrow> cli_flags \<Rightarrow> cli_error option" where
  "Validate E requiredFlags c = (if containsHelpFlag c then None else validateLoop E requiredFlags c)"

definition ValidateDeployment :: "('r, 'x) cli_env_scheme \<Rightarrow> cli_flags \<Rightarrow> cli_error option" where
  "ValidateDeployment E c =
     (let deploymentError = redCliError E (ErrorString (''provide one of '' @ quoted ''--deployment'' @ '' or '' @
            quoted ''--all-deployments'' @ '' flags.''))
      in if fl_String c ''deployment'' \<noteq> '''' \<and> fl_Bool c ''all-deployments'' \<or>
            fl_String c ''deployment'' = '''' \<and> \<not> fl_Bool c ''all-deployments''
         then Some deploymentError else None)"

definition validateDeploymentFlags :: "('r, 'x) cli_env_scheme \<Rightarrow> cli_flags \<Rightarrow> cli_error option" where
  "validateDeploymentFlags E c =
     (case Validate E [''target'', ''username'', ''password''] c of
        Some err \<Rightarrow> Some err
      | None \<Rightarrow> ValidateDeployment E c)"

definition validateDirectorFlags :: "('r, 'x) cli_env_scheme \<Rightarrow> cli_flags \<Rightarrow> cli_error option" where
  "validateDirectorFlags E c = Validate E [''host'', ''username'', ''private-key-path''] c"

section \<open>Errors\<close>

definition writeStackTrace :: "('r, 'x) cli_env_scheme \<Rightarrow> string \<Rightarrow> ('r, unit) io" where
  "writeStackTrace E errorWithStackTrace w =
     (if errorWithStackTrace \<noteq> ''''
      then os_WriteFile E (''bbr-'' @ time_FormatUTC E RFC3339 (time_Now E w) @ ''.err.log'') errorWithStackTrace w
      else (Ok (), w))"

definition processErrorWithFooter :: "('r, 'x) cli_env_scheme \<Rightarrow> goerror list \<Rightarrow> string \<Rightarrow> 'r action" where
  "processErrorWithFooter E err footer w =
     (let errorCode = BuildExitCode err;
          errorMessage = PrettyError (fmt_stacktrace E) False err;
          errorWithStackTrace = PrettyError (fmt_stacktrace E) True err
      in case writeStackTrace E errorWithStackTrace w of
           (Ok _, w') \<Rightarrow> (Ok (Some (ExitError (errorMessage @ newline @ footer) errorCode)), w')
         | (Err _, w') \<Rightarrow> (Ok (Some (ExitError (errorWithStackTrace @ newline @ footer) errorCode)), w')
         | (Panic p, w') \<Rightarrow> (Panic p, w'))"

definition processError :: "('r, 'x) cli_env_scheme \<Rightarrow> goerror list \<Rightarrow> 'r action" where
  "processError E err = processErrorWithFooter E err ''''"

text \<open>A call whose error is processed and returned.\<close>

definition or_process :: "('r, 'x) cli_env_scheme \<Rightarrow> ('r, 'a) io \<Rightarrow> ('a \<Rightarrow> 'r action) \<Rightarrow> 'r action" where
  "or_process E m f w =
     (case m w of
        (Ok x, w') \<Rightarrow> f x w'
      | (Err e, w') \<Rightarrow> processError E [e] w'
      | (Panic p, w') \<Rightarrow> (Panic p, w'))"

text \<open>Running a workflow from an action. The workflows built here always return, so the second case never applies.\<close>

definition finished_run :: "('r world \<Rightarrow> (goerror list result \<times> 'r world) option) \<Rightarrow> ('r, goerror list) io" where
  "finished_run run w = (case run w of Some res \<Rightarrow> res | None \<Rightarrow> (Panic ''the workflow does not end'', w))"

section \<open>Errors of several deployments\<close>

record AllDeploymentsError =
  ad_Summary :: string
  ad_DeploymentErrs :: "DeploymentError list"

text \<open>The list of errors of a deployment; calling its methods on nil is the same as on an empty list.\<close>

definition errs_of :: "DeploymentError \<Rightarrow> goerror list" where
  "errs_of d = (case de_Errs d of None \<Rightarrow> [] | Some es \<Rightarrow> es)"

definition IndentBlock :: "string \<Rightarrow> string" where
  "IndentBlock block = ''  '' @ concat (map (\<lambda>c. if c = CHR 0x0A then [CHR 0x0A] @ ''  '' else [c]) block)"

definition ContainsUnlockOrCleanup :: "DeploymentError list \<Rightarrow> bool" where
  "ContainsUnlockOrCleanup deploymentErrs =
     list_ex (\<lambda>errs. ContainsUnlockOrCleanupOrArtifactDirExists (errs_of errs)) deploymentErrs"

definition ContainsArtifactDir :: "DeploymentError list \<Rightarrow> bool" where
  "ContainsArtifactDir deploymentErrs = list_ex (\<lambda>errs. ContainsArtifactDirError (errs_of errs)) deploymentErrs"

fun deploymentMessages :: "(goerror \<Rightarrow> string) \<Rightarrow> DeploymentError list \<Rightarrow> string \<Rightarrow> string \<Rightarrow> string \<times> string" where
  "deploymentMessages fmt [] msg msgWithStackTrace = (msg, msgWithStackTrace)"
| "deploymentMessages fmt (err # errs) msg msgWithStackTrace =
     deploymentMessages fmt errs
       (msg @ ''Deployment '' @ quoted (de_Deployment err) @ '':'' @ newline @
          IndentBlock (PrettyError fmt False (errs_of err)) @ newline)
       (msgWithStackTrace @ ''Deployment '' @ de_Deployment err @ '': '' @ PrettyError fmt True (errs_of err) @ newline)"

definition ProcessWithFooter :: "('r, 'x) cli_env_scheme \<Rightarrow> AllDeploymentsError \<Rightarrow> string \<Rightarrow> 'r action" where
  "ProcessWithFooter E a footer w =
     (let start = ad_Summary a @ newline;
          (msg, msgWithStackTrace) = deploymentMessages (fmt_stacktrace E) (ad_DeploymentErrs a) start start;
          withFooter = (\<lambda>m. if footer \<noteq> '''' then m @ newline @ footer else m)
      in case writeStackTrace E msgWithStackTrace w of
           (Ok _, w') \<Rightarrow> (Ok (Some (ExitError (withFooter msg) 1)), w')
         | (Err _, w') \<Rightarrow> (Ok (Some (ExitError (withFooter msgWithStackTrace) 1)), w')
         | (Panic p, w') \<Rightarrow> (Panic p, w'))"

definition Process :: "('r, 'x) cli_env_scheme \<Rightarrow> AllDeploymentsError \<Rightarrow> 'r action" where
  "Process E a = ProcessWithFooter E a ''''"

section \<open>Running a command for all deployments\<close>

text \<open>An error that is a list is one error of the outer list; the error of an empty list of deployments is the
  \<^verbatim>\<open>ExitError\<close> of a processed error.\<close>

definition as_error :: "cli_error option result \<Rightarrow> string list result" where
  "as_error r =
     (case r of
        Ok (Some (ExitError msg code)) \<Rightarrow> Err (ErrorString msg)
      | Ok (Some (PlainError e)) \<Rightarrow> Err e
      | Ok None \<Rightarrow> Ok []
      | Err e \<Rightarrow> Err e
      | Panic p \<Rightarrow> Panic p)"

definition getAllDeployments :: "('r, 'x) cli_env_scheme \<Rightarrow> ('r, string list) io" where
  "getAllDeployments E w =
     (case dir_call (director_Deployments E) w of
        (Err e, w') \<Rightarrow> (Err (Error [e]), w')
      | (Panic p, w') \<Rightarrow> (Panic p, w')
      | (Ok deploymentNames, w') \<Rightarrow>
          (if length deploymentNames = 0
           then (case processError E [ErrorString ''Failed to find any deployments''] w' of (r, w'') \<Rightarrow> (as_error r, w''))
           else (Ok deploymentNames, w')))"

fun summaryLoop :: "DeploymentError list \<Rightarrow> string \<Rightarrow> string" where
  "summaryLoop [] errMsg = errMsg"
| "summaryLoop (depErr # errs) errMsg = summaryLoop errs (errMsg @ ''  '' @ de_Deployment depErr @ newline)"

definition summaryError :: "DeploymentError list \<Rightarrow> string list \<Rightarrow> string \<Rightarrow> string" where
  "summaryError errs deployments summaryErrorMsg =
     summaryLoop errs (Itoa (int (length errs)) @ '' out of '' @ Itoa (int (length deployments)) @ '' deployments '' @
       summaryErrorMsg @ '':'' @ newline)"

fun list_contains :: "string list \<Rightarrow> string \<Rightarrow> bool" where
  "list_contains [] item = False"
| "list_contains (str # list) item = (str = item \<or> list_contains list item)"

definition getDeploymentStates :: "string list \<Rightarrow> DeploymentError list \<Rightarrow> string list \<times> string list" where
  "getDeploymentStates allDeployments errs =
     (let failedDeployments = map de_Deployment errs
      in (filter (\<lambda>dep. \<not> list_contains failedDeployments dep) allDeployments, failedDeployments))"

type_synonym 'r deployment_action = "string \<Rightarrow> ('r, goerror list) io"

definition DeploymentExecutable_Execute :: "'r deployment_action \<Rightarrow> string \<Rightarrow> 'r world dexecutable" where
  "DeploymentExecutable_Execute act name w =
     (case act name w of
        (Ok errs, w') \<Rightarrow> (Ok \<lparr>de_Deployment = name, de_Errs = (if errs = [] then None else Some errs)\<rparr>, w')
      | (Err e, w') \<Rightarrow> (Err e, w')
      | (Panic p, w') \<Rightarrow> (Panic p, w'))"

definition createExecutables :: "string list \<Rightarrow> 'r deployment_action \<Rightarrow> 'r world dexecutable list" where
  "createExecutables deployments act = map (DeploymentExecutable_Execute act) deployments"

text \<open>The lines of the summary, without their time stamps, and the error.\<close>

definition runForAllDeployments ::
  "('r, 'x) cli_env_scheme \<Rightarrow> 'r deployment_action \<Rightarrow> string \<Rightarrow> string \<Rightarrow> (AllDeploymentsError \<Rightarrow> 'r action) \<Rightarrow>
     'r world \<Rightarrow> (string list \<times> cli_error option) result \<times> 'r world" where
  "runForAllDeployments E act summaryErrorMsg summarySuccessMsg errorHandler w =
     (case getAllDeployments E w of
        (Err e, w1) \<Rightarrow> (case processError E [e] w1 of (r, w2) \<Rightarrow> (map_result (Pair []) r, w2))
      | (Panic p, w1) \<Rightarrow> (Panic p, w1)
      | (Ok deployments, w1) \<Rightarrow>
          (case ParallelDeploymentExecutor_Run (finish_order E) (createExecutables deployments act) w1 of
             (Err e, w2) \<Rightarrow> (Err e, w2)
           | (Panic p, w2) \<Rightarrow> (Panic p, w2)
           | (Ok errs, w2) \<Rightarrow>
               (let (successful, failed) = getDeploymentStates deployments errs;
                    rule_line = ''-------------------------'';
                    lines = [''Pending: '' @ Join deployments '', '', rule_line, rule_line,
                      ''Successfully '' @ summarySuccessMsg @ '': '' @ Join successful '', '']
                in if length errs \<noteq> 0
                   then (case errorHandler \<lparr>ad_Summary = summaryError errs deployments summaryErrorMsg,
                               ad_DeploymentErrs = errs\<rparr> w2 of
                           (r, w3) \<Rightarrow> (map_result (Pair (lines @ [''FAILED: '' @ Join failed '', ''])) r, w3))
                   else (Ok (lines, Some (ExitError '''' 0)), w2))))"

definition createLogger :: "('r, 'x) cli_env_scheme \<Rightarrow> string \<Rightarrow> string \<Rightarrow> string \<Rightarrow> ('r, string) io" where
  "createLogger E timestamp artifactPath name =
     (let logFilePath = path_Join artifactPath (name @ ''_'' @ timestamp @ ''.log'')
      in bindr (os_Create E logFilePath) (\<lambda>_ w. (Ok logFilePath, w)))"

text \<open>An error of a step before the workflow is returned as the list of errors.\<close>

definition or_return :: "('r, 'a) io \<Rightarrow> ('a \<Rightarrow> ('r, goerror list) io) \<Rightarrow> ('r, goerror list) io" where
  "or_return m f w =
     (case m w of
        (Ok x, w') \<Rightarrow> f x w'
      | (Err e, w') \<Rightarrow> (Ok [e], w')
      | (Panic p, w') \<Rightarrow> (Panic p, w'))"

section \<open>Commands on deployments\<close>

text \<open>The parameters every deployment command reads.\<close>

record deployment_params =
  p_username :: string
  p_password :: string
  p_target :: string
  p_caCert :: string
  p_bbrVersion :: string
  p_debug :: bool
  p_deployment :: string
  p_allDeployments :: bool

definition getDeploymentParams :: "cli_context \<Rightarrow> deployment_params" where
  "getDeploymentParams c =
     \<lparr>p_username = fl_String (ctx_Parent c) ''username'', p_password = fl_String (ctx_Parent c) ''password'',
      p_target = fl_String (ctx_Parent c) ''target'', p_caCert = fl_String (ctx_Parent c) ''ca-cert'',
      p_bbrVersion = ctx_Version c, p_debug = ctx_GlobalBool c ''debug'',
      p_deployment = fl_String (ctx_Parent c) ''deployment'', p_allDeployments = fl_Bool (ctx_Parent c) ''all-deployments''\<rparr>"

definition timestamp_now :: "('r, 'x) cli_env_scheme \<Rightarrow> 'r world \<Rightarrow> string" where
  "timestamp_now E w = time_FormatUTC E artifactTimeStampFormat (time_Now E w)"

definition backupSingleDeployment ::
  "('r, 'x) cli_env_scheme \<Rightarrow> deployment_params \<Rightarrow> string \<Rightarrow> bool \<Rightarrow> bool \<Rightarrow> 'r action" where
  "backupSingleDeployment E p artifactPath withManifest unsafeLockFree w =
     or_process E (BuildDeploymentBackuper E (p_target p) (p_username p) (p_password p) (p_caCert p) withManifest
         unsafeLockFree (p_bbrVersion p) (timestamp_now E w)) (\<lambda>backuper.
       bindr (finished_run (Backuper_Backup E backuper (p_deployment p) artifactPath)) (\<lambda>backupErr.
         if ContainsUnlockOrCleanupOrArtifactDirExists backupErr
         then processErrorWithFooter E backupErr backupCleanupAdvisedNotice
         else processError E backupErr)) w"

definition backupAction :: "('r, 'x) cli_env_scheme \<Rightarrow> deployment_params \<Rightarrow> string \<Rightarrow> bool \<Rightarrow> 'r deployment_action" where
  "backupAction E p artifactPath withManifest name w =
     (let timestamp = timestamp_now E w
      in or_return (createLogger E timestamp artifactPath name) (\<lambda>_.
         or_return (BuildDeploymentBackuper E (p_target p) (p_username p) (p_password p) (p_caCert p) withManifest
           False (p_bbrVersion p) timestamp) (\<lambda>backuper.
         finished_run (Backuper_Backup E backuper name artifactPath))) w)"

definition backupErrorHandler :: "('r, 'x) cli_env_scheme \<Rightarrow> AllDeploymentsError \<Rightarrow> 'r action" where
  "backupErrorHandler E deploymentError =
     (if ContainsUnlockOrCleanup (ad_DeploymentErrs deploymentError)
      then ProcessWithFooter E deploymentError backupCleanupAllDeploymentsAdvisedNotice
      else Process E deploymentError)"

text \<open>The printed summary is dropped.\<close>

definition without_lines :: "('r world \<Rightarrow> (string list \<times> cli_error option) result \<times> 'r world) \<Rightarrow> 'r action" where
  "without_lines m w = (case m w of (r, w') \<Rightarrow> (map_result snd r, w'))"

definition backupAll :: "('r, 'x) cli_env_scheme \<Rightarrow> deployment_params \<Rightarrow> string \<Rightarrow> bool \<Rightarrow> 'r action" where
  "backupAll E p artifactPath withManifest =
     or_process E (BuildBoshClient E (p_target p) (p_username p) (p_password p) (p_caCert p) (p_bbrVersion p)) (\<lambda>_.
       without_lines (runForAllDeployments E (backupAction E p artifactPath withManifest) ''cannot be backed up'' ''backed up''
         (backupErrorHandler E)))"

definition DeploymentBackupCommand_Action :: "('r, 'x) cli_env_scheme \<Rightarrow> cli_context \<Rightarrow> 'r action" where
  "DeploymentBackupCommand_Action E c =
     (let p = getDeploymentParams c;
          withManifest = fl_Bool (ctx_flags c) ''with-manifest'';
          unsafeLockFree = fl_Bool (ctx_flags c) ''unsafe-lock-free'';
          artifactPath = fl_String (ctx_flags c) ''artifact-path''
      in if p_allDeployments p
         then if unsafeLockFree
              then processError E [ErrorString ''Cannot use the --unsafe-lock-free flag in conjunction with the --all-deployments flag'']
              else backupAll E p artifactPath withManifest
         else backupSingleDeployment E p artifactPath withManifest unsafeLockFree)"

definition cleanupAction :: "('r, 'x) cli_env_scheme \<Rightarrow> deployment_params \<Rightarrow> 'r deployment_action" where
  "cleanupAction E p name w =
     or_return (createLogger E (timestamp_now E w) '''' name) (\<lambda>_.
     or_return (BuildDeploymentBackupCleanuper E (p_target p) (p_username p) (p_password p) (p_caCert p) (p_bbrVersion p)) (\<lambda>cleaner.
     finished_run (BackupCleaner_Cleanup E cleaner name))) w"

text \<open>The error of building the client is returned as it is here.\<close>

definition cleanupAllDeployments :: "('r, 'x) cli_env_scheme \<Rightarrow> deployment_params \<Rightarrow> 'r action" where
  "cleanupAllDeployments E p w =
     (case BuildBoshClient E (p_target p) (p_username p) (p_password p) (p_caCert p) (p_bbrVersion p) w of
        (Err e, w') \<Rightarrow> (Ok (Some (PlainError e)), w')
      | (Panic m, w') \<Rightarrow> (Panic m, w')
      | (Ok _, w') \<Rightarrow>
          without_lines (runForAllDeployments E (cleanupAction E p) ''could not be cleaned up'' ''cleaned up'' (Process E)) w')"

definition DeploymentBackupCleanupCommand_Action :: "('r, 'x) cli_env_scheme \<Rightarrow> cli_context \<Rightarrow> 'r action" where
  "DeploymentBackupCleanupCommand_Action E c =
     (let p = getDeploymentParams c
      in if \<not> p_allDeployments p
         then or_process E (BuildDeploymentBackupCleanuper E (p_target p) (p_username p) (p_password p) (p_caCert p) (ctx_Version c))
                (\<lambda>cleaner. bindr (finished_run (BackupCleaner_Cleanup E cleaner (p_deployment p))) (processError E))
         else cleanupAllDeployments E p)"

definition backupableCheck :: "('r, 'x) cli_env_scheme \<Rightarrow> Step Workflow \<Rightarrow> 'r deployment_action" where
  "backupableCheck E backupChecker name = finished_run (BackupChecker_Check E backupChecker name)"

definition checkErrorHandler :: "('r, 'x) cli_env_scheme \<Rightarrow> AllDeploymentsError \<Rightarrow> 'r action" where
  "checkErrorHandler E deploymentError =
     (if ContainsArtifactDir (ad_DeploymentErrs deploymentError)
      then ProcessWithFooter E deploymentError backupCleanupAllDeploymentsAdvisedNotice
      else Process E deploymentError)"

definition allDeploymentsBackupCheck :: "('r, 'x) cli_env_scheme \<Rightarrow> Step Workflow \<Rightarrow> 'r action" where
  "allDeploymentsBackupCheck E backupChecker =
     without_lines (runForAllDeployments E (backupableCheck E backupChecker) ''cannot be backed up'' ''can be backed up''
       (checkErrorHandler E))"

definition DeploymentPreBackupCheck_Action :: "('r, 'x) cli_env_scheme \<Rightarrow> cli_context \<Rightarrow> 'r action" where
  "DeploymentPreBackupCheck_Action E c =
     (let p = getDeploymentParams c
      in or_process E (BuildBoshClient E (p_target p) (p_username p) (p_password p) (p_caCert p) (p_bbrVersion p)) (\<lambda>boshClient.
         (let backupChecker = BuildDeploymentBackupChecker boshClient False
          in if p_allDeployments p
             then bindr (allDeploymentsBackupCheck E backupChecker) (\<lambda>errs w.
                    (Ok (case errs of Some e \<Rightarrow> Some e | None \<Rightarrow> Some (ExitError '''' 0)), w))
             else bindr (backupableCheck E backupChecker (p_deployment p)) (\<lambda>errs w.
                    if errs \<noteq> []
                    then (if ContainsArtifactDirError errs then processErrorWithFooter E errs backupCleanupAdvisedNotice w
                          else processError E errs w)
                    else (Ok (Some (ExitError '''' 0)), w)))))"

definition DeploymentRestoreCommand_Action :: "('r, 'x) cli_env_scheme \<Rightarrow> cli_context \<Rightarrow> 'r action" where
  "DeploymentRestoreCommand_Action E c w =
     (case Validate E [''artifact-path''] (ctx_flags c) of
        Some err \<Rightarrow> (Ok (Some err), w)
      | None \<Rightarrow>
          (let p = getDeploymentParams c
           in or_process E (BuildDeploymentRestorer E (p_target p) (p_username p) (p_password p) (p_caCert p) (ctx_Version c))
                (\<lambda>restorer. bindr (finished_run (Restorer_Restore E restorer (p_deployment p) (fl_String (ctx_flags c) ''artifact-path'')))
                  (processError E)) w))"

definition DeploymentRestoreCleanupCommand_Action :: "('r, 'x) cli_env_scheme \<Rightarrow> cli_context \<Rightarrow> 'r action" where
  "DeploymentRestoreCleanupCommand_Action E c =
     (let p = getDeploymentParams c
      in or_process E (BuildDeploymentRestoreCleanuper E (p_target p) (p_username p) (p_password p) (p_caCert p) (ctx_Version c)
           (fl_Bool (ctx_flags c) ''with-manifest''))
         (\<lambda>cleaner. bindr (finished_run (RestoreCleaner_Cleanup E cleaner (p_deployment p))) (processError E)))"

section \<open>Commands on the director\<close>

definition extractNameFromAddress :: "('r, 'x) cli_env_scheme \<Rightarrow> string \<Rightarrow> string" where
  "extractNameFromAddress E address =
     (let address' = (case url_Hostname E address of
            Some hostname \<Rightarrow> (if hostname \<noteq> '''' then hostname else address)
          | None \<Rightarrow> address)
      in hd (Split (CHR '':'') address'))"

definition DirectorBackupCommand_Action :: "('r, 'x) cli_env_scheme \<Rightarrow> cli_context \<Rightarrow> 'r action" where
  "DirectorBackupCommand_Action E c w =
     (let host = fl_String (ctx_Parent c) ''host'';
          directorName = extractNameFromAddress E host;
          backuper = BuildDirectorBackuper host (fl_String (ctx_Parent c) ''username'')
            (fl_String (ctx_Parent c) ''private-key-path'') (ctx_Version c) (timestamp_now E w)
      in bindr (finished_run (Backuper_Backup E backuper directorName (fl_String (ctx_flags c) ''artifact-path''))) (\<lambda>backupErr.
           if ContainsUnlockOrCleanupOrArtifactDirExists backupErr
           then processErrorWithFooter E backupErr backupCleanupAdvisedNotice
           else processError E backupErr) w)"

definition DirectorBackupCleanupCommand_Action :: "('r, 'x) cli_env_scheme \<Rightarrow> cli_context \<Rightarrow> 'r action" where
  "DirectorBackupCleanupCommand_Action E c =
     (let host = fl_String (ctx_Parent c) ''host'';
          cleaner = BuildDirectorBackupCleaner host (fl_String (ctx_Parent c) ''username'')
            (fl_String (ctx_Parent c) ''private-key-path'') (ctx_Version c)
      in bindr (finished_run (BackupCleaner_Cleanup E cleaner (extractNameFromAddress E host))) (processError E))"

definition DirectorPreBackupCheckCommand_Action :: "('r, 'x) cli_env_scheme \<Rightarrow> cli_context \<Rightarrow> 'r action" where
  "DirectorPreBackupCheckCommand_Action E c =
     (let host = fl_String (ctx_Parent c) ''host'';
          backupChecker = BuildDirectorBackupChecker host (fl_String (ctx_Parent c) ''username'')
            (fl_String (ctx_Parent c) ''private-key-path'') (ctx_Version c)
      in bindr (finished_run (BackupChecker_Check E backupChecker (extractNameFromAddress E host))) (\<lambda>err w.
           if err \<noteq> []
           then (if ContainsArtifactDirError err then processErrorWithFooter E err backupCleanupAdvisedNotice w
                 else processError E err w)
           else (Ok (Some (ExitError '''' 0)), w)))"

definition DirectorRestoreCommand_Action :: "('r, 'x) cli_env_scheme \<Rightarrow> cli_context \<Rightarrow> 'r action" where
  "DirectorRestoreCommand_Action E c w =
     (case Validate E [''artifact-path''] (ctx_flags c) of
        Some err \<Rightarrow> (Ok (Some err), w)
      | None \<Rightarrow>
          (let host = fl_String (ctx_Parent c) ''host'';
               restorer = BuildDirectorRestorer host (fl_String (ctx_Parent c) ''username'')
                 (fl_String (ctx_Parent c) ''private-key-path'') (ctx_Version c)
           in bindr (finished_run (Restorer_Restore E restorer (extractNameFromAddress E host)
                (fl_String (ctx_flags c) ''artifact-path''))) (processError E) w))"

definition DirectorRestoreCleanupCommand_Action :: "('r, 'x) cli_env_scheme \<Rightarrow> cli_context \<Rightarrow> 'r action" where
  "DirectorRestoreCleanupCommand_Action E c =
     (let host = fl_String (ctx_Parent c) ''host'';
          cleaner = BuildDirectorRestoreCleaner host (fl_String (ctx_Parent c) ''username'')
            (fl_String (ctx_Parent c) ''private-key-path'') (ctx_Version c)
      in bindr (finished_run (RestoreCleaner_Cleanup E cleaner (extractNameFromAddress E host))) (processError E))"

section \<open>The command table\<close>

datatype subcommand = PreBackupCheck | BackupSub | RestoreSub | BackupCleanupSub | RestoreCleanupSub

datatype bbr_command = DeploymentCommand subcommand | DirectorCommand subcommand | HelpCommand | VersionCommand

fun deployment_subcommand :: "('r, 'x) cli_env_scheme \<Rightarrow> subcommand \<Rightarrow> cli_context \<Rightarrow> 'r action" where
  "deployment_subcommand E PreBackupCheck = DeploymentPreBackupCheck_Action E"
| "deployment_subcommand E BackupSub = DeploymentBackupCommand_Action E"
| "deployment_subcommand E RestoreSub = DeploymentRestoreCommand_Action E"
| "deployment_subcommand E BackupCleanupSub = DeploymentBackupCleanupCommand_Action E"
| "deployment_subcommand E RestoreCleanupSub = DeploymentRestoreCleanupCommand_Action E"

fun director_subcommand :: "('r, 'x) cli_env_scheme \<Rightarrow> subcommand \<Rightarrow> cli_context \<Rightarrow> 'r action" where
  "director_subcommand E PreBackupCheck = DirectorPreBackupCheckCommand_Action E"
| "director_subcommand E BackupSub = DirectorBackupCommand_Action E"
| "director_subcommand E RestoreSub = DirectorRestoreCommand_Action E"
| "director_subcommand E BackupCleanupSub = DirectorBackupCleanupCommand_Action E"
| "director_subcommand E RestoreCleanupSub = DirectorRestoreCleanupCommand_Action E"

text \<open>The \<^verbatim>\<open>Before\<close> hook of a command runs on the command's own flags, the parent of the subcommand's; its error
  keeps the action from running.\<close>

fun run_command :: "('r, 'x) cli_env_scheme \<Rightarrow> bbr_command \<Rightarrow> cli_context \<Rightarrow> 'r action" where
  "run_command E (DeploymentCommand sub) c w =
     (case validateDeploymentFlags E (ctx_Parent c) of
        Some err \<Rightarrow> (Ok (Some err), w)
      | None \<Rightarrow> deployment_subcommand E sub c w)"
| "run_command E (DirectorCommand sub) c w =
     (case validateDirectorFlags E (ctx_Parent c) of
        Some err \<Rightarrow> (Ok (Some err), w)
      | None \<Rightarrow> director_subcommand E sub c w)"
| "run_command E HelpCommand c w = (Ok None, w)"
| "run_command E VersionCommand c w = (Ok None, w)"

section \<open>Interrupts\<close>

text \<open>
  The handler of interrupts as a state machine. An interrupt pauses both writers of the application's
  logger and asks a question on standard output; the next line of standard input, or the failure
  to read one, is the answer. While the question is open, one more interrupt is kept by the
  channel and further ones are dropped. There is a read only while a question is open. The lines on the
  terminal are marked with where they came from.
\<close>

definition ToLower :: "string \<Rightarrow> string" where
  "ToLower s = map (\<lambda>c. if CHR ''A'' \<le> c \<and> c \<le> CHR ''Z'' then char_of (of_char c + 32 :: nat) else c) s"

datatype chunk = Logged string | Printed string

record terminal =
  term_stdout :: PausableWriter
  term_stderr :: PausableWriter
  screen :: "chunk list"
  errors_screen :: "chunk list"
  asking :: bool
  pending :: bool
  exit_status :: "int option"

datatype term_event = LogOut string | LogErr string | Sigint | ReadReturns "string result"

definition to_screen :: "string \<Rightarrow> chunk list \<Rightarrow> int result \<times> chunk list" where
  "to_screen p out = (Ok (int (length p)), out @ [Logged p])"

definition new_terminal :: terminal where
  "new_terminal = \<lparr>term_stdout = NewPausableWriter, term_stderr = NewPausableWriter, screen = [], errors_screen = [],
     asking = False, pending = False, exit_status = None\<rparr>"

definition Println :: "string \<Rightarrow> terminal \<Rightarrow> terminal" where
  "Println s t = t\<lparr>screen := screen t @ [Printed (s @ newline)]\<rparr>"

definition ask :: "bool \<Rightarrow> terminal \<Rightarrow> terminal" where
  "ask backup t =
     Println (newline @ (if backup then backupSigintQuestion else restoreSigintQuestion))
       (t\<lparr>term_stdout := PausableWriter_Pause (term_stdout t), term_stderr := PausableWriter_Pause (term_stderr t),
          asking := True\<rparr>)"

definition resume_both :: "terminal \<Rightarrow> terminal" where
  "resume_both t =
     (let (_, out_pw, out) = PausableWriter_Resume to_screen (term_stdout t, screen t);
          (_, err_pw, err) = PausableWriter_Resume to_screen (term_stderr t, errors_screen t)
      in t\<lparr>term_stdout := out_pw, screen := out, term_stderr := err_pw, errors_screen := err, asking := False\<rparr>)"

text \<open>After an answer the loop takes the interrupt the channel kept, if there is one.\<close>

definition next_signal :: "bool \<Rightarrow> terminal \<Rightarrow> terminal" where
  "next_signal backup t = (if pending t then ask backup (t\<lparr>pending := False\<rparr>) else t)"

definition answer :: "bool \<Rightarrow> string result \<Rightarrow> terminal \<Rightarrow> terminal" where
  "answer backup input t =
     (case input of
        Ok line \<Rightarrow>
          if ToLower (TrimSpace line) = ''yes''
          then (Println (if backup then backupCleanupAdvisedNotice else restoreCleanupAdvisedNotice) t)\<lparr>exit_status := Some 1\<rparr>
          else next_signal backup (resume_both t)
      | _ \<Rightarrow> next_signal backup (resume_both
               (Println (newline @ (if backup then backupStdinErrorMessage else restoreStdinErrorMessage)) t)))"

fun trapSigint_step :: "bool \<Rightarrow> term_event \<Rightarrow> terminal \<Rightarrow> terminal" where
  "trapSigint_step backup ev t =
     (if exit_status t \<noteq> None then t
      else case ev of
        LogOut p \<Rightarrow> (let (_, pw, out) = PausableWriter_Write to_screen p (term_stdout t, screen t)
                    in t\<lparr>term_stdout := pw, screen := out\<rparr>)
      | LogErr p \<Rightarrow> (let (_, pw, out) = PausableWriter_Write to_screen p (term_stderr t, errors_screen t)
                    in t\<lparr>term_stderr := pw, errors_screen := out\<rparr>)
      | Sigint \<Rightarrow> (if asking t then t\<lparr>pending := True\<rparr> else ask backup t)
      | ReadReturns input \<Rightarrow> (if asking t then answer backup input t else t))"

definition trapSigint :: "bool \<Rightarrow> term_event list \<Rightarrow> terminal \<Rightarrow> terminal" where
  "trapSigint backup evs t = foldl (\<lambda>t ev. trapSigint_step backup ev t) t evs"


section \<open>Lemmas\<close>

lemma os_WriteFile_no_panic [simp]: "os_WriteFile E p s w \<noteq> (Panic m, w')"
  by (auto simp: os_WriteFile_def split: option.splits if_splits)

lemma writeStackTrace_no_panic [simp]: "writeStackTrace E s w \<noteq> (Panic m, w')"
  by (simp add: writeStackTrace_def)

lemma writeStackTrace_quiet: "writeStackTrace E s w = (r, w') \<Longrightarrow> quiet w w'"
  by (auto simp: writeStackTrace_def dest: os_WriteFile_quiet split: if_splits)

text \<open>A processed error is an \<open>ExitError\<close> with the code of the errors, and ends with the footer.\<close>

lemma processErrorWithFooter_result:
  "\<exists>msg w'. processErrorWithFooter E err footer w = (Ok (Some (ExitError (msg @ newline @ footer) (BuildExitCode err))), w') \<and> quiet w w'"
proof -
  obtain r w' where r: "writeStackTrace E (PrettyError (fmt_stacktrace E) True err) w = (r, w')" by fastforce
  from writeStackTrace_quiet [OF r] r show ?thesis
    by (cases r) (auto simp: processErrorWithFooter_def)
qed

lemma ProcessWithFooter_result:
  "\<exists>msg w'. ProcessWithFooter E a footer w = (Ok (Some (ExitError msg 1)), w') \<and> quiet w w'"
proof -
  obtain m st where ms: "deploymentMessages (fmt_stacktrace E) (ad_DeploymentErrs a) (ad_Summary a @ newline) (ad_Summary a @ newline) = (m, st)"
    by fastforce
  obtain r w' where r: "writeStackTrace E st w = (r, w')" by fastforce
  from writeStackTrace_quiet [OF r] r ms show ?thesis by (cases r) (auto simp: ProcessWithFooter_def)
qed

lemma list_contains_iff [simp]: "list_contains xs x \<longleftrightarrow> x \<in> set xs"
  by (induction xs) auto

lemma step_errors_Nil: "panic_free tr \<Longrightarrow> step_errors tr = [] \<longleftrightarrow> list_all (\<lambda>(k, r). succeeded r) tr"
proof (induction tr)
  case (Cons x tr)
  obtain k r where x: "x = (k, r)" by fastforce
  have "step_errors (x # tr) = new_errors r @ step_errors tr" by (simp add: step_errors_def x)
  with Cons x show ?case by (cases r) (auto simp: new_errors_def)
qed (simp add: step_errors_def)

text \<open>The actions of a list of deployments, run one after the other.\<close>

fun acts_in_order :: "'r deployment_action \<Rightarrow> string list \<Rightarrow> 'r world \<Rightarrow> goerror list list \<Rightarrow> 'r world \<Rightarrow> bool" where
  "acts_in_order act [] w [] w' \<longleftrightarrow> w' = w"
| "acts_in_order act (d # ds) w (errs # rest) w' \<longleftrightarrow> (\<exists>w1. act d w = (Ok errs, w1) \<and> acts_in_order act ds w1 rest w')"
| "acts_in_order act _ w _ w' \<longleftrightarrow> False"

definition failures :: "string list \<Rightarrow> goerror list list \<Rightarrow> DeploymentError list" where
  "failures ds ess = concat (map (\<lambda>(d, es). if es = [] then [] else [\<lparr>de_Deployment = d, de_Errs = Some es\<rparr>]) (zip ds ess))"

lemma deploymentLoop_acts:
  "deploymentLoop (createExecutables ds act) errs w = (Ok out, w') \<longleftrightarrow>
     (\<exists>ess. acts_in_order act ds w ess w' \<and> out = errs @ failures ds ess)"
proof (induction ds arbitrary: errs w)
  case Nil
  have "acts_in_order act [] w ess w' \<longleftrightarrow> ess = [] \<and> w' = w" for ess by (cases ess) auto
  then show ?case by (auto simp: createExecutables_def failures_def)
next
  case (Cons d ds)
  have ex: "acts_in_order act (d # ds) w ess w' \<longleftrightarrow>
      (\<exists>es rest w1. ess = es # rest \<and> act d w = (Ok es, w1) \<and> acts_in_order act ds w1 rest w')" for ess
    by (cases ess) auto
  show ?case
  proof (cases "act d w")
    case (Pair r w1)
    show ?thesis
    proof (cases r)
      case (Ok es)
      with Pair Cons.IH [of "if es = [] then errs else errs @ [\<lparr>de_Deployment = d, de_Errs = Some es\<rparr>]" w1] show ?thesis
        by (auto simp: createExecutables_def DeploymentExecutable_Execute_def ex failures_def)
    qed (use Pair in \<open>auto simp: createExecutables_def DeploymentExecutable_Execute_def ex\<close>)
  qed
qed

lemma permute_map: "permute p (map f xs) = map f (permute p xs)"
proof (cases "sort p = [0..<length xs]")
  case True
  then have "\<forall>i \<in> set p. i < length xs" by (metis atLeastLessThan_iff set_sort set_upt)
  with True show ?thesis by (simp add: permute_def)
qed (simp add: permute_def)

text \<open>The parallel executor runs every deployment's action once, in some order.\<close>

lemma ParallelDeploymentExecutor_acts:
  assumes "ParallelDeploymentExecutor_Run ord (createExecutables ds act) w = (Ok errs, w')"
  shows "\<exists>sched ess. mset sched = mset ds \<and> acts_in_order act sched w ess w' \<and> errs = failures sched ess"
proof -
  let ?s = "permute (ord w (length ds)) ds"
  from assms have "deploymentLoop (createExecutables ?s act) [] w = (Ok errs, w')"
    by (simp add: ParallelDeploymentExecutor_Run_def createExecutables_def permute_map)
  then obtain ess where "acts_in_order act ?s w ess w'" "errs = failures ?s ess" by (auto simp: deploymentLoop_acts)
  then show ?thesis by (intro exI [of _ ?s]) auto
qed

lemma acts_length: "acts_in_order act ds w ess w' \<Longrightarrow> length ess = length ds"
  by (induction act ds w ess w' rule: acts_in_order.induct) auto

lemma failures_names: "de_Deployment ` set (failures ds ess) = {d. \<exists>es. (d, es) \<in> set (zip ds ess) \<and> es \<noteq> []}"
  by (force simp: failures_def)

lemma failures_Nil: "length ess = length ds \<Longrightarrow> failures ds ess = [] \<longleftrightarrow> list_all (\<lambda>es. es = []) ess"
  by (induction ds ess rule: list_induct2') (auto simp: failures_def)


text \<open>The workflows the factories build always return.\<close>

lemma Backuper_traced:
  assumes "Workflow_Run (NewBackuper dm lo ex copier free ts) (traced (Step_Run E))
      ([], SetCurrentArtifactPath path (NewSession name), w) = Some (r, tr, session', w')"
  shows "finished_run (Backuper_Backup E (NewBackuper dm lo ex copier free ts) name path) w = (r, w')"
  using backuper.run_returns [of dm lo ex copier free ts "Step_Run E" "(SetCurrentArtifactPath path (NewSession name), w)"] assms
  by (auto simp: finished_run_def Backuper_Backup_def run_session_def)

text \<open>Interrupts: what was logged so far.\<close>

fun logged_text :: "chunk list \<Rightarrow> string" where
  "logged_text [] = ''''"
| "logged_text (Logged p # cs) = p @ logged_text cs"
| "logged_text (Printed p # cs) = logged_text cs"

fun out_text :: "term_event list \<Rightarrow> string" where
  "out_text [] = ''''"
| "out_text (LogOut p # evs) = p @ out_text evs"
| "out_text (_ # evs) = out_text evs"

fun err_text :: "term_event list \<Rightarrow> string" where
  "err_text [] = ''''"
| "err_text (LogErr p # evs) = p @ err_text evs"
| "err_text (_ # evs) = err_text evs"

text \<open>A writer is paused exactly while a question is open, and holds nothing back otherwise.\<close>

definition terminal_inv :: "terminal \<Rightarrow> bool" where
  "terminal_inv t \<longleftrightarrow> paused (term_stdout t) = asking t \<and> paused (term_stderr t) = asking t \<and>
     (asking t \<or> bufferedOutput (term_stdout t) = '''' \<and> bufferedOutput (term_stderr t) = '''') \<and>
     (pending t \<longrightarrow> asking t) \<and> (exit_status t \<noteq> None \<longrightarrow> asking t)"

definition all_out :: "terminal \<Rightarrow> string" where
  "all_out t = logged_text (screen t) @ bufferedOutput (term_stdout t)"

definition all_err :: "terminal \<Rightarrow> string" where
  "all_err t = logged_text (errors_screen t) @ bufferedOutput (term_stderr t)"

lemma logged_text_append [simp]: "logged_text (xs @ ys) = logged_text xs @ logged_text ys"
  by (induction xs rule: logged_text.induct) auto

lemmas sigint_defs = terminal_inv_def all_out_def all_err_def ask_def answer_def next_signal_def resume_both_def Println_def
  PausableWriter_Pause_def PausableWriter_Resume_def PausableWriter_Write_def to_screen_def

lemma trapSigint_step_inv:
  assumes "terminal_inv t"
  shows "terminal_inv (trapSigint_step backup ev t)"
    and "exit_status t = None \<Longrightarrow> all_out (trapSigint_step backup ev t) = all_out t @ out_text [ev] \<and>
      all_err (trapSigint_step backup ev t) = all_err t @ err_text [ev]"
  using assms by (cases ev; auto simp: sigint_defs split: result.splits)+

lemma out_text_append: "out_text (xs @ ys) = out_text xs @ out_text ys"
  by (induction xs rule: out_text.induct) simp_all

lemma err_text_append: "err_text (xs @ ys) = err_text xs @ err_text ys"
  by (induction xs rule: err_text.induct) simp_all

lemma trapSigint_text:
  "terminal_inv (trapSigint backup evs new_terminal) \<and>
   (exit_status (trapSigint backup evs new_terminal) = None \<longrightarrow>
      all_out (trapSigint backup evs new_terminal) = out_text evs \<and> all_err (trapSigint backup evs new_terminal) = err_text evs)"
proof (induction evs rule: rev_induct)
  case Nil
  show ?case by (simp add: trapSigint_def new_terminal_def sigint_defs NewPausableWriter_def)
next
  case (snoc ev evs)
  let ?t = "trapSigint backup evs new_terminal"
  have step: "trapSigint backup (evs @ [ev]) new_terminal = trapSigint_step backup ev ?t" by (simp add: trapSigint_def)
  have "exit_status (trapSigint_step backup ev ?t) = None \<Longrightarrow> exit_status ?t = None" by (auto split: if_splits)
  with snoc trapSigint_step_inv [of ?t backup ev] show ?case
    unfolding step by (auto simp: out_text_append err_text_append simp del: trapSigint_step.simps)
qed

text \<open>The program exits only on a \<open>yes\<close> read while a question is open.\<close>

lemma trapSigint_step_exit:
  assumes "exit_status t = None" and "exit_status (trapSigint_step backup ev t) = Some n"
  shows "n = 1 \<and> asking t \<and> (\<exists>line. ev = ReadReturns (Ok line) \<and> ToLower (TrimSpace line) = ''yes'')"
  using assms by (cases ev; auto simp: sigint_defs split: result.splits if_splits)

lemma trapSigint_exit:
  "exit_status (trapSigint backup evs new_terminal) = Some n \<Longrightarrow>
     n = 1 \<and> (\<exists>evs1 line evs2. evs = evs1 @ ReadReturns (Ok line) # evs2 \<and> ToLower (TrimSpace line) = ''yes'' \<and>
       asking (trapSigint backup evs1 new_terminal))"
proof (induction evs rule: rev_induct)
  case Nil
  then show ?case by (simp add: trapSigint_def new_terminal_def)
next
  case (snoc ev evs)
  let ?t = "trapSigint backup evs new_terminal"
  have step: "trapSigint backup (evs @ [ev]) new_terminal = trapSigint_step backup ev ?t" by (simp add: trapSigint_def)
  show ?case
  proof (cases "exit_status ?t")
    case None
    from trapSigint_step_exit [OF None snoc.prems [unfolded step]] show ?thesis by blast
  next
    case (Some m)
    with snoc.prems have "m = n" by (simp add: step)
    with snoc.IH Some obtain evs1 line evs2 where "n = 1" "evs = evs1 @ ReadReturns (Ok line) # evs2"
      "ToLower (TrimSpace line) = ''yes''" "asking (trapSigint backup evs1 new_terminal)" by blast
    moreover from this(2) have "evs @ [ev] = evs1 @ ReadReturns (Ok line) # (evs2 @ [ev])" by simp
    ultimately show ?thesis by blast
  qed
qed

text \<open>Flags.\<close>

lemma validateLoop_iff:
  "validateLoop E required c = None \<longleftrightarrow> list_all (\<lambda>f. fl_String c f \<noteq> '''') required"
  "validateLoop E required c = Some e \<Longrightarrow> \<exists>msg. e = ExitError msg 1"
  by (induction required) (auto simp: redCliError_def split: if_splits)

lemma validateDeploymentFlags_iff:
  "validateDeploymentFlags E c = None \<longleftrightarrow>
     (containsHelpFlag c \<or> list_all (\<lambda>f. fl_String c f \<noteq> '''') [''target'', ''username'', ''password'']) \<and>
     (fl_String c ''deployment'' = '''') = fl_Bool c ''all-deployments''"
  "validateDeploymentFlags E c = Some e \<Longrightarrow> \<exists>msg. e = ExitError msg 1"
  unfolding validateDeploymentFlags_def Validate_def ValidateDeployment_def
  by (auto simp: validateLoop_iff(1) redCliError_def split: option.splits if_splits dest: validateLoop_iff(2))

lemma validateDirectorFlags_iff:
  "validateDirectorFlags E c = None \<longleftrightarrow>
     containsHelpFlag c \<or> list_all (\<lambda>f. fl_String c f \<noteq> '''') [''host'', ''username'', ''private-key-path'']"
  "validateDirectorFlags E c = Some e \<Longrightarrow> \<exists>msg. e = ExitError msg 1"
  unfolding validateDirectorFlags_def Validate_def
  by (auto simp: validateLoop_iff(1) redCliError_def split: if_splits dest: validateLoop_iff(2))


section \<open>Properties\<close>

text \<open>C25: the command that backs up one deployment returns an exit error whose code is the exit code of the errors
  of the steps that were run, so zero exactly when every step succeeded; the advice to clean up is
  added exactly when an unlock, cleanup, drain or artifact directory error is among them. When the
  director's client cannot be built, the code is that of this one error and no step is run.\<close>

theorem backup_exit_code:
  "case BuildDeploymentBackuper E (p_target p) (p_username p) (p_password p) (p_caCert p) withManifest unsafeLockFree
          (p_bbrVersion p) (timestamp_now E w) w of
     (Ok backuper, w1) \<Rightarrow>
       (case Workflow_Run backuper (traced (Step_Run E)) ([], SetCurrentArtifactPath path (NewSession (p_deployment p)), w1) of
          Some (Ok errs, tr, _, w2) \<Rightarrow>
            (\<exists>msg w'. quiet w2 w' \<and> backupSingleDeployment E p path withManifest unsafeLockFree w =
               (Ok (Some (ExitError (msg @ newline @
                  (if ContainsUnlockOrCleanupOrArtifactDirExists errs then backupCleanupAdvisedNotice else ''''))
                  (BuildExitCode errs))), w')) \<and>
            (BuildExitCode errs = 0) = list_all (\<lambda>(k, r). succeeded r) tr
        | Some (Panic m, tr, _, w2) \<Rightarrow> backupSingleDeployment E p path withManifest unsafeLockFree w = (Panic m, w2)
        | _ \<Rightarrow> False)
   | (Err e, w1) \<Rightarrow>
       (\<exists>msg w'. quiet w1 w' \<and>
          backupSingleDeployment E p path withManifest unsafeLockFree w = (Ok (Some (ExitError msg (BuildExitCode [e]))), w'))
   | (Panic m, w1) \<Rightarrow> backupSingleDeployment E p path withManifest unsafeLockFree w = (Panic m, w1)"
proof -
  let ?m = "BuildDeploymentBackuper E (p_target p) (p_username p) (p_password p) (p_caCert p) withManifest unsafeLockFree
          (p_bbrVersion p) (timestamp_now E w)"
  obtain r w1 where m: "?m w = (r, w1)" by fastforce
  show ?thesis
  proof (cases r)
    case (Ok backuper)
    with m obtain dm where b: "backuper = NewBackuper dm NewKahnBackupLockOrderer (Parallel NewParallelExecutor)
        (Parallel NewParallelExecutor) unsafeLockFree (timestamp_now E w)"
      by (auto simp: BuildDeploymentBackuper_def bindr_eq_Ok)
    let ?s = "(SetCurrentArtifactPath path (NewSession (p_deployment p)), w1)"
    from backuper.run_returns [of dm NewKahnBackupLockOrderer "Parallel NewParallelExecutor" "Parallel NewParallelExecutor"
        unsafeLockFree "timestamp_now E w" "Step_Run E" ?s]
    obtain tr s2 w2 where run: "Workflow_Run backuper (traced (Step_Run E)) ([], ?s) = Some (run_result [] tr, tr, s2, w2)"
      unfolding b by (auto simp: split_paired_Ex)
    note fin = Backuper_traced [OF run [unfolded b], folded b]
    show ?thesis
    proof (cases "run_result [] tr")
      case (Ok errs)
      with run_result_Ok [of "[]" tr errs] have "panic_free tr" "errs = step_errors tr" by auto
      with step_errors_Nil have "(BuildExitCode errs = 0) = list_all (\<lambda>(k, r). succeeded r) tr" by (simp add: BuildExitCode_zero)
      then show ?thesis
        using m \<open>r = _\<close> run fin Ok processErrorWithFooter_result [of E errs backupCleanupAdvisedNotice w2]
          processErrorWithFooter_result [of E errs "''''" w2]
        by (auto simp: backupSingleDeployment_def or_process_def bindr_def processError_def)
    next
      case (Panic q)
      then show ?thesis using m \<open>r = _\<close> run fin
        by (simp add: backupSingleDeployment_def or_process_def bindr_def)
    qed simp
  next
    case (Err e)
    with m processErrorWithFooter_result [of E "[e]" "''''" w1] show ?thesis
      by (auto simp: backupSingleDeployment_def or_process_def processError_def)
  qed (use m in \<open>simp add: backupSingleDeployment_def or_process_def\<close>)
qed

lemma map_result_Pair [simp]: "map_result (Pair l) r = Ok (l', e) \<longleftrightarrow> l' = l \<and> r = Ok e"
  by (cases r) auto

text \<open>The whole command over the deployments the director lists.\<close>

lemma runForAllDeployments_acts:
  assumes "getAllDeployments E w = (Ok ds, w1)"
    and "runForAllDeployments E act errMsg okMsg handler w = (Ok (lines, e), w')"
  shows "\<exists>sched ess w2. mset sched = mset ds \<and> acts_in_order act sched w1 ess w2 \<and>
    (if list_all (\<lambda>es. es = []) ess then e = Some (ExitError '''' 0) \<and> w' = w2
     else handler \<lparr>ad_Summary = summaryError (failures sched ess) ds errMsg, ad_DeploymentErrs = failures sched ess\<rparr> w2 = (Ok e, w'))"
proof -
  obtain x w2 where x: "ParallelDeploymentExecutor_Run (finish_order E) (createExecutables ds act) w1 = (x, w2)" by fastforce
  with assms obtain errs where errs: "x = Ok errs" by (cases x) (auto simp: runForAllDeployments_def)
  from ParallelDeploymentExecutor_acts [OF x [unfolded errs]] obtain sched ess where
    acts: "mset sched = mset ds" "acts_in_order act sched w1 ess w2" "errs = failures sched ess" by blast
  have nil: "list_all (\<lambda>es. es = []) ess \<longleftrightarrow> errs = []"
    using failures_Nil acts_length [OF acts(2)] acts(3) by metis
  have "if errs = [] then e = Some (ExitError '''' 0) \<and> w' = w2
      else handler \<lparr>ad_Summary = summaryError errs ds errMsg, ad_DeploymentErrs = errs\<rparr> w2 = (Ok e, w')"
    using assms x errs by (auto simp: runForAllDeployments_def split: prod.splits if_splits)
  with acts nil show ?thesis by (intro exI [of _ sched] exI [of _ ess] exI [of _ w2]) (simp split: if_splits)
qed

lemma reported_successful:
  "set (fst (getDeploymentStates ds (failures sched ess))) =
     {d \<in> set ds. list_all (\<lambda>(d', es). if d' = d then es = [] else True) (zip sched ess)}"
  unfolding getDeploymentStates_def using failures_names [of sched ess] by (auto simp: list_all_iff)

text \<open>C26: running a command for all deployments runs its action once for every deployment, whatever the others return;
  the command exits with status zero exactly when no deployment had an error, otherwise its error
  handler gets the errors of exactly the deployments that failed; the deployments reported as
  successful are those without a failed run.\<close>

theorem all_deployments_run:
  "case runForAllDeployments E act errMsg okMsg handler w of
     (Ok (lines, e), w') \<Rightarrow>
       (case getAllDeployments E w of
          (Ok ds, w1) \<Rightarrow>
            (\<exists>sched ess w2. mset sched = mset ds \<and> acts_in_order act sched w1 ess w2 \<and>
               set (fst (getDeploymentStates ds (failures sched ess))) =
                 {d \<in> set ds. list_all (\<lambda>(d', es). if d' = d then es = [] else True) (zip sched ess)} \<and>
               (if list_all (\<lambda>es. es = []) ess
                then e = Some (ExitError '''' 0) \<and> w' = w2
                else handler \<lparr>ad_Summary = summaryError (failures sched ess) ds errMsg,
                       ad_DeploymentErrs = failures sched ess\<rparr> w2 = (Ok e, w')))
        | (Err err, w1) \<Rightarrow> lines = [] \<and> processError E [err] w1 = (Ok e, w')
        | _ \<Rightarrow> False)
   | _ \<Rightarrow> True"
proof (cases "\<exists>lines e w'. runForAllDeployments E act errMsg okMsg handler w = (Ok (lines, e), w')")
  case True
  then obtain lines e w' where run: "runForAllDeployments E act errMsg okMsg handler w = (Ok (lines, e), w')" by blast
  obtain g w1 where g: "getAllDeployments E w = (g, w1)" by fastforce
  show ?thesis
  proof (cases g)
    case (Ok ds)
    from runForAllDeployments_acts [OF g [unfolded Ok] run] show ?thesis
      using run g Ok by (simp only: reported_successful prod.case result.case simp_thms mem_Collect_eq)
  next
    case (Err err)
    with run g show ?thesis by (auto simp: runForAllDeployments_def split: prod.splits)
  qed (use run g in \<open>simp add: runForAllDeployments_def\<close>)
qed (auto split: prod.split result.split)


text \<open>C27: a command runs only with valid flags. A command on deployments needs the director's address and credentials,
  unless its arguments ask for help, and exactly one of a deployment and all deployments; one
  on the director needs its host, user and key. Otherwise the command exits with status 1 and has done nothing. The
  backup of all deployments cannot be made without locks.\<close>

theorem flags_checked_first:
  "(if (containsHelpFlag (ctx_Parent c) \<or>
        list_all (\<lambda>f. fl_String (ctx_Parent c) f \<noteq> '''') [''target'', ''username'', ''password'']) \<and>
       (fl_String (ctx_Parent c) ''deployment'' = '''') = fl_Bool (ctx_Parent c) ''all-deployments''
    then run_command E (DeploymentCommand sub) c w = deployment_subcommand E sub c w
    else \<exists>msg. run_command E (DeploymentCommand sub) c w = (Ok (Some (ExitError msg 1)), w)) \<and>
   (if containsHelpFlag (ctx_Parent c) \<or>
       list_all (\<lambda>f. fl_String (ctx_Parent c) f \<noteq> '''') [''host'', ''username'', ''private-key-path'']
    then run_command E (DirectorCommand sub) c w = director_subcommand E sub c w
    else \<exists>msg. run_command E (DirectorCommand sub) c w = (Ok (Some (ExitError msg 1)), w)) \<and>
   (if fl_Bool (ctx_Parent c) ''all-deployments'' \<and> fl_Bool (ctx_flags c) ''unsafe-lock-free''
    then \<exists>msg w'. DeploymentBackupCommand_Action E c w = (Ok (Some (ExitError msg 1)), w') \<and> quiet w w'
    else True)"
proof (intro conjI)
  let ?c = "ctx_Parent c"
  show "if (containsHelpFlag ?c \<or> list_all (\<lambda>f. fl_String ?c f \<noteq> '''') [''target'', ''username'', ''password'']) \<and>
       (fl_String ?c ''deployment'' = '''') = fl_Bool ?c ''all-deployments''
    then run_command E (DeploymentCommand sub) c w = deployment_subcommand E sub c w
    else \<exists>msg. run_command E (DeploymentCommand sub) c w = (Ok (Some (ExitError msg 1)), w)"
    using validateDeploymentFlags_iff [of E ?c]
    by (cases "validateDeploymentFlags E ?c") auto
  show "if containsHelpFlag ?c \<or> list_all (\<lambda>f. fl_String ?c f \<noteq> '''') [''host'', ''username'', ''private-key-path'']
    then run_command E (DirectorCommand sub) c w = director_subcommand E sub c w
    else \<exists>msg. run_command E (DirectorCommand sub) c w = (Ok (Some (ExitError msg 1)), w)"
    using validateDirectorFlags_iff [of E ?c]
    by (cases "validateDirectorFlags E ?c") auto
  show "if fl_Bool ?c ''all-deployments'' \<and> fl_Bool (ctx_flags c) ''unsafe-lock-free''
    then \<exists>msg w'. DeploymentBackupCommand_Action E c w = (Ok (Some (ExitError msg 1)), w') \<and> quiet w w'
    else True"
    using processErrorWithFooter_result [of E "[ErrorString ''Cannot use the --unsafe-lock-free flag in conjunction with the --all-deployments flag'']" "''''" w]
    by (auto simp: DeploymentBackupCommand_Action_def getDeploymentParams_def processError_def BuildExitCode_def)
qed

end
