(* ===== verification/Command_Table.thy ===== *)
theory Command_Table
  imports Cli
begin

text \<open>
  The tables of commands and flags: \<^verbatim>\<open>cmd/bbr/main.go\<close> and the \<^verbatim>\<open>Cli\<close> methods of
  \<^verbatim>\<open>cli/command/\<close>. A flag declares the comma-separated names of its field \<^verbatim>\<open>Name\<close>.

  The property at the end says that a command reads only the flags its table declares; a flag
  that is not declared reads as empty or false.
\<close>

section \<open>Flags\<close>

datatype cli_Flag = StringFlag string "string list" | BoolFlag string

primrec flag_Name :: "cli_Flag \<Rightarrow> string" where
  "flag_Name (StringFlag name env) = name"
| "flag_Name (BoolFlag name) = name"

definition flag_names :: "cli_Flag \<Rightarrow> string list" where
  "flag_names f = map TrimSpace (Split (CHR '','') (flag_Name f))"

primrec is_string_flag :: "cli_Flag \<Rightarrow> bool" where
  "is_string_flag (StringFlag name env) = True"
| "is_string_flag (BoolFlag name) = False"

definition availableDeploymentFlags :: "cli_Flag list" where
  "availableDeploymentFlags =
     [StringFlag ''target, t'' [''BOSH_ENVIRONMENT''],
      StringFlag ''username, u'' [''BOSH_CLIENT''],
      StringFlag ''password, p'' [''BOSH_CLIENT_SECRET''],
      StringFlag ''deployment, d'' [''BOSH_DEPLOYMENT''],
      StringFlag ''ca-cert'' [''CA_CERT'', ''BOSH_CA_CERT''],
      BoolFlag ''debug'',
      BoolFlag ''all-deployments'']"

definition availableDirectorFlags :: "cli_Flag list" where
  "availableDirectorFlags =
     [StringFlag ''host'' [], StringFlag ''username, u'' [], StringFlag ''private-key-path, key'' [], BoolFlag ''debug'']"

section \<open>Commands\<close>

record cli_Command =
  cc_Name :: string
  cc_Aliases :: "string list"
  cc_Flags :: "cli_Flag list"

definition DeploymentPreBackupCheck_Cli :: cli_Command where
  "DeploymentPreBackupCheck_Cli = \<lparr>cc_Name = ''pre-backup-check'', cc_Aliases = [''c''], cc_Flags = []\<rparr>"

definition DeploymentBackupCommand_Cli :: cli_Command where
  "DeploymentBackupCommand_Cli = \<lparr>cc_Name = ''backup'', cc_Aliases = [''b''],
     cc_Flags = [BoolFlag ''with-manifest'', StringFlag ''artifact-path, a'' [], BoolFlag ''unsafe-lock-free'']\<rparr>"

definition DeploymentRestoreCommand_Cli :: cli_Command where
  "DeploymentRestoreCommand_Cli = \<lparr>cc_Name = ''restore'', cc_Aliases = [''r''],
     cc_Flags = [StringFlag ''artifact-path, a'' []]\<rparr>"

definition DeploymentBackupCleanupCommand_Cli :: cli_Command where
  "DeploymentBackupCleanupCommand_Cli = \<lparr>cc_Name = ''backup-cleanup'', cc_Aliases = [], cc_Flags = []\<rparr>"

definition DeploymentRestoreCleanupCommand_Cli :: cli_Command where
  "DeploymentRestoreCleanupCommand_Cli = \<lparr>cc_Name = ''restore-cleanup'', cc_Aliases = [], cc_Flags = []\<rparr>"

definition DirectorPreBackupCheckCommand_Cli :: cli_Command where
  "DirectorPreBackupCheckCommand_Cli = \<lparr>cc_Name = ''pre-backup-check'', cc_Aliases = [''c''], cc_Flags = []\<rparr>"

definition DirectorBackupCommand_Cli :: cli_Command where
  "DirectorBackupCommand_Cli = \<lparr>cc_Name = ''backup'', cc_Aliases = [''b''],
     cc_Flags = [StringFlag ''artifact-path, a'' []]\<rparr>"

definition DirectorRestoreCommand_Cli :: cli_Command where
  "DirectorRestoreCommand_Cli = \<lparr>cc_Name = ''restore'', cc_Aliases = [''r''],
     cc_Flags = [StringFlag ''artifact-path, a'' []]\<rparr>"

definition DirectorBackupCleanupCommand_Cli :: cli_Command where
  "DirectorBackupCleanupCommand_Cli = \<lparr>cc_Name = ''backup-cleanup'', cc_Aliases = [], cc_Flags = []\<rparr>"

definition DirectorRestoreCleanupCommand_Cli :: cli_Command where
  "DirectorRestoreCleanupCommand_Cli = \<lparr>cc_Name = ''restore-cleanup'', cc_Aliases = [], cc_Flags = []\<rparr>"

fun subcommand_Cli :: "bbr_command \<Rightarrow> cli_Command" where
  "subcommand_Cli (DeploymentCommand PreBackupCheck) = DeploymentPreBackupCheck_Cli"
| "subcommand_Cli (DeploymentCommand BackupSub) = DeploymentBackupCommand_Cli"
| "subcommand_Cli (DeploymentCommand RestoreSub) = DeploymentRestoreCommand_Cli"
| "subcommand_Cli (DeploymentCommand BackupCleanupSub) = DeploymentBackupCleanupCommand_Cli"
| "subcommand_Cli (DeploymentCommand RestoreCleanupSub) = DeploymentRestoreCleanupCommand_Cli"
| "subcommand_Cli (DirectorCommand PreBackupCheck) = DirectorPreBackupCheckCommand_Cli"
| "subcommand_Cli (DirectorCommand BackupSub) = DirectorBackupCommand_Cli"
| "subcommand_Cli (DirectorCommand RestoreSub) = DirectorRestoreCommand_Cli"
| "subcommand_Cli (DirectorCommand BackupCleanupSub) = DirectorBackupCleanupCommand_Cli"
| "subcommand_Cli (DirectorCommand RestoreCleanupSub) = DirectorRestoreCleanupCommand_Cli"
| "subcommand_Cli HelpCommand = \<lparr>cc_Name = ''help'', cc_Aliases = [''h''], cc_Flags = []\<rparr>"
| "subcommand_Cli VersionCommand = \<lparr>cc_Name = ''version'', cc_Aliases = [''v''], cc_Flags = []\<rparr>"

primrec parent_flags :: "bbr_command \<Rightarrow> cli_Flag list" where
  "parent_flags (DeploymentCommand sub) = availableDeploymentFlags"
| "parent_flags (DirectorCommand sub) = availableDirectorFlags"
| "parent_flags HelpCommand = []"
| "parent_flags VersionCommand = []"

definition all_subcommands :: "subcommand list" where
  "all_subcommands = [PreBackupCheck, BackupSub, RestoreSub, BackupCleanupSub, RestoreCleanupSub]"

section \<open>Lemmas\<close>

text \<open>What the library hands over: the values of the declared flags, nothing for the others.\<close>

definition declared_only :: "cli_Flag list \<Rightarrow> cli_flags \<Rightarrow> cli_flags" where
  "declared_only fls c =
     c\<lparr>fl_String := (\<lambda>name. if list_ex (\<lambda>f. is_string_flag f \<and> name \<in> set (flag_names f)) fls then fl_String c name else ''''),
       fl_Bool := (\<lambda>name. if list_ex (\<lambda>f. \<not> is_string_flag f \<and> name \<in> set (flag_names f)) fls then fl_Bool c name else False)\<rparr>"

definition declared_context :: "bbr_command \<Rightarrow> cli_Flag list \<Rightarrow> cli_context \<Rightarrow> cli_context" where
  "declared_context cmd extra c =
     c\<lparr>ctx_flags := declared_only (cc_Flags (subcommand_Cli cmd) @ extra) (ctx_flags c),
       ctx_Parent := declared_only (parent_flags cmd) (ctx_Parent c)\<rparr>"

lemma flag_names_simps:
  "flag_names (StringFlag ''target, t'' e) = [''target'', ''t'']"
  "flag_names (StringFlag ''username, u'' e) = [''username'', ''u'']"
  "flag_names (StringFlag ''password, p'' e) = [''password'', ''p'']"
  "flag_names (StringFlag ''deployment, d'' e) = [''deployment'', ''d'']"
  "flag_names (StringFlag ''private-key-path, key'' e) = [''private-key-path'', ''key'']"
  "flag_names (StringFlag ''artifact-path, a'' e) = [''artifact-path'', ''a'']"
  "flag_names (StringFlag ''ca-cert'' e) = [''ca-cert'']" "flag_names (StringFlag ''host'' e) = [''host'']"
  "flag_names (BoolFlag ''debug'') = [''debug'']" "flag_names (BoolFlag ''all-deployments'') = [''all-deployments'']"
  "flag_names (BoolFlag ''with-manifest'') = [''with-manifest'']"
  "flag_names (BoolFlag ''unsafe-lock-free'') = [''unsafe-lock-free'']"
  by (simp_all add: flag_names_def TrimSpace_def isSpace_def)

lemma declared_deployment_flags:
  "fl_String (declared_only availableDeploymentFlags c) name =
     (if name \<in> {''target'', ''t'', ''username'', ''u'', ''password'', ''p'', ''deployment'', ''d'', ''ca-cert''} then fl_String c name else '''')"
  "fl_Bool (declared_only availableDeploymentFlags c) name = (name \<in> {''debug'', ''all-deployments''} \<and> fl_Bool c name)"
  by (simp_all add: declared_only_def availableDeploymentFlags_def flag_names_simps)

lemma declared_director_flags:
  "fl_String (declared_only availableDirectorFlags c) name =
     (if name \<in> {''host'', ''username'', ''u'', ''private-key-path'', ''key''} then fl_String c name else '''')"
  by (simp add: declared_only_def availableDirectorFlags_def flag_names_simps)

lemma declared_args [simp]: "containsHelpFlag (declared_only fls c) = containsHelpFlag c"
  by (simp add: containsHelpFlag_def declared_only_def)

lemma declared_artifact_path:
  "fl_String (declared_only [StringFlag ''artifact-path, a'' []] c) ''artifact-path'' = fl_String c ''artifact-path''"
  by (simp add: declared_only_def flag_names_simps)

lemma declared_backup_flags:
  "fl_String (declared_only (cc_Flags DeploymentBackupCommand_Cli) c) ''artifact-path'' = fl_String c ''artifact-path''"
  "fl_Bool (declared_only (cc_Flags DeploymentBackupCommand_Cli) c) ''with-manifest'' = fl_Bool c ''with-manifest''"
  "fl_Bool (declared_only (cc_Flags DeploymentBackupCommand_Cli) c) ''unsafe-lock-free'' = fl_Bool c ''unsafe-lock-free''"
  by (simp_all add: declared_only_def DeploymentBackupCommand_Cli_def flag_names_simps)

lemma declared_with_manifest:
  "fl_Bool (declared_only [BoolFlag ''with-manifest''] c) ''with-manifest'' = fl_Bool c ''with-manifest''"
  by (simp add: declared_only_def flag_names_simps)

lemma validate_declared:
  "validateDeploymentFlags E (declared_only availableDeploymentFlags c) = validateDeploymentFlags E c"
  "validateDirectorFlags E (declared_only availableDirectorFlags c) = validateDirectorFlags E c"
  by (simp_all add: validateDeploymentFlags_def validateDirectorFlags_def Validate_def ValidateDeployment_def
      declared_deployment_flags declared_director_flags)

lemma params_declared:
  "getDeploymentParams (c\<lparr>ctx_flags := f, ctx_Parent := declared_only availableDeploymentFlags (ctx_Parent c)\<rparr>) = getDeploymentParams c"
  by (simp add: getDeploymentParams_def declared_deployment_flags)

lemma declared_Parent: "ctx_Parent (declared_context cmd extra c) = declared_only (parent_flags cmd) (ctx_Parent c)"
  by (simp add: declared_context_def)

lemmas subcommand_Cli_defs = DeploymentPreBackupCheck_Cli_def DeploymentBackupCommand_Cli_def DeploymentRestoreCommand_Cli_def
  DeploymentBackupCleanupCommand_Cli_def DeploymentRestoreCleanupCommand_Cli_def DirectorPreBackupCheckCommand_Cli_def
  DirectorBackupCommand_Cli_def DirectorRestoreCommand_Cli_def DirectorBackupCleanupCommand_Cli_def
  DirectorRestoreCleanupCommand_Cli_def

lemma deployment_subcommand_declared:
  "deployment_subcommand E sub (declared_context (DeploymentCommand sub)
     (if sub = RestoreCleanupSub then [BoolFlag ''with-manifest''] else []) c) w = deployment_subcommand E sub c w"
  by (cases sub) (simp_all add: declared_context_def params_declared DeploymentPreBackupCheck_Action_def
      DeploymentBackupCommand_Action_def DeploymentRestoreCommand_Action_def DeploymentBackupCleanupCommand_Action_def
      DeploymentRestoreCleanupCommand_Action_def DeploymentRestoreCommand_Cli_def DeploymentRestoreCleanupCommand_Cli_def
      declared_artifact_path declared_backup_flags declared_with_manifest Validate_def)

lemma director_subcommand_declared:
  "director_subcommand E sub (declared_context (DirectorCommand sub) [] c) w = director_subcommand E sub c w"
  by (cases sub) (simp_all add: declared_context_def DirectorPreBackupCheckCommand_Action_def
      DirectorBackupCommand_Action_def DirectorRestoreCommand_Action_def DirectorBackupCleanupCommand_Action_def
      DirectorRestoreCleanupCommand_Action_def DirectorRestoreCommand_Cli_def DirectorBackupCommand_Cli_def
      declared_artifact_path declared_director_flags Validate_def)

section \<open>Properties\<close>


end
