(* ===== verification/S3_Validator.thy ===== *)
theory S3_Validator
  imports Errors
begin

text \<open>
  The validator of S3 bucket configurations, \<^verbatim>\<open>s3-config-validator/src\<close>: the configuration and its
  checks, the S3 client, the probes, their runner and the program itself.

  The AWS library is a parameter: the fields \<open>sdk_*\<close> of the environment, on a remote state
  \<open>'s\<close>. So are the JSON codec, the file the configuration is read from and the process
  environment. Paginators are values of type \<open>'p\<close>; nothing says that a listing ends, so the loops over pages
  are partial functions whose value \<open>None\<close> means that the loop does not end. The order in
  which a loop visits the buckets, a Go map, is an oracle for each loop.
\<close>

section \<open>Configuration\<close>

record BackupBucket =
  bb_Name :: string
  bb_Region :: string

record LiveBucket =
  lb_Name :: string
  lb_Region :: string
  lb_ID :: string
  lb_Secret :: string
  lb_AwsAssumedRoleArn :: string
  lb_Endpoint :: string
  lb_Backup :: "BackupBucket option"
  lb_UseIAMProfile :: bool

text \<open>The field \<^verbatim>\<open>Buckets\<close> of the configuration; nil is \<open>None\<close>.\<close>

type_synonym Buckets = "(string, LiveBucket) fmap option"

definition buckets_of :: "Buckets \<Rightarrow> (string, LiveBucket) fmap" where
  "buckets_of config = (case config of None \<Rightarrow> fmempty | Some m \<Rightarrow> m)"

text \<open>A \<^verbatim>\<open>range\<close> loop over the buckets visits their names and values.\<close>

definition range_buckets :: "range_order \<Rightarrow> Buckets \<Rightarrow> (string \<times> LiveBucket) list" where
  "range_buckets it config =
     concat (map (\<lambda>k. case fmlookup (buckets_of config) k of None \<Rightarrow> [] | Some b \<Rightarrow> [(k, b)]) (range_keys it (buckets_of config)))"

definition errEmptyJSON :: goerror where
  "errEmptyJSON = ErrorString ''invalid config: json was empty''"

text \<open>The lists the validation loop appends to.\<close>

record config_problems =
  emptyFieldNames :: "string list"
  bucketsWithTooManyCreds :: "string list"
  missingUnversionedBackupBuckets :: "string list"
  bucketsWithEndpointThatUseIAM :: "string list"

definition no_problems :: config_problems where
  "no_problems = \<lparr>emptyFieldNames = [], bucketsWithTooManyCreds = [], missingUnversionedBackupBuckets = [],
     bucketsWithEndpointThatUseIAM = []\<rparr>"

definition append_if :: "bool \<Rightarrow> string \<Rightarrow> string list \<Rightarrow> string list" where
  "append_if c x xs = (if c then xs @ [x] else xs)"

definition check_fields :: "bool \<Rightarrow> string \<Rightarrow> LiveBucket \<Rightarrow> string list \<Rightarrow> string list" where
  "check_fields versioned liveBucketName liveBucket xs =
     (let xs1 = append_if (lb_Name liveBucket = '''') (liveBucketName @ ''.name'') xs;
          xs2 = append_if (lb_Region liveBucket = '''') (liveBucketName @ ''.region'') xs1;
          xs3 = (if lb_UseIAMProfile liveBucket then xs2
                 else append_if (lb_Secret liveBucket = '''') (liveBucketName @ ''.aws_secret_access_key'')
                        (append_if (lb_ID liveBucket = '''') (liveBucketName @ ''.aws_access_key_id'') xs2))
      in if versioned then xs3
         else case lb_Backup liveBucket of
                None \<Rightarrow> xs3
              | Some backup \<Rightarrow>
                  append_if (bb_Region backup = '''') (liveBucketName @ ''.backup.region'')
                    (append_if (bb_Name backup = '''') (liveBucketName @ ''.backup.name'') xs3))"

definition check_bucket :: "bool \<Rightarrow> config_problems \<Rightarrow> string \<times> LiveBucket \<Rightarrow> config_problems" where
  "check_bucket versioned ps nb =
     (case nb of (liveBucketName, liveBucket) \<Rightarrow>
        \<lparr>emptyFieldNames = check_fields versioned liveBucketName liveBucket (emptyFieldNames ps),
         bucketsWithTooManyCreds = append_if (lb_UseIAMProfile liveBucket \<and> (lb_ID liveBucket \<noteq> '''' \<or> lb_Secret liveBucket \<noteq> ''''))
           liveBucketName (bucketsWithTooManyCreds ps),
         missingUnversionedBackupBuckets = append_if (\<not> versioned \<and> lb_Backup liveBucket = None)
           liveBucketName (missingUnversionedBackupBuckets ps),
         bucketsWithEndpointThatUseIAM = append_if (lb_UseIAMProfile liveBucket \<and> lb_Endpoint liveBucket \<noteq> '''')
           liveBucketName (bucketsWithEndpointThatUseIAM ps)\<rparr>)"

text \<open>\<^verbatim>\<open>%v\<close> on a slice of strings.\<close>

definition fmt_slice :: "string list \<Rightarrow> string" where
  "fmt_slice xs = ''['' @ Join xs '' '' @ '']''"

definition problem_error :: "string \<Rightarrow> string list \<Rightarrow> string \<Rightarrow> goerror list" where
  "problem_error before names after =
     (if 0 < length names then [ErrorString (before @ fmt_slice (sort names) @ after @ newline)] else [])"

text \<open>\<^verbatim>\<open>errors.Join\<close> on a list without nil errors.\<close>

definition errors_Join :: "goerror list \<Rightarrow> goerror option" where
  "errors_Join errs = (if errs = [] then None else Some (ErrorString (Join (map error_message errs) newline)))"

definition validateConfig :: "range_order \<Rightarrow> Buckets \<Rightarrow> bool \<Rightarrow> goerror option" where
  "validateConfig it config versioned =
     (if fmdom (buckets_of config) = {||} then Some errEmptyJSON
      else (let ps = foldl (check_bucket versioned) no_problems (range_buckets it config)
            in errors_Join
                 (problem_error ''invalid config: fields '' (emptyFieldNames ps) '' are empty'' @
                  problem_error ''invalid config: because use_iam_profile is set to true, there should be no aws_access_key_id or aws_secret_access_key in the following buckets: ''
                    (bucketsWithTooManyCreds ps) '''' @
                  problem_error ''invalid config: backup buckets must be specified when taking unversioned backups. The following buckets are missing backup buckets: ''
                    (missingUnversionedBackupBuckets ps) '''' @
                  problem_error ''invalid config: because use_iam_profile is set to true, the endpoint field must not be set in the following buckets: ''
                    (bucketsWithEndpointThatUseIAM ps) '''')))"

section \<open>The AWS library\<close>

datatype CredentialsProvider =
    StaticCredentials string string
  | Ec2RoleCredentials
  | AssumeRole CredentialsProvider string string

record s3_Options =
  opt_Credentials :: CredentialsProvider
  opt_Region :: string
  opt_Endpoint :: "string option"

record s3_object =
  so_Key :: "string option"
  so_VersionId :: "string option"

record ('p, 's) s3_env =
  json_Unmarshal :: "string \<Rightarrow> Buckets result"
  json_MarshalIndent :: "Buckets \<Rightarrow> string"
  ReadFile :: "string \<Rightarrow> string result"
  Getenv :: "string \<Rightarrow> string"
  validate_order :: range_order
  probe_order :: range_order
  sdk_GetBucketVersioning :: "s3_Options \<Rightarrow> string \<Rightarrow> 's \<Rightarrow> (goerror + string option) \<times> 's"
  sdk_NewListObjectsV2Paginator :: "s3_Options \<Rightarrow> string \<Rightarrow> 'p"
  sdk_NewListObjectVersionsPaginator :: "s3_Options \<Rightarrow> string \<Rightarrow> 'p"
  sdk_HasMorePages :: "'p \<Rightarrow> bool"
  sdk_NextPage :: "'p \<Rightarrow> 's \<Rightarrow> (goerror + s3_object list) \<times> 'p \<times> 's"
  sdk_HeadObject :: "s3_Options \<Rightarrow> string \<Rightarrow> string option \<Rightarrow> string option \<Rightarrow> 's \<Rightarrow> goerror option \<times> 's"
  sdk_PutObject :: "s3_Options \<Rightarrow> string \<Rightarrow> string \<Rightarrow> string \<Rightarrow> 's \<Rightarrow> goerror option \<times> 's"

definition config_Read :: "('p, 's) s3_env \<Rightarrow> string \<Rightarrow> bool \<Rightarrow> Buckets result" where
  "config_Read E filePath versioned =
     (case ReadFile E filePath of
        Err e \<Rightarrow> Err e
      | Panic p \<Rightarrow> Panic p
      | Ok jsonFile \<Rightarrow>
          (case json_Unmarshal E jsonFile of
             Err e \<Rightarrow> Err e
           | Panic p \<Rightarrow> Panic p
           | Ok buckets \<Rightarrow>
               (case validateConfig (validate_order E) buckets versioned of Some err \<Rightarrow> Err err | None \<Rightarrow> Ok buckets)))"

section \<open>The client\<close>

definition newS3ClientWithAssumedRole :: "string \<Rightarrow> string \<Rightarrow> string \<Rightarrow> string \<Rightarrow> string \<Rightarrow> bool \<Rightarrow> s3_Options" where
  "newS3ClientWithAssumedRole region endpoint id_key secret role useIAMProfile =
     (let staticCredentialsProvider = StaticCredentials id_key secret;
          creds = (if role \<noteq> '''' then AssumeRole staticCredentialsProvider region role
                   else if useIAMProfile then Ec2RoleCredentials
                   else staticCredentialsProvider)
      in \<lparr>opt_Credentials = creds, opt_Region = region, opt_Endpoint = (if endpoint \<noteq> '''' then Some endpoint else None)\<rparr>)"

definition getBucketVersioning :: "('p, 's) s3_env \<Rightarrow> s3_Options \<Rightarrow> string \<Rightarrow> 's \<Rightarrow> (goerror + bool) \<times> 's" where
  "getBucketVersioning E c bucket s =
     (case sdk_GetBucketVersioning E c bucket s of
        (Inl err, s') \<Rightarrow> (Inl (ErrorString (''could not check if bucket '' @ bucket @ '' is versioned: '' @ error_message err)), s')
      | (Inr status, s') \<Rightarrow> (Inr (status = Some ''Enabled''), s'))"

text \<open>A probe: the error it returns, or \<open>None\<close> on the outside where it does not end.\<close>

type_synonym 's probe = "string \<Rightarrow> 's \<Rightarrow> (goerror option \<times> 's) option"

definition IsUnversioned :: "('p, 's) s3_env \<Rightarrow> s3_Options \<Rightarrow> 's probe" where
  "IsUnversioned E c bucket s =
     (case getBucketVersioning E c bucket s of
        (Inl err, s') \<Rightarrow> Some (Some err, s')
      | (Inr isVersioned, s') \<Rightarrow>
          Some (if isVersioned then Some (ErrorString (''bucket '' @ bucket @ '' is versioned'')) else None, s'))"

definition IsVersioned :: "('p, 's) s3_env \<Rightarrow> s3_Options \<Rightarrow> 's probe" where
  "IsVersioned E c bucket s =
     (case getBucketVersioning E c bucket s of
        (Inl err, s') \<Rightarrow> Some (Some err, s')
      | (Inr isVersioned, s') \<Rightarrow>
          Some (if isVersioned then None else Some (ErrorString (''bucket '' @ bucket @ '' is unversioned'')), s'))"

text \<open>The loop over the pages of a listing, with the body of the loop and the error of a failed page.\<close>

partial_function (option) eachPage ::
  "('p \<Rightarrow> bool) \<Rightarrow> ('p \<Rightarrow> 's \<Rightarrow> (goerror + s3_object list) \<times> 'p \<times> 's) \<Rightarrow> (goerror \<Rightarrow> goerror) \<Rightarrow>
     (s3_object list \<Rightarrow> 's \<Rightarrow> goerror option \<times> 's) \<Rightarrow> 'p \<Rightarrow> 's \<Rightarrow> (goerror option \<times> 's) option" where
  "eachPage hasMorePages nextPage pageError body paginator s =
     (if hasMorePages paginator
      then (case nextPage paginator s of
              (Inl err, _, s') \<Rightarrow> Some (Some (pageError err), s')
            | (Inr output, paginator', s') \<Rightarrow>
                (case body output s' of
                   (Some err, s'') \<Rightarrow> Some (Some err, s'')
                 | (None, s'') \<Rightarrow> eachPage hasMorePages nextPage pageError body paginator' s''))
      else Some (None, s))"

definition no_body :: "s3_object list \<Rightarrow> 's \<Rightarrow> goerror option \<times> 's" where
  "no_body output s = (None, s)"

fun headObjects ::
  "('p, 's) s3_env \<Rightarrow> s3_Options \<Rightarrow> string \<Rightarrow> goerror \<Rightarrow> (s3_object \<Rightarrow> string option) \<Rightarrow> s3_object list \<Rightarrow> 's \<Rightarrow>
     goerror option \<times> 's" where
  "headObjects E c bucket cantGet versionId [] s = (None, s)"
| "headObjects E c bucket cantGet versionId (content # contents) s =
     (case sdk_HeadObject E c bucket (so_Key content) (versionId content) s of
        (Some err, s') \<Rightarrow> (Some cantGet, s')
      | (None, s') \<Rightarrow> headObjects E c bucket cantGet versionId contents s')"

definition CanListObjects :: "('p, 's) s3_env \<Rightarrow> s3_Options \<Rightarrow> 's probe" where
  "CanListObjects E c bucket =
     eachPage (sdk_HasMorePages E) (sdk_NextPage E) (\<lambda>err. ErrorString (''could not list objects in bucket '' @ bucket @ '': '' @ error_message err)) no_body
       (sdk_NewListObjectsV2Paginator E c bucket)"

definition CanGetObjects :: "('p, 's) s3_env \<Rightarrow> s3_Options \<Rightarrow> 's probe" where
  "CanGetObjects E c bucket =
     (let cantGetObjects = ErrorString (''could not get all objects from bucket '' @ bucket)
      in eachPage (sdk_HasMorePages E) (sdk_NextPage E) (\<lambda>_. cantGetObjects) (headObjects E c bucket cantGetObjects (\<lambda>_. None))
           (sdk_NewListObjectsV2Paginator E c bucket))"

definition CanGetObjectVersions :: "('p, 's) s3_env \<Rightarrow> s3_Options \<Rightarrow> 's probe" where
  "CanGetObjectVersions E c bucket =
     (let cantGetObjectVersions = ErrorString (''could not get all object versions from bucket '' @ bucket)
      in eachPage (sdk_HasMorePages E) (sdk_NextPage E) (\<lambda>_. cantGetObjectVersions) (headObjects E c bucket cantGetObjectVersions so_VersionId)
           (sdk_NewListObjectVersionsPaginator E c bucket))"

definition CanListObjectVersions :: "('p, 's) s3_env \<Rightarrow> s3_Options \<Rightarrow> 's probe" where
  "CanListObjectVersions E c bucket =
     eachPage (sdk_HasMorePages E) (sdk_NextPage E) (\<lambda>err. ErrorString (''could not list object versions in bucket '' @ bucket @ '': '' @ error_message err)) no_body
       (sdk_NewListObjectVersionsPaginator E c bucket)"

definition CanPutObjects :: "('p, 's) s3_env \<Rightarrow> s3_Options \<Rightarrow> 's probe" where
  "CanPutObjects E c bucket s =
     (case sdk_PutObject E c bucket ''delete_me'' ''Test File, Please delete me if you are reading this'' s of
        (Some err, s') \<Rightarrow>
          Some (Some (ErrorString (''could not put object into bucket '' @ bucket @ '': '' @ error_message err)), s')
      | (None, s') \<Rightarrow> Some (None, s'))"

section \<open>Probes\<close>

record 's NamedProbe =
  np_Name :: string
  np_Probe :: "'s probe"

definition probe_NewSet :: "('p, 's) s3_env \<Rightarrow> s3_Options \<Rightarrow> bool \<Rightarrow> bool \<Rightarrow> 's NamedProbe list" where
  "probe_NewSet E s3 readOnly versioned =
     (let probeSet =
            (if versioned
             then [\<lparr>np_Name = ''Bucket is versioned'', np_Probe = IsVersioned E s3\<rparr>,
                   \<lparr>np_Name = ''Can list object versions'', np_Probe = CanListObjectVersions E s3\<rparr>,
                   \<lparr>np_Name = ''Can get object versions'', np_Probe = CanGetObjectVersions E s3\<rparr>]
             else [\<lparr>np_Name = ''Bucket is not versioned'', np_Probe = IsUnversioned E s3\<rparr>,
                   \<lparr>np_Name = ''Can list objects'', np_Probe = CanListObjects E s3\<rparr>,
                   \<lparr>np_Name = ''Can get objects'', np_Probe = CanGetObjects E s3\<rparr>])
      in if \<not> readOnly
         then probeSet @ [\<lparr>np_Name = ''Can put objects'', np_Probe = CanPutObjects E s3\<rparr>]
         else probeSet)"

section \<open>The runner\<close>

datatype BucketType = Live | Backup

primrec fmt_BucketType :: "BucketType \<Rightarrow> string" where
  "fmt_BucketType Live = ''live''"
| "fmt_BucketType Backup = ''backup''"

record Bucket =
  b_Resource :: string
  b_Name :: string
  b_Type :: BucketType

definition Bucket_String :: "Bucket \<Rightarrow> string" where
  "Bucket_String b =
     (if HasSuffix (b_Resource b) ''s''
      then b_Resource b @ [CHR 0x27] @ '' '' @ fmt_BucketType (b_Type b) @ '' bucket '' @ b_Name b
      else b_Resource b @ [CHR 0x27] @ ''s '' @ fmt_BucketType (b_Type b) @ '' bucket '' @ b_Name b)"

record 's ProbeRunner =
  pr_Bucket :: Bucket
  pr_ProbeSet :: "'s NamedProbe list"

text \<open>The state of the program: what was written to standard output, and the remote state.\<close>

record 's validator =
  stdout :: string
  remote :: 's

definition Fprint :: "string \<Rightarrow> 's validator \<Rightarrow> 's validator" where
  "Fprint text v = v\<lparr>stdout := stdout v @ text\<rparr>"

fun probeLoop :: "string \<Rightarrow> 's NamedProbe list \<Rightarrow> bool \<Rightarrow> 's validator \<Rightarrow> (bool \<times> 's validator) option" where
  "probeLoop bucketName [] succeeded v = Some (succeeded, v)"
| "probeLoop bucketName (namedProbe # probes) succeeded v =
     (let v1 = Fprint ('' * '' @ np_Name namedProbe @ '' ... '') v
      in case np_Probe namedProbe bucketName (remote v1) of
           None \<Rightarrow> None
         | Some (Some err, s) \<Rightarrow>
             probeLoop bucketName probes False (Fprint (''No [reason: '' @ error_message err @ '']'' @ newline) (v1\<lparr>remote := s\<rparr>))
         | Some (None, s) \<Rightarrow> probeLoop bucketName probes succeeded (Fprint (''Yes'' @ newline) (v1\<lparr>remote := s\<rparr>)))"

definition ProbeRunner_Run :: "'s ProbeRunner \<Rightarrow> 's validator \<Rightarrow> (bool \<times> 's validator) option" where
  "ProbeRunner_Run r v =
     (case probeLoop (b_Name (pr_Bucket r)) (pr_ProbeSet r) True
             (Fprint (''Validating '' @ Bucket_String (pr_Bucket r) @ '' ...'' @ newline) v) of
        None \<Rightarrow> None
      | Some (succeeded, v') \<Rightarrow> Some (succeeded, Fprint newline v'))"

definition NewProbeRunner ::
  "('p, 's) s3_env \<Rightarrow> string \<Rightarrow> string \<Rightarrow> string \<Rightarrow> string \<Rightarrow> string \<Rightarrow> Bucket \<Rightarrow> bool \<Rightarrow> bool \<Rightarrow> bool \<Rightarrow> 's ProbeRunner" where
  "NewProbeRunner E region endpoint id_key secret role bucket readOnly versioned useIAMProfile =
     (let s3Client = newS3ClientWithAssumedRole region endpoint id_key secret role useIAMProfile
      in \<lparr>pr_Bucket = bucket, pr_ProbeSet = probe_NewSet E s3Client readOnly versioned\<rparr>)"

text \<open>A configuration without backup bucket is dereferenced when the buckets are not versioned.\<close>

definition NewProbeRunners :: "('p, 's) s3_env \<Rightarrow> string \<Rightarrow> LiveBucket \<Rightarrow> bool \<Rightarrow> bool \<Rightarrow> 's ProbeRunner list result" where
  "NewProbeRunners E resource bucket readOnly versioned =
     (let liveProbeRunner = NewProbeRunner E (lb_Region bucket) (lb_Endpoint bucket) (lb_ID bucket) (lb_Secret bucket)
            (lb_AwsAssumedRoleArn bucket) \<lparr>b_Resource = resource, b_Name = lb_Name bucket, b_Type = Live\<rparr>
            readOnly versioned (lb_UseIAMProfile bucket)
      in if \<not> versioned
         then (case lb_Backup bucket of
                 None \<Rightarrow> Panic ''nil pointer dereference''
               | Some backup \<Rightarrow>
                   Ok [liveProbeRunner,
                       NewProbeRunner E (bb_Region backup) (lb_Endpoint bucket) (lb_ID bucket) (lb_Secret bucket)
                         (lb_AwsAssumedRoleArn bucket) \<lparr>b_Resource = resource, b_Name = bb_Name backup, b_Type = Backup\<rparr>
                         readOnly False (lb_UseIAMProfile bucket)])
         else Ok [liveProbeRunner])"

section \<open>The program\<close>

fun probeRunnersLoop ::
  "('p, 's) s3_env \<Rightarrow> bool \<Rightarrow> bool \<Rightarrow> (string \<times> LiveBucket) list \<Rightarrow> 's ProbeRunner list \<Rightarrow> 's ProbeRunner list result" where
  "probeRunnersLoop E readOnly versioned [] probeRunners = Ok probeRunners"
| "probeRunnersLoop E readOnly versioned ((resource, bucket) # rest) probeRunners =
     (case NewProbeRunners E resource bucket readOnly versioned of
        Ok new \<Rightarrow> probeRunnersLoop E readOnly versioned rest (probeRunners @ new)
      | Err e \<Rightarrow> Err e
      | Panic p \<Rightarrow> Panic p)"

fun runnersLoop :: "'s ProbeRunner list \<Rightarrow> bool \<Rightarrow> 's validator \<Rightarrow> (bool \<times> 's validator) option" where
  "runnersLoop [] isValidConfig v = Some (isValidConfig, v)"
| "runnersLoop (probeRunner # probeRunners) isValidConfig v =
     (case ProbeRunner_Run probeRunner v of
        None \<Rightarrow> None
      | Some (succeeded, v') \<Rightarrow> runnersLoop probeRunners (if \<not> succeeded then False else isValidConfig) v')"

definition isValid :: "('p, 's) s3_env \<Rightarrow> Buckets \<Rightarrow> bool \<Rightarrow> bool \<Rightarrow> 's validator \<Rightarrow> (bool result \<times> 's validator) option" where
  "isValid E config readOnly versioned v =
     (case probeRunnersLoop E readOnly versioned (range_buckets (probe_order E) config) [] of
        Panic p \<Rightarrow> Some (Panic p, v)
      | Err e \<Rightarrow> Some (Err e, v)
      | Ok probeRunners \<Rightarrow>
          (case runnersLoop probeRunners True v of
             None \<Rightarrow> None
           | Some (ok, v') \<Rightarrow> Some (Ok ok, v')))"

definition UnversionedConfig :: string where
  "UnversionedConfig = ''/var/vcap/jobs/s3-unversioned-blobstore-backup-restorer/config/buckets.json''"

definition VersionedConfig :: string where
  "VersionedConfig = ''/var/vcap/jobs/s3-versioned-blobstore-backup-restorer/config/buckets.json''"

record CommandParams =
  cp_ReadOnlyValidation :: bool
  cp_Versioned :: bool
  cp_ConfigPath :: string

definition getConfigPath :: "('p, 's) s3_env \<Rightarrow> bool \<Rightarrow> string" where
  "getConfigPath E versioned =
     (let configPath = Getenv E ''BBR_S3_BUCKETS_CONFIG''
      in if configPath = '''' then (if versioned then VersionedConfig else UnversionedConfig) else configPath)"

text \<open>The parsed values of the two flags of the program are given.\<close>

definition parseParams :: "('p, 's) s3_env \<Rightarrow> bool \<Rightarrow> bool \<Rightarrow> CommandParams" where
  "parseParams E validatePutObject unversioned =
     \<lparr>cp_ReadOnlyValidation = \<not> validatePutObject, cp_Versioned = \<not> unversioned,
      cp_ConfigPath = getConfigPath E (\<not> unversioned)\<rparr>"

definition RunLocationHint :: string where
  "RunLocationHint = ''Make sure to run this on your '' @ quoted ''backup & restore'' @ '' VM.''"

definition ReadOnlyValidationHint :: string where
  "ReadOnlyValidationHint = ''Run with --validate-put-object to test writing objects to the buckets. Disclaimer: This will write test files to the buckets.''"

definition printHeader :: "CommandParams \<Rightarrow> bool \<Rightarrow> 's validator \<Rightarrow> 's validator" where
  "printHeader commandParams versioned v =
     Fprint (''Validating '' @ (if versioned then ''versioned'' else ''unversioned'') @ '' S3 buckets configuration at:'' @ newline @ newline @
         ''  '' @ cp_ConfigPath commandParams @ newline @ newline)
       (Fprint (newline @ RunLocationHint @ newline @ newline) v)"

definition PrintConfig :: "('p, 's) s3_env \<Rightarrow> Buckets \<Rightarrow> 's validator \<Rightarrow> 's validator" where
  "PrintConfig E config v =
     (let v1 = Fprint (''Configuration:'' @ newline @ newline) v;
          v2 = (if config = None then Fprint (''  {}'' @ newline @ newline) v1 else v1)
      in Fprint (''  '' @ json_MarshalIndent E config @ newline @ newline) v2)"

definition printHints :: "CommandParams \<Rightarrow> 's validator \<Rightarrow> 's validator" where
  "printHints commandParams v =
     (if cp_ReadOnlyValidation commandParams then Fprint (newline @ ReadOnlyValidationHint @ newline @ newline) v else v)"

text \<open>The result is the exit status.\<close>

definition validator_main :: "('p, 's) s3_env \<Rightarrow> bool \<Rightarrow> bool \<Rightarrow> 's validator \<Rightarrow> (int result \<times> 's validator) option" where
  "validator_main E validatePutObject unversioned v =
     (let commandParams = parseParams E validatePutObject unversioned;
          read = config_Read E (cp_ConfigPath commandParams) (cp_Versioned commandParams);
          validatedConfig = (case read of Ok config \<Rightarrow> config | _ \<Rightarrow> None);
          v1 = PrintConfig E validatedConfig (printHeader commandParams (cp_Versioned commandParams) v)
      in case read of
           Panic p \<Rightarrow> Some (Panic p, v)
         | Err err \<Rightarrow>
             Some (Ok 1, printHints commandParams (Fprint (''Bad config'' @ newline) (Fprint (error_message err @ newline) v1)))
         | Ok config \<Rightarrow>
             (case isValid E config (cp_ReadOnlyValidation commandParams) (cp_Versioned commandParams) v1 of
                None \<Rightarrow> None
              | Some (Panic p, v2) \<Rightarrow> Some (Panic p, v2)
              | Some (Err e, v2) \<Rightarrow> Some (Err e, v2)
              | Some (Ok ok, v2) \<Rightarrow>
                  if \<not> ok then Some (Ok 1, printHints commandParams (Fprint (''Bad config'' @ newline) v2))
                  else Some (Ok 0, printHints commandParams (Fprint (''Good config'' @ newline) v2))))"

section \<open>Lemmas on the configuration\<close>

text \<open>What a valid bucket is.\<close>

definition bucket_ok :: "bool \<Rightarrow> LiveBucket \<Rightarrow> bool" where
  "bucket_ok versioned b \<longleftrightarrow> lb_Name b \<noteq> '''' \<and> lb_Region b \<noteq> '''' \<and>
     (if lb_UseIAMProfile b then lb_ID b = '''' \<and> lb_Secret b = '''' \<and> lb_Endpoint b = ''''
      else lb_ID b \<noteq> '''' \<and> lb_Secret b \<noteq> '''') \<and>
     (versioned \<or> (case lb_Backup b of None \<Rightarrow> False | Some backup \<Rightarrow> bb_Name backup \<noteq> '''' \<and> bb_Region backup \<noteq> ''''))"

lemma set_range_buckets: "set (range_buckets it config) = {(k, b). fmlookup (buckets_of config) k = Some b}"
proof -
  have "k |\<in>| fmdom m" if "fmlookup m k = Some b" for m :: "(string, LiveBucket) fmap" and k b
    using that by (simp add: fmdomI)
  then show ?thesis
    by (force simp: range_buckets_def range_keys_def map_keys_def split: option.splits)
qed

lemma mset_concat_map: "mset xs = mset ys \<Longrightarrow> mset (concat (map f xs)) = mset (concat (map f ys))"
  by (simp add: mset_concat flip: sum_mset_sum_list)

lemma mset_range_buckets: "mset (range_buckets it config) = mset (range_buckets it' config)"
  unfolding range_buckets_def range_keys_def by (rule mset_concat_map) simp

lemma check_fields_append: "check_fields versioned n b xs = xs @ check_fields versioned n b []"
  by (simp add: check_fields_def append_if_def split: option.split)

definition too_many_creds :: "string \<times> LiveBucket \<Rightarrow> bool" where
  "too_many_creds = (\<lambda>(n, b). lb_UseIAMProfile b \<and> (lb_ID b \<noteq> '''' \<or> lb_Secret b \<noteq> ''''))"

definition backup_missing :: "bool \<Rightarrow> string \<times> LiveBucket \<Rightarrow> bool" where
  "backup_missing versioned = (\<lambda>(n, b). \<not> versioned \<and> lb_Backup b = None)"

definition endpoint_with_iam :: "string \<times> LiveBucket \<Rightarrow> bool" where
  "endpoint_with_iam = (\<lambda>(n, b). lb_UseIAMProfile b \<and> lb_Endpoint b \<noteq> '''')"

lemmas bucket_checks = too_many_creds_def backup_missing_def endpoint_with_iam_def

text \<open>The four lists after the loop.\<close>

lemma foldl_check_bucket:
  "foldl (check_bucket versioned) ps bs =
     \<lparr>emptyFieldNames = emptyFieldNames ps @ concat (map (\<lambda>(n, b). check_fields versioned n b []) bs),
      bucketsWithTooManyCreds = bucketsWithTooManyCreds ps @ map fst (filter too_many_creds bs),
      missingUnversionedBackupBuckets = missingUnversionedBackupBuckets ps @ map fst (filter (backup_missing versioned) bs),
      bucketsWithEndpointThatUseIAM = bucketsWithEndpointThatUseIAM ps @ map fst (filter endpoint_with_iam bs)\<rparr>"
proof (induction bs arbitrary: ps)
  case (Cons nb bs)
  obtain n b where nb: "nb = (n, b)" by fastforce
  show ?case unfolding nb foldl_Cons Cons.IH
    by (simp add: check_bucket_def bucket_checks check_fields_append [of versioned n b "emptyFieldNames ps"] append_if_def)
qed simp

lemma problem_error_mset: "mset xs = mset ys \<Longrightarrow> problem_error before xs after = problem_error before ys after"
  by (metis mset_eq_length problem_error_def sorted_list_of_multiset_mset)

lemma validateConfig_order: "validateConfig it config versioned = validateConfig it' config versioned"
proof -
  let ?b = "range_buckets it config" and ?b' = "range_buckets it' config"
  have m: "mset ?b = mset ?b'" by (rule mset_range_buckets)
  have fields: "problem_error before (concat (map f ?b)) after = problem_error before (concat (map f ?b')) after" for before f after
    by (intro problem_error_mset mset_concat_map m)
  have names: "problem_error before (map fst (filter P ?b)) after = problem_error before (map fst (filter P ?b')) after"
    for before P after
    by (rule problem_error_mset) (simp add: m)
  show ?thesis
    unfolding validateConfig_def foldl_check_bucket no_problems_def Let_def config_problems.simps append_Nil fields names
    by (rule refl)
qed

lemma bucket_ok_iff:
  "bucket_ok versioned b \<longleftrightarrow> check_fields versioned n b [] = [] \<and> \<not> too_many_creds (n, b) \<and> \<not> backup_missing versioned (n, b) \<and>
     \<not> endpoint_with_iam (n, b)"
  by (auto simp: bucket_ok_def check_fields_def bucket_checks append_if_def split: option.splits)

lemma problem_error_Nil [simp]: "problem_error before xs after = [] \<longleftrightarrow> xs = []"
  by (simp add: problem_error_def)

lemma validateConfig_None:
  "validateConfig it config versioned = None \<longleftrightarrow>
     buckets_of config \<noteq> fmempty \<and> fmpred (\<lambda>_. bucket_ok versioned) (buckets_of config)"
proof -
  have e: "fmdom m = {||} \<longleftrightarrow> m = fmempty" for m :: "(string, LiveBucket) fmap"
    by (metis fmdom_empty fmrestrict_fset_dom fmrestrict_fset_null)
  have "fmpred (\<lambda>_. bucket_ok versioned) (buckets_of config) \<longleftrightarrow> (\<forall>(n, b) \<in> set (range_buckets it config). bucket_ok versioned b)"
    by (auto simp: fmpred_iff set_range_buckets)
  also have "\<dots> \<longleftrightarrow> (\<forall>(n, b) \<in> set (range_buckets it config). check_fields versioned n b [] = [] \<and> \<not> too_many_creds (n, b) \<and>
      \<not> backup_missing versioned (n, b) \<and> \<not> endpoint_with_iam (n, b))"
    using bucket_ok_iff by auto
  finally show ?thesis
    by (auto simp: validateConfig_def foldl_check_bucket no_problems_def errors_Join_def e filter_empty_conv)
qed

section \<open>Lemmas on the probes\<close>

text \<open>A listing ends when every page brings the paginator closer to its last one.\<close>

definition paginator_ends :: "('p, 's) s3_env \<Rightarrow> ('p \<Rightarrow> nat) \<Rightarrow> bool" where
  "paginator_ends E left_pages \<longleftrightarrow>
     (\<forall>p s out p' s'. sdk_HasMorePages E p \<longrightarrow> sdk_NextPage E p s = (Inr out, p', s') \<longrightarrow> left_pages p' < left_pages p)"

lemma eachPage_returns:
  assumes "paginator_ends E left_pages"
  shows "\<exists>r. eachPage (sdk_HasMorePages E) (sdk_NextPage E) pageError body p s = Some r"
proof (induction "left_pages p" arbitrary: p s rule: less_induct)
  case less
  obtain r p' s' where nxt: "sdk_NextPage E p s = (r, p', s')" by (metis prod.exhaust)
  show ?case
  proof (cases "sdk_HasMorePages E p")
    case more: True
    show ?thesis
    proof (cases r)
      case (Inr out)
      obtain b s'' where b: "body out s' = (b, s'')" by fastforce
      from assms more nxt Inr have "left_pages p' < left_pages p" unfolding paginator_ends_def by blast
      from less [OF this, of s''] nxt Inr b more show ?thesis
        by (subst eachPage.simps) (auto split: option.split)
    qed (use nxt more in \<open>subst eachPage.simps; simp\<close>)
  qed (subst eachPage.simps; simp)
qed

text \<open>The probes of a run and their results, one after the other whatever they return.\<close>

fun outcomes :: "(string \<times> 's NamedProbe) list \<Rightarrow> 's \<Rightarrow> (goerror option list \<times> 's) option" where
  "outcomes [] s = Some ([], s)"
| "outcomes ((bucket, p) # ps) s =
     (case np_Probe p bucket s of
        None \<Rightarrow> None
      | Some (r, s') \<Rightarrow> map_option (\<lambda>(rs, s''). (r # rs, s'')) (outcomes ps s'))"

definition runner_probes :: "'s ProbeRunner \<Rightarrow> (string \<times> 's NamedProbe) list" where
  "runner_probes r = map (Pair (b_Name (pr_Bucket r))) (pr_ProbeSet r)"

lemma outcomes_append:
  "outcomes (ps @ qs) s =
     (case outcomes ps s of
        None \<Rightarrow> None
      | Some (rs, s') \<Rightarrow> map_option (\<lambda>(rs', s''). (rs @ rs', s'')) (outcomes qs s'))"
  by (induction ps s rule: outcomes.induct) (auto split: option.splits simp: option.map_comp o_def split_def option.map_ident)

lemma outcomes_returns:
  "(\<And>b p s. (b, p) \<in> set ps \<Longrightarrow> np_Probe p b s \<noteq> None) \<Longrightarrow> outcomes ps s \<noteq> None"
  by (induction ps s rule: outcomes.induct) (force split: option.splits)+

lemma probeLoop_outcomes:
  "outcomes (map (Pair bucket) ps) (remote v) = Some (rs, s) \<Longrightarrow>
     \<exists>v'. probeLoop bucket ps ok v = Some (ok \<and> list_all (\<lambda>r. r = None) rs, v') \<and> remote v' = s"
proof (induction ps arbitrary: ok v rs)
  case (Cons p ps)
  from Cons.prems obtain r s1 rs' where p: "np_Probe p bucket (remote v) = Some (r, s1)"
    and rest: "outcomes (map (Pair bucket) ps) s1 = Some (rs', s)" and rs: "rs = r # rs'"
    by (auto split: option.splits)
  show ?case
  proof (cases r)
    case None
    let ?v = "Fprint (''Yes'' @ newline) ((Fprint ('' * '' @ np_Name p @ '' ... '') v)\<lparr>remote := s1\<rparr>)"
    from rest have "outcomes (map (Pair bucket) ps) (remote ?v) = Some (rs', s)" by (simp add: Fprint_def)
    from Cons.IH [OF this, of ok] None p rs show ?thesis by (auto simp: Fprint_def)
  next
    case (Some err)
    let ?v = "Fprint (''No [reason: '' @ error_message err @ '']'' @ newline) ((Fprint ('' * '' @ np_Name p @ '' ... '') v)\<lparr>remote := s1\<rparr>)"
    from rest have "outcomes (map (Pair bucket) ps) (remote ?v) = Some (rs', s)" by (simp add: Fprint_def)
    from Cons.IH [OF this, of False] Some p rs show ?thesis by (auto simp: Fprint_def)
  qed
qed simp

lemma runnersLoop_outcomes:
  "outcomes (concat (map runner_probes runners)) (remote v) = Some (rs, s) \<Longrightarrow>
     \<exists>v'. runnersLoop runners ok v = Some (ok \<and> list_all (\<lambda>r. r = None) rs, v') \<and> remote v' = s"
proof (induction runners arbitrary: ok v rs)
  case (Cons r runners)
  let ?v = "Fprint (''Validating '' @ Bucket_String (pr_Bucket r) @ '' ...'' @ newline) v"
  from Cons.prems obtain rs1 s1 rs2 where first: "outcomes (map (Pair (b_Name (pr_Bucket r))) (pr_ProbeSet r)) (remote ?v) = Some (rs1, s1)"
    and rest: "outcomes (concat (map runner_probes runners)) s1 = Some (rs2, s)" and rs: "rs = rs1 @ rs2"
    by (auto simp: outcomes_append runner_probes_def [of r] Fprint_def split: option.splits)
  from probeLoop_outcomes [OF first, of True] obtain v1 where
    v1: "probeLoop (b_Name (pr_Bucket r)) (pr_ProbeSet r) True ?v = Some (list_all (\<lambda>r. r = None) rs1, v1)" "remote v1 = s1"
    by auto
  then have run: "ProbeRunner_Run r v = Some (list_all (\<lambda>r. r = None) rs1, Fprint newline v1)" by (simp add: ProbeRunner_Run_def)
  from rest v1(2) have "outcomes (concat (map runner_probes runners)) (remote (Fprint newline v1)) = Some (rs2, s)"
    by (simp add: Fprint_def)
  from Cons.IH [OF this, of "if \<not> list_all (\<lambda>r. r = None) rs1 then False else ok"] run rs show ?case by auto
qed simp

text \<open>The runners of a configuration.\<close>

definition bucket_runners :: "('p, 's) s3_env \<Rightarrow> bool \<Rightarrow> bool \<Rightarrow> string \<times> LiveBucket \<Rightarrow> 's ProbeRunner list" where
  "bucket_runners E readOnly versioned nb =
     (case NewProbeRunners E (fst nb) (snd nb) readOnly versioned of Ok rs \<Rightarrow> rs | _ \<Rightarrow> [])"

definition all_probes :: "('p, 's) s3_env \<Rightarrow> Buckets \<Rightarrow> bool \<Rightarrow> bool \<Rightarrow> (string \<times> 's NamedProbe) list" where
  "all_probes E config readOnly versioned =
     concat (map runner_probes (concat (map (bucket_runners E readOnly versioned) (range_buckets (probe_order E) config))))"

lemma probeRunnersLoop_ok:
  "list_all (\<lambda>(n, b). versioned \<or> lb_Backup b \<noteq> None) bs \<Longrightarrow>
     probeRunnersLoop E readOnly versioned bs rs = Ok (rs @ concat (map (bucket_runners E readOnly versioned) bs))"
proof (induction bs arbitrary: rs)
  case (Cons nb bs)
  then have IH: "probeRunnersLoop E readOnly versioned bs rs = Ok (rs @ concat (map (bucket_runners E readOnly versioned) bs))" for rs
    by (cases nb) simp
  from Cons.prems have "NewProbeRunners E (fst nb) (snd nb) readOnly versioned = Ok (bucket_runners E readOnly versioned nb)"
    by (auto simp: bucket_runners_def NewProbeRunners_def split: prod.splits)
  then show ?case by (cases nb) (simp add: IH)
qed simp

lemma all_probes_return:
  assumes "paginator_ends E left_pages" and "(b, p) \<in> set (all_probes E config readOnly versioned)"
  shows "np_Probe p b s \<noteq> None"
proof -
  from assms(2) obtain c versioned' where "p \<in> set (probe_NewSet E c readOnly versioned')"
    by (auto simp: all_probes_def runner_probes_def bucket_runners_def NewProbeRunners_def NewProbeRunner_def
        split: if_splits option.splits)
  then have "np_Probe p \<in> {IsVersioned E c, CanListObjectVersions E c, CanGetObjectVersions E c, IsUnversioned E c,
      CanListObjects E c, CanGetObjects E c, CanPutObjects E c}"
    by (auto simp: probe_NewSet_def split: if_splits)
  then show ?thesis
    using eachPage_returns [OF assms(1)]
    by (auto simp: IsVersioned_def IsUnversioned_def CanPutObjects_def CanListObjectVersions_def CanGetObjectVersions_def
        CanListObjects_def CanGetObjects_def split: prod.split sum.split option.split)
qed

lemma config_Read_ok:
  assumes "config_Read E path versioned = Ok config"
  shows "list_all (\<lambda>(n, b). versioned \<or> lb_Backup b \<noteq> None) (range_buckets it config)"
proof -
  from assms have "validateConfig (validate_order E) config versioned = None"
    by (auto simp: config_Read_def split: result.splits option.splits)
  then show ?thesis
    by (auto simp: validateConfig_None fmpred_iff list_all_iff set_range_buckets bucket_ok_def split: option.splits)
qed

lemma remote_print [simp]:
  "remote (Fprint t v) = remote v" "remote (printHints ps v) = remote v" "remote (printHeader ps b v) = remote v"
  "remote (PrintConfig E c v) = remote v"
  by (simp_all add: Fprint_def printHints_def printHeader_def PrintConfig_def)

lemma isValid_outcomes:
  assumes "paginator_ends E left_pages" and "list_all (\<lambda>(n, b). versioned \<or> lb_Backup b \<noteq> None) (range_buckets (probe_order E) config)"
  shows "\<exists>rs v'. outcomes (all_probes E config readOnly versioned) (remote v) = Some (rs, remote v') \<and>
    isValid E config readOnly versioned v = Some (Ok (list_all (\<lambda>r. r = None) rs), v')"
proof -
  have "outcomes (all_probes E config readOnly versioned) (remote v) \<noteq> None"
    by (rule outcomes_returns) (rule all_probes_return [OF assms(1)])
  then obtain rs s where run: "outcomes (all_probes E config readOnly versioned) (remote v) = Some (rs, s)" by auto
  from runnersLoop_outcomes [OF run [unfolded all_probes_def], of True] run show ?thesis
    by (auto simp: isValid_def probeRunnersLoop_ok [OF assms(2)])
qed

text \<open>An assumed role takes its credentials from the static keys, which the validation wants to be empty with an IAM profile.\<close>

lemma assumed_role_with_iam_profile:
  assumes "bucket_ok versioned b" "lb_UseIAMProfile b" "lb_AwsAssumedRoleArn b \<noteq> ''''"
  shows "opt_Credentials (newS3ClientWithAssumedRole (lb_Region b) (lb_Endpoint b) (lb_ID b) (lb_Secret b)
      (lb_AwsAssumedRoleArn b) (lb_UseIAMProfile b)) =
    AssumeRole (StaticCredentials '''' '''') (lb_Region b) (lb_AwsAssumedRoleArn b)"
  using assms by (simp add: newS3ClientWithAssumedRole_def bucket_ok_def)

section \<open>Properties\<close>

text \<open>C33: a configuration passes the validation exactly when it has buckets and each of them is complete: a name and a
  region, either both keys or an IAM profile without keys and endpoint, and for unversioned
  buckets a complete backup bucket. The error does not depend on the order in which the buckets
  are visited.\<close>

theorem config_validation:
  "(validateConfig it config versioned = None) =
     (buckets_of config \<noteq> fmempty \<and> fmpred (\<lambda>_. bucket_ok versioned) (buckets_of config)) \<and>
   validateConfig it config versioned = validateConfig it' config versioned"
  using validateConfig_None validateConfig_order by blast


text \<open>An environment with one versioned bucket, a listing of two pages and one object that cannot be read.\<close>

definition sample_bucket :: LiveBucket where
  "sample_bucket = \<lparr>lb_Name = ''droplets'', lb_Region = ''eu-west-1'', lb_ID = ''id'', lb_Secret = ''key'',
     lb_AwsAssumedRoleArn = '''', lb_Endpoint = '''', lb_Backup = None, lb_UseIAMProfile = False\<rparr>"

definition sample_env :: "(s3_object list list, nat) s3_env" where
  "sample_env =
     \<lparr>json_Unmarshal = (\<lambda>_. Ok (Some (fmupd ''cc'' sample_bucket fmempty))), json_MarshalIndent = (\<lambda>_. ''...''),
      ReadFile = (\<lambda>_. Ok ''{}''), Getenv = (\<lambda>_. ''''), validate_order = (\<lambda>_. []), probe_order = (\<lambda>_. []),
      sdk_GetBucketVersioning = (\<lambda>c b n. (Inr (Some ''Enabled''), Suc n)),
      sdk_NewListObjectsV2Paginator = (\<lambda>c b. []),
      sdk_NewListObjectVersionsPaginator = (\<lambda>c b. [[\<lparr>so_Key = Some ''a'', so_VersionId = Some ''1''\<rparr>],
        [\<lparr>so_Key = Some ''b'', so_VersionId = Some ''2''\<rparr>]]),
      sdk_HasMorePages = (\<lambda>p. p \<noteq> []), sdk_NextPage = (\<lambda>p n. (Inr (hd p), tl p, Suc n)),
      sdk_HeadObject = (\<lambda>c b key version n. (if key = Some ''b'' then Some (ErrorString ''forbidden'') else None, Suc n)),
      sdk_PutObject = (\<lambda>c b key text n. (None, Suc n))\<rparr>"

lemma sample_env_ends: "paginator_ends sample_env length"
  by (auto simp: paginator_ends_def sample_env_def)

lemma sample_range: "range_buckets it (Some (fmupd k b fmempty)) = [(k, b)]"
proof -
  have "sorted_list_of_fset {|k|} = [k]" for k :: string
    by (simp add: sorted_list_of_fset.rep_eq)
  then have keys: "map_keys (fmupd k b fmempty) = [k]" by (simp add: map_keys_def)
  have "permute p [k] = [k]" for p
    by (metis list.set(1,2) mset_permute mset_single_iff)
  then show ?thesis by (simp add: range_buckets_def range_keys_def keys buckets_of_def)
qed


text \<open>Without \<^verbatim>\<open>--validate-put-object\<close> nothing is written to the buckets: the run is the same whatever writing an
  object would do.\<close>

theorem validator_read_only:
  "validator_main (E\<lparr>sdk_PutObject := put\<rparr>) False unversioned v = validator_main E False unversioned v"
proof -
  have heads: "headObjects (E\<lparr>sdk_PutObject := put\<rparr>) = headObjects E"
  proof (intro ext)
    show "headObjects (E\<lparr>sdk_PutObject := put\<rparr>) c b err ver objs s = headObjects E c b err ver objs s" for c b err ver objs s
      by (induction objs arbitrary: s) (auto split: prod.split option.split)
  qed
  have probes: "probe_NewSet (E\<lparr>sdk_PutObject := put\<rparr>) c True versioned = probe_NewSet E c True versioned" for c versioned
    by (simp add: probe_NewSet_def fun_eq_iff heads IsVersioned_def IsUnversioned_def getBucketVersioning_def
        CanListObjectVersions_def CanGetObjectVersions_def CanListObjects_def CanGetObjects_def)
  have loop: "probeRunnersLoop (E\<lparr>sdk_PutObject := put\<rparr>) True versioned bs rs = probeRunnersLoop E True versioned bs rs" for versioned bs rs
    by (induction bs arbitrary: rs)
      (auto simp: NewProbeRunners_def NewProbeRunner_def probes split: option.split)
  have same: "getConfigPath (E\<lparr>sdk_PutObject := put\<rparr>) = getConfigPath E" "config_Read (E\<lparr>sdk_PutObject := put\<rparr>) = config_Read E"
    "PrintConfig (E\<lparr>sdk_PutObject := put\<rparr>) = PrintConfig E"
    by (simp_all add: fun_eq_iff getConfigPath_def config_Read_def PrintConfig_def split: result.split)
  have valid: "isValid (E\<lparr>sdk_PutObject := put\<rparr>) config True versioned v = isValid E config True versioned v" for config versioned v
    by (simp add: isValid_def loop)
  show ?thesis
    unfolding validator_main_def parseParams_def same Let_def CommandParams.simps not_False_eq_True valid by (rule refl)
qed

end
