(* ===== verification/Ssh_Concurrency.thy ===== *)
theory Ssh_Concurrency
  imports Ssh
begin

text \<open>
  The concurrent parts of \<^verbatim>\<open>ssh/connection.go\<close>: the keep-alive goroutine of a session
  (\<^verbatim>\<open>startKeepAliveLoop\<close> with the end of \<^verbatim>\<open>runInSession\<close>), and the dialer that all connections share
  (\<^verbatim>\<open>createDialContextFunc\<close>, guarded by \<^verbatim>\<open>dialFuncMutex\<close>). Both are step relations, one
  rule for each step another goroutine can observe.

  In a session the main goroutine starts the loop, runs the command and closes the channel on
  every way out. The dialer is a global variable that any number of goroutines initialise; a
  dialer is the number of its creation. A goroutine holds the lock of the mutex for reading or
  writing between the steps that take it and give it back.
\<close>

section \<open>The keep-alive loop\<close>

datatype keep_alive = NotStarted | AtSelect | Sending | Sleeping | LoopEnded

record session_state =
  loop :: keep_alive
  command_returned :: bool
  terminate_closed :: bool
  requests :: nat
  late_requests :: nat

definition session_start :: session_state where
  "session_start = \<lparr>loop = NotStarted, command_returned = False, terminate_closed = False, requests = 0, late_requests = 0\<rparr>"

inductive session_step :: "session_state \<Rightarrow> session_state \<Rightarrow> bool" where
  start: "loop s = NotStarted \<Longrightarrow> session_step s (s\<lparr>loop := AtSelect\<rparr>)"
| run: "loop s \<noteq> NotStarted \<Longrightarrow> \<not> command_returned s \<Longrightarrow> session_step s (s\<lparr>command_returned := True\<rparr>)"
| close: "command_returned s \<Longrightarrow> \<not> terminate_closed s \<Longrightarrow> session_step s (s\<lparr>terminate_closed := True\<rparr>)"
| terminated: "loop s = AtSelect \<Longrightarrow> terminate_closed s \<Longrightarrow> session_step s (s\<lparr>loop := LoopEnded\<rparr>)"
| default: "loop s = AtSelect \<Longrightarrow> \<not> terminate_closed s \<Longrightarrow> session_step s (s\<lparr>loop := Sending\<rparr>)"
| send: "loop s = Sending \<Longrightarrow> session_step s (s\<lparr>loop := Sleeping, requests := Suc (requests s),
     late_requests := late_requests s + (if terminate_closed s then 1 else 0)\<rparr>)"
| wake: "loop s = Sleeping \<Longrightarrow> session_step s (s\<lparr>loop := AtSelect\<rparr>)"

inductive session_reach :: "session_state \<Rightarrow> bool" where
  session_init: "session_reach session_start"
| session_next: "session_reach s \<Longrightarrow> session_step s t \<Longrightarrow> session_reach t"

section \<open>The shared dialer\<close>

datatype dial_pc = DialStart | RLocked | HaveDialer bool | RUnlocked bool | Locked | Stored | Returned "nat option"

record dial_state =
  dialFunc :: "nat option"
  dialers_made :: nat
  pcs :: "dial_pc list"

primrec holds_read :: "dial_pc \<Rightarrow> bool" where
  "holds_read DialStart = False"
| "holds_read RLocked = True"
| "holds_read (HaveDialer b) = True"
| "holds_read (RUnlocked b) = False"
| "holds_read Locked = False"
| "holds_read Stored = False"
| "holds_read (Returned d) = False"

definition holds_write :: "dial_pc \<Rightarrow> bool" where
  "holds_write pc \<longleftrightarrow> pc = Locked \<or> pc = Stored"

definition dial_start :: "nat \<Rightarrow> dial_state" where
  "dial_start n = \<lparr>dialFunc = None, dialers_made = 0, pcs = replicate n DialStart\<rparr>"

definition set_pc :: "nat \<Rightarrow> dial_pc \<Rightarrow> dial_state \<Rightarrow> dial_state" where
  "set_pc i pc s = s\<lparr>pcs := (pcs s)[i := pc]\<rparr>"

inductive dial_step :: "dial_state \<Rightarrow> dial_state \<Rightarrow> bool" where
  rlock: "i < length (pcs s) \<Longrightarrow> pcs s ! i = DialStart \<Longrightarrow> list_all (\<lambda>pc. \<not> holds_write pc) (pcs s) \<Longrightarrow>
     dial_step s (set_pc i RLocked s)"
| read: "i < length (pcs s) \<Longrightarrow> pcs s ! i = RLocked \<Longrightarrow> dial_step s (set_pc i (HaveDialer (dialFunc s \<noteq> None)) s)"
| runlock: "i < length (pcs s) \<Longrightarrow> pcs s ! i = HaveDialer b \<Longrightarrow> dial_step s (set_pc i (RUnlocked b) s)"
| return_shared: "i < length (pcs s) \<Longrightarrow> pcs s ! i = RUnlocked True \<Longrightarrow> dial_step s (set_pc i (Returned (dialFunc s)) s)"
| lock: "i < length (pcs s) \<Longrightarrow> pcs s ! i = RUnlocked False \<Longrightarrow>
     list_all (\<lambda>pc. \<not> holds_write pc \<and> \<not> holds_read pc) (pcs s) \<Longrightarrow> dial_step s (set_pc i Locked s)"
| store: "i < length (pcs s) \<Longrightarrow> pcs s ! i = Locked \<Longrightarrow>
     dial_step s ((set_pc i Stored s)\<lparr>dialFunc := Some (dialers_made s), dialers_made := Suc (dialers_made s)\<rparr>)"
| unlock: "i < length (pcs s) \<Longrightarrow> pcs s ! i = Stored \<Longrightarrow> dial_step s (set_pc i (Returned (dialFunc s)) s)"

inductive dial_reach :: "nat \<Rightarrow> dial_state \<Rightarrow> bool" for n where
  dial_init: "dial_reach n (dial_start n)"
| dial_next: "dial_reach n s \<Longrightarrow> dial_step s t \<Longrightarrow> dial_reach n t"

definition all_returned :: "dial_state \<Rightarrow> bool" where
  "all_returned s \<longleftrightarrow> list_all (\<lambda>pc. \<exists>d. pc = Returned d) (pcs s)"

section \<open>Lemmas\<close>

inductive_cases session_stepE: "session_step s t"

text \<open>A request after the channel was closed is one the loop had already decided to send.\<close>

definition session_inv :: "session_state \<Rightarrow> bool" where
  "session_inv s \<longleftrightarrow> late_requests s + (if loop s = Sending \<and> terminate_closed s then 1 else 0) \<le> 1 \<and>
     (if terminate_closed s then command_returned s \<and> (if loop s = Sending then late_requests s = 0 else True)
      else late_requests s = 0 \<and> loop s \<noteq> LoopEnded) \<and> (if loop s = NotStarted then \<not> command_returned s \<and> requests s = 0 else True)"

lemma session_step_inv: "session_step s t \<Longrightarrow> session_inv s \<Longrightarrow> session_inv t"
  by (induction rule: session_step.induct) (auto simp: session_inv_def split: if_splits)

lemma session_reach_inv: "session_reach s \<Longrightarrow> session_inv s"
proof (induction rule: session_reach.induct)
  case session_init
  then show ?case by (simp add: session_start_def session_inv_def)
qed (rule session_step_inv)

text \<open>What the loop still does once the channel is closed.\<close>

primrec loop_left :: "keep_alive \<Rightarrow> nat" where
  "loop_left NotStarted = 4"
| "loop_left Sending = 3"
| "loop_left Sleeping = 2"
| "loop_left AtSelect = 1"
| "loop_left LoopEnded = 0"

lemma closed_step:
  "session_step s t \<Longrightarrow> terminate_closed s \<Longrightarrow> command_returned s \<Longrightarrow> loop_left (loop t) < loop_left (loop s) \<and> terminate_closed t"
  by (induction rule: session_step.induct) auto

lemma session_progress:
  assumes "session_inv s" "loop s \<noteq> LoopEnded"
  shows "\<exists>t. session_step s t"
  using assms by (cases "loop s"; cases "terminate_closed s") (auto intro: session_step.intros)

text \<open>Mutual exclusion, and what a goroutine that saw a dialer knows.\<close>

definition exclusive :: "dial_pc list \<Rightarrow> bool" where
  "exclusive ps \<longleftrightarrow>
     (\<forall>i < length ps. \<forall>j < length ps. holds_write (ps ! i) \<and> (holds_write (ps ! j) \<or> holds_read (ps ! j)) \<longrightarrow> i = j)"

definition dial_inv :: "dial_state \<Rightarrow> bool" where
  "dial_inv s \<longleftrightarrow> exclusive (pcs s) \<and> Returned None \<notin> set (pcs s) \<and>
     (dialFunc s \<noteq> None \<or> set (pcs s) \<inter> {HaveDialer True, RUnlocked True, Stored} = {})"

lemma exclusive_update:
  assumes "exclusive ps" "i < length ps"
    and "holds_write y \<Longrightarrow> holds_write (ps ! i) \<or> list_all (\<lambda>pc. \<not> holds_write pc \<and> \<not> holds_read pc) ps"
    and "holds_read y \<Longrightarrow> holds_read (ps ! i) \<or> list_all (\<lambda>pc. \<not> holds_write pc) ps"
  shows "exclusive (ps[i := y])"
  using assms unfolding exclusive_def by (auto simp: nth_list_update list_all_length; blast)

lemma set_pc_simps [simp]:
  "dialFunc (set_pc i pc s) = dialFunc s" "dialers_made (set_pc i pc s) = dialers_made s" "pcs (set_pc i pc s) = (pcs s)[i := pc]"
  by (simp_all add: set_pc_def)

lemma set_update_bex: "pc \<in> set (xs[i := y]) \<Longrightarrow> pc = y \<or> pc \<in> set xs"
  by (meson insertE set_update_subset_insert subsetD)

lemma dial_inv_update:
  assumes "dial_inv s" "exclusive ((pcs s)[i := pc])" "pc \<noteq> Returned None"
    and "dialFunc s = None \<Longrightarrow> pc \<notin> {HaveDialer True, RUnlocked True, Stored}"
  shows "dial_inv (set_pc i pc s)"
  using assms set_update_bex [of _ "pcs s" i pc] unfolding dial_inv_def by auto

lemma dial_step_inv: "dial_step s t \<Longrightarrow> dial_inv s \<Longrightarrow> dial_inv t"
proof (induction rule: dial_step.induct)
  case (rlock i s)
  show ?case
    by (rule dial_inv_update [OF rlock.prems exclusive_update]) (use rlock in \<open>auto simp: dial_inv_def holds_write_def\<close>)
next
  case (read i s)
  show ?case
    by (rule dial_inv_update [OF read.prems exclusive_update]) (use read in \<open>auto simp: dial_inv_def holds_write_def\<close>)
next
  case (runlock i s b)
  then have "HaveDialer b \<in> set (pcs s)" by (metis nth_mem)
  then show ?case
    by (intro dial_inv_update [OF runlock.prems exclusive_update]) (use runlock in \<open>auto simp: dial_inv_def holds_write_def\<close>)
next
  case (return_shared i s)
  then have "RUnlocked True \<in> set (pcs s)" by (metis nth_mem)
  then show ?case
    by (intro dial_inv_update [OF return_shared.prems exclusive_update])
      (use return_shared in \<open>auto simp: dial_inv_def holds_write_def\<close>)
next
  case (lock i s)
  show ?case
    by (rule dial_inv_update [OF lock.prems exclusive_update]) (use lock in \<open>auto simp: dial_inv_def holds_write_def\<close>)
next
  case (store i s)
  then have "exclusive ((pcs s)[i := Stored])" by (intro exclusive_update) (auto simp: dial_inv_def holds_write_def)
  with store.prems show ?case using set_update_bex [of "Returned None" "pcs s" i Stored] by (auto simp: dial_inv_def)
next
  case (unlock i s)
  then have "Stored \<in> set (pcs s)" by (metis nth_mem)
  then show ?case
    by (intro dial_inv_update [OF unlock.prems exclusive_update]) (use unlock in \<open>auto simp: dial_inv_def holds_write_def\<close>)
qed

lemma dial_reach_inv: "dial_reach n s \<Longrightarrow> dial_inv s \<and> length (pcs s) = n"
proof (induction rule: dial_reach.induct)
  case dial_init
  then show ?case by (auto simp: dial_inv_def dial_start_def exclusive_def holds_write_def)
next
  case (dial_next s t)
  moreover from dial_next.hyps(2) have "length (pcs t) = length (pcs s)" by (cases rule: dial_step.cases) auto
  ultimately show ?case using dial_step_inv by auto
qed

text \<open>The steps a goroutine has left, and that somebody can always make one.\<close>

primrec dial_left :: "dial_pc \<Rightarrow> nat" where
  "dial_left DialStart = 6"
| "dial_left RLocked = 5"
| "dial_left (HaveDialer b) = 4"
| "dial_left (RUnlocked b) = 3"
| "dial_left Locked = 2"
| "dial_left Stored = 1"
| "dial_left (Returned d) = 0"

definition dial_work :: "dial_state \<Rightarrow> nat" where
  "dial_work s = sum_list (map dial_left (pcs s))"

lemma sum_list_update_less:
  fixes f :: "'a \<Rightarrow> nat"
  shows "i < length xs \<Longrightarrow> f y < f (xs ! i) \<Longrightarrow> sum_list (map f (xs[i := y])) < sum_list (map f xs)"
  by (induction xs arbitrary: i) (auto split: nat.split)

lemma dial_step_work: "dial_step s t \<Longrightarrow> dial_work t < dial_work s"
  by (induction rule: dial_step.induct) (auto simp: dial_work_def set_pc_def intro!: sum_list_update_less)

lemma dial_progress:
  assumes "dial_inv s" "\<not> all_returned s"
  shows "\<exists>t. dial_step s t"
proof -
  from assms(2) obtain i where i: "i < length (pcs s)" "\<nexists>d. pcs s ! i = Returned d"
    by (auto simp: all_returned_def list_all_length)
  consider (busy) j where "j < length (pcs s)" "holds_read (pcs s ! j) \<or> holds_write (pcs s ! j)"
    | (free) "list_all (\<lambda>pc. \<not> holds_write pc \<and> \<not> holds_read pc) (pcs s)"
    by (auto simp: list_all_length)
  then show ?thesis
  proof cases
    case busy
    then show ?thesis
      by (cases "pcs s ! j") (auto simp: holds_write_def intro: dial_step.intros)
  next
    case free
    then have no_writer: "list_all (\<lambda>pc. \<not> holds_write pc) (pcs s)" by (auto simp: list_all_iff)
    from free i(1) have idle: "\<not> holds_write (pcs s ! i)" "\<not> holds_read (pcs s ! i)" by (auto simp: list_all_length)
    show ?thesis
    proof (cases "pcs s ! i")
      case DialStart
      from dial_step.rlock [OF i(1) this no_writer] show ?thesis by blast
    next
      case (RUnlocked b)
      then show ?thesis using dial_step.return_shared [OF i(1)] dial_step.lock [OF i(1) _ free] by (cases b) auto
    qed (use idle i(2) in \<open>auto simp: holds_write_def\<close>)
  qed
qed

lemma dial_stuck: "all_returned s \<Longrightarrow> \<not> dial_step s t"
  by (auto simp: all_returned_def list_all_length elim!: dial_step.cases)

text \<open>Steps of a fixed goroutine, for running concrete schedules.\<close>

lemma dial_runs: "dial_reach n s \<Longrightarrow> dial_step s t \<Longrightarrow> dial_reach n t"
  by (rule dial_reach.dial_next)

lemma two_goroutines_two_dialers:
  "dial_reach 2 \<lparr>dialFunc = Some 1, dialers_made = 2, pcs = [Returned (Some 0), Returned (Some 1)]\<rparr>"
proof -
  let ?s = "\<lambda>d m a b. \<lparr>dialFunc = d, dialers_made = m, pcs = [a, b]\<rparr>"
  note first = dial_step.intros [where i = 0] and second = dial_step.intros [where i = 1]
  have "dial_reach 2 (?s None 0 DialStart DialStart)"
    using dial_init [of 2] by (simp add: dial_start_def numeral_2_eq_2)
  then have "dial_reach 2 (?s None 0 RLocked DialStart)"
    by (rule dial_runs) (use first(1) [of "?s None 0 DialStart DialStart"] in \<open>simp add: set_pc_def holds_write_def\<close>)
  then have "dial_reach 2 (?s None 0 RLocked RLocked)"
    by (rule dial_runs) (use second(1) [of "?s None 0 RLocked DialStart"] in \<open>simp add: set_pc_def holds_write_def\<close>)
  then have "dial_reach 2 (?s None 0 (HaveDialer False) RLocked)"
    by (rule dial_runs) (use first(2) [of "?s None 0 RLocked RLocked"] in \<open>simp add: set_pc_def\<close>)
  then have "dial_reach 2 (?s None 0 (HaveDialer False) (HaveDialer False))"
    by (rule dial_runs) (use second(2) [of "?s None 0 (HaveDialer False) RLocked"] in \<open>simp add: set_pc_def\<close>)
  then have "dial_reach 2 (?s None 0 (RUnlocked False) (HaveDialer False))"
    by (rule dial_runs) (use first(3) [where b = False and s = "?s None 0 (HaveDialer False) (HaveDialer False)"] in \<open>simp add: set_pc_def\<close>)
  then have "dial_reach 2 (?s None 0 (RUnlocked False) (RUnlocked False))"
    by (rule dial_runs) (use second(3) [where b = False and s = "?s None 0 (RUnlocked False) (HaveDialer False)"] in \<open>simp add: set_pc_def\<close>)
  then have "dial_reach 2 (?s None 0 Locked (RUnlocked False))"
    by (rule dial_runs) (use first(5) [of "?s None 0 (RUnlocked False) (RUnlocked False)"] in \<open>simp add: set_pc_def holds_write_def\<close>)
  then have "dial_reach 2 (?s (Some 0) 1 Stored (RUnlocked False))"
    by (rule dial_runs) (use first(6) [of "?s None 0 Locked (RUnlocked False)"] in \<open>simp add: set_pc_def\<close>)
  then have "dial_reach 2 (?s (Some 0) 1 (Returned (Some 0)) (RUnlocked False))"
    by (rule dial_runs) (use first(7) [of "?s (Some 0) 1 Stored (RUnlocked False)"] in \<open>simp add: set_pc_def\<close>)
  then have "dial_reach 2 (?s (Some 0) 1 (Returned (Some 0)) Locked)"
    by (rule dial_runs) (use second(5) [of "?s (Some 0) 1 (Returned (Some 0)) (RUnlocked False)"] in \<open>simp add: set_pc_def holds_write_def\<close>)
  then have "dial_reach 2 (?s (Some 1) 2 (Returned (Some 0)) Stored)"
    by (rule dial_runs) (use second(6) [of "?s (Some 0) 1 (Returned (Some 0)) Locked"] in \<open>simp add: set_pc_def numeral_2_eq_2\<close>)
  then show ?thesis
    by (rule dial_runs) (use second(7) [of "?s (Some 1) 2 (Returned (Some 0)) Stored"] in \<open>simp add: set_pc_def\<close>)
qed

section \<open>Properties\<close>

text \<open>C32: the keep-alive loop of a session sends at most one request after its channel was closed, never ends before the
  command has returned, and once the channel is closed ends after at most three more steps.\<close>

theorem keep_alive_ends:
  assumes "session_reach s"
  shows "late_requests s \<le> 1 \<and> (loop s = LoopEnded \<longrightarrow> command_returned s) \<and>
    (terminate_closed s \<longrightarrow> (loop s = LoopEnded \<or> (\<exists>t. session_step s t)) \<and> loop_left (loop s) \<le> 3 \<and>
       (\<forall>t. session_step s t \<longrightarrow> terminate_closed t \<and> loop_left (loop t) < loop_left (loop s)))"
proof -
  note inv = session_reach_inv [OF assms]
  then have closed: "terminate_closed s \<Longrightarrow> command_returned s \<and> loop s \<noteq> NotStarted"
    by (auto simp: session_inv_def split: if_splits)
  moreover from inv have "loop s = LoopEnded \<Longrightarrow> command_returned s" "late_requests s \<le> 1"
    by (auto simp: session_inv_def split: if_splits)
  moreover from closed have "terminate_closed s \<Longrightarrow> loop_left (loop s) \<le> 3" by (cases "loop s") auto
  moreover from closed have "terminate_closed s \<Longrightarrow> session_step s t \<Longrightarrow> terminate_closed t \<and> loop_left (loop t) < loop_left (loop s)" for t
    using closed_step by blast
  ultimately show ?thesis using session_progress [OF inv] by blast
qed

text \<open>Closing the channel while the loop is about to send a request.\<close>

definition late_state :: session_state where
  "late_state = \<lparr>loop = Sending, command_returned = True, terminate_closed = True, requests = 0, late_requests = 0\<rparr>"

lemma late_state_reached: "session_reach late_state"
proof -
  let ?s = "\<lambda>l r c. \<lparr>loop = l, command_returned = r, terminate_closed = c, requests = 0, late_requests = 0\<rparr>"
  have "session_reach (?s NotStarted False False)" using session_init by (simp add: session_start_def)
  then have "session_reach (?s AtSelect False False)"
    by (rule session_next) (use session_step.start [of "?s NotStarted False False"] in simp)
  then have "session_reach (?s Sending False False)"
    by (rule session_next) (use session_step.default [of "?s AtSelect False False"] in simp)
  then have "session_reach (?s Sending True False)"
    by (rule session_next) (use session_step.run [of "?s Sending False False"] in simp)
  then show ?thesis unfolding late_state_def
    by (rule session_next) (use session_step.close [of "?s Sending True False"] in simp)
qed

theorem keep_alive_ends_witness: "session_reach late_state \<and> loop_left (loop late_state) \<le> 3 \<and> (\<exists>t. session_step late_state t)"
  using keep_alive_ends [OF late_state_reached] late_state_reached by (auto simp: late_state_def)



text \<open>The dialer is not created once: two goroutines that both found none each create one under the lock, so two
  connections use two dialers.\<close>

theorem dialer_created_twice:
  "\<exists>s. dial_reach 2 s \<and> all_returned s \<and> dialers_made s = 2 \<and> pcs s ! 0 \<noteq> pcs s ! 1"
  using two_goroutines_two_dialers by (intro exI conjI) (auto simp: all_returned_def)

end
