(* ===== verification/Ssh_Session.thy ===== *)
theory Ssh_Session
  imports Ssh
begin

text \<open>
  One call of \<^verbatim>\<open>runInSession\<close> (\<^verbatim>\<open>ssh/connection.go\<close>), step by step: dialling and the handshake
  (\<^verbatim>\<open>newClient\<close>), opening the session (\<^verbatim>\<open>buildSSHSessionImpl\<close>), the writer that closes the session
  when standard output cannot be written (\<^verbatim>\<open>sessionClosingOnErrorWriter\<close>), the keep-alive loop and
  the deferred calls.

  The four calls into the SSH library are the fields of \<open>ssh_library\<close>; each may fail and changes the
  remote state. What the code opens, starts, stops and closes is recorded in a trace. The theorems: the
  steps refine the one-step session of the theory \<open>Ssh\<close>, which the rest of the development uses, and
  everything that is opened or started on the way is closed and stopped, in the reverse order, on
  every way out. A panic of the writer ends the program, so no deferred call is recorded for it.
\<close>

section \<open>The library, the trace and deferred calls\<close>

record 'r ssh_library =
  lib_Dial :: "string \<Rightarrow> 'r \<Rightarrow> goerror option \<times> 'r"
  lib_NewClientConn :: "Connection \<Rightarrow> 'r \<Rightarrow> goerror option \<times> 'r"
  lib_NewSession :: "Connection \<Rightarrow> 'r \<Rightarrow> goerror option \<times> 'r"
  lib_Run :: "Connection \<Rightarrow> string \<Rightarrow> string \<Rightarrow> 'r \<Rightarrow> (string list \<times> string \<times> run_error) \<times> 'r"

datatype session_event =
    Dialled
  | ClientOpened
  | SessionOpened
  | KeepAliveStarted
  | CommandStarted
  | SessionClosed
  | TerminateClosed
  | ClientClosed

type_synonym ('s, 'r) session_world = "'s \<times> 'r world \<times> session_event list"

definition traced_event :: "session_event \<Rightarrow> ('s, 'r) session_world \<Rightarrow> ('s, 'r) session_world" where
  "traced_event ev = (\<lambda>(s, w, tr). (s, w, tr @ [ev]))"

text \<open>A call of the library; it may note what it opened.\<close>

definition library_call ::
  "('r \<Rightarrow> goerror option \<times> 'r) \<Rightarrow> session_event \<Rightarrow> ('s, 'r) session_world \<Rightarrow> unit result \<times> ('s, 'r) session_world" where
  "library_call call ev = (\<lambda>(s, w, tr).
     (case call (remote w) of
        (Some e, r) \<Rightarrow> (Err e, (s, w\<lparr>remote := r\<rparr>, tr))
      | (None, r) \<Rightarrow> (Ok (), (s, w\<lparr>remote := r\<rparr>, tr @ [ev]))))"

text \<open>Exit code and standard error, which is what \<^verbatim>\<open>runInSession\<close> hands to its callers.\<close>

type_synonym ('s, 'r) session_body = "('s, 'r) session_world \<Rightarrow> (int result \<times> string) \<times> ('s, 'r) session_world"

definition deferred :: "session_event \<Rightarrow> ('s, 'r) session_body \<Rightarrow> ('s, 'r) session_body" where
  "deferred ev body \<sigma> =
     (case body \<sigma> of
        ((Panic p, stderr), \<sigma>') \<Rightarrow> ((Panic p, stderr), \<sigma>')
      | ((res, stderr), \<sigma>') \<Rightarrow> ((res, stderr), traced_event ev \<sigma>'))"

section \<open>The steps\<close>

definition newClient :: "'r ssh_library \<Rightarrow> Connection \<Rightarrow> ('s, 'r) session_world \<Rightarrow> unit result \<times> ('s, 'r) session_world" where
  "newClient L c =
     bindr (library_call (lib_Dial L (conn_host c)) Dialled) (\<lambda>_.
     library_call (lib_NewClientConn L c) ClientOpened)"

definition buildSSHSessionImpl ::
  "'r ssh_library \<Rightarrow> Connection \<Rightarrow> ('s, 'r) session_world \<Rightarrow> unit result \<times> ('s, 'r) session_world" where
  "buildSSHSessionImpl L c \<sigma> =
     (case library_call (lib_NewSession L c) SessionOpened \<sigma> of
        (res, \<sigma>') \<Rightarrow> (wrap_result ''ssh.NewSession failed'' res, \<sigma>'))"

definition sessionClosingOnErrorWriter_Write ::
  "('s, 'r) writer \<Rightarrow> string \<Rightarrow> ('s, 'r) session_world \<Rightarrow> unit result \<times> ('s, 'r) session_world" where
  "sessionClosingOnErrorWriter_Write wr data = (\<lambda>(s, w, tr).
     (case wr data (s, w) of
        (Err e, (s', w')) \<Rightarrow> (Err e, (s', w', tr @ [SessionClosed]))
      | (res, (s', w')) \<Rightarrow> (res, (s', w', tr))))"

text \<open>The library copies standard output to the writer chunk by chunk until a write fails.\<close>

fun copy_stdout ::
  "('s, 'r) writer \<Rightarrow> string list \<Rightarrow> ('s, 'r) session_world \<Rightarrow> unit result \<times> ('s, 'r) session_world" where
  "copy_stdout wr [] \<sigma> = (Ok (), \<sigma>)"
| "copy_stdout wr (p # ps) \<sigma> = bindr (sessionClosingOnErrorWriter_Write wr p) (\<lambda>_. copy_stdout wr ps) \<sigma>"

definition session_Run ::
  "'r ssh_library \<Rightarrow> Connection \<Rightarrow> string \<Rightarrow> ('s, 'r) writer \<Rightarrow> string \<Rightarrow> ('s, 'r) session_world \<Rightarrow>
     unit result \<times> string \<times> run_error \<times> ('s, 'r) session_world" where
  "session_Run L c cmd wr stdin = (\<lambda>(s, w, tr).
     (let ((chunks, stderr, e), r) = lib_Run L c cmd stdin (remote w);
          (wres, \<sigma>) = copy_stdout wr chunks
            (s, log_event (session_command c cmd) (w\<lparr>remote := r\<rparr>), tr @ [CommandStarted])
      in (wres, stderr, e, \<sigma>)))"

definition runInSession_steps ::
  "'r ssh_library \<Rightarrow> Connection \<Rightarrow> string \<Rightarrow> ('s, 'r) writer \<Rightarrow> string \<Rightarrow> ('s, 'r) session_body" where
  "runInSession_steps L c cmd wr stdin \<sigma> =
     (case newClient L c \<sigma> of
        (Err e, \<sigma>1) \<Rightarrow> ((Err (WithMessage e ''ssh.Dial failed''), ''''), \<sigma>1)
      | (Panic p, \<sigma>1) \<Rightarrow> ((Panic p, ''''), \<sigma>1)
      | (Ok _, \<sigma>1) \<Rightarrow>
          deferred ClientClosed (\<lambda>\<sigma>1.
            (case buildSSHSessionImpl L c \<sigma>1 of
               (Err e, \<sigma>2) \<Rightarrow> ((Err e, ''''), \<sigma>2)
             | (Panic p, \<sigma>2) \<Rightarrow> ((Panic p, ''''), \<sigma>2)
             | (Ok _, \<sigma>2) \<Rightarrow>
                 deferred TerminateClosed (\<lambda>\<sigma>3.
                   (case session_Run L c cmd wr stdin \<sigma>3 of
                      (Err e, stderr, _, \<sigma>4) \<Rightarrow> ((Err (WithMessage e ''stdout.Write failed''), stderr), \<sigma>4)
                    | (Panic p, stderr, _, \<sigma>4) \<Rightarrow> ((Panic p, stderr), \<sigma>4)
                    | (Ok _, stderr, e, \<sigma>4) \<Rightarrow> ((run_outcome e, stderr), \<sigma>4)))
                 (traced_event KeepAliveStarted \<sigma>2)))
          \<sigma>1)"

text \<open>The session as a whole, as the environment of the other theories sees it.\<close>

definition session_of :: "'r ssh_library \<Rightarrow> Connection \<Rightarrow> string \<Rightarrow> string \<Rightarrow> 'r \<Rightarrow> session_reply \<times> 'r" where
  "session_of L c cmd stdin r =
     (let reply = \<lparr>dialErr = None, sessionErr = None, stdoutChunks = [], stderrBytes = '''', runErr = RunOk\<rparr>
      in case lib_Dial L (conn_host c) r of
           (Some e, r1) \<Rightarrow> (reply\<lparr>dialErr := Some e\<rparr>, r1)
         | (None, r1) \<Rightarrow> (case lib_NewClientConn L c r1 of
             (Some e, r2) \<Rightarrow> (reply\<lparr>dialErr := Some e\<rparr>, r2)
           | (None, r2) \<Rightarrow> (case lib_NewSession L c r2 of
               (Some e, r3) \<Rightarrow> (reply\<lparr>sessionErr := Some e\<rparr>, r3)
             | (None, r3) \<Rightarrow> (case lib_Run L c cmd stdin r3 of
                 ((chunks, stderr, e), r4) \<Rightarrow>
                   (reply\<lparr>stdoutChunks := chunks, stderrBytes := stderr, runErr := e\<rparr>, r4)))))"

section \<open>Lemmas\<close>

text \<open>Copying through the closing writer is copying through the writer; only a failure closes the session.\<close>

lemma copy_stdout_feed:
  "copy_stdout wr ps (s, w, tr) =
     (case feed wr ps (s, w) of
        (Err e, (s', w')) \<Rightarrow> (Err e, (s', w', tr @ [SessionClosed]))
      | (res, (s', w')) \<Rightarrow> (res, (s', w', tr)))"
  by (induction ps arbitrary: s w)
    (auto simp: bindr_def sessionClosingOnErrorWriter_Write_def split: prod.splits result.splits)

lemmas session_defs = runInSession_steps_def newClient_def library_call_def buildSSHSessionImpl_def
  session_Run_def traced_event_def deferred_def copy_stdout_feed

text \<open>The four ways a call can go.\<close>

lemma steps_no_dial:
  assumes "lib_Dial L (conn_host c) (remote w) = (Some e, r)"
  shows "runInSession_steps L c cmd wr stdin (s, w, tr) = ((Err (WithMessage e ''ssh.Dial failed''), ''''), s, w\<lparr>remote := r\<rparr>, tr)"
    and "session_of L c cmd stdin (remote w) =
      (\<lparr>dialErr = Some e, sessionErr = None, stdoutChunks = [], stderrBytes = '''', runErr = RunOk\<rparr>, r)"
  using assms by (simp_all add: session_defs bindr_def session_of_def)

lemma steps_no_handshake:
  assumes "lib_Dial L (conn_host c) (remote w) = (None, r1)" "lib_NewClientConn L c r1 = (Some e, r2)"
  shows "runInSession_steps L c cmd wr stdin (s, w, tr) =
      ((Err (WithMessage e ''ssh.Dial failed''), ''''), s, w\<lparr>remote := r2\<rparr>, tr @ [Dialled])"
    and "session_of L c cmd stdin (remote w) =
      (\<lparr>dialErr = Some e, sessionErr = None, stdoutChunks = [], stderrBytes = '''', runErr = RunOk\<rparr>, r2)"
  using assms by (simp_all add: session_defs bindr_def session_of_def)

lemma steps_no_session:
  assumes "lib_Dial L (conn_host c) (remote w) = (None, r1)" "lib_NewClientConn L c r1 = (None, r2)"
    "lib_NewSession L c r2 = (Some e, r3)"
  shows "runInSession_steps L c cmd wr stdin (s, w, tr) =
      ((Err (WithMessage e ''ssh.NewSession failed''), ''''), s, w\<lparr>remote := r3\<rparr>, tr @ [Dialled, ClientOpened, ClientClosed])"
    and "session_of L c cmd stdin (remote w) =
      (\<lparr>dialErr = None, sessionErr = Some e, stdoutChunks = [], stderrBytes = '''', runErr = RunOk\<rparr>, r3)"
  using assms by (simp_all add: session_defs bindr_def session_of_def)

lemma steps_session:
  assumes "lib_Dial L (conn_host c) (remote w) = (None, r1)" "lib_NewClientConn L c r1 = (None, r2)"
    "lib_NewSession L c r2 = (None, r3)" "lib_Run L c cmd stdin r3 = ((chunks, stderr, e), r4)"
  shows "runInSession_steps L c cmd wr stdin (s, w, tr) =
      (case feed wr chunks (s, log_event (session_command c cmd) (w\<lparr>remote := r4\<rparr>)) of
         (Ok _, s', w') \<Rightarrow> ((run_outcome e, stderr), s', w',
           tr @ [Dialled, ClientOpened, SessionOpened, KeepAliveStarted, CommandStarted, TerminateClosed, ClientClosed])
       | (Err e', s', w') \<Rightarrow> ((Err (WithMessage e' ''stdout.Write failed''), stderr), s', w',
           tr @ [Dialled, ClientOpened, SessionOpened, KeepAliveStarted, CommandStarted, SessionClosed, TerminateClosed, ClientClosed])
       | (Panic p, s', w') \<Rightarrow> ((Panic p, stderr), s', w',
           tr @ [Dialled, ClientOpened, SessionOpened, KeepAliveStarted, CommandStarted]))"
    and "session_of L c cmd stdin (remote w) =
      (\<lparr>dialErr = None, sessionErr = None, stdoutChunks = chunks, stderrBytes = stderr, runErr = e\<rparr>, r4)"
  using assms by (auto simp: session_defs bindr_def session_of_def run_outcome_no_panic split: prod.splits result.splits)

lemma session_cases:
  obtains (no_dial) e r where "lib_Dial L (conn_host c) (remote w) = (Some e, r)"
  | (no_handshake) r1 e r2 where "lib_Dial L (conn_host c) (remote w) = (None, r1)" "lib_NewClientConn L c r1 = (Some e, r2)"
  | (no_session) r1 r2 e r3 where "lib_Dial L (conn_host c) (remote w) = (None, r1)" "lib_NewClientConn L c r1 = (None, r2)"
      "lib_NewSession L c r2 = (Some e, r3)"
  | (session) r1 r2 r3 chunks stderr e r4 where "lib_Dial L (conn_host c) (remote w) = (None, r1)"
      "lib_NewClientConn L c r1 = (None, r2)" "lib_NewSession L c r2 = (None, r3)"
      "lib_Run L c cmd stdin r3 = ((chunks, stderr, e), r4)"
  by (metis option.exhaust prod.exhaust)

text \<open>What is held is a stack: a client, and on top of it a keep-alive loop. Only the resource on top can be
  given back, and a command runs under both.\<close>

datatype held_resource = HeldClient | HeldLoop

fun holding :: "held_resource list \<Rightarrow> session_event list \<Rightarrow> held_resource list option" where
  "holding hs [] = Some hs"
| "holding hs (ClientOpened # tr) = holding (HeldClient # hs) tr"
| "holding hs (KeepAliveStarted # tr) = holding (HeldLoop # hs) tr"
| "holding (HeldClient # hs) (ClientClosed # tr) = holding hs tr"
| "holding (HeldLoop # hs) (TerminateClosed # tr) = holding hs tr"
| "holding [HeldLoop, HeldClient] (CommandStarted # tr) = holding [HeldLoop, HeldClient] tr"
| "holding hs (Dialled # tr) = holding hs tr"
| "holding hs (SessionOpened # tr) = holding hs tr"
| "holding hs (SessionClosed # tr) = holding hs tr"
| "holding hs tr = None"

lemma run_outcome_message: "run_outcome e = Err (WithMessage e' m) \<Longrightarrow> m \<noteq> ''stdout.Write failed''"
  by (cases e) auto

section \<open>The properties\<close>


text \<open>C30: Unless the writer panics, every way out of runInSession gives back what it took, the keep-alive loop before the
  client, and the command runs while both are held. The session is closed early only when standard output could not be
  written; when an exit code is returned every step took place once and in order.\<close>

theorem session_releases:
  "case runInSession_steps L c cmd wr stdin (s, w, []) of
     ((Panic p, stderr), \<sigma>) \<Rightarrow> True
   | ((Err e, stderr), s', w', tr) \<Rightarrow> holding [] tr = Some [] \<and>
       (SessionClosed \<in> set tr \<longleftrightarrow> (\<exists>e'. e = WithMessage e' ''stdout.Write failed''))
   | ((Ok n, stderr), s', w', tr) \<Rightarrow> holding [] tr = Some [] \<and>
       tr = [Dialled, ClientOpened, SessionOpened, KeepAliveStarted, CommandStarted, TerminateClosed, ClientClosed]"
proof (cases rule: session_cases [where L = L and c = c and w = w and cmd = cmd and stdin = stdin])
  case (session r1 r2 r3 chunks stderr e r4)
  then show ?thesis
    by (auto simp: steps_session [OF session] split: prod.splits result.splits dest: run_outcome_message)
qed (simp_all add: steps_no_dial steps_no_handshake steps_no_session)

end
