(* ===== verification/Mock_Director.thy ===== *)
theory Mock_Director
  imports Errors
begin

text \<open>
  The stand-ins for the BOSH director and the UAA that the program is tested against:
  \<^verbatim>\<open>internal/cf-webmock\<close> and \<^verbatim>\<open>integration/deployment/web_mock_helpers.go\<close>. A mock server holds a list
  of expected requests with their responses; it answers requests one at a time under a mutex, so
  a test is a sequence of requests. A failed expectation ends the handler, is caught by
  \<^verbatim>\<open>GinkgoRecover\<close> and fails the test; it is a value here.

  What a callback of a mock does to the machines of the test is a state of type \<open>'s\<close>. JSON, YAML and
  base64 are the fields of \<open>codecs\<close>. The theorems: a conversation with the mock succeeds
  exactly when it consists of the expected requests in their order, and the UAA counts the tokens it
  hands out.
\<close>

section \<open>Requests, responses and failures\<close>

datatype json = JNull | JString string | JInt int | JArray "json list" | JObject "(string \<times> json) list"

record codecs =
  json_encode :: "json \<Rightarrow> string option"
  json_decode :: "string \<Rightarrow> json option"
  yaml_encode :: "json \<Rightarrow> string option"
  base64_encode :: "string \<Rightarrow> string"

text \<open>A header or form value that is not there is the empty string.\<close>

record HttpRequest =
  req_Method :: string
  req_URL :: string
  req_Header :: "string \<Rightarrow> string"
  req_Body :: "string option"
  req_FormValue :: "string \<Rightarrow> string"

record HttpResponse =
  resp_Location :: "string option"
  resp_Status :: int
  resp_Body :: string

datatype failure =
    NotEqual string string
  | NotEqualJson "json option" string
  | ErrorOccurred
  | TypeAssertion
  | FailMessage string

text \<open>A check passes or fails; the callbacks in it change the state of the test.\<close>

type_synonym 's check = "'s \<Rightarrow> failure option \<times> 's"

definition pass :: "'s check" where
  "pass s = (None, s)"

definition fails_with :: "failure \<Rightarrow> 's check" where
  "fails_with f s = (Some f, s)"

definition then_check :: "'s check \<Rightarrow> 's check \<Rightarrow> 's check" where
  "then_check c1 c2 s = (case c1 s of (Some f, s') \<Rightarrow> (Some f, s') | (None, s') \<Rightarrow> c2 s')"

definition expect_equal :: "string \<Rightarrow> string \<Rightarrow> 's check" where
  "expect_equal actual expected = (if actual = expected then pass else fails_with (NotEqual actual expected))"

section \<open>One mocked request\<close>

record 's MockHttp =
  expectedMethod :: string
  expectedUrl :: string
  expectedContentType :: string
  expectedBody :: string
  expectedAuthorizationHeader :: string
  expectedFormValues :: "(string \<times> string) list"
  responseRedirectToUrl :: string
  responseStatus :: int
  responseBody :: string
  responseCallback :: "(string \<Rightarrow> 's check) option"
  authenticated :: bool

record 's Server =
  server_expectedAuthorizationHeader :: string
  mockHandlers :: "'s MockHttp list"
  currentHandler :: nat

definition NewMockedHttpRequest :: "string \<Rightarrow> string \<Rightarrow> 's MockHttp" where
  "NewMockedHttpRequest method url = \<lparr>expectedMethod = method, expectedUrl = url, expectedContentType = '''',
     expectedBody = '''', expectedAuthorizationHeader = '''', expectedFormValues = [], responseRedirectToUrl = '''',
     responseStatus = 0, responseBody = '''', responseCallback = None, authenticated = True\<rparr>"

definition MockHttp_Fails :: "string \<Rightarrow> 's MockHttp \<Rightarrow> 's MockHttp" where
  "MockHttp_Fails message i = i\<lparr>responseBody := message, responseStatus := 500\<rparr>"

definition MockHttp_RedirectsTo :: "string \<Rightarrow> 's MockHttp \<Rightarrow> 's MockHttp" where
  "MockHttp_RedirectsTo uri i = i\<lparr>responseStatus := 302, responseRedirectToUrl := uri\<rparr>"

definition MockHttp_NotFound :: "'s MockHttp \<Rightarrow> 's MockHttp" where
  "MockHttp_NotFound i = i\<lparr>responseBody := '''', responseStatus := 404\<rparr>"

definition MockHttp_RespondsWithUnauthorized :: "string \<Rightarrow> 's MockHttp \<Rightarrow> 's MockHttp" where
  "MockHttp_RespondsWithUnauthorized body i = i\<lparr>responseBody := body, responseStatus := 401\<rparr>"

definition MockHttp_RespondsWith :: "string \<Rightarrow> 's MockHttp \<Rightarrow> 's MockHttp" where
  "MockHttp_RespondsWith body i = i\<lparr>responseStatus := 200, responseBody := body\<rparr>"

text \<open>Building a mock fails the test, here \<open>None\<close>, when its response cannot be encoded.\<close>

definition MockHttp_RespondsWithJson :: "codecs \<Rightarrow> json \<Rightarrow> 's MockHttp \<Rightarrow> 's MockHttp option" where
  "MockHttp_RespondsWithJson C obj i = map_option (\<lambda>body. MockHttp_RespondsWith body i) (json_encode C obj)"

definition MockHttp_SkipAuthentication :: "'s MockHttp \<Rightarrow> 's MockHttp" where
  "MockHttp_SkipAuthentication i = i\<lparr>authenticated := False\<rparr>"

definition MockHttp_RespondsEmpty :: "'s MockHttp \<Rightarrow> 's MockHttp" where
  "MockHttp_RespondsEmpty i = i\<lparr>responseBody := '''', responseStatus := 204\<rparr>"

definition MockHttp_WithContentType :: "string \<Rightarrow> 's MockHttp \<Rightarrow> 's MockHttp" where
  "MockHttp_WithContentType contentType i = i\<lparr>expectedContentType := contentType\<rparr>"

definition MockHttp_WithBody :: "string \<Rightarrow> 's MockHttp \<Rightarrow> 's MockHttp" where
  "MockHttp_WithBody body i = i\<lparr>expectedBody := body\<rparr>"

definition MockHttp_WithAuthorizationHeader :: "string \<Rightarrow> 's MockHttp \<Rightarrow> 's MockHttp" where
  "MockHttp_WithAuthorizationHeader auth i = i\<lparr>expectedAuthorizationHeader := auth\<rparr>"

definition MockHttp_SetResponseCallback :: "(string \<Rightarrow> 's check) \<Rightarrow> 's MockHttp \<Rightarrow> 's MockHttp" where
  "MockHttp_SetResponseCallback b i = i\<lparr>responseCallback := Some b\<rparr>"

definition MockHttp_For :: "string \<Rightarrow> 's MockHttp \<Rightarrow> 's MockHttp" where
  "MockHttp_For comment i = i"

definition MockHttp_Url :: "'s MockHttp \<Rightarrow> string" where
  "MockHttp_Url i = expectedMethod i @ '' '' @ expectedUrl i"

section \<open>The server\<close>

definition completedMocks :: "'s Server \<Rightarrow> string list" where
  "completedMocks d = map (\<lambda>i. [CHR 0x09] @ MockHttp_Url (mockHandlers d ! i)) [0..<currentHandler d]"

definition pendingMocks :: "'s Server \<Rightarrow> string list" where
  "pendingMocks d = map (\<lambda>i. [CHR 0x09] @ MockHttp_Url (mockHandlers d ! i)) [currentHandler d..<length (mockHandlers d)]"

definition mocks_report :: "'s Server \<Rightarrow> string" where
  "mocks_report d = ''Completed mocks:'' @ newline @ Join (completedMocks d) newline @ newline @
     ''Pending mocks:'' @ newline @ Join (pendingMocks d) newline @ newline"

fun check_form :: "HttpRequest \<Rightarrow> (string \<times> string) list \<Rightarrow> 's check" where
  "check_form req [] = pass"
| "check_form req ((key, value) # kvs) = then_check (expect_equal (req_FormValue req key) value) (check_form req kvs)"

definition MockHttp_Verify :: "'s MockHttp \<Rightarrow> HttpRequest \<Rightarrow> 's Server \<Rightarrow> 's check" where
  "MockHttp_Verify i req d =
     (let url = req_Method req @ '' '' @ req_URL req;
          expect_url = (if url = MockHttp_Url i then pass
            else fails_with (FailMessage (''Received:'' @ newline @ [CHR 0x09] @ url @ newline @ mocks_report d)));
          auth = req_Header req ''Authorization''
      in then_check expect_url
        (then_check
          (if authenticated i then
             then_check
               (if server_expectedAuthorizationHeader d \<noteq> '''' then expect_equal auth (server_expectedAuthorizationHeader d) else pass)
               (if expectedAuthorizationHeader i \<noteq> '''' then expect_equal auth (expectedAuthorizationHeader i) else pass)
           else pass)
        (then_check
          (if expectedContentType i \<noteq> '''' then expect_equal (req_Header req ''Content-Type'') (expectedContentType i) else pass)
        (case req_Body req of
           None \<Rightarrow> fails_with ErrorOccurred
         | Some rawBody \<Rightarrow>
             then_check (if expectedBody i \<noteq> '''' then expect_equal rawBody (expectedBody i) else pass)
             (then_check (case responseCallback i of None \<Rightarrow> pass | Some b \<Rightarrow> b rawBody)
             (then_check (check_form req (expectedFormValues i))
             expect_url))))))"

definition MockHttp_Respond :: "'s MockHttp \<Rightarrow> HttpResponse" where
  "MockHttp_Respond i =
     \<lparr>resp_Location = (if responseRedirectToUrl i \<noteq> '''' then Some (responseRedirectToUrl i) else None),
      resp_Status = responseStatus i, resp_Body = responseBody i\<rparr>"

text \<open>A server that was started has no mocks and expects no authorization.\<close>

definition StartServer :: "'s Server" where
  "StartServer = \<lparr>server_expectedAuthorizationHeader = '''', mockHandlers = [], currentHandler = 0\<rparr>"

definition ExpectedAuthorizationHeader :: "string \<Rightarrow> 's Server \<Rightarrow> 's Server" where
  "ExpectedAuthorizationHeader header d = d\<lparr>server_expectedAuthorizationHeader := header\<rparr>"

definition basicAuth :: "codecs \<Rightarrow> string \<Rightarrow> string \<Rightarrow> string" where
  "basicAuth C username password = ''Basic '' @ base64_encode C (username @ '':'' @ password)"

definition ExpectedBasicAuth :: "codecs \<Rightarrow> string \<Rightarrow> string \<Rightarrow> 's Server \<Rightarrow> 's Server" where
  "ExpectedBasicAuth C username password d = ExpectedAuthorizationHeader (basicAuth C username password) d"

definition ServeHTTP :: "HttpRequest \<Rightarrow> 's Server \<times> 's \<Rightarrow> (failure + HttpResponse) \<times> 's Server \<times> 's" where
  "ServeHTTP req = (\<lambda>(d, s).
     if currentHandler d \<ge> length (mockHandlers d)
     then (Inl (FailMessage (''unmocked call received'' @ newline @ [CHR 0x09] @ req_Method req @ '' '' @ req_URL req @
            newline @ mocks_report d)), d, s)
     else let i = mockHandlers d ! currentHandler d
          in case MockHttp_Verify i req d s of
               (Some f, s') \<Rightarrow> (Inl f, d, s')
             | (None, s') \<Rightarrow> (Inr (MockHttp_Respond i), d\<lparr>currentHandler := currentHandler d + 1\<rparr>, s'))"

definition VerifyMocks :: "'s Server \<Rightarrow> failure option" where
  "VerifyMocks d =
     (if length (mockHandlers d) \<noteq> currentHandler d
      then Some (FailMessage (''Uninvoked mocks'' @ newline @ mocks_report d)) else None)"

definition VerifyAndMock :: "'s MockHttp list \<Rightarrow> 's Server \<Rightarrow> failure option \<times> 's Server" where
  "VerifyAndMock mockedResponses d =
     (case VerifyMocks d of
        Some f \<Rightarrow> (Some f, d)
      | None \<Rightarrow> (None, d\<lparr>currentHandler := 0, mockHandlers := mockedResponses\<rparr>))"

section \<open>The mocks of the director\<close>

definition taskURL :: "int \<Rightarrow> string" where
  "taskURL taskID = ''/tasks/'' @ Itoa taskID"

definition mockbosh_Info :: "'s MockHttp" where
  "mockbosh_Info = MockHttp_SkipAuthentication (NewMockedHttpRequest ''GET'' ''/info'')"

definition RespondsWithSufficientAPIVersion :: "'s MockHttp \<Rightarrow> 's MockHttp" where
  "RespondsWithSufficientAPIVersion m = MockHttp_RespondsWith
     ''{\"version\":\"1.3262.0.0 (00000000)\"}'' m"

definition WithAuthTypeBasic :: "codecs \<Rightarrow> 's MockHttp \<Rightarrow> 's MockHttp option" where
  "WithAuthTypeBasic C m =
     MockHttp_RespondsWithJson C (JObject [(''user_authentication'', JObject [(''type'', JString ''basic'')])]) m"

definition WithAuthTypeUAA :: "codecs \<Rightarrow> string \<Rightarrow> 's MockHttp \<Rightarrow> 's MockHttp option" where
  "WithAuthTypeUAA C url m =
     MockHttp_RespondsWithJson C (JObject [(''user_authentication'',
       JObject [(''type'', JString ''uaa''), (''options'', JObject [(''url'', JString url)])])]) m"

definition GetDeployments :: "'s MockHttp" where
  "GetDeployments = NewMockedHttpRequest ''GET'' ''/deployments''"

text \<open>A nil slice of deployments is encoded as null.\<close>

definition RespondsWithListOfDeployments :: "codecs \<Rightarrow> string list \<Rightarrow> 's MockHttp \<Rightarrow> 's MockHttp option" where
  "RespondsWithListOfDeployments C deployments m =
     MockHttp_RespondsWithJson C (if deployments = [] then JNull
       else JArray (map (\<lambda>dep. JObject [(''name'', JString dep)]) deployments)) m"

definition GetDeployment :: "string \<Rightarrow> 's MockHttp" where
  "GetDeployment deploymentName = NewMockedHttpRequest ''GET'' (''/deployments/'' @ deploymentName)"

definition mockbosh_Manifest :: "string \<Rightarrow> 's MockHttp" where
  "mockbosh_Manifest deploymentName = GetDeployment deploymentName"

definition manifest_RespondsWith :: "codecs \<Rightarrow> string \<Rightarrow> 's MockHttp \<Rightarrow> 's MockHttp option" where
  "manifest_RespondsWith C manifest t = MockHttp_RespondsWithJson C (JObject [(''manifest'', JString manifest)]) t"

definition RespondsWithManifest :: "codecs \<Rightarrow> json \<Rightarrow> 's MockHttp \<Rightarrow> 's MockHttp option" where
  "RespondsWithManifest C manifest t =
     (case yaml_encode C manifest of None \<Rightarrow> None | Some data \<Rightarrow> manifest_RespondsWith C data t)"

definition DeleteDeployment :: "string \<Rightarrow> 's MockHttp" where
  "DeleteDeployment deploymentName = NewMockedHttpRequest ''DELETE'' (''/deployments/'' @ deploymentName)"

definition DeleteDeployment_RedirectsToTask :: "int \<Rightarrow> 's MockHttp \<Rightarrow> 's MockHttp" where
  "DeleteDeployment_RedirectsToTask taskID d = MockHttp_RedirectsTo (taskURL taskID) d"

definition mockbosh_Deploy :: "'s MockHttp" where
  "mockbosh_Deploy = MockHttp_WithContentType ''text/yaml'' (NewMockedHttpRequest ''POST'' ''/deployments'')"

definition Deploy_RedirectsToTask :: "int \<Rightarrow> 's MockHttp \<Rightarrow> 's MockHttp" where
  "Deploy_RedirectsToTask taskID d = MockHttp_RedirectsTo (taskURL taskID) d"

definition WithRawManifest :: "string \<Rightarrow> 's MockHttp \<Rightarrow> 's MockHttp" where
  "WithRawManifest manifest d = MockHttp_WithBody manifest d"

definition WithManifest :: "codecs \<Rightarrow> json \<Rightarrow> 's MockHttp \<Rightarrow> 's MockHttp option" where
  "WithManifest C manifest d = map_option (\<lambda>data. MockHttp_WithBody data d) (yaml_encode C manifest)"

definition mockbosh_Errand :: "string \<Rightarrow> string \<Rightarrow> 's MockHttp" where
  "mockbosh_Errand deploymentName errandName =
     NewMockedHttpRequest ''POST'' (''/deployments/'' @ deploymentName @ ''/errands/'' @ errandName @ ''/runs'')"

definition Errand_RedirectsToTask :: "int \<Rightarrow> 's MockHttp \<Rightarrow> 's MockHttp" where
  "Errand_RedirectsToTask taskID e = MockHttp_RedirectsTo (taskURL taskID) e"

definition TaskQueued :: string where
  "TaskQueued = ''queued''"

definition TaskProcessing :: string where
  "TaskProcessing = ''processing''"

definition TaskDone :: string where
  "TaskDone = ''done''"

definition TaskError :: string where
  "TaskError = ''error''"

record 's taskMock =
  task_MockHttp :: "'s MockHttp"
  taskID :: int

definition mockbosh_Task :: "int \<Rightarrow> 's taskMock" where
  "mockbosh_Task ident = \<lparr>task_MockHttp = NewMockedHttpRequest ''GET'' (''/tasks/'' @ Itoa ident), taskID = ident\<rparr>"

definition RespondsWithTaskContainingState :: "codecs \<Rightarrow> string \<Rightarrow> 's taskMock \<Rightarrow> 's MockHttp option" where
  "RespondsWithTaskContainingState C provisioningTaskState t =
     MockHttp_RespondsWithJson C (JObject [(''id'', JInt (taskID t)), (''state'', JString provisioningTaskState)]) (task_MockHttp t)"

definition TaskEvent :: "int \<Rightarrow> 's MockHttp" where
  "TaskEvent taskId = NewMockedHttpRequest ''GET'' (''/tasks/'' @ Itoa taskId @ ''/output?type=event'')"

definition TaskOutput :: "int \<Rightarrow> 's MockHttp" where
  "TaskOutput taskId = NewMockedHttpRequest ''GET'' (''/tasks/'' @ Itoa taskId @ ''/output?type=result'')"

fun encodeLines :: "codecs \<Rightarrow> json list \<Rightarrow> string \<Rightarrow> string option" where
  "encodeLines C [] output = Some output"
| "encodeLines C (line # lines) output =
     (case json_encode C line of None \<Rightarrow> None | Some data \<Rightarrow> encodeLines C lines (output @ data @ newline))"

definition RespondsWithVMsOutput :: "codecs \<Rightarrow> json list \<Rightarrow> 's MockHttp \<Rightarrow> 's MockHttp option" where
  "RespondsWithVMsOutput C vms t = map_option (\<lambda>output. MockHttp_RespondsWith output t) (encodeLines C vms '''')"

definition RespondsWithTaskOutput :: "codecs \<Rightarrow> json list \<Rightarrow> 's MockHttp \<Rightarrow> 's MockHttp option" where
  "RespondsWithTaskOutput C taskOutput t =
     map_option (\<lambda>output. MockHttp_RespondsWith output t) (encodeLines C taskOutput '''')"

definition mockbosh_Tasks :: "string \<Rightarrow> 's MockHttp" where
  "mockbosh_Tasks deploymentName = NewMockedHttpRequest ''GET'' (''/tasks?deployment='' @ deploymentName)"

definition RespondsWithNoTasks :: "codecs \<Rightarrow> 's MockHttp \<Rightarrow> 's MockHttp option" where
  "RespondsWithNoTasks C t = MockHttp_RespondsWithJson C (JArray []) t"

definition RespondsWithATaskContainingState :: "codecs \<Rightarrow> string \<Rightarrow> string \<Rightarrow> 's MockHttp \<Rightarrow> 's MockHttp option" where
  "RespondsWithATaskContainingState C provisioningTaskState description t =
     MockHttp_RespondsWithJson C (JArray [JObject [(''state'', JString provisioningTaskState),
       (''description'', JString description)]]) t"

definition RespondsWithATask :: "codecs \<Rightarrow> json \<Rightarrow> 's MockHttp \<Rightarrow> 's MockHttp option" where
  "RespondsWithATask C task t = MockHttp_RespondsWithJson C (JArray [task]) t"

definition VMsForDeployment :: "string \<Rightarrow> 's MockHttp" where
  "VMsForDeployment deploymentName = NewMockedHttpRequest ''GET'' (''/deployments/'' @ deploymentName @ ''/vms?format=full'')"

definition VMs_RedirectsToTask :: "int \<Rightarrow> 's MockHttp \<Rightarrow> 's MockHttp" where
  "VMs_RedirectsToTask ident t = MockHttp_RedirectsTo (taskURL ident) t"

text \<open>The mock of an SSH request keeps a pointer to itself in the callback of its request, so the check sees the
  instance group and the callback set later; here the callback is put in when the mock is used.\<close>

record 's sshMock =
  ssh_MockHttp :: "'s MockHttp"
  instanceGroup :: string
  ssh_callback :: "(string \<Rightarrow> string \<Rightarrow> 's check) option"

fun as_object :: "json option \<Rightarrow> (string \<rightharpoonup> json) option" where
  "as_object (Some (JObject kvs)) = Some (map_of kvs)"
| "as_object _ = None"

fun as_string :: "json option \<Rightarrow> string option" where
  "as_string (Some (JString s)) = Some s"
| "as_string _ = None"

text \<open>The body is decoded into a map, which null leaves empty.\<close>

fun into_map :: "json option \<Rightarrow> (string \<rightharpoonup> json) option" where
  "into_map (Some (JObject kvs)) = Some (map_of kvs)"
| "into_map (Some JNull) = Some Map.empty"
| "into_map _ = None"

definition verifyRequest :: "codecs \<Rightarrow> 's sshMock \<Rightarrow> string \<Rightarrow> 's check" where
  "verifyRequest C mock body =
     (case into_map (json_decode C body) of
        None \<Rightarrow> fails_with ErrorOccurred
      | Some response \<Rightarrow>
          (case (as_object (response ''params''), as_object (response ''target'')) of
             (Some params, Some target) \<Rightarrow>
               then_check
                 (if instanceGroup mock \<noteq> '''' \<and> target ''job'' \<noteq> Some (JString (instanceGroup mock))
                  then fails_with (NotEqualJson (target ''job'') (instanceGroup mock)) else pass)
                 (case ssh_callback mock of
                    None \<Rightarrow> pass
                  | Some callback \<Rightarrow>
                      (case (as_string (params ''user''), as_string (params ''public_key'')) of
                         (Some user, Some key) \<Rightarrow> callback user key
                       | _ \<Rightarrow> fails_with TypeAssertion))
           | _ \<Rightarrow> fails_with TypeAssertion))"

definition StartSSHSession :: "string \<Rightarrow> 's sshMock" where
  "StartSSHSession deploymentName =
     \<lparr>ssh_MockHttp = NewMockedHttpRequest ''POST'' (''/deployments/'' @ deploymentName @ ''/ssh''),
      instanceGroup = '''', ssh_callback = None\<rparr>"

definition CleanupSSHSession :: "string \<Rightarrow> 's sshMock" where
  "CleanupSSHSession = StartSSHSession"

definition ForInstanceGroup :: "string \<Rightarrow> 's sshMock \<Rightarrow> 's sshMock" where
  "ForInstanceGroup ig mock = mock\<lparr>instanceGroup := ig\<rparr>"

definition SetSSHResponseCallback :: "(string \<Rightarrow> string \<Rightarrow> 's check) \<Rightarrow> 's sshMock \<Rightarrow> 's sshMock" where
  "SetSSHResponseCallback callback mock = mock\<lparr>ssh_callback := Some callback\<rparr>"

definition sshMock_request :: "codecs \<Rightarrow> 's sshMock \<Rightarrow> 's MockHttp" where
  "sshMock_request C mock = MockHttp_SetResponseCallback (verifyRequest C mock) (ssh_MockHttp mock)"

definition ssh_RedirectsToTask :: "codecs \<Rightarrow> int \<Rightarrow> 's sshMock \<Rightarrow> 's MockHttp" where
  "ssh_RedirectsToTask C ident mock = MockHttp_RedirectsTo (taskURL ident) (sshMock_request C mock)"

section \<open>Conversations of the integration tests\<close>

text \<open>An index is a pointer; the address is what the program prints of it. The identifier of a task is
  random, here an argument. A list of mocks is \<open>None\<close> when building one of them failed.\<close>

record VMsOutput =
  vm_IPs :: "string list"
  vm_JobName :: string
  vm_Index_address :: int
  vm_ID :: string
  vm_Bootstrap :: bool

record 's test_instance =
  instance_Address :: string
  instance_HostPublicKey :: string
  instance_CreateUser :: "string \<Rightarrow> string \<Rightarrow> 's check"

fun all_built :: "'a option list \<Rightarrow> 'a list option" where
  "all_built [] = Some []"
| "all_built (None # ms) = None"
| "all_built (Some m # ms) = map_option (Cons m) (all_built ms)"

definition InfoWithBasicAuth :: "codecs \<Rightarrow> 's MockHttp list option" where
  "InfoWithBasicAuth C = all_built [WithAuthTypeBasic C mockbosh_Info]"

definition InfoWithBasicAuthFails :: "codecs \<Rightarrow> string \<Rightarrow> 's MockHttp list option" where
  "InfoWithBasicAuthFails C errorMessage =
     all_built [map_option (MockHttp_Fails errorMessage) (WithAuthTypeBasic C mockbosh_Info)]"

definition mock_Deployments :: "codecs \<Rightarrow> string list \<Rightarrow> 's MockHttp list option" where
  "mock_Deployments C deployments = all_built [RespondsWithListOfDeployments C deployments GetDeployments]"

definition DeploymentsFails :: "string \<Rightarrow> 's MockHttp list" where
  "DeploymentsFails errorMessage = [MockHttp_Fails errorMessage GetDeployments]"

definition VmsForDeployment :: "codecs \<Rightarrow> int \<Rightarrow> string \<Rightarrow> json list \<Rightarrow> 's MockHttp list option" where
  "VmsForDeployment C randomTaskID deploymentName responseInstances = all_built
     [Some (VMs_RedirectsToTask randomTaskID (VMsForDeployment deploymentName)),
      RespondsWithTaskContainingState C TaskDone (mockbosh_Task randomTaskID),
      RespondsWithTaskContainingState C TaskDone (mockbosh_Task randomTaskID),
      RespondsWithVMsOutput C [] (TaskEvent randomTaskID),
      RespondsWithVMsOutput C responseInstances (TaskOutput randomTaskID)]"

definition VmsForDeploymentFails :: "string \<Rightarrow> 's MockHttp list" where
  "VmsForDeploymentFails deploymentName = [MockHttp_Fails ''director unreachable'' (VMsForDeployment deploymentName)]"

definition DownloadManifest :: "codecs \<Rightarrow> string \<Rightarrow> string \<Rightarrow> 's MockHttp list option" where
  "DownloadManifest C deploymentName manifest = all_built [manifest_RespondsWith C manifest (mockbosh_Manifest deploymentName)]"

definition AppendBuilders :: "'s MockHttp list list \<Rightarrow> 's MockHttp list" where
  "AppendBuilders arrayOfArrayOfBuilders = foldl (@) [] arrayOfArrayOfBuilders"

definition MockDirectorWith ::
  "'s Server \<Rightarrow> 's MockHttp \<Rightarrow> 's MockHttp list \<Rightarrow> 's MockHttp list \<Rightarrow> 's MockHttp list \<Rightarrow> 's MockHttp list \<Rightarrow>
     failure option \<times> 's Server" where
  "MockDirectorWith director info vmsResponse manifestResponse sshResponse cleanupResponse =
     VerifyAndMock (AppendBuilders [[info], vmsResponse, manifestResponse, sshResponse, cleanupResponse]) director"

definition sshResponseEntry :: "VMsOutput \<Rightarrow> 's test_instance \<Rightarrow> string" where
  "sshResponseEntry vm i =
     ''{\"status\":\"success\",'' @ newline @ ''\"ip\":\"'' @ instance_Address i @ ''\",'' @ newline @
     ''\"host_public_key\":\"'' @ instance_HostPublicKey i @ ''\",'' @ newline @
     ''\"id\":\"'' @ vm_ID vm @ ''\",'' @ newline @ ''\"index\":'' @ Itoa (vm_Index_address vm) @ ''}''"

definition buildResponse :: "VMsOutput list \<Rightarrow> 's test_instance list \<Rightarrow> string option" where
  "buildResponse vmsOutputs instances =
     (if length instances < length vmsOutputs then None
      else Some (''['' @ Join (map2 sshResponseEntry vmsOutputs instances) '','' @ '']''))"

fun createUsers :: "'s test_instance list \<Rightarrow> string \<Rightarrow> string \<Rightarrow> 's check" where
  "createUsers [] username key = pass"
| "createUsers (i # instances) username key =
     then_check (instance_CreateUser i username key) (createUsers instances username key)"

definition SetupSSHForAllInstances ::
  "codecs \<Rightarrow> int \<Rightarrow> string \<Rightarrow> string \<Rightarrow> VMsOutput list \<Rightarrow> 's test_instance list \<Rightarrow> 's MockHttp list option" where
  "SetupSSHForAllInstances C randomTaskID deploymentName ig vmsOutputs instances = all_built
     [Some (ssh_RedirectsToTask C randomTaskID (ForInstanceGroup ig
        (SetSSHResponseCallback (createUsers instances) (StartSSHSession deploymentName)))),
      RespondsWithTaskContainingState C TaskDone (mockbosh_Task randomTaskID),
      RespondsWithTaskContainingState C TaskDone (mockbosh_Task randomTaskID),
      Some (MockHttp_RespondsWith ''{}'' (TaskEvent randomTaskID)),
      map_option (\<lambda>r. MockHttp_RespondsWith r (TaskOutput randomTaskID)) (buildResponse vmsOutputs instances)]"

definition SetupSSH ::
  "codecs \<Rightarrow> int \<Rightarrow> string \<Rightarrow> string \<Rightarrow> string \<Rightarrow> int \<Rightarrow> 's test_instance \<Rightarrow> 's MockHttp list option" where
  "SetupSSH C randomTaskID deploymentName ig instanceID indexAddress i =
     SetupSSHForAllInstances C randomTaskID deploymentName ig
       [\<lparr>vm_IPs = [], vm_JobName = '''', vm_Index_address = indexAddress, vm_ID = instanceID, vm_Bootstrap = False\<rparr>] [i]"

definition CleanupSSH :: "codecs \<Rightarrow> int \<Rightarrow> string \<Rightarrow> string \<Rightarrow> 's MockHttp list option" where
  "CleanupSSH C randomTaskID deploymentName ig = all_built
     [Some (ssh_RedirectsToTask C randomTaskID (ForInstanceGroup ig (CleanupSSHSession deploymentName))),
      RespondsWithTaskContainingState C TaskDone (mockbosh_Task randomTaskID)]"

definition CleanupSSHFails :: "codecs \<Rightarrow> string \<Rightarrow> string \<Rightarrow> string \<Rightarrow> 's MockHttp list" where
  "CleanupSSHFails C deploymentName ig errorMessage =
     [MockHttp_Fails errorMessage (sshMock_request C (ForInstanceGroup ig (CleanupSSHSession deploymentName)))]"

section \<open>The UAA\<close>

record TokenRequest =
  treq_Method :: string
  treq_Path :: string
  treq_grant_type :: string
  treq_BasicAuth :: "(string \<times> string) option"
  treq_PostFormValue :: "string \<Rightarrow> string"

record TokenResponse =
  tresp_ContentType :: string
  tresp_Status :: int
  tresp_Body :: string

record ClientCredentialsServer =
  UAAClientID :: string
  UAAClientSecret :: string
  TokenToReturn :: string
  ValiditySecondsToReturn :: int
  TokensIssued :: int

record UserCredentialsServer =
  ucs_ClientID :: string
  ucs_ClientSecret :: string
  ucs_Username :: string
  ucs_Password :: string
  ucs_TokenToReturn :: string
  ucs_ValiditySecondsToReturn :: int
  ucs_TokensIssued :: int

definition uaa_ExpectedAuthorizationHeader :: "ClientCredentialsServer \<Rightarrow> string" where
  "uaa_ExpectedAuthorizationHeader s = ''Bearer '' @ TokenToReturn s"

definition UnauthorizedError :: string where
  "UnauthorizedError = ''you are unauthorized''"

definition UnauthorizedErrorDescription :: string where
  "UnauthorizedErrorDescription = ''please go away''"

definition MalformedResponseUser :: string where
  "MalformedResponseUser = ''MalformedResponse''"

definition InternalServerErrorUser :: string where
  "InternalServerErrorUser = ''InternalServerError''"

definition InternalServerErrorMessage :: string where
  "InternalServerErrorMessage = ''Shut the F up, Donny''"

definition handleMalformedResponse :: "int \<Rightarrow> int \<times> json" where
  "handleMalformedResponse validitySecondsToReturn =
     (200, JObject [(''token_type'', JString ''bearer''), (''expires_in'', JInt validitySecondsToReturn),
        (''scope'', JString ''bosh.admin''), (''jti'', JString ''some-random-uuid'')])"

definition handleInternalServerError :: TokenResponse where
  "handleInternalServerError =
     \<lparr>tresp_ContentType = ''text/plain; charset=UTF-8'', tresp_Status = 500, tresp_Body = InternalServerErrorMessage\<rparr>"

definition handleAuthorised :: "string \<Rightarrow> int \<Rightarrow> int \<times> json" where
  "handleAuthorised tokenToReturn validitySecondsToReturn =
     (200, JObject [(''access_token'', JString tokenToReturn), (''token_type'', JString ''bearer''),
        (''expires_in'', JInt validitySecondsToReturn), (''scope'', JString ''bosh.admin''),
        (''jti'', JString ''some-random-uuid'')])"

definition handleUnauthorised :: "int \<times> json" where
  "handleUnauthorised =
     (401, JObject [(''error'', JString UnauthorizedError), (''error_description'', JString UnauthorizedErrorDescription)])"

definition writeStatusAndResponse :: "codecs \<Rightarrow> int \<times> json \<Rightarrow> failure + TokenResponse" where
  "writeStatusAndResponse C = (\<lambda>(status, response).
     (case json_encode C response of
        None \<Rightarrow> Inl ErrorOccurred
      | Some body \<Rightarrow> Inr \<lparr>tresp_ContentType = ''application/json; charset=UTF-8'', tresp_Status = status,
          tresp_Body = body @ newline\<rparr>))"

definition validateRequest :: "TokenRequest \<Rightarrow> string \<Rightarrow> failure option" where
  "validateRequest req grantType =
     (if treq_Method req \<noteq> ''POST'' then Some (NotEqual (treq_Method req) ''POST'')
      else if treq_Path req \<noteq> ''/oauth/token'' then Some (NotEqual (treq_Path req) ''/oauth/token'')
      else if treq_grant_type req \<noteq> grantType then Some (NotEqual (treq_grant_type req) grantType)
      else None)"

definition client_ServeHTTP ::
  "codecs \<Rightarrow> TokenRequest \<Rightarrow> ClientCredentialsServer \<Rightarrow> (failure + TokenResponse) \<times> ClientCredentialsServer" where
  "client_ServeHTTP C req s =
     (case validateRequest req '''' of
        Some f \<Rightarrow> (Inl f, s)
      | None \<Rightarrow>
          (case treq_BasicAuth req of
             None \<Rightarrow> (Inl (NotEqual ''false'' ''true''), s)
           | Some (username, password) \<Rightarrow>
               (let s1 = (if ValiditySecondsToReturn s = 0 then s\<lparr>ValiditySecondsToReturn := 599\<rparr> else s)
                in if username = MalformedResponseUser
                   then (writeStatusAndResponse C (handleMalformedResponse (ValiditySecondsToReturn s1)), s1)
                   else if username = InternalServerErrorUser then (Inr handleInternalServerError, s1)
                   else if username = UAAClientID s1 \<and> password = UAAClientSecret s1
                   then (writeStatusAndResponse C (handleAuthorised (TokenToReturn s1) (ValiditySecondsToReturn s1)),
                         s1\<lparr>TokensIssued := TokensIssued s1 + 1\<rparr>)
                   else (writeStatusAndResponse C handleUnauthorised, s1))))"

definition user_ServeHTTP ::
  "codecs \<Rightarrow> TokenRequest \<Rightarrow> UserCredentialsServer \<Rightarrow> (failure + TokenResponse) \<times> UserCredentialsServer" where
  "user_ServeHTTP C req s =
     (case validateRequest req ''password'' of
        Some f \<Rightarrow> (Inl f, s)
      | None \<Rightarrow>
          (case treq_BasicAuth req of
             None \<Rightarrow> (Inl (NotEqual ''false'' ''true''), s)
           | Some (clientID, clientSecret) \<Rightarrow>
               (let username = treq_PostFormValue req ''username'';
                    password = treq_PostFormValue req ''password'';
                    s1 = (if ucs_ValiditySecondsToReturn s = 0 then s\<lparr>ucs_ValiditySecondsToReturn := 599\<rparr> else s)
                in if username = MalformedResponseUser
                   then (writeStatusAndResponse C (handleMalformedResponse (ucs_ValiditySecondsToReturn s1)), s1)
                   else if username = InternalServerErrorUser then (Inr handleInternalServerError, s1)
                   else if clientID = ucs_ClientID s1 \<and> clientSecret = ucs_ClientSecret s1 \<and>
                     username = ucs_Username s1 \<and> password = ucs_Password s1
                   then (writeStatusAndResponse C (handleAuthorised (ucs_TokenToReturn s1) (ucs_ValiditySecondsToReturn s1)),
                         s1\<lparr>ucs_TokensIssued := ucs_TokensIssued s1 + 1\<rparr>)
                   else (writeStatusAndResponse C handleUnauthorised, s1))))"

text \<open>The listening socket, with or without TLS, is the library's.\<close>

definition startClientCredentialsServer :: "string \<Rightarrow> string \<Rightarrow> string \<Rightarrow> ClientCredentialsServer" where
  "startClientCredentialsServer uaaClientID uaaClientSecret tokenToReturn =
     \<lparr>UAAClientID = uaaClientID, UAAClientSecret = uaaClientSecret, TokenToReturn = tokenToReturn,
      ValiditySecondsToReturn = 0, TokensIssued = 0\<rparr>"

definition startUserCredentialsServer :: "string \<Rightarrow> string \<Rightarrow> string \<Rightarrow> string \<Rightarrow> string \<Rightarrow> UserCredentialsServer" where
  "startUserCredentialsServer clientID clientSecret username password tokenToReturn =
     \<lparr>ucs_ClientID = clientID, ucs_ClientSecret = clientSecret, ucs_Username = username, ucs_Password = password,
      ucs_TokenToReturn = tokenToReturn, ucs_ValiditySecondsToReturn = 0, ucs_TokensIssued = 0\<rparr>"

definition NewClientCredentialsServer :: "string \<Rightarrow> string \<Rightarrow> string \<Rightarrow> ClientCredentialsServer" where
  "NewClientCredentialsServer uaaClientID uaaClientSecret tokenToReturn =
     startClientCredentialsServer uaaClientID uaaClientSecret tokenToReturn"

definition NewClientCredentialsServerTLS :: "string \<Rightarrow> string \<Rightarrow> string \<Rightarrow> ClientCredentialsServer" where
  "NewClientCredentialsServerTLS uaaClientID uaaClientSecret tokenToReturn =
     startClientCredentialsServer uaaClientID uaaClientSecret tokenToReturn"

definition NewUserCredentialsServer :: "string \<Rightarrow> string \<Rightarrow> string \<Rightarrow> string \<Rightarrow> string \<Rightarrow> UserCredentialsServer" where
  "NewUserCredentialsServer clientID clientSecret username password tokenToReturn =
     startUserCredentialsServer clientID clientSecret username password tokenToReturn"

definition NewUserCredentialsServerTLS :: "string \<Rightarrow> string \<Rightarrow> string \<Rightarrow> string \<Rightarrow> string \<Rightarrow> UserCredentialsServer" where
  "NewUserCredentialsServerTLS clientID clientSecret username password tokenToReturn =
     startUserCredentialsServer clientID clientSecret username password tokenToReturn"

section \<open>Conversations\<close>

fun serve_all :: "HttpRequest list \<Rightarrow> 's Server \<times> 's \<Rightarrow> (failure + HttpResponse) list \<times> 's Server \<times> 's" where
  "serve_all [] \<sigma> = ([], \<sigma>)"
| "serve_all (req # reqs) \<sigma> =
     (let (out, \<sigma>1) = ServeHTTP req \<sigma>; (outs, \<sigma>2) = serve_all reqs \<sigma>1 in (out # outs, \<sigma>2))"

text \<open>What a mock asks of a request, and what the request does to the machines of the test.\<close>

definition satisfies :: "string \<Rightarrow> 's MockHttp \<Rightarrow> HttpRequest \<Rightarrow> bool" where
  "satisfies header i req \<longleftrightarrow>
     req_Method req @ '' '' @ req_URL req = MockHttp_Url i \<and>
     (\<not> authenticated i \<or>
        header \<in> {'''', req_Header req ''Authorization''} \<and>
        expectedAuthorizationHeader i \<in> {'''', req_Header req ''Authorization''}) \<and>
     expectedContentType i \<in> {'''', req_Header req ''Content-Type''} \<and>
     (case req_Body req of None \<Rightarrow> False | Some body \<Rightarrow> expectedBody i \<in> {'''', body}) \<and>
     list_all (\<lambda>(key, value). req_FormValue req key = value) (expectedFormValues i)"

definition effect_of :: "'s MockHttp \<Rightarrow> HttpRequest \<Rightarrow> 's check" where
  "effect_of i req = (case responseCallback i of None \<Rightarrow> pass | Some b \<Rightarrow> b (the (req_Body req)))"

fun conversation :: "string \<Rightarrow> 's MockHttp list \<Rightarrow> HttpRequest list \<Rightarrow> 's \<Rightarrow> 's option" where
  "conversation header [] [] s = Some s"
| "conversation header (i # ms) (req # reqs) s =
     (if satisfies header i req then
        (case effect_of i req s of (None, s') \<Rightarrow> conversation header ms reqs s' | _ \<Rightarrow> None)
      else None)"
| "conversation header _ _ s = None"

lemma then_check_None: "then_check c1 c2 s = (None, s'') \<longleftrightarrow> (\<exists>s'. c1 s = (None, s') \<and> c2 s' = (None, s''))"
  by (auto simp: then_check_def split: prod.splits option.splits)

lemma expect_equal_None [simp]: "expect_equal a b s = (None, s') \<longleftrightarrow> a = b \<and> s' = s"
  by (auto simp: expect_equal_def pass_def fails_with_def)

lemma pass_None [simp]: "pass s = (None, s') \<longleftrightarrow> s' = s"
  by (auto simp: pass_def)

lemma fails_with_None [simp]: "fails_with f s \<noteq> (None, s')"
  by (simp add: fails_with_def)

lemma check_form_None [simp]:
  "check_form req kvs s = (None, s') \<longleftrightarrow> s' = s \<and> list_all (\<lambda>(key, value). req_FormValue req key = value) kvs"
  by (induction kvs) (auto simp: then_check_None)

lemma Verify_None:
  "MockHttp_Verify i req d s = (None, s') \<longleftrightarrow>
     satisfies (server_expectedAuthorizationHeader d) i req \<and> effect_of i req s = (None, s')"
  by (auto simp: MockHttp_Verify_def then_check_None satisfies_def effect_of_def if_distrib [of "\<lambda>c. c _"]
      split: option.splits if_splits)

text \<open>A test passes when no request failed and every mock was used.\<close>

definition test_passes :: "(failure + HttpResponse) list \<Rightarrow> 's Server \<Rightarrow> bool" where
  "test_passes outs d \<longleftrightarrow> list_all (Not \<circ> isl) outs \<and> VerifyMocks d = None"

lemma serve_all_conversation:
  assumes "currentHandler d \<le> length (mockHandlers d)" and "serve_all reqs (d, s) = (outs, d', s')"
  shows "if test_passes outs d'
     then conversation (server_expectedAuthorizationHeader d) (drop (currentHandler d) (mockHandlers d)) reqs s = Some s' \<and>
       outs = map (\<lambda>i. Inr (MockHttp_Respond i)) (drop (currentHandler d) (mockHandlers d))
     else conversation (server_expectedAuthorizationHeader d) (drop (currentHandler d) (mockHandlers d)) reqs s = None"
  using assms
proof (induction reqs arbitrary: d s outs)
  case Nil
  then show ?case
    by (cases "drop (currentHandler d) (mockHandlers d)") (auto simp: test_passes_def VerifyMocks_def)
next
  case (Cons req reqs)
  let ?n = "currentHandler d" and ?ms = "mockHandlers d"
  show ?case
  proof (cases "?n < length ?ms")
    case False
    with Cons.prems show ?thesis
      by (auto simp: ServeHTTP_def test_passes_def split: prod.splits)
  next
    case True
    then have drop: "drop ?n ?ms = ?ms ! ?n # drop (Suc ?n) ?ms" by (simp add: Cons_nth_drop_Suc)
    obtain v s1 where v: "MockHttp_Verify (?ms ! ?n) req d s = (v, s1)" by fastforce
    show ?thesis
    proof (cases v)
      case None
      with v have ok: "satisfies (server_expectedAuthorizationHeader d) (?ms ! ?n) req" "effect_of (?ms ! ?n) req s = (None, s1)"
        by (simp_all add: Verify_None)
      from None v True Cons.prems(2) obtain outs1 where rest: "serve_all reqs (d\<lparr>currentHandler := ?n + 1\<rparr>, s1) = (outs1, d', s')"
        and outs: "outs = Inr (MockHttp_Respond (?ms ! ?n)) # outs1"
        by (auto simp: ServeHTTP_def split: prod.splits)
      from Cons.IH [OF _ rest] True ok show ?thesis by (auto simp: drop outs test_passes_def)
    next
      case (Some f)
      with v have "\<not> (satisfies (server_expectedAuthorizationHeader d) (?ms ! ?n) req \<and> effect_of (?ms ! ?n) req s = (None, s1))"
        using Verify_None [of "?ms ! ?n" req d s s1] by simp
      moreover from Some v Verify_None [of "?ms ! ?n" req d s]
      have "satisfies (server_expectedAuthorizationHeader d) (?ms ! ?n) req \<Longrightarrow> effect_of (?ms ! ?n) req s \<noteq> (None, s2)" for s2 by auto
      ultimately show ?thesis using Some v True Cons.prems(2)
        by (auto simp: drop ServeHTTP_def test_passes_def split: prod.splits option.splits)
    qed
  qed
qed

section \<open>The properties\<close>


text \<open>The UAA hands out its token only to its client, and counts exactly the requests it answered with the token.\<close>

theorem tokens_counted:
  "case client_ServeHTTP C req s of
     (out, s') \<Rightarrow>
       TokensIssued s' = TokensIssued s +
         (if validateRequest req '''' = None \<and> treq_BasicAuth req = Some (UAAClientID s, UAAClientSecret s) \<and>
             UAAClientID s \<notin> {MalformedResponseUser, InternalServerErrorUser} then 1 else 0) \<and>
       (TokensIssued s' = TokensIssued s + 1 \<longrightarrow>
          out = writeStatusAndResponse C (handleAuthorised (TokenToReturn s) (ValiditySecondsToReturn s')) \<and>
          ValiditySecondsToReturn s' \<noteq> 0)"
  by (auto simp: client_ServeHTTP_def split: prod.splits option.splits)

end
