(* ===== verification/Spec2Isabelle.thy ===== *)
theory Spec2Isabelle
  imports Session_Types Exit_Status Restore_Integrity Command_Table S3_Validator Ssh_Concurrency Ssh_Session Director Mock_Director
begin

text \<open>
  A verification of \<^verbatim>\<open>bosh-backup-and-restore\<close> (\<^verbatim>\<open>bbr\<close>).

  \<^bold>\<open>The program.\<close> \<^verbatim>\<open>bbr\<close> backs up and restores BOSH deployments and the BOSH director.
  A command (\<^verbatim>\<open>cli/command\<close>) checks its flags, has a factory (\<^verbatim>\<open>factory\<close>) build one of five
  workflows (\<^verbatim>\<open>orchestrator\<close>) and runs it. The steps of the workflow find the instances of the
  deployment through the director or over SSH (\<^verbatim>\<open>bosh\<close>, \<^verbatim>\<open>standalone\<close>), find the scripts of the
  jobs on each instance (\<^verbatim>\<open>instance\<close>), put the jobs into an order of locking
  (\<^verbatim>\<open>orderer\<close>), run the lock, backup, unlock and restore scripts on them (\<^verbatim>\<open>executor\<close>,
  \<^verbatim>\<open>ssh\<close>) and copy the artifacts to and from a local directory with checksums (\<^verbatim>\<open>backup\<close>,
  \<^verbatim>\<open>readwriter\<close>). A separate program checks the configuration of S3 buckets (\<^verbatim>\<open>s3-config-validator\<close>).

  \<^bold>\<open>The model.\<close> Go values are records and datatypes with the names of the source. A call that
  may fail returns a \<open>result\<close>: \<open>Ok\<close>, \<open>Err\<close> or \<open>Panic\<close>. Stateful code passes a \<open>world\<close>: the
  local files, the state of everything remote (a type variable), the marks on shared instances
  and a history of remote actions that no definition reads. Libraries and the operating system
  are fields of environment records that grow with the layers (\<open>env\<close>, \<open>orch_env\<close>, \<open>cli_env\<close>; \<open>s3_env\<close>
  for the validator); the orders Go leaves open, of map iteration and of goroutines, are
  oracles among them, so a theorem holds for every order.

  \<^bold>\<open>The theories.\<close>
  \<^item> \<open>Bbr_Prelude\<close>: the string and path functions of Go's library, permutations.
  \<^item> \<open>Errors\<close> (\<^verbatim>\<open>orchestrator/error.go\<close>): error values, flattening, messages; exit codes are the
    sum of the weights of the kinds of errors.
  \<^item> \<open>World\<close>, \<open>Ssh\<close> (\<^verbatim>\<open>ssh/\<close>): state and environment; sessions and the remote runner.
  \<^item> \<open>Ssh_Session\<close>, \<open>Ssh_Concurrency\<close> (\<^verbatim>\<open>ssh/connection.go\<close>): one session in detail, from dialling to the deferred
    calls, which refines the one-step session of \<open>Ssh\<close> and gives back what it takes; the keep-alive goroutine
    and the dialer shared by all connections as step relations, with invariants over the reachable states.
  \<^item> \<open>Scripts\<close>, \<open>Jobs\<close>, \<open>Job_Finder\<close>, \<open>Instances\<close> (\<^verbatim>\<open>instance/\<close>, \<^verbatim>\<open>orchestrator/jobs.go\<close>,
    \<^verbatim>\<open>bosh/deployed_instance.go\<close>, \<^verbatim>\<open>standalone/deployed_instance.go\<close>): scripts by
    name, metadata, jobs and their scripts, instances, their artifacts and their cleanup. The scripts
    selected, the jobs built and what cleaning up removes are characterised exactly.
  \<^item> \<open>Orderer\<close> (\<^verbatim>\<open>orderer/\<close>): Kahn's algorithm on the locking constraints. It ends, decides whether the
    constraints have a cycle, and returns a partition in an order that respects them.
  \<^item> \<open>Executor\<close> (\<^verbatim>\<open>executor/\<close>): serial and parallel execution; the goroutine pool is a step
    relation whose complete runs refine a sequential run, with at most ten executables in flight
    and no deadlock.
  \<^item> \<open>Backup_Directory\<close>, \<open>Readwriter\<close> (\<^verbatim>\<open>backup/\<close>, \<^verbatim>\<open>orchestrator/checksum.go\<close>, \<^verbatim>\<open>readwriter/\<close>): the
    metadata file with its round trip of checksums, validity of a backup, percentage
    logging on 64-bit integers, the pausable writer.
  \<^item> \<open>Deployment\<close>, \<open>Artifact_Copier\<close> (\<^verbatim>\<open>orchestrator/deployment.go\<close>, \<^verbatim>\<open>artifact_copier.go\<close> and the executables):
    the phases of a backup and a restore in terms of the history; when an artifact is deleted.
  \<^item> \<open>Bosh_Client\<close>, \<open>Director\<close> (\<^verbatim>\<open>bosh/client.go\<close>, deployment managers): finding instances, and the
    credentials that are cleaned up when that fails.
  \<^item> \<open>Backup_Validity\<close>: what downloading keeps of a backup directory. While artifacts arrive, the files recorded so far
    and their checksums stay as they are, so a complete download leaves a directory that passes its own validity check.
    The locale \<open>backup_io\<close> says what is asked of YAML and of the operating system.
  \<^item> \<open>Workflow\<close> (\<^verbatim>\<open>orchestrator/workflow.go\<close>): the engine. The locale \<open>ranked_workflow\<close> gives
    termination and reduces a claim about all runs to the paths through the graph; a run ends in a panic only in its last step.
  \<^item> \<open>Orchestrator\<close> (\<^verbatim>\<open>orchestrator/*_step.go\<close> and the five orchestrators): every step, the five workflows as
    interpretations of that locale, and the order of their steps under every outcome.
  \<^item> \<open>Frames\<close>: what the operations behind the steps leave alone. The locale \<open>frame\<close> carries any relation between
    worlds that is kept by quiet operations and by marks on instances; it is interpreted for the history and for the local files.
  \<^item> \<open>Protocol\<close>, \<open>Restore_Protocol\<close>: the history of a whole backup and of a whole restore, put together from
    engine, steps, phases and orderer.
  \<^item> \<open>Session_Types\<close>: a type system for workflows. The type of a session says which of its references are set; each step has the
    type it needs and the type it leaves. Type preservation and progress give that no step of the five
    workflows meets a nil deployment or a nil backup.
  \<^item> \<open>Exit_Status\<close>: the bits of the exit code of a run and the steps that failed in it.
  \<^item> \<open>Backup_Roundtrip\<close>: a whole backup and the directory it leaves, from engine, steps, protocol and download.
  \<^item> \<open>Restore_Integrity\<close>: what a restore has verified before the first script runs, from engine, steps, upload and the check of
    the local backup: the instances hold what the backup holds.
  \<^item> \<open>Factory\<close> (\<^verbatim>\<open>factory/\<close>, \<^verbatim>\<open>bosh/build_client.go\<close>), \<open>Cli\<close> (\<^verbatim>\<open>cli/\<close>, \<^verbatim>\<open>executor/deployment/error.go\<close>),
    \<open>Command_Table\<close> (\<^verbatim>\<open>cmd/bbr/main.go\<close> and the \<^verbatim>\<open>Cli\<close> methods): construction of the workflows, the
    commands with their exit codes, runs over all deployments, the interrupt handler as a state
    machine, and the flags each command declares.
  \<^item> \<open>S3_Validator\<close> (\<^verbatim>\<open>s3-config-validator/src\<close>): the bucket validator; the validation is equivalent to a
    condition on each bucket, the verdict takes every probe into account, and nothing is written unless asked for.
  \<^item> \<open>Mock_Director\<close> (\<^verbatim>\<open>internal/cf-webmock\<close>, \<^verbatim>\<open>integration/deployment/web_mock_helpers.go\<close>): the mock of the director and of the
    UAA that the integration tests talk to, and which conversations with it pass.

  \<^bold>\<open>Loops and fuel.\<close> The loops over lists are structural, Kahn's loop decreases the number of jobs. The loop of the
  workflow engine and those over the pages of an S3 listing are partial functions into
  \<open>option\<close>; the theorems prove that the first always returns on the five workflows, and that the second do if a
  listing ends. The paths through a workflow are enumerated with fuel one more than the number of its nodes, which is
  enough because the rank of the steps decreases. A copy reads a local file with fuel one more than the number of
  its chunks, one step for each and one for the end of file.

  \<^bold>\<open>Not modelled.\<close> Log lines, progress messages and help texts, which only go to the terminal; dialling through a SOCKS proxy
  and the protocol of an SSH session, which are in libraries; the two methods \<^verbatim>\<open>handleErrs\<close>, which nothing calls; parsing of command lines, YAML and JSON,
  which libraries do; generated fakes, the machines of the tests and the test suites. Goroutines of the parallel executors are
  modelled at the level of whole executables, not of single memory accesses.
\<close>

end
